(* ===== verification/Prelude.thy ===== *)
theory Prelude
  imports Main "HOL-Library.Finite_Map" "HOL-Library.State_Monad" "HOL-Library.Sublist"
begin

text \<open>
  Shared vocabulary of the development: the type synonyms that name Go's strings and maps, the
  collections of rules the component theories extend, and generic lemmas on lists, finite maps and
  the state monad.

  A Go \<open>string\<close> is a sequence of bytes: the Isabelle type \<open>string\<close>, a list of 8-bit characters.
  A Go map is a finite map \<open>fmap\<close>; a map that may be nil is an \<open>fmap option\<close>.
\<close>

named_theorems frame_rules \<open>computations whose effect on the world is bounded by a relation\<close>
named_theorems world_simps \<open>evaluation of primitive world calls\<close>

type_synonym strmap = "(string, string) fmap"

section \<open>Lists\<close>

lemma dropWhile_hd_stop: "xs = [] \<or> \<not> P (hd xs) \<Longrightarrow> dropWhile P xs = xs"
  by (cases xs) auto

definition trim_both :: "('a \<Rightarrow> bool) \<Rightarrow> 'a list \<Rightarrow> 'a list" where
  "trim_both P xs = rev (dropWhile P (rev (dropWhile P xs)))"

definition trim_right :: "('a \<Rightarrow> bool) \<Rightarrow> 'a list \<Rightarrow> 'a list" where
  "trim_right P xs = rev (dropWhile P (rev xs))"

lemma trim_both_right: "trim_both P xs = trim_right P (dropWhile P xs)"
  by (simp add: trim_both_def trim_right_def)

lemma trim_right_prefix: "\<exists>zs. xs = trim_right P xs @ zs \<and> (\<forall>z \<in> set zs. P z)"
proof (intro exI conjI)
  show "xs = trim_right P xs @ rev (takeWhile P (rev xs))"
    by (metis rev_append rev_rev_ident takeWhile_dropWhile_id trim_right_def)
  show "\<forall>z \<in> set (rev (takeWhile P (rev xs))). P z"
    by (auto dest: set_takeWhileD)
qed

lemma length_trim_right: "length (trim_right P xs) \<le> length xs"
  by (simp add: trim_right_def) (metis length_dropWhile_le length_rev)

lemma set_trim_right: "set (trim_right P xs) \<subseteq> set xs"
  by (auto simp: trim_right_def dest: set_dropWhileD)

lemma set_trim_both: "set (trim_both P xs) \<subseteq> set xs"
  by (auto simp: trim_both_def dest!: set_dropWhileD)

lemma trim_right_Nil_iff: "trim_right P xs = [] \<longleftrightarrow> (\<forall>x \<in> set xs. P x)"
  by (simp add: trim_right_def)

lemma trim_right_last: "trim_right P xs \<noteq> [] \<Longrightarrow> \<not> P (last (trim_right P xs))"
  by (simp only: trim_right_def last_rev rev_is_Nil_conv) (rule hd_dropWhile)

lemma trim_right_hd: "trim_right P xs \<noteq> [] \<Longrightarrow> hd (trim_right P xs) = hd xs"
  by (metis hd_append2 trim_right_prefix)

lemma trim_both_last: "trim_both P xs \<noteq> [] \<Longrightarrow> \<not> P (last (trim_both P xs))"
  by (simp add: trim_both_right trim_right_last)

lemma trim_both_hd: "trim_both P xs \<noteq> [] \<Longrightarrow> \<not> P (hd (trim_both P xs))"
proof -
  assume ne: "trim_both P xs \<noteq> []"
  then have "dropWhile P xs \<noteq> []" unfolding trim_both_def by (metis dropWhile.simps(1) rev.simps(1))
  then have "\<not> P (hd (dropWhile P xs))" by (rule hd_dropWhile)
  with ne show ?thesis by (simp add: trim_both_right trim_right_hd)
qed

lemma trim_both_id: "xs = [] \<or> (\<not> P (hd xs) \<and> \<not> P (last xs)) \<Longrightarrow> trim_both P xs = xs"
  by (cases "xs = []") (auto simp: trim_both_def dropWhile_hd_stop hd_rev)

lemma trim_both_sublist: "\<exists>ys zs. xs = ys @ trim_both P xs @ zs"
proof -
  obtain zs where "dropWhile P xs = trim_both P xs @ zs"
    using trim_right_prefix [of "dropWhile P xs" P] by (auto simp: trim_both_right)
  then show ?thesis by (metis takeWhile_dropWhile_id)
qed

lemma trim_both_ex: "\<exists>x \<in> set xs. \<not> P x \<Longrightarrow> trim_both P xs \<noteq> []"
proof -
  assume "\<exists>x \<in> set xs. \<not> P x"
  then have "dropWhile P xs \<noteq> []" by simp
  then have "hd (dropWhile P xs) \<in> set (dropWhile P xs)" "\<not> P (hd (dropWhile P xs))"
    by (rule hd_in_set, rule hd_dropWhile)
  then show ?thesis unfolding trim_both_right trim_right_Nil_iff by blast
qed

lemma trim_both_map: "trim_both P (map f xs) = map f (trim_both (P \<circ> f) xs)"
  by (simp add: trim_both_def dropWhile_map rev_map)

section \<open>Finite maps\<close>

lemma fmlookup_fmap_of_list_Cons [simp]:
  "fmlookup (fmap_of_list ((k, v) # xs)) k' = (if k' = k then Some v else fmlookup (fmap_of_list xs) k')"
  by (simp add: fmlookup_of_list)

lemma fmlookup_fmap_of_list_Nil [simp]: "fmlookup (fmap_of_list []) k = None"
  by (simp add: fmlookup_of_list)

text \<open>A Go map read \<open>m[k]\<close> of a \<open>map[string]string\<close>: the zero value for a missing key.\<close>

definition str_at :: "strmap \<Rightarrow> string \<Rightarrow> string" where
  "str_at m k = (case fmlookup m k of None \<Rightarrow> '''' | Some v \<Rightarrow> v)"

text \<open>A Go map read \<open>m[k]\<close> of a \<open>map[string]bool\<close>.\<close>

definition bool_at :: "(string, bool) fmap \<Rightarrow> string \<Rightarrow> bool" where
  "bool_at m k = (fmlookup m k = Some True)"

lemma str_at_simps [simp]:
  "str_at fmempty k = ''''"
  "str_at (fmupd k v m) k' = (if k' = k then v else str_at m k')"
  "str_at (fmap_of_list []) k = ''''"
  "str_at (fmap_of_list ((j, v) # xs)) k = (if k = j then v else str_at (fmap_of_list xs) k)"
  by (auto simp: str_at_def)

lemma str_at_fmadd: "str_at (m ++\<^sub>f n) k = (if k |\<in>| fmdom n then str_at n k else str_at m k)"
  by (simp add: str_at_def)

section \<open>Errors\<close>

text \<open>
  A Go error: its message, and what the predicates the program applies to errors can see of it
  (\<open>apierrors.IsNotFound\<close>, \<open>meta.IsNoMatchError\<close>). Wrapping with \<open>%w\<close> keeps the kind.
\<close>

datatype err_kind = ErrPlain | ErrNotFound | ErrNoMatch

datatype goerr = GoErr (err_kind: err_kind) (err_Error: string)

definition errorf :: "string \<Rightarrow> goerr" where
  "errorf msg = GoErr ErrPlain msg"

definition wrap_err :: "string \<Rightarrow> goerr \<Rightarrow> goerr" where
  "wrap_err pre e = GoErr (err_kind e) (pre @ '': '' @ err_Error e)"

definition IsNotFound :: "goerr \<Rightarrow> bool" where
  "IsNotFound e = (err_kind e = ErrNotFound)"

definition IsNoMatchError :: "goerr \<Rightarrow> bool" where
  "IsNoMatchError e = (err_kind e = ErrNoMatch)"

section \<open>Computations over a state\<close>

text \<open>
  A computation \<open>m\<close> is framed by a relation \<open>R\<close> when every run relates its start state to its end
  state: the relational invariant \<open>state_io_rel\<close> of \<open>HOL-Library.State_Monad\<close>, with the rules that
  follow the structure of a program.
\<close>

lemma frame_return [frame_rules]: "reflp R \<Longrightarrow> state_io_rel R (State_Monad.return x)"
  by (auto simp: reflp_def)

lemma frame_bind [frame_rules]:
  assumes "transp R" "state_io_rel R m" "\<And>x. state_io_rel R (f x)"
  shows "state_io_rel R (State_Monad.bind m f)"
proof (rule state_io_relI)
  fix a s s'
  assume "run_state (State_Monad.bind m f) s = (a, s')"
  then obtain x t where "run_state m s = (x, t)" "run_state (f x) t = (a, s')"
    by (auto split: prod.splits)
  with assms(2,3) have "R s t" "R t s'" by auto
  with assms(1) show "R s s'" by (rule transpD)
qed

lemma frame_if [frame_rules]:
  "(b \<Longrightarrow> state_io_rel R m) \<Longrightarrow> (\<not> b \<Longrightarrow> state_io_rel R n) \<Longrightarrow> state_io_rel R (if b then m else n)"
  by simp

lemma frame_sum [frame_rules]:
  "(\<And>e. x = Inl e \<Longrightarrow> state_io_rel R (f e)) \<Longrightarrow> (\<And>v. x = Inr v \<Longrightarrow> state_io_rel R (g v)) \<Longrightarrow>
   state_io_rel R (case x of Inl e \<Rightarrow> f e | Inr v \<Rightarrow> g v)"
  by (cases x) auto

lemma frame_option [frame_rules]:
  "(x = None \<Longrightarrow> state_io_rel R f) \<Longrightarrow> (\<And>v. x = Some v \<Longrightarrow> state_io_rel R (g v)) \<Longrightarrow>
   state_io_rel R (case x of None \<Rightarrow> f | Some v \<Rightarrow> g v)"
  by (cases x) auto

lemma frame_prod [frame_rules]:
  "(\<And>a b. x = (a, b) \<Longrightarrow> state_io_rel R (f a b)) \<Longrightarrow> state_io_rel R (case x of (a, b) \<Rightarrow> f a b)"
  by (cases x) auto

lemma frame_run: "state_io_rel R m \<Longrightarrow> R s (snd (run_state m s))"
  by (rule state_io_relD [OF _ prod.collapse [symmetric]])

lemma frame_bool: "state_io_rel R m \<Longrightarrow> state_io_rel R n \<Longrightarrow> state_io_rel R (case b of True \<Rightarrow> m | False \<Rightarrow> n)"
  by (cases b) simp_all

end
