(* ===== verification/Unicode_Tables.thy ===== *)
theory Unicode_Tables
  imports Prelude
begin

text \<open>
  The Unicode data behind the Go standard library functions the program calls
  (\<open>unicode.IsLetter\<close>, \<open>unicode.IsDigit\<close>, \<open>unicode.ToLower\<close>, \<open>strconv.IsPrint\<close>), for code points
  from 128 upwards: Unicode 15.0.0, the version of the Go release named in \<open>src/go.mod\<close> (go 1.22).
  A range table is a sorted list of disjoint inclusive intervals; the case table holds
  \<open>(lo, hi, target)\<close> and maps \<open>lo + k\<close> to \<open>target + k\<close>. The ASCII part of each function
  is written out in \<open>Go_Strings\<close>.
\<close>

section \<open>Range tables and their lookup\<close>

fun in_ranges :: "(nat \<times> nat) list \<Rightarrow> nat \<Rightarrow> bool" where
  "in_ranges [] r = False"
| "in_ranges ((l, h) # rs) r = (if r < l then False else if r \<le> h then True else in_ranges rs r)"

fun lower_lookup :: "(nat \<times> nat \<times> nat) list \<Rightarrow> nat \<Rightarrow> nat" where
  "lower_lookup [] r = r"
| "lower_lookup ((l, h, t) # es) r =
     (if r < l then r else if r \<le> h then t + (r - l) else lower_lookup es r)"

lemma in_ranges_mem: "in_ranges rs r \<Longrightarrow> \<exists>(l, h) \<in> set rs. l \<le> r \<and> r \<le> h"
  by (induction rs r rule: in_ranges.induct) (auto split: if_splits)

lemma lower_lookup_cases:
  "lower_lookup es r = r \<or> (\<exists>(l, h, t) \<in> set es. l \<le> r \<and> r \<le> h \<and> lower_lookup es r = t + (r - l))"
  by (induction es r rule: lower_lookup.induct) (auto split: if_splits)

lemma lower_lookup_outside:
  "\<forall>(l, h, t) \<in> set es. r < l \<or> h < r \<Longrightarrow> lower_lookup es r = r"
  by (induction es r rule: lower_lookup.induct) auto

section \<open>General categories L and Nd\<close>

definition letter_ranges :: "(nat \<times> nat) list" where
  "letter_ranges = [
    (170,170),(181,181),(186,186),(192,214),(216,246),(248,705),(710,721),(736,740),
    (748,748),(750,750),(880,884),(886,887),(890,893),(895,895),(902,902),(904,906),
    (908,908),(910,929),(931,1013),(1015,1153),(1162,1327),(1329,1366),(1369,1369),
    (1376,1416),(1488,1514),(1519,1522),(1568,1610),(1646,1647),(1649,1747),(1749,1749),
    (1765,1766),(1774,1775),(1786,1788),(1791,1791),(1808,1808),(1810,1839),(1869,1957),
    (1969,1969),(1994,2026),(2036,2037),(2042,2042),(2048,2069),(2074,2074),(2084,2084),
    (2088,2088),(2112,2136),(2144,2154),(2160,2183),(2185,2190),(2208,2249),(2308,2361),
    (2365,2365),(2384,2384),(2392,2401),(2417,2432),(2437,2444),(2447,2448),(2451,2472),
    (2474,2480),(2482,2482),(2486,2489),(2493,2493),(2510,2510),(2524,2525),(2527,2529),
    (2544,2545),(2556,2556),(2565,2570),(2575,2576),(2579,2600),(2602,2608),(2610,2611),
    (2613,2614),(2616,2617),(2649,2652),(2654,2654),(2674,2676),(2693,2701),(2703,2705),
    (2707,2728),(2730,2736),(2738,2739),(2741,2745),(2749,2749),(2768,2768),(2784,2785),
    (2809,2809),(2821,2828),(2831,2832),(2835,2856),(2858,2864),(2866,2867),(2869,2873),
    (2877,2877),(2908,2909),(2911,2913),(2929,2929),(2947,2947),(2949,2954),(2958,2960),
    (2962,2965),(2969,2970),(2972,2972),(2974,2975),(2979,2980),(2984,2986),(2990,3001),
    (3024,3024),(3077,3084),(3086,3088),(3090,3112),(3114,3129),(3133,3133),(3160,3162),
    (3165,3165),(3168,3169),(3200,3200),(3205,3212),(3214,3216),(3218,3240),(3242,3251),
    (3253,3257),(3261,3261),(3293,3294),(3296,3297),(3313,3314),(3332,3340),(3342,3344),
    (3346,3386),(3389,3389),(3406,3406),(3412,3414),(3423,3425),(3450,3455),(3461,3478),
    (3482,3505),(3507,3515),(3517,3517),(3520,3526),(3585,3632),(3634,3635),(3648,3654),
    (3713,3714),(3716,3716),(3718,3722),(3724,3747),(3749,3749),(3751,3760),(3762,3763),
    (3773,3773),(3776,3780),(3782,3782),(3804,3807),(3840,3840),(3904,3911),(3913,3948),
    (3976,3980),(4096,4138),(4159,4159),(4176,4181),(4186,4189),(4193,4193),(4197,4198),
    (4206,4208),(4213,4225),(4238,4238),(4256,4293),(4295,4295),(4301,4301),(4304,4346),
    (4348,4680),(4682,4685),(4688,4694),(4696,4696),(4698,4701),(4704,4744),(4746,4749),
    (4752,4784),(4786,4789),(4792,4798),(4800,4800),(4802,4805),(4808,4822),(4824,4880),
    (4882,4885),(4888,4954),(4992,5007),(5024,5109),(5112,5117),(5121,5740),(5743,5759),
    (5761,5786),(5792,5866),(5873,5880),(5888,5905),(5919,5937),(5952,5969),(5984,5996),
    (5998,6000),(6016,6067),(6103,6103),(6108,6108),(6176,6264),(6272,6276),(6279,6312),
    (6314,6314),(6320,6389),(6400,6430),(6480,6509),(6512,6516),(6528,6571),(6576,6601),
    (6656,6678),(6688,6740),(6823,6823),(6917,6963),(6981,6988),(7043,7072),(7086,7087),
    (7098,7141),(7168,7203),(7245,7247),(7258,7293),(7296,7304),(7312,7354),(7357,7359),
    (7401,7404),(7406,7411),(7413,7414),(7418,7418),(7424,7615),(7680,7957),(7960,7965),
    (7968,8005),(8008,8013),(8016,8023),(8025,8025),(8027,8027),(8029,8029),(8031,8061),
    (8064,8116),(8118,8124),(8126,8126),(8130,8132),(8134,8140),(8144,8147),(8150,8155),
    (8160,8172),(8178,8180),(8182,8188),(8305,8305),(8319,8319),(8336,8348),(8450,8450),
    (8455,8455),(8458,8467),(8469,8469),(8473,8477),(8484,8484),(8486,8486),(8488,8488),
    (8490,8493),(8495,8505),(8508,8511),(8517,8521),(8526,8526),(8579,8580),(11264,11492),
    (11499,11502),(11506,11507),(11520,11557),(11559,11559),(11565,11565),(11568,11623),
    (11631,11631),(11648,11670),(11680,11686),(11688,11694),(11696,11702),(11704,11710),
    (11712,11718),(11720,11726),(11728,11734),(11736,11742),(11823,11823),(12293,12294),
    (12337,12341),(12347,12348),(12353,12438),(12445,12447),(12449,12538),(12540,12543),
    (12549,12591),(12593,12686),(12704,12735),(12784,12799),(13312,19903),(19968,42124),
    (42192,42237),(42240,42508),(42512,42527),(42538,42539),(42560,42606),(42623,42653),
    (42656,42725),(42775,42783),(42786,42888),(42891,42954),(42960,42961),(42963,42963),
    (42965,42969),(42994,43009),(43011,43013),(43015,43018),(43020,43042),(43072,43123),
    (43138,43187),(43250,43255),(43259,43259),(43261,43262),(43274,43301),(43312,43334),
    (43360,43388),(43396,43442),(43471,43471),(43488,43492),(43494,43503),(43514,43518),
    (43520,43560),(43584,43586),(43588,43595),(43616,43638),(43642,43642),(43646,43695),
    (43697,43697),(43701,43702),(43705,43709),(43712,43712),(43714,43714),(43739,43741),
    (43744,43754),(43762,43764),(43777,43782),(43785,43790),(43793,43798),(43808,43814),
    (43816,43822),(43824,43866),(43868,43881),(43888,44002),(44032,55203),(55216,55238),
    (55243,55291),(63744,64109),(64112,64217),(64256,64262),(64275,64279),(64285,64285),
    (64287,64296),(64298,64310),(64312,64316),(64318,64318),(64320,64321),(64323,64324),
    (64326,64433),(64467,64829),(64848,64911),(64914,64967),(65008,65019),(65136,65140),
    (65142,65276),(65313,65338),(65345,65370),(65382,65470),(65474,65479),(65482,65487),
    (65490,65495),(65498,65500),(65536,65547),(65549,65574),(65576,65594),(65596,65597),
    (65599,65613),(65616,65629),(65664,65786),(66176,66204),(66208,66256),(66304,66335),
    (66349,66368),(66370,66377),(66384,66421),(66432,66461),(66464,66499),(66504,66511),
    (66560,66717),(66736,66771),(66776,66811),(66816,66855),(66864,66915),(66928,66938),
    (66940,66954),(66956,66962),(66964,66965),(66967,66977),(66979,66993),(66995,67001),
    (67003,67004),(67072,67382),(67392,67413),(67424,67431),(67456,67461),(67463,67504),
    (67506,67514),(67584,67589),(67592,67592),(67594,67637),(67639,67640),(67644,67644),
    (67647,67669),(67680,67702),(67712,67742),(67808,67826),(67828,67829),(67840,67861),
    (67872,67897),(67968,68023),(68030,68031),(68096,68096),(68112,68115),(68117,68119),
    (68121,68149),(68192,68220),(68224,68252),(68288,68295),(68297,68324),(68352,68405),
    (68416,68437),(68448,68466),(68480,68497),(68608,68680),(68736,68786),(68800,68850),
    (68864,68899),(69248,69289),(69296,69297),(69376,69404),(69415,69415),(69424,69445),
    (69488,69505),(69552,69572),(69600,69622),(69635,69687),(69745,69746),(69749,69749),
    (69763,69807),(69840,69864),(69891,69926),(69956,69956),(69959,69959),(69968,70002),
    (70006,70006),(70019,70066),(70081,70084),(70106,70106),(70108,70108),(70144,70161),
    (70163,70187),(70207,70208),(70272,70278),(70280,70280),(70282,70285),(70287,70301),
    (70303,70312),(70320,70366),(70405,70412),(70415,70416),(70419,70440),(70442,70448),
    (70450,70451),(70453,70457),(70461,70461),(70480,70480),(70493,70497),(70656,70708),
    (70727,70730),(70751,70753),(70784,70831),(70852,70853),(70855,70855),(71040,71086),
    (71128,71131),(71168,71215),(71236,71236),(71296,71338),(71352,71352),(71424,71450),
    (71488,71494),(71680,71723),(71840,71903),(71935,71942),(71945,71945),(71948,71955),
    (71957,71958),(71960,71983),(71999,71999),(72001,72001),(72096,72103),(72106,72144),
    (72161,72161),(72163,72163),(72192,72192),(72203,72242),(72250,72250),(72272,72272),
    (72284,72329),(72349,72349),(72368,72440),(72704,72712),(72714,72750),(72768,72768),
    (72818,72847),(72960,72966),(72968,72969),(72971,73008),(73030,73030),(73056,73061),
    (73063,73064),(73066,73097),(73112,73112),(73440,73458),(73474,73474),(73476,73488),
    (73490,73523),(73648,73648),(73728,74649),(74880,75075),(77712,77808),(77824,78895),
    (78913,78918),(82944,83526),(92160,92728),(92736,92766),(92784,92862),(92880,92909),
    (92928,92975),(92992,92995),(93027,93047),(93053,93071),(93760,93823),(93952,94026),
    (94032,94032),(94099,94111),(94176,94177),(94179,94179),(94208,100343),(100352,101589),
    (101632,101640),(110576,110579),(110581,110587),(110589,110590),(110592,110882),
    (110898,110898),(110928,110930),(110933,110933),(110948,110951),(110960,111355),
    (113664,113770),(113776,113788),(113792,113800),(113808,113817),(119808,119892),
    (119894,119964),(119966,119967),(119970,119970),(119973,119974),(119977,119980),
    (119982,119993),(119995,119995),(119997,120003),(120005,120069),(120071,120074),
    (120077,120084),(120086,120092),(120094,120121),(120123,120126),(120128,120132),
    (120134,120134),(120138,120144),(120146,120485),(120488,120512),(120514,120538),
    (120540,120570),(120572,120596),(120598,120628),(120630,120654),(120656,120686),
    (120688,120712),(120714,120744),(120746,120770),(120772,120779),(122624,122654),
    (122661,122666),(122928,122989),(123136,123180),(123191,123197),(123214,123214),
    (123536,123565),(123584,123627),(124112,124139),(124896,124902),(124904,124907),
    (124909,124910),(124912,124926),(124928,125124),(125184,125251),(125259,125259),
    (126464,126467),(126469,126495),(126497,126498),(126500,126500),(126503,126503),
    (126505,126514),(126516,126519),(126521,126521),(126523,126523),(126530,126530),
    (126535,126535),(126537,126537),(126539,126539),(126541,126543),(126545,126546),
    (126548,126548),(126551,126551),(126553,126553),(126555,126555),(126557,126557),
    (126559,126559),(126561,126562),(126564,126564),(126567,126570),(126572,126578),
    (126580,126583),(126585,126588),(126590,126590),(126592,126601),(126603,126619),
    (126625,126627),(126629,126633),(126635,126651),(131072,173791),(173824,177977),
    (177984,178205),(178208,183969),(183984,191456),(194560,195101),(196608,201546),
    (201552,205743)
  ]"

definition digit_ranges :: "(nat \<times> nat) list" where
  "digit_ranges = [
    (1632,1641),(1776,1785),(1984,1993),(2406,2415),(2534,2543),(2662,2671),(2790,2799),
    (2918,2927),(3046,3055),(3174,3183),(3302,3311),(3430,3439),(3558,3567),(3664,3673),
    (3792,3801),(3872,3881),(4160,4169),(4240,4249),(6112,6121),(6160,6169),(6470,6479),
    (6608,6617),(6784,6793),(6800,6809),(6992,7001),(7088,7097),(7232,7241),(7248,7257),
    (42528,42537),(43216,43225),(43264,43273),(43472,43481),(43504,43513),(43600,43609),
    (44016,44025),(65296,65305),(66720,66729),(68912,68921),(69734,69743),(69872,69881),
    (69942,69951),(70096,70105),(70384,70393),(70736,70745),(70864,70873),(71248,71257),
    (71360,71369),(71472,71481),(71904,71913),(72016,72025),(72784,72793),(73040,73049),
    (73120,73129),(73552,73561),(92768,92777),(92864,92873),(93008,93017),(120782,120831),
    (123200,123209),(123632,123641),(124144,124153),(125264,125273),(130032,130041)
  ]"

section \<open>Printable code points: categories L, M, N, P and S\<close>

definition print_ranges :: "(nat \<times> nat) list" where
  "print_ranges = [
    (161,172),(174,887),(890,895),(900,906),(908,908),(910,929),(931,1327),(1329,1366),
    (1369,1418),(1421,1423),(1425,1479),(1488,1514),(1519,1524),(1542,1563),(1565,1756),
    (1758,1805),(1808,1866),(1869,1969),(1984,2042),(2045,2093),(2096,2110),(2112,2139),
    (2142,2142),(2144,2154),(2160,2190),(2200,2273),(2275,2435),(2437,2444),(2447,2448),
    (2451,2472),(2474,2480),(2482,2482),(2486,2489),(2492,2500),(2503,2504),(2507,2510),
    (2519,2519),(2524,2525),(2527,2531),(2534,2558),(2561,2563),(2565,2570),(2575,2576),
    (2579,2600),(2602,2608),(2610,2611),(2613,2614),(2616,2617),(2620,2620),(2622,2626),
    (2631,2632),(2635,2637),(2641,2641),(2649,2652),(2654,2654),(2662,2678),(2689,2691),
    (2693,2701),(2703,2705),(2707,2728),(2730,2736),(2738,2739),(2741,2745),(2748,2757),
    (2759,2761),(2763,2765),(2768,2768),(2784,2787),(2790,2801),(2809,2815),(2817,2819),
    (2821,2828),(2831,2832),(2835,2856),(2858,2864),(2866,2867),(2869,2873),(2876,2884),
    (2887,2888),(2891,2893),(2901,2903),(2908,2909),(2911,2915),(2918,2935),(2946,2947),
    (2949,2954),(2958,2960),(2962,2965),(2969,2970),(2972,2972),(2974,2975),(2979,2980),
    (2984,2986),(2990,3001),(3006,3010),(3014,3016),(3018,3021),(3024,3024),(3031,3031),
    (3046,3066),(3072,3084),(3086,3088),(3090,3112),(3114,3129),(3132,3140),(3142,3144),
    (3146,3149),(3157,3158),(3160,3162),(3165,3165),(3168,3171),(3174,3183),(3191,3212),
    (3214,3216),(3218,3240),(3242,3251),(3253,3257),(3260,3268),(3270,3272),(3274,3277),
    (3285,3286),(3293,3294),(3296,3299),(3302,3311),(3313,3315),(3328,3340),(3342,3344),
    (3346,3396),(3398,3400),(3402,3407),(3412,3427),(3430,3455),(3457,3459),(3461,3478),
    (3482,3505),(3507,3515),(3517,3517),(3520,3526),(3530,3530),(3535,3540),(3542,3542),
    (3544,3551),(3558,3567),(3570,3572),(3585,3642),(3647,3675),(3713,3714),(3716,3716),
    (3718,3722),(3724,3747),(3749,3749),(3751,3773),(3776,3780),(3782,3782),(3784,3790),
    (3792,3801),(3804,3807),(3840,3911),(3913,3948),(3953,3991),(3993,4028),(4030,4044),
    (4046,4058),(4096,4293),(4295,4295),(4301,4301),(4304,4680),(4682,4685),(4688,4694),
    (4696,4696),(4698,4701),(4704,4744),(4746,4749),(4752,4784),(4786,4789),(4792,4798),
    (4800,4800),(4802,4805),(4808,4822),(4824,4880),(4882,4885),(4888,4954),(4957,4988),
    (4992,5017),(5024,5109),(5112,5117),(5120,5759),(5761,5788),(5792,5880),(5888,5909),
    (5919,5942),(5952,5971),(5984,5996),(5998,6000),(6002,6003),(6016,6109),(6112,6121),
    (6128,6137),(6144,6157),(6159,6169),(6176,6264),(6272,6314),(6320,6389),(6400,6430),
    (6432,6443),(6448,6459),(6464,6464),(6468,6509),(6512,6516),(6528,6571),(6576,6601),
    (6608,6618),(6622,6683),(6686,6750),(6752,6780),(6783,6793),(6800,6809),(6816,6829),
    (6832,6862),(6912,6988),(6992,7038),(7040,7155),(7164,7223),(7227,7241),(7245,7304),
    (7312,7354),(7357,7367),(7376,7418),(7424,7957),(7960,7965),(7968,8005),(8008,8013),
    (8016,8023),(8025,8025),(8027,8027),(8029,8029),(8031,8061),(8064,8116),(8118,8132),
    (8134,8147),(8150,8155),(8157,8175),(8178,8180),(8182,8190),(8208,8231),(8240,8286),
    (8304,8305),(8308,8334),(8336,8348),(8352,8384),(8400,8432),(8448,8587),(8592,9254),
    (9280,9290),(9312,11123),(11126,11157),(11159,11507),(11513,11557),(11559,11559),
    (11565,11565),(11568,11623),(11631,11632),(11647,11670),(11680,11686),(11688,11694),
    (11696,11702),(11704,11710),(11712,11718),(11720,11726),(11728,11734),(11736,11742),
    (11744,11869),(11904,11929),(11931,12019),(12032,12245),(12272,12283),(12289,12351),
    (12353,12438),(12441,12543),(12549,12591),(12593,12686),(12688,12771),(12784,12830),
    (12832,42124),(42128,42182),(42192,42539),(42560,42743),(42752,42954),(42960,42961),
    (42963,42963),(42965,42969),(42994,43052),(43056,43065),(43072,43127),(43136,43205),
    (43214,43225),(43232,43347),(43359,43388),(43392,43469),(43471,43481),(43486,43518),
    (43520,43574),(43584,43597),(43600,43609),(43612,43714),(43739,43766),(43777,43782),
    (43785,43790),(43793,43798),(43808,43814),(43816,43822),(43824,43883),(43888,44013),
    (44016,44025),(44032,55203),(55216,55238),(55243,55291),(63744,64109),(64112,64217),
    (64256,64262),(64275,64279),(64285,64310),(64312,64316),(64318,64318),(64320,64321),
    (64323,64324),(64326,64450),(64467,64911),(64914,64967),(64975,64975),(65008,65049),
    (65056,65106),(65108,65126),(65128,65131),(65136,65140),(65142,65276),(65281,65470),
    (65474,65479),(65482,65487),(65490,65495),(65498,65500),(65504,65510),(65512,65518),
    (65532,65533),(65536,65547),(65549,65574),(65576,65594),(65596,65597),(65599,65613),
    (65616,65629),(65664,65786),(65792,65794),(65799,65843),(65847,65934),(65936,65948),
    (65952,65952),(66000,66045),(66176,66204),(66208,66256),(66272,66299),(66304,66339),
    (66349,66378),(66384,66426),(66432,66461),(66463,66499),(66504,66517),(66560,66717),
    (66720,66729),(66736,66771),(66776,66811),(66816,66855),(66864,66915),(66927,66938),
    (66940,66954),(66956,66962),(66964,66965),(66967,66977),(66979,66993),(66995,67001),
    (67003,67004),(67072,67382),(67392,67413),(67424,67431),(67456,67461),(67463,67504),
    (67506,67514),(67584,67589),(67592,67592),(67594,67637),(67639,67640),(67644,67644),
    (67647,67669),(67671,67742),(67751,67759),(67808,67826),(67828,67829),(67835,67867),
    (67871,67897),(67903,67903),(67968,68023),(68028,68047),(68050,68099),(68101,68102),
    (68108,68115),(68117,68119),(68121,68149),(68152,68154),(68159,68168),(68176,68184),
    (68192,68255),(68288,68326),(68331,68342),(68352,68405),(68409,68437),(68440,68466),
    (68472,68497),(68505,68508),(68521,68527),(68608,68680),(68736,68786),(68800,68850),
    (68858,68903),(68912,68921),(69216,69246),(69248,69289),(69291,69293),(69296,69297),
    (69373,69415),(69424,69465),(69488,69513),(69552,69579),(69600,69622),(69632,69709),
    (69714,69749),(69759,69820),(69822,69826),(69840,69864),(69872,69881),(69888,69940),
    (69942,69959),(69968,70006),(70016,70111),(70113,70132),(70144,70161),(70163,70209),
    (70272,70278),(70280,70280),(70282,70285),(70287,70301),(70303,70313),(70320,70378),
    (70384,70393),(70400,70403),(70405,70412),(70415,70416),(70419,70440),(70442,70448),
    (70450,70451),(70453,70457),(70459,70468),(70471,70472),(70475,70477),(70480,70480),
    (70487,70487),(70493,70499),(70502,70508),(70512,70516),(70656,70747),(70749,70753),
    (70784,70855),(70864,70873),(71040,71093),(71096,71133),(71168,71236),(71248,71257),
    (71264,71276),(71296,71353),(71360,71369),(71424,71450),(71453,71467),(71472,71494),
    (71680,71739),(71840,71922),(71935,71942),(71945,71945),(71948,71955),(71957,71958),
    (71960,71989),(71991,71992),(71995,72006),(72016,72025),(72096,72103),(72106,72151),
    (72154,72164),(72192,72263),(72272,72354),(72368,72440),(72448,72457),(72704,72712),
    (72714,72758),(72760,72773),(72784,72812),(72816,72847),(72850,72871),(72873,72886),
    (72960,72966),(72968,72969),(72971,73014),(73018,73018),(73020,73021),(73023,73031),
    (73040,73049),(73056,73061),(73063,73064),(73066,73102),(73104,73105),(73107,73112),
    (73120,73129),(73440,73464),(73472,73488),(73490,73530),(73534,73561),(73648,73648),
    (73664,73713),(73727,74649),(74752,74862),(74864,74868),(74880,75075),(77712,77810),
    (77824,78895),(78912,78933),(82944,83526),(92160,92728),(92736,92766),(92768,92777),
    (92782,92862),(92864,92873),(92880,92909),(92912,92917),(92928,92997),(93008,93017),
    (93019,93025),(93027,93047),(93053,93071),(93760,93850),(93952,94026),(94031,94087),
    (94095,94111),(94176,94180),(94192,94193),(94208,100343),(100352,101589),
    (101632,101640),(110576,110579),(110581,110587),(110589,110590),(110592,110882),
    (110898,110898),(110928,110930),(110933,110933),(110948,110951),(110960,111355),
    (113664,113770),(113776,113788),(113792,113800),(113808,113817),(113820,113823),
    (118528,118573),(118576,118598),(118608,118723),(118784,119029),(119040,119078),
    (119081,119154),(119163,119274),(119296,119365),(119488,119507),(119520,119539),
    (119552,119638),(119648,119672),(119808,119892),(119894,119964),(119966,119967),
    (119970,119970),(119973,119974),(119977,119980),(119982,119993),(119995,119995),
    (119997,120003),(120005,120069),(120071,120074),(120077,120084),(120086,120092),
    (120094,120121),(120123,120126),(120128,120132),(120134,120134),(120138,120144),
    (120146,120485),(120488,120779),(120782,121483),(121499,121503),(121505,121519),
    (122624,122654),(122661,122666),(122880,122886),(122888,122904),(122907,122913),
    (122915,122916),(122918,122922),(122928,122989),(123023,123023),(123136,123180),
    (123184,123197),(123200,123209),(123214,123215),(123536,123566),(123584,123641),
    (123647,123647),(124112,124153),(124896,124902),(124904,124907),(124909,124910),
    (124912,124926),(124928,125124),(125127,125142),(125184,125259),(125264,125273),
    (125278,125279),(126065,126132),(126209,126269),(126464,126467),(126469,126495),
    (126497,126498),(126500,126500),(126503,126503),(126505,126514),(126516,126519),
    (126521,126521),(126523,126523),(126530,126530),(126535,126535),(126537,126537),
    (126539,126539),(126541,126543),(126545,126546),(126548,126548),(126551,126551),
    (126553,126553),(126555,126555),(126557,126557),(126559,126559),(126561,126562),
    (126564,126564),(126567,126570),(126572,126578),(126580,126583),(126585,126588),
    (126590,126590),(126592,126601),(126603,126619),(126625,126627),(126629,126633),
    (126635,126651),(126704,126705),(126976,127019),(127024,127123),(127136,127150),
    (127153,127167),(127169,127183),(127185,127221),(127232,127405),(127462,127490),
    (127504,127547),(127552,127560),(127568,127569),(127584,127589),(127744,128727),
    (128732,128748),(128752,128764),(128768,128886),(128891,128985),(128992,129003),
    (129008,129008),(129024,129035),(129040,129095),(129104,129113),(129120,129159),
    (129168,129197),(129200,129201),(129280,129619),(129632,129645),(129648,129660),
    (129664,129672),(129680,129725),(129727,129733),(129742,129755),(129760,129768),
    (129776,129784),(129792,129938),(129940,129994),(130032,130041),(131072,173791),
    (173824,177977),(177984,178205),(178208,183969),(183984,191456),(194560,195101),
    (196608,201546),(201552,205743),(917760,917999)
  ]"

section \<open>Simple lower-case mapping\<close>

definition lower_table :: "(nat \<times> nat \<times> nat) list" where
  "lower_table = [
    (192,214,224),(216,222,248),(256,256,257),(258,258,259),(260,260,261),(262,262,263),
    (264,264,265),(266,266,267),(268,268,269),(270,270,271),(272,272,273),(274,274,275),
    (276,276,277),(278,278,279),(280,280,281),(282,282,283),(284,284,285),(286,286,287),
    (288,288,289),(290,290,291),(292,292,293),(294,294,295),(296,296,297),(298,298,299),
    (300,300,301),(302,302,303),(304,304,105),(306,306,307),(308,308,309),(310,310,311),
    (313,313,314),(315,315,316),(317,317,318),(319,319,320),(321,321,322),(323,323,324),
    (325,325,326),(327,327,328),(330,330,331),(332,332,333),(334,334,335),(336,336,337),
    (338,338,339),(340,340,341),(342,342,343),(344,344,345),(346,346,347),(348,348,349),
    (350,350,351),(352,352,353),(354,354,355),(356,356,357),(358,358,359),(360,360,361),
    (362,362,363),(364,364,365),(366,366,367),(368,368,369),(370,370,371),(372,372,373),
    (374,374,375),(376,376,255),(377,377,378),(379,379,380),(381,381,382),(385,385,595),
    (386,386,387),(388,388,389),(390,390,596),(391,391,392),(393,394,598),(395,395,396),
    (398,398,477),(399,399,601),(400,400,603),(401,401,402),(403,403,608),(404,404,611),
    (406,406,617),(407,407,616),(408,408,409),(412,412,623),(413,413,626),(415,415,629),
    (416,416,417),(418,418,419),(420,420,421),(422,422,640),(423,423,424),(425,425,643),
    (428,428,429),(430,430,648),(431,431,432),(433,434,650),(435,435,436),(437,437,438),
    (439,439,658),(440,440,441),(444,444,445),(452,452,454),(453,453,454),(455,455,457),
    (456,456,457),(458,458,460),(459,459,460),(461,461,462),(463,463,464),(465,465,466),
    (467,467,468),(469,469,470),(471,471,472),(473,473,474),(475,475,476),(478,478,479),
    (480,480,481),(482,482,483),(484,484,485),(486,486,487),(488,488,489),(490,490,491),
    (492,492,493),(494,494,495),(497,497,499),(498,498,499),(500,500,501),(502,502,405),
    (503,503,447),(504,504,505),(506,506,507),(508,508,509),(510,510,511),(512,512,513),
    (514,514,515),(516,516,517),(518,518,519),(520,520,521),(522,522,523),(524,524,525),
    (526,526,527),(528,528,529),(530,530,531),(532,532,533),(534,534,535),(536,536,537),
    (538,538,539),(540,540,541),(542,542,543),(544,544,414),(546,546,547),(548,548,549),
    (550,550,551),(552,552,553),(554,554,555),(556,556,557),(558,558,559),(560,560,561),
    (562,562,563),(570,570,11365),(571,571,572),(573,573,410),(574,574,11366),(577,577,578),
    (579,579,384),(580,580,649),(581,581,652),(582,582,583),(584,584,585),(586,586,587),
    (588,588,589),(590,590,591),(880,880,881),(882,882,883),(886,886,887),(895,895,1011),
    (902,902,940),(904,906,941),(908,908,972),(910,911,973),(913,929,945),(931,939,963),
    (975,975,983),(984,984,985),(986,986,987),(988,988,989),(990,990,991),(992,992,993),
    (994,994,995),(996,996,997),(998,998,999),(1000,1000,1001),(1002,1002,1003),
    (1004,1004,1005),(1006,1006,1007),(1012,1012,952),(1015,1015,1016),(1017,1017,1010),
    (1018,1018,1019),(1021,1023,891),(1024,1039,1104),(1040,1071,1072),(1120,1120,1121),
    (1122,1122,1123),(1124,1124,1125),(1126,1126,1127),(1128,1128,1129),(1130,1130,1131),
    (1132,1132,1133),(1134,1134,1135),(1136,1136,1137),(1138,1138,1139),(1140,1140,1141),
    (1142,1142,1143),(1144,1144,1145),(1146,1146,1147),(1148,1148,1149),(1150,1150,1151),
    (1152,1152,1153),(1162,1162,1163),(1164,1164,1165),(1166,1166,1167),(1168,1168,1169),
    (1170,1170,1171),(1172,1172,1173),(1174,1174,1175),(1176,1176,1177),(1178,1178,1179),
    (1180,1180,1181),(1182,1182,1183),(1184,1184,1185),(1186,1186,1187),(1188,1188,1189),
    (1190,1190,1191),(1192,1192,1193),(1194,1194,1195),(1196,1196,1197),(1198,1198,1199),
    (1200,1200,1201),(1202,1202,1203),(1204,1204,1205),(1206,1206,1207),(1208,1208,1209),
    (1210,1210,1211),(1212,1212,1213),(1214,1214,1215),(1216,1216,1231),(1217,1217,1218),
    (1219,1219,1220),(1221,1221,1222),(1223,1223,1224),(1225,1225,1226),(1227,1227,1228),
    (1229,1229,1230),(1232,1232,1233),(1234,1234,1235),(1236,1236,1237),(1238,1238,1239),
    (1240,1240,1241),(1242,1242,1243),(1244,1244,1245),(1246,1246,1247),(1248,1248,1249),
    (1250,1250,1251),(1252,1252,1253),(1254,1254,1255),(1256,1256,1257),(1258,1258,1259),
    (1260,1260,1261),(1262,1262,1263),(1264,1264,1265),(1266,1266,1267),(1268,1268,1269),
    (1270,1270,1271),(1272,1272,1273),(1274,1274,1275),(1276,1276,1277),(1278,1278,1279),
    (1280,1280,1281),(1282,1282,1283),(1284,1284,1285),(1286,1286,1287),(1288,1288,1289),
    (1290,1290,1291),(1292,1292,1293),(1294,1294,1295),(1296,1296,1297),(1298,1298,1299),
    (1300,1300,1301),(1302,1302,1303),(1304,1304,1305),(1306,1306,1307),(1308,1308,1309),
    (1310,1310,1311),(1312,1312,1313),(1314,1314,1315),(1316,1316,1317),(1318,1318,1319),
    (1320,1320,1321),(1322,1322,1323),(1324,1324,1325),(1326,1326,1327),(1329,1366,1377),
    (4256,4293,11520),(4295,4295,11559),(4301,4301,11565),(5024,5103,43888),
    (5104,5109,5112),(7312,7354,4304),(7357,7359,4349),(7680,7680,7681),(7682,7682,7683),
    (7684,7684,7685),(7686,7686,7687),(7688,7688,7689),(7690,7690,7691),(7692,7692,7693),
    (7694,7694,7695),(7696,7696,7697),(7698,7698,7699),(7700,7700,7701),(7702,7702,7703),
    (7704,7704,7705),(7706,7706,7707),(7708,7708,7709),(7710,7710,7711),(7712,7712,7713),
    (7714,7714,7715),(7716,7716,7717),(7718,7718,7719),(7720,7720,7721),(7722,7722,7723),
    (7724,7724,7725),(7726,7726,7727),(7728,7728,7729),(7730,7730,7731),(7732,7732,7733),
    (7734,7734,7735),(7736,7736,7737),(7738,7738,7739),(7740,7740,7741),(7742,7742,7743),
    (7744,7744,7745),(7746,7746,7747),(7748,7748,7749),(7750,7750,7751),(7752,7752,7753),
    (7754,7754,7755),(7756,7756,7757),(7758,7758,7759),(7760,7760,7761),(7762,7762,7763),
    (7764,7764,7765),(7766,7766,7767),(7768,7768,7769),(7770,7770,7771),(7772,7772,7773),
    (7774,7774,7775),(7776,7776,7777),(7778,7778,7779),(7780,7780,7781),(7782,7782,7783),
    (7784,7784,7785),(7786,7786,7787),(7788,7788,7789),(7790,7790,7791),(7792,7792,7793),
    (7794,7794,7795),(7796,7796,7797),(7798,7798,7799),(7800,7800,7801),(7802,7802,7803),
    (7804,7804,7805),(7806,7806,7807),(7808,7808,7809),(7810,7810,7811),(7812,7812,7813),
    (7814,7814,7815),(7816,7816,7817),(7818,7818,7819),(7820,7820,7821),(7822,7822,7823),
    (7824,7824,7825),(7826,7826,7827),(7828,7828,7829),(7838,7838,223),(7840,7840,7841),
    (7842,7842,7843),(7844,7844,7845),(7846,7846,7847),(7848,7848,7849),(7850,7850,7851),
    (7852,7852,7853),(7854,7854,7855),(7856,7856,7857),(7858,7858,7859),(7860,7860,7861),
    (7862,7862,7863),(7864,7864,7865),(7866,7866,7867),(7868,7868,7869),(7870,7870,7871),
    (7872,7872,7873),(7874,7874,7875),(7876,7876,7877),(7878,7878,7879),(7880,7880,7881),
    (7882,7882,7883),(7884,7884,7885),(7886,7886,7887),(7888,7888,7889),(7890,7890,7891),
    (7892,7892,7893),(7894,7894,7895),(7896,7896,7897),(7898,7898,7899),(7900,7900,7901),
    (7902,7902,7903),(7904,7904,7905),(7906,7906,7907),(7908,7908,7909),(7910,7910,7911),
    (7912,7912,7913),(7914,7914,7915),(7916,7916,7917),(7918,7918,7919),(7920,7920,7921),
    (7922,7922,7923),(7924,7924,7925),(7926,7926,7927),(7928,7928,7929),(7930,7930,7931),
    (7932,7932,7933),(7934,7934,7935),(7944,7951,7936),(7960,7965,7952),(7976,7983,7968),
    (7992,7999,7984),(8008,8013,8000),(8025,8025,8017),(8027,8027,8019),(8029,8029,8021),
    (8031,8031,8023),(8040,8047,8032),(8072,8079,8064),(8088,8095,8080),(8104,8111,8096),
    (8120,8121,8112),(8122,8123,8048),(8124,8124,8115),(8136,8139,8050),(8140,8140,8131),
    (8152,8153,8144),(8154,8155,8054),(8168,8169,8160),(8170,8171,8058),(8172,8172,8165),
    (8184,8185,8056),(8186,8187,8060),(8188,8188,8179),(8486,8486,969),(8490,8490,107),
    (8491,8491,229),(8498,8498,8526),(8544,8559,8560),(8579,8579,8580),(9398,9423,9424),
    (11264,11311,11312),(11360,11360,11361),(11362,11362,619),(11363,11363,7549),
    (11364,11364,637),(11367,11367,11368),(11369,11369,11370),(11371,11371,11372),
    (11373,11373,593),(11374,11374,625),(11375,11375,592),(11376,11376,594),
    (11378,11378,11379),(11381,11381,11382),(11390,11391,575),(11392,11392,11393),
    (11394,11394,11395),(11396,11396,11397),(11398,11398,11399),(11400,11400,11401),
    (11402,11402,11403),(11404,11404,11405),(11406,11406,11407),(11408,11408,11409),
    (11410,11410,11411),(11412,11412,11413),(11414,11414,11415),(11416,11416,11417),
    (11418,11418,11419),(11420,11420,11421),(11422,11422,11423),(11424,11424,11425),
    (11426,11426,11427),(11428,11428,11429),(11430,11430,11431),(11432,11432,11433),
    (11434,11434,11435),(11436,11436,11437),(11438,11438,11439),(11440,11440,11441),
    (11442,11442,11443),(11444,11444,11445),(11446,11446,11447),(11448,11448,11449),
    (11450,11450,11451),(11452,11452,11453),(11454,11454,11455),(11456,11456,11457),
    (11458,11458,11459),(11460,11460,11461),(11462,11462,11463),(11464,11464,11465),
    (11466,11466,11467),(11468,11468,11469),(11470,11470,11471),(11472,11472,11473),
    (11474,11474,11475),(11476,11476,11477),(11478,11478,11479),(11480,11480,11481),
    (11482,11482,11483),(11484,11484,11485),(11486,11486,11487),(11488,11488,11489),
    (11490,11490,11491),(11499,11499,11500),(11501,11501,11502),(11506,11506,11507),
    (42560,42560,42561),(42562,42562,42563),(42564,42564,42565),(42566,42566,42567),
    (42568,42568,42569),(42570,42570,42571),(42572,42572,42573),(42574,42574,42575),
    (42576,42576,42577),(42578,42578,42579),(42580,42580,42581),(42582,42582,42583),
    (42584,42584,42585),(42586,42586,42587),(42588,42588,42589),(42590,42590,42591),
    (42592,42592,42593),(42594,42594,42595),(42596,42596,42597),(42598,42598,42599),
    (42600,42600,42601),(42602,42602,42603),(42604,42604,42605),(42624,42624,42625),
    (42626,42626,42627),(42628,42628,42629),(42630,42630,42631),(42632,42632,42633),
    (42634,42634,42635),(42636,42636,42637),(42638,42638,42639),(42640,42640,42641),
    (42642,42642,42643),(42644,42644,42645),(42646,42646,42647),(42648,42648,42649),
    (42650,42650,42651),(42786,42786,42787),(42788,42788,42789),(42790,42790,42791),
    (42792,42792,42793),(42794,42794,42795),(42796,42796,42797),(42798,42798,42799),
    (42802,42802,42803),(42804,42804,42805),(42806,42806,42807),(42808,42808,42809),
    (42810,42810,42811),(42812,42812,42813),(42814,42814,42815),(42816,42816,42817),
    (42818,42818,42819),(42820,42820,42821),(42822,42822,42823),(42824,42824,42825),
    (42826,42826,42827),(42828,42828,42829),(42830,42830,42831),(42832,42832,42833),
    (42834,42834,42835),(42836,42836,42837),(42838,42838,42839),(42840,42840,42841),
    (42842,42842,42843),(42844,42844,42845),(42846,42846,42847),(42848,42848,42849),
    (42850,42850,42851),(42852,42852,42853),(42854,42854,42855),(42856,42856,42857),
    (42858,42858,42859),(42860,42860,42861),(42862,42862,42863),(42873,42873,42874),
    (42875,42875,42876),(42877,42877,7545),(42878,42878,42879),(42880,42880,42881),
    (42882,42882,42883),(42884,42884,42885),(42886,42886,42887),(42891,42891,42892),
    (42893,42893,613),(42896,42896,42897),(42898,42898,42899),(42902,42902,42903),
    (42904,42904,42905),(42906,42906,42907),(42908,42908,42909),(42910,42910,42911),
    (42912,42912,42913),(42914,42914,42915),(42916,42916,42917),(42918,42918,42919),
    (42920,42920,42921),(42922,42922,614),(42923,42923,604),(42924,42924,609),
    (42925,42925,620),(42926,42926,618),(42928,42928,670),(42929,42929,647),
    (42930,42930,669),(42931,42931,43859),(42932,42932,42933),(42934,42934,42935),
    (42936,42936,42937),(42938,42938,42939),(42940,42940,42941),(42942,42942,42943),
    (42944,42944,42945),(42946,42946,42947),(42948,42948,42900),(42949,42949,642),
    (42950,42950,7566),(42951,42951,42952),(42953,42953,42954),(42960,42960,42961),
    (42966,42966,42967),(42968,42968,42969),(42997,42997,42998),(65313,65338,65345),
    (66560,66599,66600),(66736,66771,66776),(66928,66938,66967),(66940,66954,66979),
    (66956,66962,66995),(66964,66965,67003),(68736,68786,68800),(71840,71871,71872),
    (93760,93791,93792),(125184,125217,125218)
  ]"

text \<open>The images of \<open>lower_table\<close>, merged into sorted intervals; used to show it idempotent.\<close>

definition lower_images :: "(nat \<times> nat) list" where
  "lower_images = [
    (105,105),(107,107),(223,246),(248,255),(257,257),(259,259),(261,261),(263,263),
    (265,265),(267,267),(269,269),(271,271),(273,273),(275,275),(277,277),(279,279),
    (281,281),(283,283),(285,285),(287,287),(289,289),(291,291),(293,293),(295,295),
    (297,297),(299,299),(301,301),(303,303),(307,307),(309,309),(311,311),(314,314),
    (316,316),(318,318),(320,320),(322,322),(324,324),(326,326),(328,328),(331,331),
    (333,333),(335,335),(337,337),(339,339),(341,341),(343,343),(345,345),(347,347),
    (349,349),(351,351),(353,353),(355,355),(357,357),(359,359),(361,361),(363,363),
    (365,365),(367,367),(369,369),(371,371),(373,373),(375,375),(378,378),(380,380),
    (382,382),(384,384),(387,387),(389,389),(392,392),(396,396),(402,402),(405,405),
    (409,410),(414,414),(417,417),(419,419),(421,421),(424,424),(429,429),(432,432),
    (436,436),(438,438),(441,441),(445,445),(447,447),(454,454),(457,457),(460,460),
    (462,462),(464,464),(466,466),(468,468),(470,470),(472,472),(474,474),(476,477),
    (479,479),(481,481),(483,483),(485,485),(487,487),(489,489),(491,491),(493,493),
    (495,495),(499,499),(501,501),(505,505),(507,507),(509,509),(511,511),(513,513),
    (515,515),(517,517),(519,519),(521,521),(523,523),(525,525),(527,527),(529,529),
    (531,531),(533,533),(535,535),(537,537),(539,539),(541,541),(543,543),(547,547),
    (549,549),(551,551),(553,553),(555,555),(557,557),(559,559),(561,561),(563,563),
    (572,572),(575,576),(578,578),(583,583),(585,585),(587,587),(589,589),(591,596),
    (598,599),(601,601),(603,604),(608,609),(611,611),(613,614),(616,620),(623,623),
    (625,626),(629,629),(637,637),(640,640),(642,643),(647,652),(658,658),(669,670),
    (881,881),(883,883),(887,887),(891,893),(940,943),(945,961),(963,974),(983,983),
    (985,985),(987,987),(989,989),(991,991),(993,993),(995,995),(997,997),(999,999),
    (1001,1001),(1003,1003),(1005,1005),(1007,1007),(1010,1011),(1016,1016),(1019,1019),
    (1072,1119),(1121,1121),(1123,1123),(1125,1125),(1127,1127),(1129,1129),(1131,1131),
    (1133,1133),(1135,1135),(1137,1137),(1139,1139),(1141,1141),(1143,1143),(1145,1145),
    (1147,1147),(1149,1149),(1151,1151),(1153,1153),(1163,1163),(1165,1165),(1167,1167),
    (1169,1169),(1171,1171),(1173,1173),(1175,1175),(1177,1177),(1179,1179),(1181,1181),
    (1183,1183),(1185,1185),(1187,1187),(1189,1189),(1191,1191),(1193,1193),(1195,1195),
    (1197,1197),(1199,1199),(1201,1201),(1203,1203),(1205,1205),(1207,1207),(1209,1209),
    (1211,1211),(1213,1213),(1215,1215),(1218,1218),(1220,1220),(1222,1222),(1224,1224),
    (1226,1226),(1228,1228),(1230,1231),(1233,1233),(1235,1235),(1237,1237),(1239,1239),
    (1241,1241),(1243,1243),(1245,1245),(1247,1247),(1249,1249),(1251,1251),(1253,1253),
    (1255,1255),(1257,1257),(1259,1259),(1261,1261),(1263,1263),(1265,1265),(1267,1267),
    (1269,1269),(1271,1271),(1273,1273),(1275,1275),(1277,1277),(1279,1279),(1281,1281),
    (1283,1283),(1285,1285),(1287,1287),(1289,1289),(1291,1291),(1293,1293),(1295,1295),
    (1297,1297),(1299,1299),(1301,1301),(1303,1303),(1305,1305),(1307,1307),(1309,1309),
    (1311,1311),(1313,1313),(1315,1315),(1317,1317),(1319,1319),(1321,1321),(1323,1323),
    (1325,1325),(1327,1327),(1377,1414),(4304,4346),(4349,4351),(5112,5117),(7545,7545),
    (7549,7549),(7566,7566),(7681,7681),(7683,7683),(7685,7685),(7687,7687),(7689,7689),
    (7691,7691),(7693,7693),(7695,7695),(7697,7697),(7699,7699),(7701,7701),(7703,7703),
    (7705,7705),(7707,7707),(7709,7709),(7711,7711),(7713,7713),(7715,7715),(7717,7717),
    (7719,7719),(7721,7721),(7723,7723),(7725,7725),(7727,7727),(7729,7729),(7731,7731),
    (7733,7733),(7735,7735),(7737,7737),(7739,7739),(7741,7741),(7743,7743),(7745,7745),
    (7747,7747),(7749,7749),(7751,7751),(7753,7753),(7755,7755),(7757,7757),(7759,7759),
    (7761,7761),(7763,7763),(7765,7765),(7767,7767),(7769,7769),(7771,7771),(7773,7773),
    (7775,7775),(7777,7777),(7779,7779),(7781,7781),(7783,7783),(7785,7785),(7787,7787),
    (7789,7789),(7791,7791),(7793,7793),(7795,7795),(7797,7797),(7799,7799),(7801,7801),
    (7803,7803),(7805,7805),(7807,7807),(7809,7809),(7811,7811),(7813,7813),(7815,7815),
    (7817,7817),(7819,7819),(7821,7821),(7823,7823),(7825,7825),(7827,7827),(7829,7829),
    (7841,7841),(7843,7843),(7845,7845),(7847,7847),(7849,7849),(7851,7851),(7853,7853),
    (7855,7855),(7857,7857),(7859,7859),(7861,7861),(7863,7863),(7865,7865),(7867,7867),
    (7869,7869),(7871,7871),(7873,7873),(7875,7875),(7877,7877),(7879,7879),(7881,7881),
    (7883,7883),(7885,7885),(7887,7887),(7889,7889),(7891,7891),(7893,7893),(7895,7895),
    (7897,7897),(7899,7899),(7901,7901),(7903,7903),(7905,7905),(7907,7907),(7909,7909),
    (7911,7911),(7913,7913),(7915,7915),(7917,7917),(7919,7919),(7921,7921),(7923,7923),
    (7925,7925),(7927,7927),(7929,7929),(7931,7931),(7933,7933),(7935,7943),(7952,7957),
    (7968,7975),(7984,7991),(8000,8005),(8017,8017),(8019,8019),(8021,8021),(8023,8023),
    (8032,8039),(8048,8061),(8064,8071),(8080,8087),(8096,8103),(8112,8113),(8115,8115),
    (8131,8131),(8144,8145),(8160,8161),(8165,8165),(8179,8179),(8526,8526),(8560,8575),
    (8580,8580),(9424,9449),(11312,11359),(11361,11361),(11365,11366),(11368,11368),
    (11370,11370),(11372,11372),(11379,11379),(11382,11382),(11393,11393),(11395,11395),
    (11397,11397),(11399,11399),(11401,11401),(11403,11403),(11405,11405),(11407,11407),
    (11409,11409),(11411,11411),(11413,11413),(11415,11415),(11417,11417),(11419,11419),
    (11421,11421),(11423,11423),(11425,11425),(11427,11427),(11429,11429),(11431,11431),
    (11433,11433),(11435,11435),(11437,11437),(11439,11439),(11441,11441),(11443,11443),
    (11445,11445),(11447,11447),(11449,11449),(11451,11451),(11453,11453),(11455,11455),
    (11457,11457),(11459,11459),(11461,11461),(11463,11463),(11465,11465),(11467,11467),
    (11469,11469),(11471,11471),(11473,11473),(11475,11475),(11477,11477),(11479,11479),
    (11481,11481),(11483,11483),(11485,11485),(11487,11487),(11489,11489),(11491,11491),
    (11500,11500),(11502,11502),(11507,11507),(11520,11557),(11559,11559),(11565,11565),
    (42561,42561),(42563,42563),(42565,42565),(42567,42567),(42569,42569),(42571,42571),
    (42573,42573),(42575,42575),(42577,42577),(42579,42579),(42581,42581),(42583,42583),
    (42585,42585),(42587,42587),(42589,42589),(42591,42591),(42593,42593),(42595,42595),
    (42597,42597),(42599,42599),(42601,42601),(42603,42603),(42605,42605),(42625,42625),
    (42627,42627),(42629,42629),(42631,42631),(42633,42633),(42635,42635),(42637,42637),
    (42639,42639),(42641,42641),(42643,42643),(42645,42645),(42647,42647),(42649,42649),
    (42651,42651),(42787,42787),(42789,42789),(42791,42791),(42793,42793),(42795,42795),
    (42797,42797),(42799,42799),(42803,42803),(42805,42805),(42807,42807),(42809,42809),
    (42811,42811),(42813,42813),(42815,42815),(42817,42817),(42819,42819),(42821,42821),
    (42823,42823),(42825,42825),(42827,42827),(42829,42829),(42831,42831),(42833,42833),
    (42835,42835),(42837,42837),(42839,42839),(42841,42841),(42843,42843),(42845,42845),
    (42847,42847),(42849,42849),(42851,42851),(42853,42853),(42855,42855),(42857,42857),
    (42859,42859),(42861,42861),(42863,42863),(42874,42874),(42876,42876),(42879,42879),
    (42881,42881),(42883,42883),(42885,42885),(42887,42887),(42892,42892),(42897,42897),
    (42899,42900),(42903,42903),(42905,42905),(42907,42907),(42909,42909),(42911,42911),
    (42913,42913),(42915,42915),(42917,42917),(42919,42919),(42921,42921),(42933,42933),
    (42935,42935),(42937,42937),(42939,42939),(42941,42941),(42943,42943),(42945,42945),
    (42947,42947),(42952,42952),(42954,42954),(42961,42961),(42967,42967),(42969,42969),
    (42998,42998),(43859,43859),(43888,43967),(65345,65370),(66600,66639),(66776,66811),
    (66967,66977),(66979,66993),(66995,67001),(67003,67004),(68800,68850),(71872,71903),
    (93792,93823),(125218,125251)
  ]"

end
