(* ===== verification/Go_Strings.thy ===== *)
theory Go_Strings
  imports Unicode_Tables
begin

text \<open>
  The functions of the Go standard library on strings that the program calls, on byte strings:
  UTF-8 decoding (what \<open>range\<close> over a string does) and encoding (\<open>WriteRune\<close>), \<open>unicode.IsLetter\<close>,
  \<open>IsDigit\<close>, \<open>IsSpace\<close>, \<open>ToLower\<close>, \<open>strings.TrimSpace\<close>, \<open>Trim\<close>, \<open>TrimRight\<close>, \<open>TrimLeft\<close>, \<open>ToLower\<close>,
  \<open>Split\<close>, \<open>Join\<close>, \<open>HasPrefix\<close>, \<open>Contains\<close>, and the verbs \<open>%d\<close>, \<open>%08x\<close> and \<open>%q\<close> of \<open>fmt.Sprintf\<close>.
  The lemmas reduce each of them to plain list functions on ASCII strings.
\<close>

type_synonym rune = nat

abbreviation byte :: "char \<Rightarrow> nat" where "byte c \<equiv> of_char c"

abbreviation chr :: "nat \<Rightarrow> char" where "chr n \<equiv> char_of n"

lemma byte_less: "byte c < 256"
  using of_char_mod_256 [of c] by (metis mod_less_divisor zero_less_numeral)

lemma byte_chr: "n < 256 \<Longrightarrow> byte (chr n) = n"
  by simp

section \<open>UTF-8\<close>

definition RuneError :: rune where "RuneError = 65533"

definition in_byte :: "nat \<Rightarrow> nat \<Rightarrow> char \<Rightarrow> bool" where
  "in_byte lo hi c = (lo \<le> byte c \<and> byte c \<le> hi)"

text \<open>
  \<open>utf8.DecodeRuneInString\<close>: given the first byte and the bytes after it, the rune and how many of
  those bytes it takes. An ill-formed sequence is \<open>RuneError\<close> of width one.
\<close>

definition decode_tail :: "nat \<Rightarrow> string \<Rightarrow> rune \<times> nat" where
  "decode_tail b0 bs =
     (if b0 < 128 then (b0, 0)
      else if 194 \<le> b0 \<and> b0 \<le> 223 then
        (case bs of
           c1 # _ \<Rightarrow> if in_byte 128 191 c1 then ((b0 - 192) * 64 + (byte c1 - 128), 1) else (RuneError, 0)
         | _ \<Rightarrow> (RuneError, 0))
      else if 224 \<le> b0 \<and> b0 \<le> 239 then
        (case bs of
           c1 # c2 # _ \<Rightarrow>
             if in_byte (if b0 = 224 then 160 else 128) (if b0 = 237 then 159 else 191) c1 \<and> in_byte 128 191 c2
             then ((b0 - 224) * 4096 + (byte c1 - 128) * 64 + (byte c2 - 128), 2) else (RuneError, 0)
         | _ \<Rightarrow> (RuneError, 0))
      else if 240 \<le> b0 \<and> b0 \<le> 244 then
        (case bs of
           c1 # c2 # c3 # _ \<Rightarrow>
             if in_byte (if b0 = 240 then 144 else 128) (if b0 = 244 then 143 else 191) c1
                \<and> in_byte 128 191 c2 \<and> in_byte 128 191 c3
             then ((b0 - 240) * 262144 + (byte c1 - 128) * 4096 + (byte c2 - 128) * 64 + (byte c3 - 128), 3)
             else (RuneError, 0)
         | _ \<Rightarrow> (RuneError, 0))
      else (RuneError, 0))"

text \<open>The string cut into runes, each with the bytes it came from: the iteration of \<open>range\<close>.\<close>

function utf8_segments :: "string \<Rightarrow> (rune \<times> string) list" where
  "utf8_segments [] = []"
| "utf8_segments (b # bs) =
     (let d = decode_tail (byte b) bs
      in (fst d, b # take (snd d) bs) # utf8_segments (drop (snd d) bs))"
  by pat_completeness auto
termination
  by (relation "measure length") (auto simp: less_Suc_eq_le)

definition runes :: "string \<Rightarrow> rune list" where
  "runes s = map fst (utf8_segments s)"

text \<open>\<open>utf8.AppendRune\<close>: surrogates and values beyond the last code point are written as \<open>RuneError\<close>.\<close>

definition valid_rune :: "rune \<Rightarrow> bool" where
  "valid_rune r = (r < 55296 \<or> 57343 < r \<and> r < 1114112)"

definition encode_valid :: "rune \<Rightarrow> string" where
  "encode_valid r =
     (if r < 128 then [chr r]
      else if r < 2048 then [chr (192 + r div 64), chr (128 + r mod 64)]
      else if r < 65536 then [chr (224 + r div 4096), chr (128 + r div 64 mod 64), chr (128 + r mod 64)]
      else [chr (240 + r div 262144), chr (128 + r div 4096 mod 64), chr (128 + r div 64 mod 64),
            chr (128 + r mod 64)])"

definition encode_rune :: "rune \<Rightarrow> string" where
  "encode_rune r = encode_valid (if valid_rune r then r else RuneError)"

definition encode_runes :: "rune list \<Rightarrow> string" where
  "encode_runes rs = concat (map encode_rune rs)"

lemma utf8_segments_bytes: "concat (map snd (utf8_segments s)) = s"
  by (induction s rule: utf8_segments.induct) (auto simp: Let_def)

lemma encode_rune_Cons: "\<exists>b bs. encode_rune r = b # bs"
  by (simp add: encode_rune_def encode_valid_def)

lemma encode_rune_ascii [simp]: "r < 128 \<Longrightarrow> encode_rune r = [chr r]"
  by (simp add: encode_rune_def encode_valid_def valid_rune_def)

lemma encode_rune_high:
  assumes "128 \<le> r" shows "\<forall>c \<in> set (encode_rune r). 128 \<le> byte c"
proof -
  have "128 \<le> (if valid_rune r then r else RuneError)" "(if valid_rune r then r else RuneError) < 1114112"
    using assms by (auto simp: valid_rune_def RuneError_def)
  then show ?thesis
    by (auto simp: encode_rune_def encode_valid_def less_mult_imp_div_less)
qed

section \<open>Character classes\<close>

definition IsLetter :: "rune \<Rightarrow> bool" where
  "IsLetter r = (if r < 128 then 65 \<le> r \<and> r \<le> 90 \<or> 97 \<le> r \<and> r \<le> 122 else in_ranges letter_ranges r)"

definition IsDigit :: "rune \<Rightarrow> bool" where
  "IsDigit r = (if r < 128 then 48 \<le> r \<and> r \<le> 57 else in_ranges digit_ranges r)"

definition IsSpace :: "rune \<Rightarrow> bool" where
  "IsSpace r = (9 \<le> r \<and> r \<le> 13 \<or> r = 32 \<or> r = 133 \<or> r = 160 \<or> r = 5760 \<or> 8192 \<le> r \<and> r \<le> 8202
     \<or> r = 8232 \<or> r = 8233 \<or> r = 8239 \<or> r = 8287 \<or> r = 12288)"

definition IsPrint :: "rune \<Rightarrow> bool" where
  "IsPrint r = (if r < 128 then 32 \<le> r \<and> r < 127 else in_ranges print_ranges r)"

definition rune_lower :: "rune \<Rightarrow> rune" where
  "rune_lower r = (if r < 128 then (if 65 \<le> r \<and> r \<le> 90 then r + 32 else r) else lower_lookup lower_table r)"

section \<open>Package strings\<close>

definition strings_ToLower :: "string \<Rightarrow> string" where
  "strings_ToLower s = encode_runes (map rune_lower (runes s))"

definition strings_TrimSpace :: "string \<Rightarrow> string" where
  "strings_TrimSpace s = concat (map snd (trim_both (\<lambda>(r, _). IsSpace r) (utf8_segments s)))"

definition strings_Trim :: "string \<Rightarrow> char \<Rightarrow> string" where
  "strings_Trim s c = trim_both (\<lambda>x. x = c) s"

definition strings_TrimRight :: "string \<Rightarrow> char \<Rightarrow> string" where
  "strings_TrimRight s c = trim_right (\<lambda>x. x = c) s"

definition strings_TrimLeft :: "string \<Rightarrow> char \<Rightarrow> string" where
  "strings_TrimLeft s c = dropWhile (\<lambda>x. x = c) s"

definition strings_HasPrefix :: "string \<Rightarrow> string \<Rightarrow> bool" where
  "strings_HasPrefix s p = (take (length p) s = p)"

fun strings_Contains :: "string \<Rightarrow> string \<Rightarrow> bool" where
  "strings_Contains [] p = (p = [])"
| "strings_Contains (c # cs) p = (strings_HasPrefix (c # cs) p \<or> strings_Contains cs p)"

text \<open>\<open>strings.Split\<close> and \<open>strings.Join\<close> for a separator of one byte.\<close>

fun strings_Split :: "string \<Rightarrow> char \<Rightarrow> string list" where
  "strings_Split [] c = [[]]"
| "strings_Split (x # xs) c =
     (if x = c then [] # strings_Split xs c
      else case strings_Split xs c of [] \<Rightarrow> [[x]] | p # ps \<Rightarrow> (x # p) # ps)"

fun strings_Join :: "string list \<Rightarrow> string \<Rightarrow> string" where
  "strings_Join [] sep = ''''"
| "strings_Join [x] sep = x"
| "strings_Join (x # y # ys) sep = x @ sep @ strings_Join (y # ys) sep"

lemma strings_Split_nonempty [simp]: "strings_Split s c \<noteq> []"
  by (induction s c rule: strings_Split.induct) (auto split: list.splits)

lemma strings_Join_Cons: "ys \<noteq> [] \<Longrightarrow> strings_Join (x # ys) sep = x @ sep @ strings_Join ys sep"
  by (cases ys) auto

lemma strings_Join_Split: "strings_Join (strings_Split s c) [c] = s"
proof (induction s)
  case (Cons x xs)
  obtain p ps where ps: "strings_Split xs c = p # ps"
    by (cases "strings_Split xs c") auto
  with Cons show ?case by (cases ps) (auto simp: strings_Join_Cons)
qed simp

section \<open>Formatting\<close>

function fmt_nat_base :: "nat \<Rightarrow> nat \<Rightarrow> string" where
  "fmt_nat_base b n =
     (let c = (if n mod b < 10 then chr (48 + n mod b) else chr (87 + n mod b))
      in if b < 2 \<or> n < b then [c] else fmt_nat_base b (n div b) @ [c])"
  by pat_completeness auto
termination
  by (relation "measure snd") (auto intro: div_less_dividend)

declare fmt_nat_base.simps [simp del]

text \<open>\<open>%d\<close> of a natural number, and \<open>%0wx\<close>: hexadecimal, padded with zeros to width \<open>w\<close>.\<close>

definition fmt_d :: "nat \<Rightarrow> string" where
  "fmt_d n = fmt_nat_base 10 n"

definition fmt_hex :: "nat \<Rightarrow> nat \<Rightarrow> string" where
  "fmt_hex w n = (let s = fmt_nat_base 16 n in replicate (w - length s) (CHR ''0'') @ s)"

text \<open>\<open>%q\<close>: \<open>strconv.Quote\<close>.\<close>

definition quote_rune :: "rune \<times> string \<Rightarrow> string" where
  "quote_rune seg =
     (case seg of (r, bs) \<Rightarrow>
       if r = RuneError \<and> length bs = 1 then [chr 92, CHR ''x''] @ fmt_hex 2 (byte (hd bs))
       else if r = 34 \<or> r = 92 then [chr 92, chr r]
       else if IsPrint r then encode_rune r
       else if r = 7 then [chr 92, CHR ''a'']
       else if r = 8 then [chr 92, CHR ''b'']
       else if r = 12 then [chr 92, CHR ''f'']
       else if r = 10 then [chr 92, CHR ''n'']
       else if r = 13 then [chr 92, CHR ''r'']
       else if r = 9 then [chr 92, CHR ''t'']
       else if r = 11 then [chr 92, CHR ''v'']
       else if r < 32 \<or> r = 127 then [chr 92, CHR ''x''] @ fmt_hex 2 r
       else if r < 65536 then [chr 92, CHR ''u''] @ fmt_hex 4 r
       else [chr 92, CHR ''U''] @ fmt_hex 8 r)"

definition fmt_q :: "string \<Rightarrow> string" where
  "fmt_q s = [chr 34] @ concat (map quote_rune (utf8_segments s)) @ [chr 34]"

section \<open>ASCII strings\<close>

definition is_ascii :: "string \<Rightarrow> bool" where
  "is_ascii s = list_all (\<lambda>c. byte c < 128) s"

lemma is_ascii_simps [simp]:
  "is_ascii []"
  "is_ascii (c # s) \<longleftrightarrow> byte c < 128 \<and> is_ascii s"
  "is_ascii (s @ t) \<longleftrightarrow> is_ascii s \<and> is_ascii t"
  by (auto simp: is_ascii_def)

lemma is_ascii_set: "is_ascii s \<longleftrightarrow> (\<forall>c \<in> set s. byte c < 128)"
  by (simp add: is_ascii_def list_all_iff)

lemma utf8_segments_ascii: "is_ascii s \<Longrightarrow> utf8_segments s = map (\<lambda>c. (byte c, [c])) s"
  by (induction s) (auto simp: decode_tail_def)

lemma runes_ascii: "is_ascii s \<Longrightarrow> runes s = map byte s"
  by (simp add: runes_def utf8_segments_ascii comp_def)

lemma rune_lower_ascii [simp]: "r < 128 \<Longrightarrow> rune_lower r < 128"
  by (simp add: rune_lower_def)

lemma rune_lower_ascii_mod [simp]: "r < 128 \<Longrightarrow> rune_lower r mod 256 = rune_lower r"
  by (simp add: rune_lower_def)

lemma ToLower_ascii:
  "is_ascii s \<Longrightarrow> strings_ToLower s = map (\<lambda>c. chr (rune_lower (byte c))) s"
  by (induction s) (simp_all add: strings_ToLower_def runes_ascii encode_runes_def rune_lower_ascii)

lemma TrimSpace_ascii:
  "is_ascii s \<Longrightarrow> strings_TrimSpace s = trim_both (\<lambda>c. IsSpace (byte c)) s"
  by (simp add: strings_TrimSpace_def utf8_segments_ascii trim_both_map comp_def)

lemma is_ascii_ToLower: "is_ascii s \<Longrightarrow> is_ascii (strings_ToLower s)"
  by (auto simp: ToLower_ascii is_ascii_set)

lemma is_ascii_TrimSpace: "is_ascii s \<Longrightarrow> is_ascii (strings_TrimSpace s)"
  using set_trim_both by (fastforce simp: TrimSpace_ascii is_ascii_set)

section \<open>Lengths of formatted numbers\<close>

lemma length_fmt_nat_base:
  "n < b ^ Suc k \<Longrightarrow> 2 \<le> b \<Longrightarrow> length (fmt_nat_base b n) \<le> Suc k"
proof (induction k arbitrary: n)
  case 0
  then show ?case by (subst fmt_nat_base.simps) (simp add: Let_def)
next
  case (Suc k)
  have "n div b < b ^ Suc k"
    using Suc.prems by (simp add: less_mult_imp_div_less mult.commute)
  with Suc have "length (fmt_nat_base b (n div b)) \<le> Suc k" by simp
  then show ?case by (subst fmt_nat_base.simps) (simp add: Let_def)
qed

lemma fmt_nat_base_nonempty: "fmt_nat_base b n \<noteq> []"
  by (subst fmt_nat_base.simps) (simp add: Let_def)

definition hex_char :: "char \<Rightarrow> bool" where
  "hex_char c = (48 \<le> byte c \<and> byte c \<le> 57 \<or> 97 \<le> byte c \<and> byte c \<le> 102)"

lemma hex_char_digit: "d < 16 \<Longrightarrow> hex_char (if d < 10 then chr (48 + d) else chr (87 + d))"
  by (auto simp: hex_char_def)

lemma fmt_nat_base_hex: "c \<in> set (fmt_nat_base 16 n) \<Longrightarrow> hex_char c"
proof (induction n rule: less_induct)
  case (less n)
  have d: "hex_char (if n mod 16 < 10 then chr (48 + n mod 16) else chr (87 + n mod 16))"
    by (rule hex_char_digit) simp
  show ?case
  proof (cases "n < 16")
    case True
    with less.prems d show ?thesis
      by (subst (asm) fmt_nat_base.simps) (auto simp: Let_def split: if_splits)
  next
    case False
    then have "n div 16 < n" by simp
    from less.prems False have "c \<in> set (fmt_nat_base 16 (n div 16)) \<or>
        c = (if n mod 16 < 10 then chr (48 + n mod 16) else chr (87 + n mod 16))"
      by (subst (asm) fmt_nat_base.simps) (auto simp: Let_def split: if_splits)
    with less.IH [OF \<open>n div 16 < n\<close>] d show ?thesis by auto
  qed
qed

lemma fmt_hex_chars: "c \<in> set (fmt_hex w n) \<Longrightarrow> hex_char c"
  by (auto simp: fmt_hex_def Let_def dest: fmt_nat_base_hex) (simp_all add: hex_char_def)

lemma fmt_hex_length: "n < 16 ^ Suc k \<Longrightarrow> length (fmt_hex (Suc k) n) = Suc k"
  using length_fmt_nat_base [of n 16 k] by (simp add: fmt_hex_def Let_def)

lemma fmt_hex_nonempty: "fmt_hex w n \<noteq> []"
  by (simp add: fmt_hex_def Let_def fmt_nat_base_nonempty)

end
