(* ===== verification/Api_Types.thy ===== *)
theory Api_Types
  imports Prelude
begin

text \<open>
  \<open>src/internal/api/v1alpha1/types.go\<close>: the custom resources TenantCluster, IsolationProfile, SyncPolicy and
  SyncDecision as records with the Go fields. \<open>metav1.ObjectMeta\<close> is a record of the fields the program reads
  or writes. Go's \<open>int\<close> is \<open>int\<close>: the program only compares these values and slices with them. A timestamp is
  the text it is serialised to. These are the values; sharing and the deep-copy methods are in \<open>Go_Store\<close> and \<open>Deep_Copy\<close>.
\<close>

section \<open>Object metadata\<close>

text \<open>An owner reference with the controller flag, as \<open>controllerutil.SetControllerReference\<close> adds it.\<close>

record OwnerReference =
  or_Kind :: string
  or_Name :: string

record ObjectMeta =
  om_Name :: string
  om_Namespace :: string
  om_Labels :: "strmap option"
  om_Annotations :: "strmap option"
  om_Finalizers :: "string list"
  om_DeletionTimestamp :: "string option"
  om_OwnerReferences :: "OwnerReference list"

definition object_meta :: "string \<Rightarrow> string \<Rightarrow> strmap option \<Rightarrow> ObjectMeta" where
  "object_meta name ns labels =
     \<lparr>om_Name = name, om_Namespace = ns, om_Labels = labels, om_Annotations = None, om_Finalizers = [],
      om_DeletionTimestamp = None, om_OwnerReferences = []\<rparr>"

text \<open>Reading a label of a possibly nil map.\<close>

definition label_at :: "ObjectMeta \<Rightarrow> string \<Rightarrow> string" where
  "label_at m k = (case om_Labels m of None \<Rightarrow> '''' | Some l \<Rightarrow> str_at l k)"

section \<open>TenantCluster\<close>

definition TenantModeShared :: string where "TenantModeShared = ''shared''"
definition TenantModeDedicated :: string where "TenantModeDedicated = ''dedicated''"
definition TenantModePrivate :: string where "TenantModePrivate = ''private''"

record LocalObjectReference =
  lor_Name :: string

record DatastoreSpec =
  ds_Type :: string

record StorageSpec =
  st_ClassName :: string
  st_Size :: string

record ExposeSpec =
  ex_LoadBalancer :: bool
  ex_Annotations :: "strmap option"

record ControlPlaneSpec =
  cp_Replicas :: int
  cp_Datastore :: DatastoreSpec
  cp_Storage :: StorageSpec
  cp_Expose :: ExposeSpec
  cp_ExtraTLSSANs :: "string list"

record TenantNetworkingSpec =
  nw_PodCIDR :: string
  nw_ServiceCIDR :: string
  nw_EgressPolicy :: string

record TenantMigrationSpec =
  mg_AllowModeChange :: bool

record TenantResourceRequests =
  rr_CPU :: string
  rr_Memory :: string

record TenantClusterSpec =
  tcs_Mode :: string
  tcs_KubernetesVersion :: string
  tcs_IsolationProfileRef :: LocalObjectReference
  tcs_SyncPolicyRef :: LocalObjectReference
  tcs_ControlPlane :: ControlPlaneSpec
  tcs_Networking :: TenantNetworkingSpec
  tcs_Migration :: TenantMigrationSpec
  tcs_Resources :: TenantResourceRequests

record Condition =
  c_Type :: string
  c_Status :: string
  c_Reason :: string
  c_Message :: string

record TenantClusterStatus =
  ts_Phase :: string
  ts_Endpoint :: string
  ts_ExternalEndpoint :: string
  ts_Conditions :: "Condition list"

record TenantCluster =
  tc_Meta :: ObjectMeta
  tc_Spec :: TenantClusterSpec
  tc_Status :: TenantClusterStatus

abbreviation tc_Name :: "TenantCluster \<Rightarrow> string" where "tc_Name tc \<equiv> om_Name (tc_Meta tc)"
abbreviation tc_Namespace :: "TenantCluster \<Rightarrow> string" where "tc_Namespace tc \<equiv> om_Namespace (tc_Meta tc)"

section \<open>IsolationProfile\<close>

record IsolationControls =
  ic_PodSecurity :: string
  ic_DefaultDenyNetworkPolicy :: bool
  ic_RequireResourceRequests :: bool
  ic_RuntimeClassName :: string
  ic_BlockHostPathVolumes :: bool
  ic_BlockPrivilegedContainers :: bool
  ic_APIFairness :: string

record IsolationProfileSpec =
  ips_Level :: string
  ips_Controls :: IsolationControls

record IsolationProfile =
  ip_Meta :: ObjectMeta
  ip_Spec :: IsolationProfileSpec

section \<open>SyncPolicy\<close>

record DriftDetectionSpec =
  dd_Enabled :: bool
  dd_Interval :: string

record ExplainSpec =
  xs_RecordDecisions :: bool
  xs_Retain :: int

record SyncedResource =
  sr_APIVersion :: string
  sr_Kind :: string
  sr_Direction :: string

record SyncPolicySpec =
  sps_ConflictPolicy :: string
  sps_DriftDetection :: DriftDetectionSpec
  sps_Explain :: ExplainSpec
  sps_Resources :: "SyncedResource list"

record SyncPolicy =
  sp_Meta :: ObjectMeta
  sp_Spec :: SyncPolicySpec

section \<open>SyncDecision\<close>

record ApiConvergedVersions =
  acv_TenantResourceVersion :: string
  acv_HostResourceVersion :: string

record SyncDecisionEntry =
  sde_Time :: string
  sde_Action :: string
  sde_Kind :: string
  sde_TenantNamespace :: string
  sde_TenantName :: string
  sde_HostNamespace :: string
  sde_HostName :: string
  sde_Reason :: string

record SyncDecisionStatus =
  sds_Entries :: "SyncDecisionEntry list"
  sds_LastConverged :: "(string, ApiConvergedVersions) fmap option"

record SyncDecision =
  sd_Meta :: ObjectMeta
  sd_Status :: SyncDecisionStatus

end
