(* ===== verification/Isolation.thy ===== *)
theory Isolation
  imports Go_Strings Api_Types
begin

text \<open>
  \<open>src/internal/isolation\<close>: the isolation profiles by level (\<open>profile.go\<close>) and the objects they require in the
  tenant's namespace (\<open>builders.go\<close>). \<open>k8s.io/apimachinery/pkg/api/resource\<close> is not code of this repository: its
  parser is the parameter \<open>parse\<close>, quantities the type \<open>'q\<close>. \<open>MustParse\<close> panics on text that does not parse, so a
  builder that calls it returns an option whose \<open>None\<close> is the panic. The built Kubernetes objects are
  records of the fields the builders set.
\<close>

section \<open>Profiles\<close>

record Profile =
  p_Level :: string
  p_PodSecurity :: string
  p_DefaultDenyNetworkPolicy :: bool
  p_RequireResourceRequests :: bool
  p_RuntimeClassName :: string
  p_BlockHostPathVolumes :: bool
  p_BlockPrivilegedContainers :: bool
  p_APIFairness :: string

definition ProfileForLevel :: "string \<Rightarrow> goerr + Profile" where
  "ProfileForLevel level =
     (if level = ''baseline'' then
        Inr \<lparr>p_Level = ''baseline'', p_PodSecurity = ''baseline'', p_DefaultDenyNetworkPolicy = False,
             p_RequireResourceRequests = True, p_RuntimeClassName = '''', p_BlockHostPathVolumes = False,
             p_BlockPrivilegedContainers = False, p_APIFairness = ''tenant''\<rparr>
      else if level = ''restricted'' then
        Inr \<lparr>p_Level = ''restricted'', p_PodSecurity = ''restricted'', p_DefaultDenyNetworkPolicy = True,
             p_RequireResourceRequests = True, p_RuntimeClassName = '''', p_BlockHostPathVolumes = True,
             p_BlockPrivilegedContainers = True, p_APIFairness = ''tenant''\<rparr>
      else if level = ''sandboxed'' then
        Inr \<lparr>p_Level = ''sandboxed'', p_PodSecurity = ''restricted'', p_DefaultDenyNetworkPolicy = True,
             p_RequireResourceRequests = True, p_RuntimeClassName = ''kata-qemu'', p_BlockHostPathVolumes = True,
             p_BlockPrivilegedContainers = True, p_APIFairness = ''tenant-strict''\<rparr>
      else Inl (errorf (''unknown isolation level '' @ fmt_q level)))"

section \<open>Builders\<close>

definition ExemptLabelKey :: string where "ExemptLabelKey = ''tenantplane.io/isolation-exempt''"
definition ExemptLabelValue :: string where "ExemptLabelValue = ''true''"
definition networkPolicyName :: string where "networkPolicyName = ''tenantplane-default-deny''"
definition resourceQuotaName :: string where "resourceQuotaName = ''tenantplane-quota''"
definition limitRangeName :: string where "limitRangeName = ''tenantplane-defaults''"

record LabelSelectorRequirement =
  lsr_Key :: string
  lsr_Operator :: string
  lsr_Values :: "string list"

record NetworkPolicy =
  np_Meta :: ObjectMeta
  np_PodSelector :: "LabelSelectorRequirement list"
  np_PolicyTypes :: "string list"

type_synonym 'q resource_list = "(string, 'q) fmap"

record 'q ResourceQuota =
  rq_Meta :: ObjectMeta
  rq_Hard :: "'q resource_list"

record 'q LimitRangeItem =
  lri_Type :: string
  lri_DefaultRequest :: "'q resource_list"
  lri_Default :: "'q resource_list"

record 'q LimitRange =
  lr_Meta :: ObjectMeta
  lr_Limits :: "'q LimitRangeItem list"

definition BuildNetworkPolicy :: "Profile \<Rightarrow> string \<Rightarrow> NetworkPolicy option" where
  "BuildNetworkPolicy profile namespace =
     (if \<not> p_DefaultDenyNetworkPolicy profile then None
      else Some \<lparr>np_Meta = object_meta networkPolicyName namespace None,
        np_PodSelector = [\<lparr>lsr_Key = ExemptLabelKey, lsr_Operator = ''NotIn'', lsr_Values = [ExemptLabelValue]\<rparr>],
        np_PolicyTypes = [''Ingress'', ''Egress'']\<rparr>)"

text \<open>The two guarded updates of \<open>hard\<close>: both keys get the parsed amount, nothing for an empty amount.\<close>

definition quota_step ::
    "(string \<Rightarrow> goerr + 'q) \<Rightarrow> string \<Rightarrow> string \<Rightarrow> string \<Rightarrow> 'q resource_list \<Rightarrow> goerr + 'q resource_list" where
  "quota_step parse amount requests limits hard =
     (if amount = '''' then Inr hard
      else case parse amount of
             Inl err \<Rightarrow> Inl err
           | Inr q \<Rightarrow> Inr (fmupd limits q (fmupd requests q hard)))"

definition BuildResourceQuota ::
    "(string \<Rightarrow> goerr + 'q) \<Rightarrow> Profile \<Rightarrow> string \<Rightarrow> string \<Rightarrow> string \<Rightarrow> goerr + 'q ResourceQuota option" where
  "BuildResourceQuota parse profile cpu memory namespace =
     (if \<not> p_RequireResourceRequests profile then Inr None
      else case quota_step parse cpu ''requests.cpu'' ''limits.cpu'' fmempty of
             Inl err \<Rightarrow> Inl err
           | Inr hard1 \<Rightarrow>
               (case quota_step parse memory ''requests.memory'' ''limits.memory'' hard1 of
                  Inl err \<Rightarrow> Inl err
                | Inr hard \<Rightarrow>
                    (if hard = fmempty then Inr None
                     else Inr (Some \<lparr>rq_Meta = object_meta resourceQuotaName namespace None, rq_Hard = hard\<rparr>))))"

definition MustParse :: "(string \<Rightarrow> goerr + 'q) \<Rightarrow> string \<Rightarrow> 'q option" where
  "MustParse parse s = (case parse s of Inl err \<Rightarrow> None | Inr q \<Rightarrow> Some q)"

definition must_parse_cpu_memory :: "(string \<Rightarrow> goerr + 'q) \<Rightarrow> string \<Rightarrow> string \<Rightarrow> 'q resource_list \<Rightarrow> 'q resource_list option" where
  "must_parse_cpu_memory parse cpu memory base =
     Option.bind (MustParse parse cpu) (\<lambda>c. Option.bind (MustParse parse memory) (\<lambda>m.
       Some (fmupd ''memory'' m (fmupd ''cpu'' c base))))"

definition BuildLimitRange :: "(string \<Rightarrow> goerr + 'q) \<Rightarrow> Profile \<Rightarrow> string \<Rightarrow> 'q LimitRange option option" where
  "BuildLimitRange parse profile namespace =
     (if \<not> p_RequireResourceRequests profile then Some None
      else
        Option.bind (must_parse_cpu_memory parse ''500m'' ''512Mi'' fmempty) (\<lambda>base.
        Option.bind (if p_Level profile = ''sandboxed'' then must_parse_cpu_memory parse ''250m'' ''256Mi'' base
                     else Some base) (\<lambda>defaultLimit.
        Option.bind (must_parse_cpu_memory parse ''100m'' ''128Mi'' fmempty) (\<lambda>defaultRequest.
          Some (Some \<lparr>lr_Meta = object_meta limitRangeName namespace None,
            lr_Limits = [\<lparr>lri_Type = ''Container'', lri_DefaultRequest = defaultRequest, lri_Default = defaultLimit\<rparr>]\<rparr>)))))"

definition PodSecurityLabels :: "Profile \<Rightarrow> strmap" where
  "PodSecurityLabels profile = fmap_of_list
     [(''pod-security.kubernetes.io/enforce'', p_PodSecurity profile),
      (''pod-security.kubernetes.io/audit'', p_PodSecurity profile),
      (''pod-security.kubernetes.io/warn'', p_PodSecurity profile)]"

section \<open>Profiles as custom resources\<close>

text \<open>\<open>profileFromCR\<close> of \<open>src/internal/controller/isolation_apply.go\<close>.\<close>

definition profileFromCR :: "IsolationProfile \<Rightarrow> Profile" where
  "profileFromCR cr =
     (let c = ips_Controls (ip_Spec cr)
      in \<lparr>p_Level = ips_Level (ip_Spec cr), p_PodSecurity = ic_PodSecurity c,
          p_DefaultDenyNetworkPolicy = ic_DefaultDenyNetworkPolicy c,
          p_RequireResourceRequests = ic_RequireResourceRequests c, p_RuntimeClassName = ic_RuntimeClassName c,
          p_BlockHostPathVolumes = ic_BlockHostPathVolumes c,
          p_BlockPrivilegedContainers = ic_BlockPrivilegedContainers c, p_APIFairness = ic_APIFairness c\<rparr>)"

end
