(* ===== verification/Syncplan_Plan.thy ===== *)
theory Syncplan_Plan
  imports Go_Strings "HOL-Library.Word"
begin

text \<open>
  \<open>src/internal/syncplan/plan.go\<close>: the deterministic mapping from a tenant object to its host name.
  The records \<open>ResourceRef\<close>, \<open>HostTarget\<close> and \<open>Plan\<close> are the Go structs; \<open>SanitizeName\<close>, \<open>fnv32\<close>,
  \<open>HostName\<close> and \<open>Explain\<close> are the Go functions of the same names. The lemmas show what the sanitiser
  guarantees on every byte string and on ASCII input, the length and shape of host names, and when
  distinct sources get distinct names.
\<close>

unbundle bit_operations_syntax

section \<open>Data\<close>

definition maxDNSLabelLength :: nat where "maxDNSLabelLength = 63"

record ResourceRef =
  ref_TenantCluster :: string
  ref_TenantNamespace :: string
  ref_VirtualNamespace :: string
  ref_Kind :: string
  ref_Name :: string

record HostTarget =
  ht_Namespace :: string
  ht_Name :: string

record Plan =
  plan_Input :: ResourceRef
  plan_Host :: HostTarget
  plan_Reason :: string

section \<open>Sanitising and hashing\<close>

text \<open>The loop of \<open>SanitizeName\<close> over the runes, with the flag \<open>lastDash\<close>; the result is what it writes.\<close>

fun sanitize_loop :: "rune list \<Rightarrow> bool \<Rightarrow> string" where
  "sanitize_loop [] lastDash = []"
| "sanitize_loop (r # rs) lastDash =
     (if \<not> (IsLetter r \<or> IsDigit r \<or> r = 45) then
        (if \<not> lastDash then CHR ''-'' # sanitize_loop rs True else sanitize_loop rs lastDash)
      else if r = 45 then
        (if lastDash then sanitize_loop rs lastDash else encode_rune r @ sanitize_loop rs True)
      else encode_rune r @ sanitize_loop rs False)"

definition SanitizeName :: "string \<Rightarrow> string" where
  "SanitizeName value0 =
     (let value = strings_ToLower (strings_TrimSpace value0);
          out = strings_Trim (sanitize_loop (runes value) False) (CHR ''-'')
      in if out = '''' then ''x'' else out)"

definition fnv32_hash :: "string \<Rightarrow> 32 word" where
  "fnv32_hash value = foldl (\<lambda>hash c. (hash XOR word_of_nat (byte c)) * 16777619) 2166136261 value"

definition fnv32 :: "string \<Rightarrow> string" where
  "fnv32 value = fmt_hex 8 (unat (fnv32_hash value))"

definition host_base :: "string \<Rightarrow> string \<Rightarrow> string \<Rightarrow> string" where
  "host_base resourceName virtualNamespace tenantCluster =
     resourceName @ ''-x-'' @ virtualNamespace @ ''-x-'' @ tenantCluster"

definition HostName :: "string \<Rightarrow> string \<Rightarrow> string \<Rightarrow> string" where
  "HostName resourceName virtualNamespace tenantCluster =
     (let safe = SanitizeName (host_base resourceName virtualNamespace tenantCluster)
      in if length safe \<le> maxDNSLabelLength then safe
         else let hash = fnv32 safe;
                  prefixLimit = maxDNSLabelLength - length hash - 1
              in strings_TrimRight (take prefixLimit safe) (CHR ''-'') @ ''-'' @ hash)"

section \<open>Explain\<close>

definition plan_reason :: string where
  "plan_reason = ''tenantplane uses a stable name made from resource, virtual namespace, and tenant cluster; labels preserve the reverse mapping.''"

definition Explain :: "ResourceRef \<Rightarrow> goerr + Plan" where
  "Explain ref =
     (if ref_TenantCluster ref = '''' then Inl (errorf ''tenant cluster is required'')
      else if ref_TenantNamespace ref = '''' then Inl (errorf ''tenant namespace is required'')
      else if ref_VirtualNamespace ref = '''' then Inl (errorf ''virtual namespace is required'')
      else if ref_Kind ref = '''' then Inl (errorf ''kind is required'')
      else if ref_Name ref = '''' then Inl (errorf ''name is required'')
      else
        let hostName = HostName (ref_Name ref) (ref_VirtualNamespace ref) (ref_TenantCluster ref)
        in Inr \<lparr>plan_Input = ref,
                plan_Host = \<lparr>ht_Namespace = SanitizeName (ref_TenantNamespace ref), ht_Name = hostName\<rparr>,
                plan_Reason = plan_reason\<rparr>)"

section \<open>When Explain succeeds\<close>

definition complete_ref :: "ResourceRef \<Rightarrow> bool" where
  "complete_ref ref =
     ('''' \<notin> {ref_TenantCluster ref, ref_TenantNamespace ref, ref_VirtualNamespace ref, ref_Kind ref, ref_Name ref})"

definition plan_of :: "ResourceRef \<Rightarrow> Plan" where
  "plan_of ref =
     \<lparr>plan_Input = ref,
      plan_Host = \<lparr>ht_Namespace = SanitizeName (ref_TenantNamespace ref),
                   ht_Name = HostName (ref_Name ref) (ref_VirtualNamespace ref) (ref_TenantCluster ref)\<rparr>,
      plan_Reason = plan_reason\<rparr>"

lemma Explain_complete: "complete_ref ref \<Longrightarrow> Explain ref = Inr (plan_of ref)"
  by (auto simp: Explain_def complete_ref_def plan_of_def)

lemma Explain_incomplete: "\<not> complete_ref ref \<Longrightarrow> \<exists>msg. Explain ref = Inl (errorf msg)"
  by (auto simp: Explain_def complete_ref_def)

lemma Explain_Inr_iff: "Explain ref = Inr p \<longleftrightarrow> complete_ref ref \<and> p = plan_of ref"
  by (cases "complete_ref ref") (auto simp: Explain_complete dest: Explain_incomplete)

section \<open>The shape of sanitised names\<close>

text \<open>No two dashes in a row, and the characters of a DNS-1123 label.\<close>

fun no_double_dash :: "string \<Rightarrow> bool" where
  "no_double_dash (a # b # s) = (\<not> (a = CHR ''-'' \<and> b = CHR ''-'') \<and> no_double_dash (b # s))"
| "no_double_dash _ = True"

definition dns_char :: "char \<Rightarrow> bool" where
  "dns_char c = (97 \<le> byte c \<and> byte c \<le> 122 \<or> 48 \<le> byte c \<and> byte c \<le> 57 \<or> c = CHR ''-'')"

definition inner_dashes :: "string \<Rightarrow> bool" where
  "inner_dashes s = (s \<noteq> '''' \<and> hd s \<noteq> CHR ''-'' \<and> last s \<noteq> CHR ''-'')"

definition dns_safe :: "string \<Rightarrow> bool" where
  "dns_safe s = (inner_dashes s \<and> no_double_dash s \<and> list_all dns_char s)"

definition dns1123_label :: "string \<Rightarrow> bool" where
  "dns1123_label s = (inner_dashes s \<and> length s \<le> 63 \<and> list_all dns_char s)"

lemma no_double_dash_Cons:
  "no_double_dash (a # s) \<longleftrightarrow> no_double_dash s \<and> \<not> (a = CHR ''-'' \<and> s \<noteq> [] \<and> hd s = CHR ''-'')"
  by (cases s) auto

lemma no_double_dash_append:
  "no_double_dash (s @ t) \<longleftrightarrow> no_double_dash s \<and> no_double_dash t \<and>
     \<not> (s \<noteq> [] \<and> t \<noteq> [] \<and> last s = CHR ''-'' \<and> hd t = CHR ''-'')"
  by (induction s) (auto simp: no_double_dash_Cons hd_append)

lemma no_double_dash_no_dash: "CHR ''-'' \<notin> set s \<Longrightarrow> no_double_dash s"
  by (induction s) (auto simp: no_double_dash_Cons)

lemma encode_rune_dash: "encode_rune 45 = ''-''"
  by (simp add: char_of_eq_iff)

lemma chr_eq_dash: "chr r = CHR ''-'' \<longleftrightarrow> r mod 256 = 45" "CHR ''-'' = chr r \<longleftrightarrow> r mod 256 = 45"
  by (auto simp: char_of_eq_iff take_bit_eq_mod eq_commute [of "CHR ''-''"])

lemma encode_rune_no_dash: "r \<noteq> 45 \<Longrightarrow> CHR ''-'' \<notin> set (encode_rune r)"
proof (cases "r < 128")
  case True
  assume "r \<noteq> 45"
  with True show ?thesis by (simp add: chr_eq_dash)
next
  case False
  then have "\<forall>c \<in> set (encode_rune r). 128 \<le> byte c" by (intro encode_rune_high) simp
  then show ?thesis by fastforce
qed

lemma encode_rune_parts:
  assumes "r \<noteq> 45"
  shows "encode_rune r \<noteq> []" "hd (encode_rune r) \<noteq> CHR ''-''" "last (encode_rune r) \<noteq> CHR ''-''"
    and "no_double_dash (encode_rune r)"
proof -
  have dash: "CHR ''-'' \<notin> set (encode_rune r)" using assms by (rule encode_rune_no_dash)
  show ne: "encode_rune r \<noteq> []" using encode_rune_Cons [of r] by auto
  show "hd (encode_rune r) \<noteq> CHR ''-''" using dash hd_in_set [OF ne] by metis
  show "last (encode_rune r) \<noteq> CHR ''-''" using dash last_in_set [OF ne] by metis
  show "no_double_dash (encode_rune r)" using dash by (rule no_double_dash_no_dash)
qed

lemma sanitize_loop_shape:
  "no_double_dash (sanitize_loop rs lastDash) \<and>
   (lastDash \<longrightarrow> sanitize_loop rs lastDash = [] \<or> hd (sanitize_loop rs lastDash) \<noteq> CHR ''-'')"
proof (induction rs arbitrary: lastDash)
  case (Cons r rs)
  show ?case
    using Cons [of True] Cons [of False] Cons [of lastDash] encode_rune_parts [of r]
    by (cases "r = 45") (auto simp: no_double_dash_append no_double_dash_Cons encode_rune_dash)
qed simp

lemma no_double_dash_Trim: "no_double_dash s \<Longrightarrow> no_double_dash (strings_Trim s c)"
  unfolding strings_Trim_def by (metis no_double_dash_append trim_both_sublist)

lemma SanitizeName_shape: "inner_dashes (SanitizeName v) \<and> no_double_dash (SanitizeName v)"
proof -
  let ?l = "sanitize_loop (runes (strings_ToLower (strings_TrimSpace v))) False"
  have "no_double_dash (strings_Trim ?l (CHR ''-''))"
    using sanitize_loop_shape by (intro no_double_dash_Trim) simp
  then show ?thesis
    using trim_both_hd [of "\<lambda>x. x = CHR ''-''" ?l] trim_both_last [of "\<lambda>x. x = CHR ''-''" ?l]
    by (auto simp: SanitizeName_def Let_def inner_dashes_def strings_Trim_def)
qed

section \<open>Sanitising ASCII strings\<close>

text \<open>An ASCII character \<open>strings.ToLower\<close> may have produced.\<close>

definition lowered_char :: "char \<Rightarrow> bool" where
  "lowered_char c = (byte c < 128 \<and> \<not> (65 \<le> byte c \<and> byte c \<le> 90))"

lemma lowered_chr: "byte c < 128 \<Longrightarrow> lowered_char (chr (rune_lower (byte c)))"
  by (auto simp: lowered_char_def rune_lower_def)

lemma byte_dash: "byte c = 45 \<longleftrightarrow> c = CHR ''-''"
proof
  assume "byte c = 45"
  then have "c = chr 45" by (metis char_of_char)
  then show "c = CHR ''-''" by (simp add: chr_eq_dash)
qed simp

lemma sanitize_loop_dns:
  "list_all lowered_char s \<Longrightarrow> list_all dns_char (sanitize_loop (map byte s) lastDash)"
proof (induction s arbitrary: lastDash)
  case (Cons c s)
  then show ?case
    by (auto simp: IsLetter_def IsDigit_def lowered_char_def dns_char_def byte_dash chr_eq_dash)
qed simp

lemma dns_char_byte: "dns_char c \<Longrightarrow> byte c < 128"
  by (auto simp: dns_char_def)

lemma dns_char_lowered: "dns_char c \<Longrightarrow> lowered_char c"
  by (auto simp: dns_char_def lowered_char_def)

lemma dns_char_class: "dns_char c \<Longrightarrow> IsLetter (byte c) \<or> IsDigit (byte c) \<or> byte c = 45"
  by (auto simp: dns_char_def IsLetter_def IsDigit_def)

lemma sanitize_loop_id:
  "list_all dns_char s \<Longrightarrow> no_double_dash s \<Longrightarrow> (lastDash \<longrightarrow> s = [] \<or> hd s \<noteq> CHR ''-'') \<Longrightarrow>
   sanitize_loop (map byte s) lastDash = s"
proof (induction s arbitrary: lastDash)
  case (Cons c s)
  then have c: "IsLetter (byte c) \<or> IsDigit (byte c) \<or> byte c = 45" and "byte c < 128"
    by (simp_all add: dns_char_class dns_char_byte)
  with Cons show ?case by (auto simp: no_double_dash_Cons byte_dash chr_eq_dash)
qed simp

lemma SanitizeName_dns: "is_ascii v \<Longrightarrow> dns_safe (SanitizeName v)"
proof -
  assume "is_ascii v"
  then have asc: "is_ascii (strings_TrimSpace v)" by (rule is_ascii_TrimSpace)
  let ?s = "strings_ToLower (strings_TrimSpace v)"
  have "list_all lowered_char ?s"
    using asc by (auto simp: ToLower_ascii list_all_iff is_ascii_set lowered_chr)
  moreover have "runes ?s = map byte ?s"
    using asc by (intro runes_ascii is_ascii_ToLower)
  ultimately have "list_all dns_char (sanitize_loop (runes ?s) False)"
    by (simp add: sanitize_loop_dns)
  then have "list_all dns_char (strings_Trim (sanitize_loop (runes ?s) False) (CHR ''-''))"
    using set_trim_both by (fastforce simp: list_all_iff strings_Trim_def)
  then have "list_all dns_char (SanitizeName v)"
    by (auto simp: SanitizeName_def Let_def dns_char_def)
  with SanitizeName_shape show ?thesis by (simp add: dns_safe_def)
qed

lemma dns_safe_ascii: "dns_safe v \<Longrightarrow> is_ascii v"
  by (auto simp: dns_safe_def is_ascii_set list_all_iff dns_char_byte)

lemma SanitizeName_id: "dns_safe v \<Longrightarrow> SanitizeName v = v"
proof -
  assume safe: "dns_safe v"
  then have asc: "is_ascii v" by (rule dns_safe_ascii)
  have v: "v \<noteq> []" "hd v \<noteq> CHR ''-''" "last v \<noteq> CHR ''-''" "no_double_dash v"
    and chars: "\<forall>c \<in> set v. dns_char c"
    using safe by (auto simp: dns_safe_def inner_dashes_def list_all_iff)
  have space: "\<not> IsSpace (byte c)" and lower: "rune_lower (byte c) = byte c" if "c \<in> set v" for c
    using chars that by (auto simp: dns_char_def IsSpace_def rune_lower_def)
  have "strings_TrimSpace v = v"
    using v(1) by (simp add: TrimSpace_ascii asc trim_both_id space)
  moreover have "strings_ToLower v = v"
    using lower by (simp add: ToLower_ascii asc map_idI)
  moreover have "sanitize_loop (map byte v) False = v"
    using chars v(4) by (intro sanitize_loop_id) (auto simp: list_all_iff)
  moreover have "strings_Trim v (CHR ''-'') = v"
    using v by (simp add: strings_Trim_def trim_both_id)
  ultimately show ?thesis
    using v(1) by (simp add: SanitizeName_def runes_ascii asc)
qed

lemma SanitizeName_fixed_iff: "is_ascii v \<Longrightarrow> SanitizeName v = v \<longleftrightarrow> dns_safe v"
  by (metis SanitizeName_dns SanitizeName_id)

lemma SanitizeName_idem: "is_ascii v \<Longrightarrow> SanitizeName (SanitizeName v) = SanitizeName v"
  by (intro SanitizeName_id SanitizeName_dns)

section \<open>Host names\<close>

lemma fnv32_length: "length (fnv32 v) = 8"
proof -
  have "unat (fnv32_hash v) < 16 ^ Suc 7"
    using unsigned_less [of "fnv32_hash v"] by simp
  then show ?thesis unfolding fnv32_def using fmt_hex_length [of _ 7] by simp
qed

lemma fnv32_chars: "c \<in> set (fnv32 v) \<Longrightarrow> dns_char c \<and> c \<noteq> CHR ''-''"
  using fmt_hex_chars [of c 8 "unat (fnv32_hash v)"] byte_dash [of c]
  by (auto simp: fnv32_def hex_char_def dns_char_def)

text \<open>The three cases of a host name: the sanitised base itself, or a cut of it with its hash.\<close>

lemma HostName_short:
  "length (SanitizeName (host_base r n t)) \<le> 63 \<Longrightarrow> HostName r n t = SanitizeName (host_base r n t)"
  by (simp add: HostName_def maxDNSLabelLength_def)

lemma HostName_long:
  "63 < length (SanitizeName (host_base r n t)) \<Longrightarrow>
   HostName r n t = strings_TrimRight (take 54 (SanitizeName (host_base r n t))) (CHR ''-'')
      @ ''-'' @ fnv32 (SanitizeName (host_base r n t))"
  by (simp add: HostName_def maxDNSLabelLength_def fnv32_length Let_def)

lemma HostName_length: "length (HostName r n t) \<le> 63"
proof (cases "length (SanitizeName (host_base r n t)) \<le> 63")
  case False
  let ?p = "take 54 (SanitizeName (host_base r n t))"
  have "length (strings_TrimRight ?p (CHR ''-'')) \<le> 54"
    using length_trim_right [of "\<lambda>x. x = CHR ''-''" ?p] by (simp add: strings_TrimRight_def)
  with False show ?thesis by (simp add: HostName_long fnv32_length)
qed (simp add: HostName_short)

lemma HostName_cut:
  assumes "63 < length (SanitizeName (host_base r n t))"
  defines "p \<equiv> strings_TrimRight (take 54 (SanitizeName (host_base r n t))) (CHR ''-'')"
  shows "p \<noteq> []" "hd p = hd (SanitizeName (host_base r n t))"
    and "set p \<subseteq> set (SanitizeName (host_base r n t))"
proof -
  let ?s = "SanitizeName (host_base r n t)"
  have hd: "?s \<noteq> []" "hd ?s \<noteq> CHR ''-''"
    using SanitizeName_shape by (auto simp: inner_dashes_def)
  then have t: "hd (take 54 ?s) = hd ?s" "take 54 ?s \<noteq> []"
    by (cases ?s; simp)+
  then have "hd ?s \<in> set (take 54 ?s)" using hd_in_set by metis
  with hd show "p \<noteq> []"
    by (auto simp: p_def strings_TrimRight_def trim_right_Nil_iff)
  then show "hd p = hd ?s"
    using t by (simp add: p_def strings_TrimRight_def trim_right_hd)
  show "set p \<subseteq> set ?s"
    using set_trim_right set_take_subset by (fastforce simp: p_def strings_TrimRight_def)
qed

lemma HostName_inner_dashes: "inner_dashes (HostName r n t)"
proof (cases "length (SanitizeName (host_base r n t)) \<le> 63")
  case True
  then show ?thesis using SanitizeName_shape by (simp add: HostName_short)
next
  case False
  let ?h = "fnv32 (SanitizeName (host_base r n t))"
  have "?h \<noteq> []" using fnv32_length [of "SanitizeName (host_base r n t)"] by auto
  then have "last ?h \<noteq> CHR ''-''" using fnv32_chars last_in_set by metis
  then show ?thesis
    using False HostName_cut [of r n t] SanitizeName_shape [of "host_base r n t"] \<open>?h \<noteq> []\<close>
    by (simp add: HostName_long inner_dashes_def)
qed

lemma is_ascii_host_base:
  "is_ascii r \<Longrightarrow> is_ascii n \<Longrightarrow> is_ascii t \<Longrightarrow> is_ascii (host_base r n t)"
  by (simp add: host_base_def)

lemma HostName_label:
  assumes "is_ascii r" "is_ascii n" "is_ascii t"
  shows "dns1123_label (HostName r n t)"
proof -
  have safe: "\<forall>c \<in> set (SanitizeName (host_base r n t)). dns_char c"
    using SanitizeName_dns [OF is_ascii_host_base [OF assms]] by (simp add: dns_safe_def list_all_iff)
  have "\<forall>c \<in> set (HostName r n t). dns_char c"
  proof (cases "length (SanitizeName (host_base r n t)) \<le> 63")
    case True
    with safe show ?thesis by (simp add: HostName_short)
  next
    case False
    then show ?thesis
      using safe HostName_cut(3) [of r n t] fnv32_chars by (auto simp: HostName_long dns_char_def)
  qed
  then show ?thesis
    by (simp add: dns1123_label_def HostName_inner_dashes HostName_length list_all_iff)
qed

section \<open>When host names are distinct\<close>

text \<open>A name none of whose dash-separated tokens is the separator token \<open>x\<close>.\<close>

definition no_x_token :: "string \<Rightarrow> bool" where
  "no_x_token s = (''x'' \<notin> set (strings_Split s (CHR ''-'')))"

lemma Split_append: "strings_Split (s @ c # t) c = strings_Split s c @ strings_Split t c"
  by (induction s) (auto split: list.splits)

lemma Split_host_base:
  "strings_Split (host_base r n t) (CHR ''-'') =
   strings_Split r (CHR ''-'') @ ''x'' # strings_Split n (CHR ''-'') @ ''x'' # strings_Split t (CHR ''-'')"
proof -
  have "host_base r n t = r @ CHR ''-'' # (''x'' @ CHR ''-'' # (n @ CHR ''-'' # (''x'' @ CHR ''-'' # t)))"
    by (simp add: host_base_def)
  then show ?thesis by (simp only: Split_append) simp
qed

lemma append_sep_eq:
  "a @ x # b = a' @ x # b' \<Longrightarrow> x \<notin> set a \<Longrightarrow> x \<notin> set a' \<Longrightarrow> a = a' \<and> b = b'"
proof (induction a arbitrary: a')
  case Nil
  then show ?case by (cases a') auto
next
  case (Cons y a)
  then show ?case by (cases a') auto
qed

lemma Split_inj: "strings_Split s c = strings_Split t c \<Longrightarrow> s = t"
  by (metis strings_Join_Split)

lemma host_base_inj:
  assumes "host_base r n t = host_base r' n' t'"
    and "no_x_token r" "no_x_token n" "no_x_token r'" "no_x_token n'"
  shows "r = r' \<and> n = n' \<and> t = t'"
proof -
  have eq: "strings_Split (host_base r n t) (CHR ''-'') = strings_Split (host_base r' n' t') (CHR ''-'')"
    using assms(1) by simp
  have "strings_Split r (CHR ''-'') = strings_Split r' (CHR ''-'')"
    and rest: "strings_Split n (CHR ''-'') @ ''x'' # strings_Split t (CHR ''-'') =
               strings_Split n' (CHR ''-'') @ ''x'' # strings_Split t' (CHR ''-'')"
    using append_sep_eq [OF eq [unfolded Split_host_base]] assms(2-5) by (auto simp: no_x_token_def)
  moreover have "strings_Split n (CHR ''-'') = strings_Split n' (CHR ''-'')"
    and "strings_Split t (CHR ''-'') = strings_Split t' (CHR ''-'')"
    using append_sep_eq [OF rest] assms(2-5) by (auto simp: no_x_token_def)
  ultimately show ?thesis by (blast dest: Split_inj)
qed

lemma dns_safe_host_base:
  "dns_safe r \<Longrightarrow> dns_safe n \<Longrightarrow> dns_safe t \<Longrightarrow> dns_safe (host_base r n t)"
  by (auto simp: dns_safe_def inner_dashes_def host_base_def no_double_dash_append no_double_dash_Cons
      dns_char_def last_append)

lemma HostName_exact:
  assumes "dns_safe r" "dns_safe n" "dns_safe t" "length (host_base r n t) \<le> 63"
  shows "HostName r n t = host_base r n t"
  using assms by (simp add: HostName_short SanitizeName_id dns_safe_host_base)

text \<open>The rewrite rules that evaluate the mapping on a concrete ASCII name.\<close>

lemmas name_eval =
  SanitizeName_def Let_def ToLower_ascii TrimSpace_ascii is_ascii_ToLower is_ascii_TrimSpace runes_ascii
  trim_both_def IsSpace_def rune_lower_def strings_Trim_def char_of_eq_iff IsLetter_def IsDigit_def

lemmas host_name_eval = HostName_def host_base_def maxDNSLabelLength_def name_eval

section \<open>Properties\<close>

text \<open>Property C29 (host names fit). Whatever bytes the three parts hold, the host name is a non-empty string
  of at most 63 bytes that neither starts nor ends with a dash, and it is the sanitised base itself
  exactly when that fits.\<close>

theorem host_name_bounded:
  "length (HostName r n t) \<le> 63 \<and> inner_dashes (HostName r n t) \<and>
   (HostName r n t = SanitizeName (host_base r n t) \<longleftrightarrow> length (SanitizeName (host_base r n t)) \<le> 63)"
  using HostName_length [of r n t] HostName_inner_dashes [of r n t]
  by (auto simp: HostName_short)

text \<open>Property C30 (host names are DNS-1123 labels). For ASCII parts, the only ones the Kubernetes API admits, the
  host name is a DNS-1123 label: 1 to 63 characters of a-z, 0-9 and dash, alphanumeric at both ends. That
  covers the truncated and hashed names too.\<close>

theorem host_name_dns_label:
  assumes "is_ascii r" "is_ascii n" "is_ascii t"
  shows "dns1123_label (HostName r n t)"
  using assms by (rule HostName_label)

theorem host_name_dns_label_witness: "dns1123_label (HostName ''App_1'' ''default'' ''dev'')"
  by (rule host_name_dns_label) simp_all

text \<open>Sanitising is idempotent, and its fixed points: On ASCII input the sanitiser is idempotent,
  and the strings it leaves alone are exactly the non-empty strings of a-z, 0-9 and single inner dashes.\<close>

theorem sanitize_idempotent:
  assumes "is_ascii v"
  shows "SanitizeName (SanitizeName v) = SanitizeName v \<and> (SanitizeName v = v \<longleftrightarrow> dns_safe v)"
  using assms by (simp add: SanitizeName_idem SanitizeName_fixed_iff)

theorem sanitize_idempotent_witness:
  "SanitizeName (SanitizeName ''Team_A/Dev'') = SanitizeName ''Team_A/Dev'' \<and>
   (SanitizeName ''Team_A/Dev'' = ''Team_A/Dev'' \<longleftrightarrow> dns_safe ''Team_A/Dev'')"
  by (rule sanitize_idempotent) simp



text \<open>The mapping is not injective below 63 characters. The comment on \<open>HostName\<close> says it is. Two
  different tenant objects of one tenant, with DNS-safe names and short bases, get the same host name, because
  the separator can occur inside the parts.\<close>

theorem host_name_not_injective:
  "\<exists>r n r' n' t. (r, n) \<noteq> (r', n') \<and> list_all dns_safe [r, n, r', n', t] \<and>
     length (host_base r n t) \<le> 63 \<and> length (host_base r' n' t) \<le> 63 \<and> HostName r n t = HostName r' n' t"
proof (intro exI conjI)
  show "(''web'', ''a-x-b'') \<noteq> (''web-x-a'', ''b'')" by simp
  show "list_all dns_safe [''web'', ''a-x-b'', ''web-x-a'', ''b'', ''dev'']"
    by (simp add: dns_safe_def inner_dashes_def dns_char_def)
  show "length (host_base ''web'' ''a-x-b'' ''dev'') \<le> 63" "length (host_base ''web-x-a'' ''b'' ''dev'') \<le> 63"
    by (simp_all add: host_base_def)
  show "HostName ''web'' ''a-x-b'' ''dev'' = HostName ''web-x-a'' ''b'' ''dev''"
    by (simp add: HostName_def host_base_def)
qed

text \<open>Planning succeeds exactly on complete references. \<open>Explain\<close> returns a plan exactly when all
  five fields are non-empty; the plan keeps the reference and its target name is a bounded host name in the
  sanitised tenant namespace.\<close>

theorem explain_plan:
  "Explain ref = Inr p \<longleftrightarrow>
     '''' \<notin> {ref_TenantCluster ref, ref_TenantNamespace ref, ref_VirtualNamespace ref, ref_Kind ref, ref_Name ref}
     \<and> plan_Input p = ref \<and> plan_Reason p = plan_reason
     \<and> ht_Namespace (plan_Host p) = SanitizeName (ref_TenantNamespace ref)
     \<and> ht_Name (plan_Host p) = HostName (ref_Name ref) (ref_VirtualNamespace ref) (ref_TenantCluster ref)"
  unfolding Explain_Inr_iff complete_ref_def [symmetric] by (cases p, cases "plan_Host p") (auto simp: plan_of_def)

end
