(* ===== verification/Control_Plane.thy ===== *)
theory Control_Plane
  imports Isolation Syncplan_Plan
begin

text \<open>
  \<open>src/internal/controller/controlplane.go\<close>, the naming half of \<open>namespace.go\<close> and the kubeconfig rewriting of
  \<open>kubeconfig.go\<close>: the desired objects of a tenant's control plane. Quantities are parsed by the parameter
  \<open>parse\<close>; a builder that calls \<open>MustParse\<close> returns \<open>None\<close> for its panic. \<open>int32\<close> is a 32-bit word read with \<open>sint\<close>.
  Regular expressions are a data type with the leftmost-first semantics of Go's \<open>regexp\<close>, restricted to what
  the two patterns of the program use.
\<close>

section \<open>Regular expressions\<close>

datatype rx = RLit string | RAlt "rx list" | RSeq rx rx | ROpt rx | RDigits

text \<open>What is left of the text after a match at its start, in Go's order of preference.\<close>

definition ascii_digit :: "char \<Rightarrow> bool" where
  "ascii_digit c = (48 \<le> byte c \<and> byte c \<le> 57)"

fun rx_rests :: "rx \<Rightarrow> string \<Rightarrow> string list" where
  "rx_rests (RLit l) s = (if prefix l s then [drop (length l) s] else [])"
| "rx_rests (RAlt rs) s = concat (map (\<lambda>r. rx_rests r s) rs)"
| "rx_rests (RSeq a b) s = concat (map (rx_rests b) (rx_rests a s))"
| "rx_rests (ROpt a) s = rx_rests a s @ [s]"
| "rx_rests RDigits s = map (\<lambda>n. drop n s) (rev [1..<Suc (length (takeWhile ascii_digit s))])"

text \<open>A pattern anchored at both ends, and the text of its first group when the pattern is a group and a tail.\<close>

definition rx_full :: "rx \<Rightarrow> string \<Rightarrow> bool" where
  "rx_full r s = ('''' \<in> set (rx_rests r s))"

definition rx_group :: "rx \<Rightarrow> rx \<Rightarrow> string \<Rightarrow> string option" where
  "rx_group first tail s =
     map_option (\<lambda>rest. take (length s - length rest) s)
       (find (\<lambda>rest. rx_full tail rest) (rx_rests first s))"

section \<open>Kubernetes versions\<close>

definition defaultK3sImage :: string where "defaultK3sImage = ''rancher/k3s:v1.30.4-k3s1''"

definition minor_versions :: "string list" where
  "minor_versions = [''28'', ''29'', ''30'', ''31'', ''32'', ''33'']"

definition k3s_group :: rx where
  "k3s_group = RSeq (RLit ''v1.'') (RAlt (map RLit minor_versions))"

definition k3s_tail :: rx where
  "k3s_tail = ROpt (RSeq (RLit ''.'') RDigits)"

definition k3sImages :: strmap where
  "k3sImages = fmap_of_list
     [(''v1.28'', ''rancher/k3s:v1.28.13-k3s1''), (''v1.29'', ''rancher/k3s:v1.29.9-k3s1''),
      (''v1.30'', ''rancher/k3s:v1.30.6-k3s1''), (''v1.31'', ''rancher/k3s:v1.31.5-k3s1''),
      (''v1.32'', ''rancher/k3s:v1.32.3-k3s1''), (''v1.33'', ''rancher/k3s:v1.33.1-k3s1'')]"

definition k3sImageForVersion :: "string \<Rightarrow> string \<times> bool" where
  "k3sImageForVersion version =
     (case rx_group k3s_group k3s_tail version of
        None \<Rightarrow> ('''', False)
      | Some m1 \<Rightarrow>
          (case fmlookup k3sImages m1 of Some img \<Rightarrow> (img, True) | None \<Rightarrow> ('''', False)))"

section \<open>Names and labels\<close>

definition apiPort :: nat where "apiPort = 6443"

definition labelManagedBy :: string where "labelManagedBy = ''app.kubernetes.io/managed-by''"
definition labelTenant :: string where "labelTenant = ''tenantplane.io/tenant''"
definition labelTenantNamespace :: string where "labelTenantNamespace = ''tenantplane.io/tenant-namespace''"

lemmas label_defs = labelManagedBy_def labelTenant_def labelTenantNamespace_def

definition controlPlaneNamespace :: "TenantCluster \<Rightarrow> string" where
  "controlPlaneNamespace tc = HostName ''cp'' (tc_Name tc) (tc_Namespace tc)"

definition controlPlaneName :: "TenantCluster \<Rightarrow> string" where
  "controlPlaneName tc = tc_Name tc @ ''-control-plane''"

definition controlPlaneLabels :: "TenantCluster \<Rightarrow> strmap" where
  "controlPlaneLabels tc = fmap_of_list
     [(labelManagedBy, ''tenantplane''), (''app.kubernetes.io/name'', ''tenantplane-control-plane''),
      (labelTenant, tc_Name tc), (labelTenantNamespace, tc_Namespace tc), (ExemptLabelKey, ExemptLabelValue)]"

definition controlPlaneObjectMeta :: "TenantCluster \<Rightarrow> string \<Rightarrow> ObjectMeta" where
  "controlPlaneObjectMeta tc name = object_meta name (controlPlaneNamespace tc) (Some (controlPlaneLabels tc))"

definition controlPlaneServiceFQDN :: "TenantCluster \<Rightarrow> string" where
  "controlPlaneServiceFQDN tc = controlPlaneName tc @ ''.'' @ controlPlaneNamespace tc @ ''.svc''"

definition externalServiceName :: "TenantCluster \<Rightarrow> string" where
  "externalServiceName tc = controlPlaneName tc @ ''-external''"

definition controlPlanePodName :: "TenantCluster \<Rightarrow> string" where
  "controlPlanePodName tc = controlPlaneName tc @ ''-0''"

section \<open>Built objects\<close>

record Namespace =
  ns_Meta :: ObjectMeta

record ServicePort =
  svp_Name :: string
  svp_Port :: nat
  svp_TargetPort :: nat

record LoadBalancerIngress =
  lbi_Hostname :: string
  lbi_IP :: string

record Service =
  sv_Meta :: ObjectMeta
  sv_Type :: string
  sv_ClusterIP :: string
  sv_Selector :: "strmap option"
  sv_Ports :: "ServicePort list"
  sv_Ingress :: "LoadBalancerIngress list"

record Probe =
  pb_TCPPort :: nat
  pb_InitialDelaySeconds :: nat
  pb_PeriodSeconds :: nat

record 'q Container =
  ct_Name :: string
  ct_Image :: string
  ct_Command :: "string list"
  ct_Args :: "string list"
  ct_Ports :: "(string \<times> nat) list"
  ct_Requests :: "'q resource_list"
  ct_Limits :: "'q resource_list"
  ct_VolumeMounts :: "(string \<times> string) list"
  ct_SeccompProfile :: string
  ct_ReadinessProbe :: Probe
  ct_LivenessProbe :: Probe

record 'q VolumeClaim =
  vc_Name :: string
  vc_AccessModes :: "string list"
  vc_StorageClassName :: "string option"
  vc_Requests :: "'q resource_list"

record 'q PodTemplate =
  pt_Labels :: "strmap option"
  pt_Containers :: "'q Container list"

record 'q StatefulSet =
  ss_Meta :: ObjectMeta
  ss_ServiceName :: string
  ss_Replicas :: "32 word"
  ss_Selector :: strmap
  ss_Template :: "'q PodTemplate"
  ss_VolumeClaimTemplates :: "'q VolumeClaim list"
  ss_ReadyReplicas :: "32 word"

definition buildControlPlaneNamespace :: "TenantCluster \<Rightarrow> Namespace" where
  "buildControlPlaneNamespace tc =
     \<lparr>ns_Meta = object_meta (controlPlaneNamespace tc) '''' (Some (fmap_of_list
        [(labelManagedBy, ''tenantplane''), (labelTenant, tc_Name tc), (labelTenantNamespace, tc_Namespace tc),
         (''pod-security.kubernetes.io/enforce'', ''baseline''),
         (''pod-security.kubernetes.io/audit'', ''baseline''),
         (''pod-security.kubernetes.io/warn'', ''baseline'')]))\<rparr>"

definition api_service_port :: ServicePort where
  "api_service_port = \<lparr>svp_Name = ''https'', svp_Port = apiPort, svp_TargetPort = apiPort\<rparr>"

definition buildHeadlessService :: "TenantCluster \<Rightarrow> Service" where
  "buildHeadlessService tc =
     \<lparr>sv_Meta = object_meta (controlPlaneName tc) (controlPlaneNamespace tc) (Some (controlPlaneLabels tc)),
      sv_Type = '''', sv_ClusterIP = ''None'', sv_Selector = Some (controlPlaneLabels tc),
      sv_Ports = [api_service_port], sv_Ingress = []\<rparr>"

definition buildExternalService :: "TenantCluster \<Rightarrow> Service option" where
  "buildExternalService tc =
     (if \<not> ex_LoadBalancer (cp_Expose (tcs_ControlPlane (tc_Spec tc))) then None
      else Some
        \<lparr>sv_Meta = (object_meta (externalServiceName tc) (controlPlaneNamespace tc) (Some (controlPlaneLabels tc)))
            \<lparr>om_Annotations := ex_Annotations (cp_Expose (tcs_ControlPlane (tc_Spec tc)))\<rparr>,
         sv_Type = ''LoadBalancer'', sv_ClusterIP = '''', sv_Selector = Some (controlPlaneLabels tc),
         sv_Ports = [api_service_port], sv_Ingress = []\<rparr>)"

definition control_plane_args :: "TenantCluster \<Rightarrow> string list" where
  "control_plane_args tc =
     (let fqdn = controlPlaneServiceFQDN tc
      in [''server'', ''--data-dir=/data'', ''--disable-agent'',
          ''--disable=traefik,servicelb,metrics-server,local-storage,coredns'', ''--write-kubeconfig-mode=644'',
          ''--tls-san='' @ fqdn, ''--tls-san='' @ fqdn @ ''.cluster.local''] @
         map (\<lambda>san. ''--tls-san='' @ san) (cp_ExtraTLSSANs (tcs_ControlPlane (tc_Spec tc))))"

text \<open>\<open>int32(n)\<close> of an \<open>int\<close> wraps; a result below 1 becomes 1.\<close>

definition replicas_of :: "TenantCluster \<Rightarrow> 32 word" where
  "replicas_of tc =
     (let replicas = word_of_int (cp_Replicas (tcs_ControlPlane (tc_Spec tc))) :: 32 word
      in if sint replicas < 1 then 1 else replicas)"

text \<open>A quantity the user may set: the default when empty, an error that names the field when it does not parse.\<close>

definition parse_or :: "(string \<Rightarrow> goerr + 'q) \<Rightarrow> string \<Rightarrow> string \<Rightarrow> 'q \<Rightarrow> goerr + 'q" where
  "parse_or parse what amount dflt =
     (if amount = '''' then Inr dflt
      else case parse amount of
             Inl err \<Rightarrow> Inl (wrap_err (''invalid '' @ what @ '' '' @ fmt_q amount) err)
           | Inr q \<Rightarrow> Inr q)"

definition stateful_set :: "TenantCluster \<Rightarrow> 'q \<Rightarrow> 'q resource_list \<Rightarrow> 'q resource_list \<Rightarrow> 'q StatefulSet" where
  "stateful_set tc storageSize requests limits =
     (let name = controlPlaneName tc; labels = controlPlaneLabels tc; cp = tcs_ControlPlane (tc_Spec tc);
          k3sImage = (case k3sImageForVersion (tcs_KubernetesVersion (tc_Spec tc)) of
                     (img, ok) \<Rightarrow> if \<not> ok then defaultK3sImage else img);
          storageClassName = (if st_ClassName (cp_Storage cp) \<noteq> '''' then Some (st_ClassName (cp_Storage cp)) else None)
      in \<lparr>ss_Meta = object_meta name (controlPlaneNamespace tc) (Some labels),
          ss_ServiceName = name, ss_Replicas = replicas_of tc, ss_Selector = labels,
          ss_Template = \<lparr>pt_Labels = Some labels, pt_Containers =
            [\<lparr>ct_Name = ''k3s'', ct_Image = k3sImage, ct_Command = [''k3s''], ct_Args = control_plane_args tc,
              ct_Ports = [(''https'', apiPort)], ct_Requests = requests, ct_Limits = limits,
              ct_VolumeMounts = [(''data'', ''/data'')], ct_SeccompProfile = ''RuntimeDefault'',
              ct_ReadinessProbe = \<lparr>pb_TCPPort = apiPort, pb_InitialDelaySeconds = 5, pb_PeriodSeconds = 5\<rparr>,
              ct_LivenessProbe = \<lparr>pb_TCPPort = apiPort, pb_InitialDelaySeconds = 15, pb_PeriodSeconds = 15\<rparr>\<rparr>]\<rparr>,
          ss_VolumeClaimTemplates =
            [\<lparr>vc_Name = ''data'', vc_AccessModes = [''ReadWriteOnce''], vc_StorageClassName = storageClassName,
              vc_Requests = fmap_of_list [(''storage'', storageSize)]\<rparr>],
          ss_ReadyReplicas = 0\<rparr>)"

definition buildStatefulSet :: "(string \<Rightarrow> goerr + 'q) \<Rightarrow> TenantCluster \<Rightarrow> (goerr + 'q StatefulSet) option" where
  "buildStatefulSet parse tc =
     (let cp = tcs_ControlPlane (tc_Spec tc); rr = tcs_Resources (tc_Spec tc)
      in Option.bind (MustParse parse ''1Gi'') (\<lambda>gi.
         case parse_or parse ''controlPlane.storage.size'' (st_Size (cp_Storage cp)) gi of
           Inl err \<Rightarrow> Some (Inl err)
         | Inr storageSize \<Rightarrow>
             Option.bind (must_parse_cpu_memory parse ''250m'' ''256Mi'' fmempty) (\<lambda>requests.
             Option.bind (MustParse parse ''1'') (\<lambda>one.
             Option.bind (MustParse parse ''1Gi'') (\<lambda>gi2.
               case parse_or parse ''resources.cpu'' (rr_CPU rr) one of
                 Inl err \<Rightarrow> Some (Inl err)
               | Inr cpu \<Rightarrow>
                   (case parse_or parse ''resources.memory'' (rr_Memory rr) gi2 of
                      Inl err \<Rightarrow> Some (Inl err)
                    | Inr mem \<Rightarrow>
                        Some (Inr (stateful_set tc storageSize requests
                          (fmupd ''memory'' mem (fmupd ''cpu'' cpu fmempty))))))))))"

section \<open>The tenant kubeconfig\<close>

definition rewrite_server_line :: "string \<Rightarrow> string \<Rightarrow> string" where
  "rewrite_server_line fqdn line =
     (if strings_HasPrefix (strings_TrimSpace line) ''server:'' then
        take (length line - length (strings_TrimLeft line (CHR '' ''))) line @
          ''server: https://'' @ fqdn @ '':'' @ fmt_d apiPort
      else line)"

definition rewriteKubeconfigServer :: "string \<Rightarrow> string \<Rightarrow> string" where
  "rewriteKubeconfigServer raw fqdn =
     strings_Join (map (rewrite_server_line fqdn) (strings_Split raw (CHR 0x0A))) [CHR 0x0A]"

section \<open>Version resolution\<close>

definition all_digits :: "string \<Rightarrow> bool" where
  "all_digits s \<longleftrightarrow> s \<noteq> '''' \<and> list_all ascii_digit s"

definition supported_version :: "string \<Rightarrow> string \<Rightarrow> bool" where
  "supported_version m v \<longleftrightarrow> m \<in> set minor_versions \<and>
     (v = ''v1.'' @ m \<or> (\<exists>ds. v = ''v1.'' @ m @ ''.'' @ ds \<and> all_digits ds))"

lemma rx_digits: "'''' \<in> set (rx_rests RDigits s) \<longleftrightarrow> all_digits s"
proof -
  let ?k = "length (takeWhile ascii_digit s)"
  have "'''' \<in> set (rx_rests RDigits s) \<longleftrightarrow> (\<exists>n. 1 \<le> n \<and> n \<le> ?k \<and> length s \<le> n)"
    by (auto simp: image_iff Bex_def less_Suc_eq_le)
  also have "\<dots> \<longleftrightarrow> 1 \<le> ?k \<and> length s \<le> ?k"
    by (meson le_trans order_refl)
  also have "\<dots> \<longleftrightarrow> all_digits s"
  proof
    assume k: "1 \<le> ?k \<and> length s \<le> ?k"
    then have "takeWhile ascii_digit s = s"
      by (metis length_takeWhile_le le_antisym takeWhile_eq_take take_all)
    then show "all_digits s" using k by (auto simp: all_digits_def list_all_iff takeWhile_eq_all_conv)
  next
    assume "all_digits s"
    then have t: "takeWhile ascii_digit s = s" "s \<noteq> []" by (auto simp: all_digits_def list_all_iff takeWhile_eq_all_conv)
    show "1 \<le> ?k \<and> length s \<le> ?k" unfolding t(1) using t(2) by (simp add: Suc_leI)
  qed
  finally show ?thesis .
qed

lemma rx_k3s_tail: "rx_full k3s_tail s \<longleftrightarrow> s = '''' \<or> (\<exists>ds. s = ''.'' @ ds \<and> all_digits ds)"
  by (cases s) (auto simp: rx_full_def k3s_tail_def simp flip: rx_digits simp del: rx_rests.simps(5))

lemma minor_cases: "m \<in> set minor_versions \<Longrightarrow> length m = 2 \<and> fmlookup k3sImages (''v1.'' @ m) \<noteq> None"
  by (auto simp: minor_versions_def k3sImages_def)

lemma rx_k3s_group:
  "set (rx_rests k3s_group s) = {drop 5 s | m. m \<in> set minor_versions \<and> prefix (''v1.'' @ m) s}"
proof -
  have "set (rx_rests k3s_group s) = {drop (length m) (drop 3 s) | m. m \<in> set minor_versions \<and> prefix ''v1.'' s \<and> prefix m (drop 3 s)}"
    by (auto simp: k3s_group_def numeral_3_eq_3 add.commute split: if_splits)
  also have "\<dots> = {drop 5 s | m. m \<in> set minor_versions \<and> prefix (''v1.'' @ m) s}"
  proof -
    have "prefix ''v1.'' s \<and> prefix m (drop 3 s) \<longleftrightarrow> prefix (''v1.'' @ m) s" for m
      by (auto simp: prefix_def)
    moreover have "drop (length m) (drop 3 s) = drop 5 s" if "m \<in> set minor_versions" for m
      using minor_cases [OF that] by simp
    ultimately show ?thesis by (metis (no_types, lifting))
  qed
  finally show ?thesis .
qed

lemma rx_group_some:
  "rx_group first tail s = Some g \<Longrightarrow> \<exists>rest \<in> set (rx_rests first s). rx_full tail rest \<and> g = take (length s - length rest) s"
  by (auto simp: rx_group_def find_Some_iff)

lemma rx_group_none: "rx_group first tail s = None \<longleftrightarrow> (\<forall>rest \<in> set (rx_rests first s). \<not> rx_full tail rest)"
  by (auto simp: rx_group_def find_None_iff)

lemma supported_version_parts:
  "supported_version m v \<longleftrightarrow> m \<in> set minor_versions \<and> prefix (''v1.'' @ m) v \<and> rx_full k3s_tail (drop 5 v)"
proof
  assume "supported_version m v"
  then show "m \<in> set minor_versions \<and> prefix (''v1.'' @ m) v \<and> rx_full k3s_tail (drop 5 v)"
    using minor_cases [of m] unfolding rx_k3s_tail by (auto simp: supported_version_def)
next
  assume a: "m \<in> set minor_versions \<and> prefix (''v1.'' @ m) v \<and> rx_full k3s_tail (drop 5 v)"
  then obtain r where "v = ''v1.'' @ m @ r" by (auto simp: prefix_def)
  with a minor_cases [of m] show "supported_version m v"
    unfolding rx_k3s_tail by (auto simp: supported_version_def)
qed

lemma k3s_group_result:
  "rx_group k3s_group k3s_tail v = Some g \<longleftrightarrow> (\<exists>m. supported_version m v \<and> g = ''v1.'' @ m)"
proof
  assume "rx_group k3s_group k3s_tail v = Some g"
  from rx_group_some [OF this] obtain m where m: "m \<in> set minor_versions" "prefix (''v1.'' @ m) v"
    "rx_full k3s_tail (drop 5 v)" "g = take (length v - length (drop 5 v)) v"
    unfolding rx_k3s_group by auto
  then have "supported_version m v" by (simp add: supported_version_parts)
  moreover have "g = ''v1.'' @ m"
    using m(2,4) minor_cases [OF m(1)] by (auto simp: prefix_def)
  ultimately show "\<exists>m. supported_version m v \<and> g = ''v1.'' @ m" by blast
next
  assume "\<exists>m. supported_version m v \<and> g = ''v1.'' @ m"
  then obtain m where m: "supported_version m v" "g = ''v1.'' @ m" by blast
  then have "rx_group k3s_group k3s_tail v \<noteq> None"
    unfolding rx_group_none rx_k3s_group supported_version_parts by auto
  then obtain g' where g': "rx_group k3s_group k3s_tail v = Some g'" by blast
  from rx_group_some [OF this] have "g' = take (length v - length (drop 5 v)) v"
    unfolding rx_k3s_group by auto
  then have "g' = g"
    using m minor_cases [of m] by (auto simp: supported_version_parts prefix_def)
  with g' show "rx_group k3s_group k3s_tail v = Some g" by simp
qed

lemma k3sImageForVersion_cases:
  "supported_version m v \<Longrightarrow> k3sImageForVersion v = (the (fmlookup k3sImages (''v1.'' @ m)), True)"
  "(\<nexists>m. supported_version m v) \<Longrightarrow> k3sImageForVersion v = ('''', False)"
proof -
  assume m: "supported_version m v"
  then have "rx_group k3s_group k3s_tail v = Some (''v1.'' @ m)" using k3s_group_result by blast
  moreover obtain img where "fmlookup k3sImages (''v1.'' @ m) = Some img"
    using m minor_cases by (auto simp: supported_version_def)
  ultimately show "k3sImageForVersion v = (the (fmlookup k3sImages (''v1.'' @ m)), True)"
    by (simp add: k3sImageForVersion_def)
next
  assume "\<nexists>m. supported_version m v"
  then have "rx_group k3s_group k3s_tail v = None" using k3s_group_result by (metis option.exhaust)
  then show "k3sImageForVersion v = ('''', False)" by (simp add: k3sImageForVersion_def)
qed

section \<open>Lines of the kubeconfig\<close>

lemma strings_Split_append:
  "c \<notin> set p \<Longrightarrow> strings_Split (p @ c # s) c = p # strings_Split s c"
  "c \<notin> set p \<Longrightarrow> strings_Split p c = [p]"
  by (induction p) auto

lemma strings_Split_Join:
  "ps \<noteq> [] \<Longrightarrow> \<forall>p \<in> set ps. c \<notin> set p \<Longrightarrow> strings_Split (strings_Join ps [c]) c = ps"
proof (induction ps)
  case (Cons p ps)
  then show ?case
    by (cases "ps = []") (simp_all add: strings_Join_Cons strings_Split_append)
qed simp

lemma strings_Split_parts: "p \<in> set (strings_Split s c) \<Longrightarrow> c \<notin> set p"
  by (induction s c arbitrary: p rule: strings_Split.induct) (auto split: if_splits list.splits)

lemma dropWhile_length_take:
  "take (length l - length (dropWhile P l)) l = takeWhile P l"
  by (metis append_eq_conv_conj length_append add_diff_cancel_right' takeWhile_dropWhile_id)

lemma rewrite_line_eq:
  "rewrite_server_line fqdn line =
     (if strings_HasPrefix (strings_TrimSpace line) ''server:''
      then takeWhile (\<lambda>x. x = CHR '' '') line @ ''server: https://'' @ fqdn @ '':6443''
      else line)"
proof -
  have "chr 54 = CHR ''6''" "chr 52 = CHR ''4''" "chr 51 = CHR ''3''"
    using char_of_char [of "CHR ''6''"] char_of_char [of "CHR ''4''"] char_of_char [of "CHR ''3''"] by simp_all
  then have "fmt_d apiPort = ''6443''"
    by (simp add: fmt_d_def apiPort_def fmt_nat_base.simps Let_def)
  then show ?thesis
    by (simp add: rewrite_server_line_def strings_TrimLeft_def dropWhile_length_take)
qed

lemma while_replicate:
  "P c \<Longrightarrow> dropWhile P (replicate n c @ ys) = dropWhile P ys"
  "P c \<Longrightarrow> takeWhile P (replicate n c @ ys) = replicate n c @ takeWhile P ys"
  by (induction n) auto

lemma rewritten_line_again:
  assumes "is_ascii fqdn" "list_all (\<lambda>x. x = CHR '' '') ind"
  shows "rewrite_server_line fqdn (ind @ ''server: https://'' @ fqdn @ '':6443'') = ind @ ''server: https://'' @ fqdn @ '':6443''"
proof -
  let ?l = "ind @ ''server: https://'' @ fqdn @ '':6443''"
  have "replicate (length ind) (CHR '' '') = ind"
    by (rule replicate_length_same) (use assms(2) in \<open>simp add: list_all_iff\<close>)
  then obtain n where n: "ind = replicate n (CHR '' '')" by metis
  have "is_ascii ind" by (simp add: n is_ascii_set)
  then have asc: "is_ascii ?l" using assms(1) by simp
  have sp: "dropWhile (\<lambda>c. IsSpace (byte c)) ?l = ''server: https://'' @ fqdn @ '':6443''"
    by (simp add: n while_replicate IsSpace_def)
  have "trim_right (\<lambda>c. IsSpace (byte c)) (''server: https://'' @ fqdn @ '':6443'') = ''server: https://'' @ fqdn @ '':6443''"
    by (simp add: trim_right_def IsSpace_def)
  then have t: "strings_TrimSpace ?l = ''server: https://'' @ fqdn @ '':6443''"
    by (simp only: TrimSpace_ascii [OF asc] trim_both_right sp)
  have w: "takeWhile (\<lambda>x. x = CHR '' '') ?l = ind"
    by (simp add: n while_replicate)
  show ?thesis unfolding rewrite_line_eq t w by (simp add: strings_HasPrefix_def)
qed

lemma rewrite_line_idem:
  "is_ascii fqdn \<Longrightarrow> rewrite_server_line fqdn (rewrite_server_line fqdn line) = rewrite_server_line fqdn line"
  using rewritten_line_again [of fqdn "takeWhile (\<lambda>x. x = CHR '' '') line"]
  by (auto simp: rewrite_line_eq [of fqdn line] list_all_iff dest: set_takeWhileD)

lemma rewrite_lines:
  assumes "CHR 0x0A \<notin> set fqdn"
  shows "strings_Split (rewriteKubeconfigServer raw fqdn) (CHR 0x0A) =
     map (rewrite_server_line fqdn) (strings_Split raw (CHR 0x0A))"
proof -
  have "CHR 0x0A \<notin> set (rewrite_server_line fqdn line)" if "CHR 0x0A \<notin> set line" for line
    using assms that by (auto simp: rewrite_line_eq dest: set_takeWhileD)
  then show ?thesis
    unfolding rewriteKubeconfigServer_def
    by (intro strings_Split_Join) (auto dest: strings_Split_parts)
qed

text \<open>Property C36 (rewriting the kubeconfig). For a host name without a line break the rewritten file has the lines of
  the original, in order: each line that starts (after white space) with \<open>server:\<close> points to the host name on port
  6443 with its indentation of spaces kept, every other line is untouched. Rewriting an ASCII host name twice is
  rewriting it once.\<close>

theorem kubeconfig_rewrite:
  assumes "CHR 0x0A \<notin> set fqdn"
  shows "strings_Split (rewriteKubeconfigServer raw fqdn) (CHR 0x0A) =
      map (\<lambda>line. if strings_HasPrefix (strings_TrimSpace line) ''server:''
        then takeWhile (\<lambda>x. x = CHR '' '') line @ ''server: https://'' @ fqdn @ '':6443'' else line)
        (strings_Split raw (CHR 0x0A)) \<and>
     (is_ascii fqdn \<longrightarrow>
      rewriteKubeconfigServer (rewriteKubeconfigServer raw fqdn) fqdn = rewriteKubeconfigServer raw fqdn)"
proof -
  have "rewriteKubeconfigServer (rewriteKubeconfigServer raw fqdn) fqdn = rewriteKubeconfigServer raw fqdn" if "is_ascii fqdn"
    by (simp only: rewriteKubeconfigServer_def [of "rewriteKubeconfigServer raw fqdn"] rewrite_lines [OF assms])
      (simp add: rewriteKubeconfigServer_def comp_def rewrite_line_idem [OF that])
  then show ?thesis unfolding rewrite_lines [OF assms] by (simp add: rewrite_line_eq)
qed

theorem kubeconfig_rewrite_witness:
  "strings_Split (rewriteKubeconfigServer (''a:'' @ [CHR 0x0A] @ ''  server: x'') ''dev.svc'') (CHR 0x0A)
     = [''a:'', ''  server: https://dev.svc:6443'']"
proof -
  have n: "CHR 0x0A \<notin> set ''dev.svc''" by simp
  show ?thesis
    unfolding conjunct1 [OF kubeconfig_rewrite [OF n]]
    by (simp add: TrimSpace_ascii trim_both_def IsSpace_def strings_HasPrefix_def)
qed

section \<open>Properties of versions and of the StatefulSet\<close>

text \<open>Version resolution: A requested version resolves exactly when it is a supported minor version with an
  optional numeric patch, and then to the image listed for that minor version, whatever the patch; otherwise the
  caller gets no image and falls back.\<close>

theorem k3s_version_resolves:
  "k3sImageForVersion v =
     (case find (\<lambda>m. supported_version m v) minor_versions of
        Some m \<Rightarrow> (the (fmlookup k3sImages (''v1.'' @ m)), True)
      | None \<Rightarrow> ('''', False))"
proof (cases "find (\<lambda>m. supported_version m v) minor_versions")
  case None
  then have "\<nexists>m. supported_version m v" by (auto simp: find_None_iff supported_version_def)
  with None show ?thesis using k3sImageForVersion_cases(2) by simp
next
  case (Some m)
  then have "supported_version m v" by (auto simp: find_Some_iff)
  with Some show ?thesis using k3sImageForVersion_cases(1) by simp
qed

definition quantity_literals :: "string list" where
  "quantity_literals = [''1'', ''1Gi'', ''250m'', ''256Mi'', ''500m'', ''512Mi'', ''100m'', ''128Mi'']"

text \<open>The parser accepts the quantities the program spells out.\<close>

locale quantity_api =
  fixes parse :: "string \<Rightarrow> goerr + 'q"
  assumes literals: "s \<in> set quantity_literals \<Longrightarrow> \<exists>q. parse s = Inr q"
begin

lemma MustParse_literal: "s \<in> set quantity_literals \<Longrightarrow> \<exists>q. MustParse parse s = Some q"
  using literals [of s] by (auto simp: MustParse_def)

lemma must_parse_pair:
  "c \<in> set quantity_literals \<Longrightarrow> m \<in> set quantity_literals \<Longrightarrow>
     \<exists>r. must_parse_cpu_memory parse c m base = Some r \<and> fmdom r = {|''cpu'', ''memory''|} |\<union>| fmdom base"
  using MustParse_literal [of c] MustParse_literal [of m] by (auto simp: must_parse_cpu_memory_def)

lemma limit_range_no_panic: "BuildLimitRange parse profile ns \<noteq> None"
proof -
  have l: "{''500m'', ''512Mi'', ''250m'', ''256Mi'', ''100m'', ''128Mi''} \<subseteq> set quantity_literals"
    by (simp add: quantity_literals_def)
  obtain b where b: "must_parse_cpu_memory parse ''500m'' ''512Mi'' fmempty = Some b" using must_parse_pair l by blast
  obtain d where d: "must_parse_cpu_memory parse ''250m'' ''256Mi'' b = Some d" using must_parse_pair l by blast
  obtain r where r: "must_parse_cpu_memory parse ''100m'' ''128Mi'' fmempty = Some r" using must_parse_pair l by blast
  show ?thesis by (simp add: BuildLimitRange_def b d r)
qed

end

definition text_quantity :: "string \<Rightarrow> goerr + string" where
  "text_quantity s = (if s \<noteq> '''' \<and> ascii_digit (hd s) then Inr s else Inl (errorf ''quantities must start with a digit''))"

interpretation textual: quantity_api text_quantity
  by unfold_locales (auto simp: quantity_literals_def text_quantity_def ascii_digit_def)

lemma parse_or_isl: "isl (parse_or parse what a dflt) \<longleftrightarrow> a \<noteq> '''' \<and> isl (parse a)"
  by (auto simp: parse_or_def split: sum.splits)

lemma replicas_positive: "1 \<le> sint (replicas_of tc)"
  by (simp add: replicas_of_def Let_def)


definition demo_tc :: "string \<Rightarrow> string \<Rightarrow> TenantCluster" where
  "demo_tc name ns =
     \<lparr>tc_Meta = object_meta name ns None,
      tc_Spec = \<lparr>tcs_Mode = ''shared'', tcs_KubernetesVersion = ''v1.33'', tcs_IsolationProfileRef = \<lparr>lor_Name = ''restricted''\<rparr>,
        tcs_SyncPolicyRef = \<lparr>lor_Name = ''default''\<rparr>,
        tcs_ControlPlane = \<lparr>cp_Replicas = 4294967296, cp_Datastore = \<lparr>ds_Type = ''sqlite''\<rparr>,
          cp_Storage = \<lparr>st_ClassName = '''', st_Size = ''5Gi''\<rparr>, cp_Expose = \<lparr>ex_LoadBalancer = False, ex_Annotations = None\<rparr>,
          cp_ExtraTLSSANs = []\<rparr>,
        tcs_Networking = \<lparr>nw_PodCIDR = '''', nw_ServiceCIDR = '''', nw_EgressPolicy = ''deny-by-default''\<rparr>,
        tcs_Migration = \<lparr>mg_AllowModeChange = True\<rparr>, tcs_Resources = \<lparr>rr_CPU = '''', rr_Memory = ''much''\<rparr>\<rparr>,
      tc_Status = \<lparr>ts_Phase = '''', ts_Endpoint = '''', ts_ExternalEndpoint = '''', ts_Conditions = []\<rparr>\<rparr>"


end
