(* ===== verification/Unstructured.thy ===== *)
theory Unstructured
  imports Prelude "HOL-Library.Word" Complex_Main
begin

text \<open>
  Kubernetes objects as the program sees them: \<open>unstructured.Unstructured\<close>, whose field \<open>Object\<close> is a
  \<open>map[string]interface{}\<close> of decoded JSON. The data type is the Go one. The accessors and the
  nested-field helpers of \<open>k8s.io/apimachinery\<close> are not code of this repository: they are the record
  \<open>uapi\<close>, a parameter of every definition that calls them, and the locale \<open>unstructured_api\<close> states
  their documented behaviour in terms of three path functions on the tree (\<open>peek\<close>, \<open>put\<close>, \<open>del\<close>).
  \<open>json_api\<close> is an instance with every law, the interpretation that shows the laws can hold together.
\<close>

section \<open>Values and objects\<close>

text \<open>
  The dynamic values a decoded JSON document holds. Integers are Go's \<open>int64\<close>; a decoded float is a
  finite number, kept as the rational it denotes.
\<close>

datatype gval =
    VNil
  | VBool bool
  | VInt "64 word"
  | VFloat rat
  | VStr string
  | VSlice "gval list"
  | VMap "(string, gval) fmap"

type_synonym obj = "(string, gval) fmap"

record GroupVersionKind =
  gvk_Group :: string
  gvk_Version :: string
  gvk_Kind :: string

section \<open>Paths into an object\<close>

fun peek :: "obj \<Rightarrow> string list \<Rightarrow> gval option" where
  "peek m [] = None"
| "peek m [k] = fmlookup m k"
| "peek m (k # k' # ks) = (case fmlookup m k of Some (VMap m') \<Rightarrow> peek m' (k' # ks) | _ \<Rightarrow> None)"

fun put :: "obj \<Rightarrow> string list \<Rightarrow> gval \<Rightarrow> obj option" where
  "put m [] v = None"
| "put m [k] v = Some (fmupd k v m)"
| "put m (k # k' # ks) v =
     (case fmlookup m k of
        None \<Rightarrow> map_option (\<lambda>m'. fmupd k (VMap m') m) (put fmempty (k' # ks) v)
      | Some (VMap m') \<Rightarrow> map_option (\<lambda>m''. fmupd k (VMap m'') m) (put m' (k' # ks) v)
      | Some _ \<Rightarrow> None)"

fun del :: "obj \<Rightarrow> string list \<Rightarrow> obj" where
  "del m [] = m"
| "del m [k] = fmdrop k m"
| "del m (k # k' # ks) =
     (case fmlookup m k of Some (VMap m') \<Rightarrow> fmupd k (VMap (del m' (k' # ks))) m | _ \<Rightarrow> m)"

definition put_or_keep :: "obj \<Rightarrow> string list \<Rightarrow> gval \<Rightarrow> obj" where
  "put_or_keep m p v = (case put m p v of Some m' \<Rightarrow> m' | None \<Rightarrow> m)"

text \<open>Typed reads: the zero value or \<open>None\<close> when the field is missing or has another type.\<close>

definition peek_str :: "obj \<Rightarrow> string list \<Rightarrow> string" where
  "peek_str m p = (case peek m p of Some (VStr s) \<Rightarrow> s | _ \<Rightarrow> '''')"

definition peek_slice :: "obj \<Rightarrow> string list \<Rightarrow> gval list option" where
  "peek_slice m p = (case peek m p of Some (VSlice xs) \<Rightarrow> Some xs | _ \<Rightarrow> None)"

definition peek_map :: "obj \<Rightarrow> string list \<Rightarrow> obj option" where
  "peek_map m p = (case peek m p of Some (VMap m') \<Rightarrow> Some m' | _ \<Rightarrow> None)"

definition peek_int :: "obj \<Rightarrow> string list \<Rightarrow> 64 word option" where
  "peek_int m p = (case peek m p of Some (VInt i) \<Rightarrow> Some i | _ \<Rightarrow> None)"

fun is_VStr :: "gval \<Rightarrow> bool" where
  "is_VStr (VStr s) = True"
| "is_VStr _ = False"

fun the_VStr :: "gval \<Rightarrow> string" where
  "the_VStr (VStr s) = s"
| "the_VStr _ = ''''"

definition peek_strmap :: "obj \<Rightarrow> string list \<Rightarrow> strmap option" where
  "peek_strmap m p =
     (case peek_map m p of
        Some m' \<Rightarrow> if fmpred (\<lambda>_. is_VStr) m' then Some (fmmap the_VStr m') else None
      | None \<Rightarrow> None)"

definition of_strmap :: "strmap \<Rightarrow> obj" where
  "of_strmap m = fmmap VStr m"

text \<open>The string of a group and version, \<open>schema.GroupVersion.String\<close>.\<close>

definition gv_string :: "GroupVersionKind \<Rightarrow> string" where
  "gv_string g = (if gvk_Group g = '''' then gvk_Version g else gvk_Group g @ ''/'' @ gvk_Version g)"

definition gvk_wf :: "GroupVersionKind \<Rightarrow> bool" where
  "gvk_wf g = (CHR ''/'' \<notin> set (gvk_Group g) \<and> CHR ''/'' \<notin> set (gvk_Version g) \<and> gvk_Version g \<noteq> '''')"

section \<open>Laws of paths\<close>

text \<open>An object whose \<open>metadata\<close>, where present, is a map: what every decoded Kubernetes object is.\<close>

definition wf_meta :: "obj \<Rightarrow> bool" where
  "wf_meta m = (case fmlookup m ''metadata'' of None \<Rightarrow> True | Some (VMap _) \<Rightarrow> True | _ \<Rightarrow> False)"

definition map_at :: "string \<Rightarrow> obj \<Rightarrow> obj" where
  "map_at k m = (case fmlookup m k of Some (VMap m') \<Rightarrow> m' | _ \<Rightarrow> fmempty)"

lemma peek_del_same: "p \<noteq> [] \<Longrightarrow> peek (del m p) p = None"
  by (induction m p rule: del.induct) (auto split: option.splits gval.splits)

lemma peek_put_same: "put m p v = Some m' \<Longrightarrow> peek m' p = Some v"
  by (induction m p v arbitrary: m' rule: put.induct) (auto split: option.splits gval.splits)

lemma peek2: "peek m [a, b] = (case fmlookup m a of Some (VMap m') \<Rightarrow> fmlookup m' b | _ \<Rightarrow> None)"
  by (auto split: option.splits gval.splits)

lemma put2_meta:
  "wf_meta m \<Longrightarrow>
   put m [''metadata'', k] v = Some (fmupd ''metadata'' (VMap (fmupd k v (map_at ''metadata'' m))) m)"
  by (auto simp: wf_meta_def map_at_def split: option.splits gval.splits)

lemma fmlookup_del_other: "k \<noteq> hd p \<Longrightarrow> fmlookup (del m p) k = fmlookup m k"
  by (induction m p rule: del.induct) (auto split: option.splits gval.splits)

lemma fmlookup_put_other: "k \<noteq> hd p \<Longrightarrow> put m p v = Some m' \<Longrightarrow> fmlookup m' k = fmlookup m k"
  by (induction m p v arbitrary: m' rule: put.induct) (auto split: option.splits gval.splits)

lemma fmlookup_put_or_keep_other: "k \<noteq> hd p \<Longrightarrow> fmlookup (put_or_keep m p v) k = fmlookup m k"
  by (auto simp: put_or_keep_def fmlookup_put_other split: option.splits)

lemma wf_meta_del: "wf_meta m \<Longrightarrow> 2 \<le> length p \<or> hd p \<noteq> ''metadata'' \<Longrightarrow> wf_meta (del m p)"
  by (cases "(m, p)" rule: del.cases) (auto simp: wf_meta_def split: option.splits gval.splits)

lemma strmap_roundtrip: "fmpred (\<lambda>_. is_VStr) (of_strmap lbl)" "fmmap the_VStr (of_strmap lbl) = lbl"
proof -
  show "fmpred (\<lambda>_. is_VStr) (of_strmap lbl)"
    by (rule fmpredI) (auto simp: of_strmap_def)
  show "fmmap the_VStr (of_strmap lbl) = lbl"
    by (rule fmap_ext) (simp add: of_strmap_def option.map_comp comp_def option.map_ident)
qed

lemma peek_strmap_of_strmap: "peek m p = Some (VMap (of_strmap lbl)) \<Longrightarrow> peek_strmap m p = Some lbl"
  by (simp add: peek_strmap_def peek_map_def strmap_roundtrip)

lemma peek1: "peek m [k] = fmlookup m k"
  by simp

lemma put1: "put m [k] v = Some (fmupd k v m)"
  by simp

lemma del1: "del m [k] = fmdrop k m"
  by simp

lemma del2:
  "del m [k, f] = (case fmlookup m k of Some (VMap m') \<Rightarrow> fmupd k (VMap (fmdrop f m')) m | _ \<Rightarrow> m)"
  by (auto split: option.splits gval.splits)

lemmas path_eval = peek.simps put.simps del.simps

declare peek.simps [simp del] put.simps [simp del] del.simps [simp del] peek1 [simp] put1 [simp] del1 [simp]

section \<open>The helper functions of apimachinery\<close>

text \<open>
  A reading helper returns \<open>(value, found, err)\<close>; every call in the program drops the error and uses the
  value only where \<open>found\<close>, so a read is an \<open>option\<close>. A writing helper returns the object after the call
  and the error, if any.
\<close>

record uapi =
  u_NestedFieldCopy :: "obj \<Rightarrow> string list \<Rightarrow> gval option"
  u_NestedSlice :: "obj \<Rightarrow> string list \<Rightarrow> gval list option"
  u_NestedMap :: "obj \<Rightarrow> string list \<Rightarrow> obj option"
  u_NestedInt64 :: "obj \<Rightarrow> string list \<Rightarrow> 64 word option"
  u_SetNestedField :: "obj \<Rightarrow> gval \<Rightarrow> string list \<Rightarrow> obj \<times> goerr option"
  u_SetNestedSlice :: "obj \<Rightarrow> gval list \<Rightarrow> string list \<Rightarrow> obj \<times> goerr option"
  u_SetNestedMap :: "obj \<Rightarrow> obj \<Rightarrow> string list \<Rightarrow> obj \<times> goerr option"
  u_RemoveNestedField :: "obj \<Rightarrow> string list \<Rightarrow> obj"
  u_GetName :: "obj \<Rightarrow> string"
  u_GetNamespace :: "obj \<Rightarrow> string"
  u_GetKind :: "obj \<Rightarrow> string"
  u_GetResourceVersion :: "obj \<Rightarrow> string"
  u_GetLabels :: "obj \<Rightarrow> strmap option"
  u_GetAnnotations :: "obj \<Rightarrow> strmap option"
  u_GroupVersionKind :: "obj \<Rightarrow> GroupVersionKind"
  u_SetName :: "obj \<Rightarrow> string \<Rightarrow> obj"
  u_SetNamespace :: "obj \<Rightarrow> string \<Rightarrow> obj"
  u_SetResourceVersion :: "obj \<Rightarrow> string \<Rightarrow> obj"
  u_SetLabels :: "obj \<Rightarrow> strmap option \<Rightarrow> obj"
  u_SetAnnotations :: "obj \<Rightarrow> strmap option \<Rightarrow> obj"
  u_SetGroupVersionKind :: "obj \<Rightarrow> GroupVersionKind \<Rightarrow> obj"

definition set_str :: "string list \<Rightarrow> obj \<Rightarrow> string \<Rightarrow> obj" where
  "set_str p m s = (if s = '''' then del m p else put_or_keep m p (VStr s))"

definition set_strmap :: "string list \<Rightarrow> obj \<Rightarrow> strmap option \<Rightarrow> obj" where
  "set_strmap p m lbl = (case lbl of None \<Rightarrow> del m p | Some l \<Rightarrow> put_or_keep m p (VMap (of_strmap l)))"

locale unstructured_api =
  fixes U :: uapi
  assumes NestedFieldCopy: "u_NestedFieldCopy U m p = peek m p"
    and NestedSlice: "u_NestedSlice U m p = peek_slice m p"
    and NestedMap: "u_NestedMap U m p = peek_map m p"
    and NestedInt64: "u_NestedInt64 U m p = peek_int m p"
    and SetNestedField_obj: "fst (u_SetNestedField U m v p) = put_or_keep m p v"
    and SetNestedField_err: "snd (u_SetNestedField U m v p) = None \<longleftrightarrow> put m p v \<noteq> None"
    and SetNestedSlice_obj: "fst (u_SetNestedSlice U m xs p) = put_or_keep m p (VSlice xs)"
    and SetNestedMap_obj: "fst (u_SetNestedMap U m m' p) = put_or_keep m p (VMap m')"
    and RemoveNestedField: "u_RemoveNestedField U m p = del m p"
    and GetName: "u_GetName U m = peek_str m [''metadata'', ''name'']"
    and GetNamespace: "u_GetNamespace U m = peek_str m [''metadata'', ''namespace'']"
    and GetKind: "u_GetKind U m = peek_str m [''kind'']"
    and GetResourceVersion: "u_GetResourceVersion U m = peek_str m [''metadata'', ''resourceVersion'']"
    and GetLabels: "u_GetLabels U m = peek_strmap m [''metadata'', ''labels'']"
    and GetAnnotations: "u_GetAnnotations U m = peek_strmap m [''metadata'', ''annotations'']"
    and SetName: "u_SetName U m s = set_str [''metadata'', ''name''] m s"
    and SetNamespace: "u_SetNamespace U m s = set_str [''metadata'', ''namespace''] m s"
    and SetResourceVersion: "u_SetResourceVersion U m s = set_str [''metadata'', ''resourceVersion''] m s"
    and SetLabels: "u_SetLabels U m l = set_strmap [''metadata'', ''labels''] m l"
    and SetAnnotations: "u_SetAnnotations U m l = set_strmap [''metadata'', ''annotations''] m l"
    and SetGroupVersionKind: "u_SetGroupVersionKind U m g =
          fmupd ''kind'' (VStr (gvk_Kind g)) (fmupd ''apiVersion'' (VStr (gv_string g)) m)"
    and GroupVersionKind_get: "gvk_wf g \<Longrightarrow> fmlookup m ''apiVersion'' = Some (VStr (gv_string g)) \<Longrightarrow>
          fmlookup m ''kind'' = Some (VStr (gvk_Kind g)) \<Longrightarrow> u_GroupVersionKind U m = g"
    and GroupVersionKind_congr: "fmlookup m ''apiVersion'' = fmlookup m' ''apiVersion'' \<Longrightarrow>
          fmlookup m ''kind'' = fmlookup m' ''kind'' \<Longrightarrow> u_GroupVersionKind U m = u_GroupVersionKind U m'"
begin

lemmas api_laws = NestedFieldCopy NestedSlice NestedMap NestedInt64 SetNestedField_obj SetNestedSlice_obj
  SetNestedMap_obj RemoveNestedField GetName GetNamespace GetKind GetResourceVersion GetLabels
  GetAnnotations SetName SetNamespace SetResourceVersion SetLabels SetAnnotations SetGroupVersionKind

lemma GroupVersionKind_set: "gvk_wf g \<Longrightarrow> u_GroupVersionKind U (u_SetGroupVersionKind U m g) = g"
  by (rule GroupVersionKind_get) (simp_all add: SetGroupVersionKind)

end

section \<open>An instance with every law\<close>

text \<open>\<open>schema.ParseGroupVersion\<close> on the string \<open>gv_string\<close> writes: the part before the slash, if any, is the group.\<close>

definition gvk_of :: "obj \<Rightarrow> GroupVersionKind" where
  "gvk_of m =
     (let av = peek_str m [''apiVersion'']; pre = takeWhile (\<lambda>c. c \<noteq> CHR ''/'') av;
          post = dropWhile (\<lambda>c. c \<noteq> CHR ''/'') av; kind = peek_str m [''kind'']
      in if post = '''' then \<lparr>gvk_Group = '''', gvk_Version = pre, gvk_Kind = kind\<rparr>
         else \<lparr>gvk_Group = pre, gvk_Version = tl post, gvk_Kind = kind\<rparr>)"

definition set_field :: "obj \<Rightarrow> gval \<Rightarrow> string list \<Rightarrow> obj \<times> goerr option" where
  "set_field m v p =
     (put_or_keep m p v,
      case put m p v of Some _ \<Rightarrow> None | None \<Rightarrow> Some (errorf ''value cannot be set: a nesting level is not a map''))"

definition json_api :: uapi where
  "json_api = \<lparr>
     u_NestedFieldCopy = peek, u_NestedSlice = peek_slice, u_NestedMap = peek_map, u_NestedInt64 = peek_int,
     u_SetNestedField = set_field,
     u_SetNestedSlice = (\<lambda>m xs. set_field m (VSlice xs)),
     u_SetNestedMap = (\<lambda>m m'. set_field m (VMap m')),
     u_RemoveNestedField = del,
     u_GetName = (\<lambda>m. peek_str m [''metadata'', ''name'']),
     u_GetNamespace = (\<lambda>m. peek_str m [''metadata'', ''namespace'']),
     u_GetKind = (\<lambda>m. peek_str m [''kind'']),
     u_GetResourceVersion = (\<lambda>m. peek_str m [''metadata'', ''resourceVersion'']),
     u_GetLabels = (\<lambda>m. peek_strmap m [''metadata'', ''labels'']),
     u_GetAnnotations = (\<lambda>m. peek_strmap m [''metadata'', ''annotations'']),
     u_GroupVersionKind = gvk_of,
     u_SetName = set_str [''metadata'', ''name''],
     u_SetNamespace = set_str [''metadata'', ''namespace''],
     u_SetResourceVersion = set_str [''metadata'', ''resourceVersion''],
     u_SetLabels = set_strmap [''metadata'', ''labels''],
     u_SetAnnotations = set_strmap [''metadata'', ''annotations''],
     u_SetGroupVersionKind = (\<lambda>m g.
        fmupd ''kind'' (VStr (gvk_Kind g)) (fmupd ''apiVersion'' (VStr (gv_string g)) m))\<rparr>"

lemma gvk_of_get:
  assumes "gvk_wf g" "fmlookup m ''apiVersion'' = Some (VStr (gv_string g))"
    "fmlookup m ''kind'' = Some (VStr (gvk_Kind g))"
  shows "gvk_of m = g"
proof -
  have v: "takeWhile (\<lambda>c. c \<noteq> CHR ''/'') (gvk_Version g) = gvk_Version g"
    "dropWhile (\<lambda>c. c \<noteq> CHR ''/'') (gvk_Version g) = []"
    using assms(1) by (auto simp: gvk_wf_def)
  have "takeWhile (\<lambda>c. c \<noteq> CHR ''/'') (gvk_Group g @ ''/'' @ gvk_Version g) = gvk_Group g"
    "dropWhile (\<lambda>c. c \<noteq> CHR ''/'') (gvk_Group g @ ''/'' @ gvk_Version g) = ''/'' @ gvk_Version g"
    using assms(1) by (auto simp: gvk_wf_def takeWhile_append dropWhile_append)
  then show ?thesis
    using assms v by (auto simp: gvk_of_def gv_string_def peek_str_def Let_def)
qed

lemma gvk_of_congr:
  "fmlookup m ''apiVersion'' = fmlookup m' ''apiVersion'' \<Longrightarrow> fmlookup m ''kind'' = fmlookup m' ''kind'' \<Longrightarrow>
   gvk_of m = gvk_of m'"
  by (simp add: gvk_of_def peek_str_def)

lemma set_field_simps:
  "fst (set_field m v p) = put_or_keep m p v"
  "snd (set_field m v p) = None \<longleftrightarrow> put m p v \<noteq> None"
  by (auto simp: set_field_def split: option.splits)

interpretation json: unstructured_api json_api
proof unfold_locales
  fix m m' :: obj
  assume "fmlookup m ''apiVersion'' = fmlookup m' ''apiVersion''" "fmlookup m ''kind'' = fmlookup m' ''kind''"
  then show "u_GroupVersionKind json_api m = u_GroupVersionKind json_api m'"
    unfolding json_api_def uapi.simps by (rule gvk_of_congr)
qed (simp_all add: json_api_def set_field_simps gvk_of_get)

end
