(* ===== verification/Syncplan_Transform.thy ===== *)
theory Syncplan_Transform
  imports Syncplan_Plan Unstructured
begin

text \<open>
  \<open>src/internal/syncplan/transform.go\<close>: the object a tenant object becomes on the host, the reverse
  mapping from its labels and annotations, the fields the host owns, and the content two sides are
  compared on. Every definition that calls a helper of apimachinery takes the record \<open>U\<close> of them. Go
  passes objects by pointer and copies before it writes; the model returns the written object.

  The lemmas inside \<open>context unstructured_api\<close> hold for every \<open>U\<close> with the documented behaviour. They
  reduce the code to plain updates of the object's map (\<open>strip_normal_form\<close>, \<open>host_normal_form\<close>), from
  which the contracts of the functions follow.
\<close>

section \<open>Metadata keys\<close>

definition LabelManagedBy :: string where "LabelManagedBy = ''app.kubernetes.io/managed-by''"
definition LabelTenant :: string where "LabelTenant = ''tenantplane.io/tenant''"
definition LabelVirtualNamespace :: string where "LabelVirtualNamespace = ''tenantplane.io/virtual-namespace''"
definition LabelKind :: string where "LabelKind = ''tenantplane.io/kind''"
definition AnnotationVirtualNamespace :: string where
  "AnnotationVirtualNamespace = ''tenantplane.io/virtual-namespace''"
definition AnnotationVirtualName :: string where "AnnotationVirtualName = ''tenantplane.io/virtual-name''"
definition ManagedByValue :: string where "ManagedByValue = ''tenantplane''"

lemmas key_defs = LabelManagedBy_def LabelTenant_def LabelVirtualNamespace_def LabelKind_def
  AnnotationVirtualNamespace_def AnnotationVirtualName_def ManagedByValue_def

definition hostManagedMetadataFields :: "string list" where
  "hostManagedMetadataFields =
     [''resourceVersion'', ''uid'', ''generation'', ''creationTimestamp'', ''deletionTimestamp'',
      ''deletionGracePeriodSeconds'', ''managedFields'', ''ownerReferences'', ''selfLink'', ''finalizers'']"

definition HostLabels :: "ResourceRef \<Rightarrow> strmap" where
  "HostLabels ref = fmap_of_list
     [(LabelManagedBy, ManagedByValue),
      (LabelTenant, SanitizeName (ref_TenantCluster ref)),
      (LabelVirtualNamespace, SanitizeName (ref_VirtualNamespace ref)),
      (LabelKind, SanitizeName (ref_Kind ref))]"

definition HostAnnotations :: "ResourceRef \<Rightarrow> strmap" where
  "HostAnnotations ref = fmap_of_list
     [(AnnotationVirtualNamespace, ref_VirtualNamespace ref), (AnnotationVirtualName, ref_Name ref)]"

definition mergeMap :: "strmap option \<Rightarrow> strmap \<Rightarrow> strmap" where
  "mergeMap base overlay = (case base of None \<Rightarrow> fmempty | Some b \<Rightarrow> b) ++\<^sub>f overlay"

section \<open>Building the host object\<close>

definition serviceAllocatedSpecFields :: "string list" where
  "serviceAllocatedSpecFields =
     [''clusterIP'', ''clusterIPs'', ''healthCheckNodePort'', ''ipFamilies'', ''ipFamilyPolicy'']"

fun strip_node_port :: "gval \<Rightarrow> gval" where
  "strip_node_port (VMap port) = VMap (fmdrop ''nodePort'' port)"
| "strip_node_port v = v"

definition stripHostAllocatedSpecFields :: "uapi \<Rightarrow> string \<Rightarrow> obj \<Rightarrow> obj" where
  "stripHostAllocatedSpecFields U kind host0 =
     (if kind \<noteq> ''Service'' then host0
      else
        let host = foldl (\<lambda>h field. u_RemoveNestedField U h [''spec'', field]) host0 serviceAllocatedSpecFields
        in case u_NestedSlice U host [''spec'', ''ports''] of
             None \<Rightarrow> host
           | Some ports \<Rightarrow> fst (u_SetNestedSlice U host (map strip_node_port ports) [''spec'', ''ports'']))"

definition BuildHostObject :: "uapi \<Rightarrow> ResourceRef \<Rightarrow> obj option \<Rightarrow> goerr + obj" where
  "BuildHostObject U ref tenant0 =
     (case tenant0 of
        None \<Rightarrow> Inl (errorf ''tenant object is required'')
      | Some tenant \<Rightarrow>
        (case Explain ref of
           Inl err \<Rightarrow> Inl err
         | Inr plan \<Rightarrow>
             let host = foldl (\<lambda>h field. u_RemoveNestedField U h [''metadata'', field]) tenant
                          hostManagedMetadataFields;
                 host = u_RemoveNestedField U host [''status''];
                 host = stripHostAllocatedSpecFields U (ref_Kind ref) host;
                 host = u_SetNamespace U host (ht_Namespace (plan_Host plan));
                 host = u_SetName U host (ht_Name (plan_Host plan));
                 host = u_SetLabels U host (Some (mergeMap (u_GetLabels U host) (HostLabels ref)));
                 host = u_SetAnnotations U host (Some (mergeMap (u_GetAnnotations U host) (HostAnnotations ref)))
             in Inr host))"

section \<open>Adopting what the host owns\<close>

definition adoptServiceAllocatedFields :: "uapi \<Rightarrow> obj \<Rightarrow> obj \<Rightarrow> obj" where
  "adoptServiceAllocatedFields U existing desired =
     foldl (\<lambda>d field. case u_NestedFieldCopy U existing [''spec'', field] of
                        None \<Rightarrow> d
                      | Some value \<Rightarrow> fst (u_SetNestedField U d value [''spec'', field]))
       desired serviceAllocatedSpecFields"

definition container_name :: "obj \<Rightarrow> string" where
  "container_name m = (case fmlookup m ''name'' of Some (VStr s) \<Rightarrow> s | _ \<Rightarrow> '''')"

fun desired_images :: "gval list \<Rightarrow> obj \<Rightarrow> obj" where
  "desired_images [] images = images"
| "desired_images (c # cs) images =
     desired_images cs
       (case c of
          VMap m \<Rightarrow>
            (if container_name m = '''' then images
             else case fmlookup m ''image'' of
                    Some img \<Rightarrow> fmupd (container_name m) img images
                  | None \<Rightarrow> images)
        | _ \<Rightarrow> images)"

definition overlay_container :: "obj \<Rightarrow> gval \<Rightarrow> gval" where
  "overlay_container images c =
     (case c of
        VMap m \<Rightarrow>
          (case fmlookup images (container_name m) of
             Some img \<Rightarrow> VMap (fmupd ''image'' img m)
           | None \<Rightarrow> VMap m)
      | _ \<Rightarrow> c)"

definition overlayContainerImages :: "gval list \<Rightarrow> gval list \<Rightarrow> gval list" where
  "overlayContainerImages existing desired =
     (let desiredImages = desired_images desired fmempty in map (overlay_container desiredImages) existing)"

fun merge_tolerations_loop :: "gval list \<Rightarrow> gval list \<Rightarrow> gval list \<Rightarrow> gval list" where
  "merge_tolerations_loop existing [] out = out"
| "merge_tolerations_loop existing (d # ds) out =
     merge_tolerations_loop existing ds (if list_ex (\<lambda>e. d = e) existing then out else out @ [d])"

definition mergeTolerations :: "gval list \<Rightarrow> gval list \<Rightarrow> gval list" where
  "mergeTolerations existing desired = merge_tolerations_loop existing desired existing"

text \<open>One container list of the live spec takes over the images of the same list of the desired spec.\<close>

definition overlay_field :: "uapi \<Rightarrow> obj \<Rightarrow> string \<Rightarrow> obj \<Rightarrow> obj" where
  "overlay_field U desiredSpec field existingSpec =
     (case u_NestedSlice U desiredSpec [field] of
        None \<Rightarrow> existingSpec
      | Some containers \<Rightarrow>
          (case u_NestedSlice U existingSpec [field] of
             None \<Rightarrow> existingSpec
           | Some ec \<Rightarrow> fst (u_SetNestedSlice U existingSpec (overlayContainerImages ec containers) [field])))"

definition adoptPodImmutableFields :: "uapi \<Rightarrow> obj \<Rightarrow> obj \<Rightarrow> obj" where
  "adoptPodImmutableFields U existing desired =
     (case u_NestedMap U existing [''spec''] of
        None \<Rightarrow> desired
      | Some existingSpec0 \<Rightarrow>
          let desiredSpec = (case u_NestedMap U desired [''spec''] of Some m \<Rightarrow> m | None \<Rightarrow> fmempty);
              existingSpec = overlay_field U desiredSpec ''containers'' existingSpec0;
              existingSpec = overlay_field U desiredSpec ''initContainers'' existingSpec;
              existingSpec = (case u_NestedInt64 U desiredSpec [''activeDeadlineSeconds''] of
                  Some v \<Rightarrow> fst (u_SetNestedField U existingSpec (VInt v) [''activeDeadlineSeconds''])
                | None \<Rightarrow> existingSpec);
              existingSpec = (case u_NestedSlice U desiredSpec [''tolerations''] of
                  Some tolerations \<Rightarrow>
                    let existingTolerations =
                          (case u_NestedSlice U existingSpec [''tolerations''] of Some ts \<Rightarrow> ts | None \<Rightarrow> [])
                    in fst (u_SetNestedSlice U existingSpec
                              (mergeTolerations existingTolerations tolerations) [''tolerations''])
                | None \<Rightarrow> existingSpec)
          in fst (u_SetNestedMap U desired existingSpec [''spec'']))"

definition AdoptHostAllocatedFields :: "uapi \<Rightarrow> obj option \<Rightarrow> obj option \<Rightarrow> obj option" where
  "AdoptHostAllocatedFields U existing0 desired0 =
     (case existing0 of
        None \<Rightarrow> desired0
      | Some existing \<Rightarrow>
        (case desired0 of
           None \<Rightarrow> None
         | Some desired \<Rightarrow>
             (if u_GetKind U existing = ''Service'' then Some (adoptServiceAllocatedFields U existing desired)
              else if u_GetKind U existing = ''Pod'' then Some (adoptPodImmutableFields U existing desired)
              else Some desired)))"

section \<open>The reverse mapping\<close>

definition empty_ref :: ResourceRef where
  "empty_ref = \<lparr>ref_TenantCluster = '''', ref_TenantNamespace = '''', ref_VirtualNamespace = '''',
     ref_Kind = '''', ref_Name = ''''\<rparr>"

text \<open>A read from a possibly nil \<open>map[string]string\<close>.\<close>

definition opt_str_at :: "strmap option \<Rightarrow> string \<Rightarrow> string" where
  "opt_str_at m k = (case m of None \<Rightarrow> '''' | Some m' \<Rightarrow> str_at m' k)"

definition ReverseLookup :: "uapi \<Rightarrow> obj option \<Rightarrow> ResourceRef \<times> bool" where
  "ReverseLookup U host0 =
     (case host0 of
        None \<Rightarrow> (empty_ref, False)
      | Some host \<Rightarrow>
          let labels = u_GetLabels U host
          in if opt_str_at labels LabelManagedBy \<noteq> ManagedByValue then (empty_ref, False)
             else let annotations = u_GetAnnotations U host
                  in (\<lparr>ref_TenantCluster = opt_str_at labels LabelTenant,
                       ref_TenantNamespace = u_GetNamespace U host,
                       ref_VirtualNamespace = opt_str_at annotations AnnotationVirtualNamespace,
                       ref_Kind = u_GetKind U host,
                       ref_Name = opt_str_at annotations AnnotationVirtualName\<rparr>, True))"

section \<open>Content\<close>

definition contentFrom :: "obj \<Rightarrow> obj" where
  "contentFrom m = fmfilter (\<lambda>k. k \<notin> {''apiVersion'', ''kind'', ''metadata'', ''status''}) m"

definition ContentEqual :: "uapi \<Rightarrow> obj \<Rightarrow> obj \<Rightarrow> bool" where
  "ContentEqual U a b =
     (let ac = stripHostAllocatedSpecFields U (u_GetKind U a) a;
          bc = stripHostAllocatedSpecFields U (u_GetKind U b) b
      in contentFrom ac = contentFrom bc)"

definition MergeHostContentIntoTenant :: "uapi \<Rightarrow> obj \<Rightarrow> obj \<Rightarrow> obj" where
  "MergeHostContentIntoTenant U hostObj tenantObj =
     (let hostCopy = stripHostAllocatedSpecFields U (u_GetKind U hostObj) hostObj;
          merged = fmdrop_fset (fmdom (contentFrom tenantObj)) tenantObj
      in merged ++\<^sub>f contentFrom hostCopy)"

section \<open>Plain updates of the object map\<close>

definition set_meta :: "string \<Rightarrow> gval \<Rightarrow> obj \<Rightarrow> obj" where
  "set_meta k v m = fmupd ''metadata'' (VMap (fmupd k v (map_at ''metadata'' m))) m"

lemma fmupd_same: "fmlookup m k = Some v \<Longrightarrow> fmupd k v m = m"
  by (rule fmap_ext) auto

lemma fmupd_twice [simp]: "fmupd k a (fmupd k b m) = fmupd k a m"
  by (rule fmap_ext) simp

lemma peek_at: "peek m [k, j] = fmlookup (map_at k m) j"
  by (auto simp: peek2 map_at_def split: option.splits gval.splits)

lemmas peek_meta = peek_at [of _ "''metadata''"]

lemma map_at_upd [simp]: "map_at k (fmupd j v m) = (if j = k then (case v of VMap m' \<Rightarrow> m' | _ \<Rightarrow> fmempty) else map_at k m)"
  by (auto simp: map_at_def split: gval.splits)

lemma put_meta: "wf_meta m \<Longrightarrow> put_or_keep m [''metadata'', k] v = set_meta k v m"
  by (simp add: put_or_keep_def put2_meta set_meta_def)

lemma set_meta_lookup [simp]:
  "map_at ''metadata'' (set_meta k v m) = fmupd k v (map_at ''metadata'' m)"
  "wf_meta (set_meta k v m)"
  "j \<noteq> ''metadata'' \<Longrightarrow> fmlookup (set_meta k v m) j = fmlookup m j"
  by (auto simp: set_meta_def map_at_def wf_meta_def)

lemma map_at_congr: "fmlookup m k = fmlookup m' k \<Longrightarrow> map_at k m = map_at k m'"
  by (simp add: map_at_def)

lemma wf_meta_congr: "fmlookup m ''metadata'' = fmlookup m' ''metadata'' \<Longrightarrow> wf_meta m = wf_meta m'"
  by (simp add: wf_meta_def)

lemma foldl_del2:
  "foldl (\<lambda>h f. del h [k, f]) m fs =
     (case fmlookup m k of
        Some (VMap sp) \<Rightarrow> fmupd k (VMap (fmfilter (\<lambda>x. x \<notin> set fs) sp)) m
      | _ \<Rightarrow> m)"
proof (induction fs arbitrary: m)
  case Nil
  then show ?case by (auto simp: fmupd_same split: option.splits gval.splits)
next
  case (Cons f fs)
  show ?case
  proof (cases "\<exists>sp. fmlookup m k = Some (VMap sp)")
    case True
    then obtain sp where sp: "fmlookup m k = Some (VMap sp)" by blast
    have "fmfilter (\<lambda>x. x \<notin> set fs) (fmdrop f sp) = fmfilter (\<lambda>x. x \<notin> set (f # fs)) sp"
      by (rule fmap_ext) simp
    moreover have "del m [k, f] = fmupd k (VMap (fmdrop f sp)) m" using sp by (simp add: del2)
    ultimately show ?thesis using sp by (simp add: Cons.IH)
  next
    case False
    then have "del m [k, f] = m" by (auto simp: del2 split: option.splits gval.splits)
    with False show ?thesis by (auto simp: Cons.IH split: option.splits gval.splits)
  qed
qed

text \<open>The effect of \<open>stripHostAllocatedSpecFields\<close> on the spec of a Service.\<close>

definition strip_service_spec :: "obj \<Rightarrow> obj" where
  "strip_service_spec sp =
     (let sp1 = fmfilter (\<lambda>k. k \<notin> set serviceAllocatedSpecFields) sp
      in case fmlookup sp1 ''ports'' of
           Some (VSlice ports) \<Rightarrow> fmupd ''ports'' (VSlice (map strip_node_port ports)) sp1
         | _ \<Rightarrow> sp1)"

definition strip_object :: "string \<Rightarrow> obj \<Rightarrow> obj" where
  "strip_object kind m =
     (if kind \<noteq> ''Service'' then m
      else case fmlookup m ''spec'' of
             Some (VMap sp) \<Rightarrow> fmupd ''spec'' (VMap (strip_service_spec sp)) m
           | _ \<Rightarrow> m)"

lemma strip_node_port_idem [simp]: "strip_node_port (strip_node_port v) = strip_node_port v"
  by (cases v) (auto intro!: fmap_ext)

lemma ports_not_allocated: "''ports'' \<notin> set serviceAllocatedSpecFields"
  by (simp add: serviceAllocatedSpecFields_def)

lemma strip_service_spec_lookup:
  "fmlookup (strip_service_spec sp) k =
     (if k \<in> set serviceAllocatedSpecFields then None
      else if k = ''ports'' then
        (case fmlookup sp ''ports'' of
           Some (VSlice ports) \<Rightarrow> Some (VSlice (map strip_node_port ports)) | v \<Rightarrow> v)
      else fmlookup sp k)"
  using ports_not_allocated
  by (auto simp: strip_service_spec_def Let_def split: option.splits gval.splits)

lemma strip_service_spec_idem [simp]: "strip_service_spec (strip_service_spec sp) = strip_service_spec sp"
  by (rule fmap_ext)
     (auto simp: strip_service_spec_lookup ports_not_allocated comp_def split: option.splits gval.splits)

lemma strip_object_lookup_other: "j \<noteq> ''spec'' \<Longrightarrow> fmlookup (strip_object kind m) j = fmlookup m j"
  by (auto simp: strip_object_def split: option.splits gval.splits)

lemma strip_object_spec:
  "fmlookup (strip_object ''Service'' m) ''spec'' =
     (case fmlookup m ''spec'' of Some (VMap sp) \<Rightarrow> Some (VMap (strip_service_spec sp)) | v \<Rightarrow> v)"
  by (auto simp: strip_object_def split: option.splits gval.splits)

lemma strip_object_id: "kind \<noteq> ''Service'' \<Longrightarrow> strip_object kind m = m"
  by (simp add: strip_object_def)

lemma strip_object_idem [simp]: "strip_object kind (strip_object kind m) = strip_object kind m"
  by (auto simp: strip_object_def split: option.splits gval.splits)

lemma contentFrom_lookup:
  "fmlookup (contentFrom m) k =
     (if k \<in> {''apiVersion'', ''kind'', ''metadata'', ''status''} then None else fmlookup m k)"
  by (simp add: contentFrom_def)

text \<open>Stripping commutes with taking the content: it depends on the spec only.\<close>

lemma contentFrom_strip: "contentFrom (strip_object kind m) = strip_object kind (contentFrom m)"
proof (rule fmap_ext)
  fix k
  show "fmlookup (contentFrom (strip_object kind m)) k = fmlookup (strip_object kind (contentFrom m)) k"
    by (cases "k = ''spec''"; cases "kind = ''Service''")
       (simp_all add: contentFrom_lookup strip_object_lookup_other strip_object_spec strip_object_id)
qed

lemma contentFrom_idem [simp]: "contentFrom (contentFrom m) = contentFrom m"
  by (rule fmap_ext) (simp add: contentFrom_lookup)

context unstructured_api
begin

lemma strip_normal_form: "stripHostAllocatedSpecFields U kind m = strip_object kind m"
proof (cases "kind = ''Service''")
  case False
  then show ?thesis by (simp add: stripHostAllocatedSpecFields_def strip_object_def)
next
  case True
  let ?d = "foldl (\<lambda>h f. del h [''spec'', f]) m serviceAllocatedSpecFields"
  have strip: "stripHostAllocatedSpecFields U kind m =
      (case peek ?d [''spec'', ''ports''] of
         Some (VSlice ports) \<Rightarrow> put_or_keep ?d [''spec'', ''ports''] (VSlice (map strip_node_port ports))
       | _ \<Rightarrow> ?d)"
    using True by (simp add: stripHostAllocatedSpecFields_def api_laws peek_slice_def Let_def
        split: option.splits gval.splits)
  show ?thesis
  proof (cases "\<exists>sp. fmlookup m ''spec'' = Some (VMap sp)")
    case False
    then have "?d = m" by (auto simp: foldl_del2 split: option.splits gval.splits)
    with True False show ?thesis
      unfolding strip by (auto simp: strip_object_def peek2 split: option.splits gval.splits)
  next
    case spec: True
    then obtain sp where sp: "fmlookup m ''spec'' = Some (VMap sp)" by blast
    let ?sp = "fmfilter (\<lambda>x. x \<notin> set serviceAllocatedSpecFields) sp"
    have d: "?d = fmupd ''spec'' (VMap ?sp) m" using sp by (simp add: foldl_del2)
    show ?thesis
      using True sp unfolding strip d
      by (auto simp: strip_object_def strip_service_spec_def Let_def put_or_keep_def path_eval
          simp del: fmlookup_filter split: option.splits gval.splits)
  qed
qed

text \<open>Content equality compares the stripped contents.\<close>

lemma ContentEqual_iff:
  "ContentEqual U a b \<longleftrightarrow>
     strip_object (u_GetKind U a) (contentFrom a) = strip_object (u_GetKind U b) (contentFrom b)"
  by (simp add: ContentEqual_def strip_normal_form contentFrom_strip)

end

section \<open>The host object in plain updates\<close>

definition base_of :: "ResourceRef \<Rightarrow> obj \<Rightarrow> obj" where
  "base_of ref t =
     strip_object (ref_Kind ref)
       (fmdrop ''status'' (foldl (\<lambda>h f. del h [''metadata'', f]) t hostManagedMetadataFields))"

definition labels_of :: "ResourceRef \<Rightarrow> obj \<Rightarrow> strmap" where
  "labels_of ref t = mergeMap (peek_strmap t [''metadata'', ''labels'']) (HostLabels ref)"

definition annotations_of :: "ResourceRef \<Rightarrow> obj \<Rightarrow> strmap" where
  "annotations_of ref t = mergeMap (peek_strmap t [''metadata'', ''annotations'']) (HostAnnotations ref)"

definition host_of :: "ResourceRef \<Rightarrow> obj \<Rightarrow> obj" where
  "host_of ref t =
     set_meta ''annotations'' (VMap (of_strmap (annotations_of ref t)))
      (set_meta ''labels'' (VMap (of_strmap (labels_of ref t)))
        (set_meta ''name'' (VStr (HostName (ref_Name ref) (ref_VirtualNamespace ref) (ref_TenantCluster ref)))
          (set_meta ''namespace'' (VStr (SanitizeName (ref_TenantNamespace ref))) (base_of ref t))))"

lemma map_at_removed:
  "map_at ''metadata'' (foldl (\<lambda>h f. del h [''metadata'', f]) t fs) = fmfilter (\<lambda>k. k \<notin> set fs) (map_at ''metadata'' t)"
  unfolding map_at_def foldl_del2 by (auto split: option.splits gval.splits)

lemma base_of_meta:
  "map_at ''metadata'' (base_of ref t) =
     fmfilter (\<lambda>k. k \<notin> set hostManagedMetadataFields) (map_at ''metadata'' t)"
  unfolding map_at_removed [symmetric]
  by (rule map_at_congr) (simp add: base_of_def strip_object_lookup_other)

lemma wf_meta_base: "wf_meta t \<Longrightarrow> wf_meta (base_of ref t)"
proof -
  assume "wf_meta t"
  then have "wf_meta (foldl (\<lambda>h f. del h [''metadata'', f]) t hostManagedMetadataFields)"
    by (auto simp: foldl_del2 wf_meta_def split: option.splits gval.splits)
  then show ?thesis
    by (simp add: base_of_def wf_meta_def strip_object_lookup_other)
qed

lemma base_of_content: "contentFrom (base_of ref t) = strip_object (ref_Kind ref) (contentFrom t)"
proof -
  have "contentFrom (fmdrop ''status'' (foldl (\<lambda>h f. del h [''metadata'', f]) t hostManagedMetadataFields)) = contentFrom t"
    by (rule fmap_ext) (auto simp: contentFrom_lookup foldl_del2 split: option.splits gval.splits)
  then show ?thesis by (simp add: base_of_def contentFrom_strip)
qed

lemma base_of_other:
  "fmlookup (base_of ref t) ''kind'' = fmlookup t ''kind''"
  "fmlookup (base_of ref t) ''apiVersion'' = fmlookup t ''apiVersion''"
  "fmlookup (base_of ref t) ''status'' = None"
  by (auto simp: base_of_def strip_object_lookup_other foldl_del2 split: option.splits gval.splits)

lemma contentFrom_set_meta [simp]: "contentFrom (set_meta k v m) = contentFrom m"
  by (rule fmap_ext) (simp add: contentFrom_lookup)

lemma host_of_meta:
  "map_at ''metadata'' (host_of ref t) =
     fmupd ''annotations'' (VMap (of_strmap (annotations_of ref t)))
      (fmupd ''labels'' (VMap (of_strmap (labels_of ref t)))
        (fmupd ''name'' (VStr (HostName (ref_Name ref) (ref_VirtualNamespace ref) (ref_TenantCluster ref)))
          (fmupd ''namespace'' (VStr (SanitizeName (ref_TenantNamespace ref)))
            (fmfilter (\<lambda>k. k \<notin> set hostManagedMetadataFields) (map_at ''metadata'' t)))))"
  by (simp add: host_of_def base_of_meta)

lemma host_of_content: "contentFrom (host_of ref t) = strip_object (ref_Kind ref) (contentFrom t)"
  by (simp add: host_of_def base_of_content)

lemma host_of_other:
  "fmlookup (host_of ref t) ''kind'' = fmlookup t ''kind''"
  "fmlookup (host_of ref t) ''apiVersion'' = fmlookup t ''apiVersion''"
  "fmlookup (host_of ref t) ''status'' = None"
  by (simp_all add: host_of_def base_of_other)

lemma wf_meta_host [simp]: "wf_meta (host_of ref t)"
  by (simp add: host_of_def)

lemma SanitizeName_nonempty [simp]: "SanitizeName v \<noteq> ''''"
  using SanitizeName_shape by (simp add: inner_dashes_def)

lemma HostName_nonempty [simp]: "HostName r n t \<noteq> ''''"
  using HostName_inner_dashes by (simp add: inner_dashes_def)

lemma labels_of_at:
  "str_at (labels_of ref t) LabelManagedBy = ManagedByValue"
  "str_at (labels_of ref t) LabelTenant = SanitizeName (ref_TenantCluster ref)"
  "str_at (labels_of ref t) LabelVirtualNamespace = SanitizeName (ref_VirtualNamespace ref)"
  "str_at (labels_of ref t) LabelKind = SanitizeName (ref_Kind ref)"
  by (simp_all add: str_at_def labels_of_def mergeMap_def HostLabels_def key_defs)

lemma annotations_of_at:
  "str_at (annotations_of ref t) AnnotationVirtualNamespace = ref_VirtualNamespace ref"
  "str_at (annotations_of ref t) AnnotationVirtualName = ref_Name ref"
  by (simp_all add: str_at_def annotations_of_def mergeMap_def HostAnnotations_def key_defs)

context unstructured_api
begin

lemma host_normal_form:
  assumes "wf_meta t" "complete_ref ref"
  shows "BuildHostObject U ref (Some t) = Inr (host_of ref t)"
proof -
  have meta: "peek_strmap (set_meta k v m) [''metadata'', j] = peek_strmap m [''metadata'', j]" if "j \<noteq> k" for k v m j
    using that by (simp add: peek_strmap_def peek_map_def peek_meta)
  have base: "peek_strmap (base_of ref t) [''metadata'', j] = peek_strmap t [''metadata'', j]"
    if "j \<in> {''labels'', ''annotations''}" for j
    using that by (auto simp: peek_strmap_def peek_map_def peek_meta base_of_meta hostManagedMetadataFields_def)
  show ?thesis
    using assms(2) wf_meta_base [OF assms(1), of ref]
    by (simp add: BuildHostObject_def Explain_complete plan_of_def Let_def api_laws strip_normal_form
        base_of_def [symmetric] set_str_def set_strmap_def put_meta meta base host_of_def
        labels_of_def annotations_of_def)
qed

end

section \<open>Adopting fields in plain updates\<close>

definition adopt_service_spec :: "obj \<Rightarrow> obj \<Rightarrow> string list \<Rightarrow> obj" where
  "adopt_service_spec es ds fs =
     foldl (\<lambda>d f. case fmlookup es f of None \<Rightarrow> d | Some v \<Rightarrow> fmupd f v d) ds fs"

lemma adopt_service_spec_lookup:
  "fmlookup (adopt_service_spec es ds fs) k =
     (if k \<in> set fs \<and> fmlookup es k \<noteq> None then fmlookup es k else fmlookup ds k)"
proof (induction fs arbitrary: ds)
  case (Cons f fs)
  then show ?case
    by (auto simp: adopt_service_spec_def split: option.splits)
qed (simp add: adopt_service_spec_def)

definition overlay_spec :: "obj \<Rightarrow> string \<Rightarrow> obj \<Rightarrow> obj" where
  "overlay_spec ds field es =
     (case peek_slice ds [field] of
        None \<Rightarrow> es
      | Some cs \<Rightarrow>
          (case peek_slice es [field] of
             None \<Rightarrow> es
           | Some ec \<Rightarrow> fmupd field (VSlice (overlayContainerImages ec cs)) es))"

definition deadline_spec :: "obj \<Rightarrow> obj \<Rightarrow> obj" where
  "deadline_spec ds es =
     (case peek_int ds [''activeDeadlineSeconds''] of
        Some v \<Rightarrow> fmupd ''activeDeadlineSeconds'' (VInt v) es | None \<Rightarrow> es)"

definition slice_or_nil :: "obj \<Rightarrow> string \<Rightarrow> gval list" where
  "slice_or_nil m k = (case peek_slice m [k] of Some xs \<Rightarrow> xs | None \<Rightarrow> [])"

definition tolerations_spec :: "obj \<Rightarrow> obj \<Rightarrow> obj" where
  "tolerations_spec ds es =
     (case peek_slice ds [''tolerations''] of
        Some ts \<Rightarrow> fmupd ''tolerations'' (VSlice (mergeTolerations (slice_or_nil es ''tolerations'') ts)) es
      | None \<Rightarrow> es)"

definition adopt_pod_spec :: "obj \<Rightarrow> obj \<Rightarrow> obj" where
  "adopt_pod_spec es ds =
     tolerations_spec ds (deadline_spec ds (overlay_spec ds ''initContainers'' (overlay_spec ds ''containers'' es)))"

lemma pod_steps_other:
  "k \<noteq> f \<Longrightarrow> fmlookup (overlay_spec ds f es) k = fmlookup es k"
  "k \<noteq> ''activeDeadlineSeconds'' \<Longrightarrow> fmlookup (deadline_spec ds es) k = fmlookup es k"
  "k \<noteq> ''tolerations'' \<Longrightarrow> fmlookup (tolerations_spec ds es) k = fmlookup es k"
  by (auto simp: overlay_spec_def deadline_spec_def tolerations_spec_def split: option.splits)

lemma adopt_pod_spec_lookup:
  "k \<notin> {''containers'', ''initContainers'', ''activeDeadlineSeconds'', ''tolerations''} \<Longrightarrow>
     fmlookup (adopt_pod_spec es ds) k = fmlookup es k"
  "fmlookup (adopt_pod_spec es ds) ''containers'' = fmlookup (overlay_spec ds ''containers'' es) ''containers''"
  "fmlookup (adopt_pod_spec es ds) ''initContainers'' = fmlookup (overlay_spec ds ''initContainers'' es) ''initContainers''"
  "fmlookup (adopt_pod_spec es ds) ''tolerations'' = fmlookup (tolerations_spec ds es) ''tolerations''"
proof -
  show "k \<notin> {''containers'', ''initContainers'', ''activeDeadlineSeconds'', ''tolerations''} \<Longrightarrow>
     fmlookup (adopt_pod_spec es ds) k = fmlookup es k"
    by (simp add: adopt_pod_spec_def pod_steps_other)
  show "fmlookup (adopt_pod_spec es ds) ''containers'' = fmlookup (overlay_spec ds ''containers'' es) ''containers''"
    by (simp add: adopt_pod_spec_def pod_steps_other)
  show "fmlookup (adopt_pod_spec es ds) ''initContainers'' = fmlookup (overlay_spec ds ''initContainers'' es) ''initContainers''"
    by (simp add: adopt_pod_spec_def pod_steps_other)
      (simp add: overlay_spec_def peek_slice_def pod_steps_other split: option.splits gval.splits)
  show "fmlookup (adopt_pod_spec es ds) ''tolerations'' = fmlookup (tolerations_spec ds es) ''tolerations''"
    by (simp add: adopt_pod_spec_def tolerations_spec_def slice_or_nil_def peek_slice_def pod_steps_other
        split: option.splits)
qed

text \<open>Two container entries that differ in nothing but the image.\<close>

fun same_but_image :: "gval \<Rightarrow> gval \<Rightarrow> bool" where
  "same_but_image (VMap m) (VMap m') = (fmdrop ''image'' m = fmdrop ''image'' m')"
| "same_but_image v w = (v = w)"

lemma same_but_image_refl [simp]: "same_but_image v v"
  by (cases v) auto

lemma overlay_same_but_image: "same_but_image c (overlay_container imgs c)"
  by (cases c) (auto simp: overlay_container_def split: option.splits intro!: fmap_ext)

lemma overlayContainerImages_shape:
  "length (overlayContainerImages ec cs) = length ec"
  "list_all2 same_but_image ec (overlayContainerImages ec cs)"
  by (simp_all add: overlayContainerImages_def list_all2_conv_all_nth overlay_same_but_image)

lemma merge_tolerations_loop_filter:
  "merge_tolerations_loop existing ds out = out @ filter (\<lambda>d. d \<notin> set existing) ds"
  by (induction existing ds out rule: merge_tolerations_loop.induct) (auto simp: list_ex_iff)

lemma mergeTolerations_eq:
  "mergeTolerations existing desired = existing @ filter (\<lambda>d. d \<notin> set existing) desired"
  by (simp add: mergeTolerations_def merge_tolerations_loop_filter)

context unstructured_api
begin

lemma spec_put: "fmlookup d ''spec'' \<in> {None, Some (VMap ds)} \<Longrightarrow>
   put_or_keep d [''spec'', f] v =
     fmupd ''spec'' (VMap (fmupd f v (map_at ''spec'' d))) d"
  by (auto simp: put_or_keep_def put.simps map_at_def)

lemma put_or_keep1 [simp]: "put_or_keep m [k] v = fmupd k v m"
  by (simp add: put_or_keep_def)

lemma adopt_service_step:
  assumes "fmlookup d ''spec'' = Some (VMap ds)"
  shows "foldl (\<lambda>d field. case u_NestedFieldCopy U e [''spec'', field] of
           None \<Rightarrow> d | Some v \<Rightarrow> fst (u_SetNestedField U d v [''spec'', field])) d fs =
         fmupd ''spec'' (VMap (adopt_service_spec (map_at ''spec'' e) ds fs)) d"
  using assms
proof (induction fs arbitrary: d ds)
  case Nil
  then show ?case by (simp add: adopt_service_spec_def fmupd_same)
next
  case (Cons f fs)
  have copy: "u_NestedFieldCopy U e [''spec'', f] = fmlookup (map_at ''spec'' e) f"
    by (auto simp: api_laws peek2 map_at_def split: option.splits gval.splits)
  have put: "put_or_keep d [''spec'', f] v = fmupd ''spec'' (VMap (fmupd f v ds)) d" for v
    using Cons.prems by (simp add: spec_put [where ds = ds]) (simp add: map_at_def)
  show ?case
    using Cons.IH [of d ds] Cons.IH [of "fmupd ''spec'' (VMap (fmupd f v ds)) d" "fmupd f v ds" for v] Cons.prems
    by (cases "fmlookup (map_at ''spec'' e) f")
       (simp_all add: copy SetNestedField_obj put adopt_service_spec_def)
qed

lemma adopt_service_normal:
  assumes "fmlookup d ''spec'' = Some (VMap ds)"
  shows "adoptServiceAllocatedFields U e d =
     fmupd ''spec'' (VMap (adopt_service_spec (map_at ''spec'' e) ds serviceAllocatedSpecFields)) d"
  using adopt_service_step [OF assms] by (simp add: adoptServiceAllocatedFields_def)

lemma overlay_field_normal: "overlay_field U ds f es = overlay_spec ds f es"
  by (simp add: overlay_field_def overlay_spec_def api_laws split: option.splits)

lemma adopt_pod_normal:
  "adoptPodImmutableFields U e d =
     (case peek_map e [''spec''] of
        None \<Rightarrow> d
      | Some es \<Rightarrow> fmupd ''spec'' (VMap (adopt_pod_spec es (map_at ''spec'' d))) d)"
proof -
  have "(case u_NestedMap U d [''spec''] of Some m \<Rightarrow> m | None \<Rightarrow> fmempty) = map_at ''spec'' d"
    by (auto simp: api_laws peek_map_def map_at_def split: option.splits gval.splits)
  then show ?thesis
    by (simp add: adoptPodImmutableFields_def overlay_field_normal adopt_pod_spec_def tolerations_spec_def
        deadline_spec_def slice_or_nil_def api_laws Let_def split: option.split)
qed

end

lemma merge_keeps:
  "k \<in> {''apiVersion'', ''kind'', ''metadata'', ''status''} \<Longrightarrow>
   fmlookup (MergeHostContentIntoTenant U h t) k = fmlookup t k"
  by (auto simp: MergeHostContentIntoTenant_def Let_def contentFrom_lookup)

section \<open>Contracts of the functions\<close>

context unstructured_api
begin

lemma build_host_cases:
  assumes "wf_meta t" "BuildHostObject U ref (Some t) = Inr h"
  shows "complete_ref ref" "h = host_of ref t"
proof -
  show c: "complete_ref ref"
  proof (rule ccontr)
    assume "\<not> complete_ref ref"
    then have "\<exists>e. Explain ref = Inl e" using Explain_incomplete by blast
    with assms(2) show False by (auto simp: BuildHostObject_def)
  qed
  show "h = host_of ref t" using host_normal_form [OF assms(1) c] assms(2) by simp
qed

lemma host_accessors:
  "u_GetName U (host_of ref t) = HostName (ref_Name ref) (ref_VirtualNamespace ref) (ref_TenantCluster ref)"
  "u_GetNamespace U (host_of ref t) = SanitizeName (ref_TenantNamespace ref)"
  "u_GetKind U (host_of ref t) = u_GetKind U t"
  "u_GetLabels U (host_of ref t) = Some (labels_of ref t)"
  "u_GetAnnotations U (host_of ref t) = Some (annotations_of ref t)"
proof -
  show "u_GetLabels U (host_of ref t) = Some (labels_of ref t)"
    "u_GetAnnotations U (host_of ref t) = Some (annotations_of ref t)"
    unfolding api_laws by (rule peek_strmap_of_strmap, simp add: peek_meta host_of_meta)+
qed (simp_all add: api_laws peek_str_def peek_meta host_of_meta host_of_other)

lemma reverse_lookup_host:
  "ReverseLookup U (Some (host_of ref t)) =
     (\<lparr>ref_TenantCluster = SanitizeName (ref_TenantCluster ref),
       ref_TenantNamespace = SanitizeName (ref_TenantNamespace ref),
       ref_VirtualNamespace = ref_VirtualNamespace ref,
       ref_Kind = u_GetKind U t, ref_Name = ref_Name ref\<rparr>, True)"
  by (simp add: ReverseLookup_def host_accessors opt_str_at_def labels_of_at annotations_of_at Let_def)

lemma host_fields:
  "f \<in> set hostManagedMetadataFields \<Longrightarrow> peek (host_of ref t) [''metadata'', f] = None"
  by (auto simp: peek_meta host_of_meta hostManagedMetadataFields_def)

lemma host_keeps_labels:
  assumes "peek_strmap t [''metadata'', ''labels''] = Some l"
    and "k \<notin> {LabelManagedBy, LabelTenant, LabelVirtualNamespace, LabelKind}"
  shows "fmlookup (labels_of ref t) k = fmlookup l k"
  using assms by (auto simp: labels_of_def mergeMap_def HostLabels_def)

lemma content_equal_host:
  "u_GetKind U t = ref_Kind ref \<Longrightarrow> ContentEqual U t (host_of ref t)"
  by (simp add: ContentEqual_iff host_accessors host_of_content)

lemma contentFrom_merge:
  "contentFrom (MergeHostContentIntoTenant U h t) = strip_object (u_GetKind U h) (contentFrom h)"
proof (rule fmap_ext)
  fix k
  have "contentFrom (strip_object (u_GetKind U h) h) = strip_object (u_GetKind U h) (contentFrom h)"
    by (rule contentFrom_strip)
  then show "fmlookup (contentFrom (MergeHostContentIntoTenant U h t)) k =
      fmlookup (strip_object (u_GetKind U h) (contentFrom h)) k"
    unfolding MergeHostContentIntoTenant_def strip_normal_form Let_def
    by (cases "k |\<in>| fmdom (contentFrom h)") (auto simp: contentFrom_lookup fmlookup_dom_iff strip_object_lookup_other
        split: option.splits)
qed

lemma merge_content_equal:
  assumes "u_GetKind U h = u_GetKind U t"
  shows "ContentEqual U (MergeHostContentIntoTenant U h t) h"
proof -
  have "u_GetKind U (MergeHostContentIntoTenant U h t) = u_GetKind U t"
    by (simp add: api_laws peek_str_def merge_keeps)
  with assms show ?thesis by (simp add: ContentEqual_iff contentFrom_merge)
qed

end

section \<open>Concrete objects for the witnesses\<close>

definition demo_ref :: ResourceRef where
  "demo_ref = \<lparr>ref_TenantCluster = ''dev'', ref_TenantNamespace = ''team-dev'', ref_VirtualNamespace = ''default'',
     ref_Kind = ''ConfigMap'', ref_Name = ''app-config''\<rparr>"

definition demo_tenant :: obj where
  "demo_tenant = fmap_of_list
     [(''kind'', VStr ''ConfigMap''),
      (''metadata'', VMap (fmap_of_list [(''name'', VStr ''app-config''), (''uid'', VStr ''abc-123'')])),
      (''data'', VMap (fmap_of_list [(''key'', VStr ''value'')]))]"

definition demo_pod :: "string \<Rightarrow> string \<Rightarrow> obj" where
  "demo_pod node img = fmap_of_list
     [(''kind'', VStr ''Pod''),
      (''spec'', VMap (fmap_of_list
         [(''nodeName'', VStr node),
          (''containers'', VSlice [VMap (fmap_of_list [(''name'', VStr ''c''), (''image'', VStr img)])])]))]"

definition demo_service :: "string \<Rightarrow> obj" where
  "demo_service ip = fmap_of_list
     [(''kind'', VStr ''Service''), (''spec'', VMap (fmap_of_list [(''clusterIP'', VStr ip)]))]"

lemma demo_facts:
  "wf_meta demo_tenant" "complete_ref demo_ref" "u_GetKind json_api demo_tenant = ''ConfigMap''"
  "ref_Kind demo_ref = ''ConfigMap''" "u_GetKind json_api (demo_pod n i) = ''Pod''"
  "u_GetKind json_api (demo_service ip) = ''Service''"
  by (simp_all add: demo_tenant_def demo_ref_def demo_pod_def demo_service_def wf_meta_def complete_ref_def
      json.api_laws peek_str_def)

lemmas demo_build = json.host_normal_form [OF demo_facts(1,2)]

section \<open>Properties\<close>

text \<open>Property C26 (the reverse mapping inverts the forward one, up to sanitising). Reading a built host object back
  gives the verbatim virtual namespace and name, and the sanitised tenant cluster and tenant namespace; it is
  the original reference exactly when those two are already sanitised and the kinds agree. A tenant called
  \<open>a.b\<close> is therefore read back as \<open>a-b\<close>.\<close>

theorem reverse_lookup_build:
  assumes "unstructured_api U" "wf_meta t" "BuildHostObject U ref (Some t) = Inr h"
  shows "ReverseLookup U (Some h) =
      (\<lparr>ref_TenantCluster = SanitizeName (ref_TenantCluster ref),
        ref_TenantNamespace = SanitizeName (ref_TenantNamespace ref),
        ref_VirtualNamespace = ref_VirtualNamespace ref,
        ref_Kind = u_GetKind U t, ref_Name = ref_Name ref\<rparr>, True) \<and>
    (ReverseLookup U (Some h) = (ref, True) \<longleftrightarrow>
      SanitizeName (ref_TenantCluster ref) = ref_TenantCluster ref \<and>
      SanitizeName (ref_TenantNamespace ref) = ref_TenantNamespace ref \<and> u_GetKind U t = ref_Kind ref)"
  using unstructured_api.reverse_lookup_host [OF assms(1), of ref t]
    unstructured_api.build_host_cases(2) [OF assms] by (cases ref) auto

theorem reverse_lookup_build_witness:
  "\<exists>h. BuildHostObject json_api demo_ref (Some demo_tenant) = Inr h \<and>
     fst (ReverseLookup json_api (Some h)) = demo_ref"
proof -
  have "SanitizeName ''dev'' = ''dev''" "SanitizeName ''team-dev'' = ''team-dev''"
    by (simp_all add: SanitizeName_id dns_safe_def inner_dashes_def dns_char_def)
  then have "ReverseLookup json_api (Some (host_of demo_ref demo_tenant)) = (demo_ref, True)"
    using reverse_lookup_build [OF json.unstructured_api_axioms demo_facts(1) demo_build]
    by (simp add: demo_facts) (simp add: demo_ref_def)
  with demo_build show ?thesis by auto
qed

text \<open>Property C25 (nothing server-populated crosses to the host). A built host object carries none of the ten
  server-populated or host-owned metadata fields and no status; it carries the deterministic name and
  namespace and the four selectable labels.\<close>

theorem build_host_strips:
  assumes "unstructured_api U" "wf_meta t" "BuildHostObject U ref (Some t) = Inr h"
  shows "(\<forall>f \<in> {''resourceVersion'', ''uid'', ''generation'', ''creationTimestamp'', ''deletionTimestamp'',
        ''deletionGracePeriodSeconds'', ''managedFields'', ''ownerReferences'', ''selfLink'', ''finalizers''}.
       peek h [''metadata'', f] = None) \<and> fmlookup h ''status'' = None \<and>
     u_GetName U h = HostName (ref_Name ref) (ref_VirtualNamespace ref) (ref_TenantCluster ref) \<and>
     u_GetNamespace U h = SanitizeName (ref_TenantNamespace ref) \<and>
     (\<exists>l. u_GetLabels U h = Some l \<and> str_at l LabelManagedBy = ManagedByValue \<and>
        str_at l LabelTenant = SanitizeName (ref_TenantCluster ref) \<and>
        str_at l LabelVirtualNamespace = SanitizeName (ref_VirtualNamespace ref) \<and>
        str_at l LabelKind = SanitizeName (ref_Kind ref))"
proof -
  have h: "h = host_of ref t" using unstructured_api.build_host_cases(2) [OF assms] .
  have "peek h [''metadata'', f] = None" if "f \<in> set hostManagedMetadataFields" for f
    using unstructured_api.host_fields [OF assms(1) that] h by simp
  then show ?thesis
    using unstructured_api.host_accessors [OF assms(1), of ref t]
    by (simp add: h host_of_other labels_of_at hostManagedMetadataFields_def)
qed

theorem build_host_strips_witness:
  "\<exists>h. BuildHostObject json_api demo_ref (Some demo_tenant) = Inr h \<and> peek h [''metadata'', ''uid''] = None \<and>
     u_GetNamespace json_api h = SanitizeName ''team-dev''"
  using build_host_strips [OF json.unstructured_api_axioms demo_facts(1) demo_build] demo_build
  by (simp add: demo_ref_def)

text \<open>What the tenant wrote survives: Labels and annotations of the tenant other than the reverse-mapping
  keys, every other metadata field that is not server-populated, and (for every kind but Service) the whole
  content outside metadata and status are on the host object as the tenant wrote them.\<close>

theorem build_host_preserves:
  assumes "unstructured_api U" "wf_meta t" "BuildHostObject U ref (Some t) = Inr h"
    and "u_GetLabels U t = Some l" "k \<notin> {LabelManagedBy, LabelTenant, LabelVirtualNamespace, LabelKind}"
    and "f \<notin> set hostManagedMetadataFields \<union> {''name'', ''namespace'', ''labels'', ''annotations''}"
  shows "map_option (\<lambda>l'. fmlookup l' k) (u_GetLabels U h) = Some (fmlookup l k) \<and>
     peek h [''metadata'', f] = peek t [''metadata'', f] \<and>
     (ref_Kind ref \<noteq> ''Service'' \<longrightarrow> contentFrom h = contentFrom t)"
proof -
  have h: "h = host_of ref t" using unstructured_api.build_host_cases(2) [OF assms(1-3)] .
  have l: "peek_strmap t [''metadata'', ''labels''] = Some l"
    using assms(4) by (simp add: unstructured_api.GetLabels [OF assms(1)])
  show ?thesis
    using assms(5,6) unstructured_api.host_keeps_labels [OF assms(1) l assms(5)]
      unstructured_api.host_accessors(4) [OF assms(1)]
    by (auto simp: h peek_meta host_of_meta host_of_content strip_object_id)
qed

theorem build_host_preserves_witness:
  "\<exists>t h. u_GetLabels json_api t = Some (fmap_of_list [(''team'', ''payments'')]) \<and>
     BuildHostObject json_api demo_ref (Some t) = Inr h \<and> contentFrom h = contentFrom t \<and>
     map_option (\<lambda>l'. fmlookup l' ''team'') (u_GetLabels json_api h) = Some (Some ''payments'')"
proof -
  let ?l = "fmap_of_list [(''team'', ''payments'')] :: strmap"
  let ?t = "set_meta ''labels'' (VMap (of_strmap ?l)) demo_tenant"
  have lab: "u_GetLabels json_api ?t = Some ?l"
    unfolding json.GetLabels by (rule peek_strmap_of_strmap) (simp add: peek_meta)
  have wf: "wf_meta ?t" by simp
  have h: "BuildHostObject json_api demo_ref (Some ?t) = Inr (host_of demo_ref ?t)"
    using wf demo_facts(2) by (rule json.host_normal_form)
  have k: "''team'' \<notin> {LabelManagedBy, LabelTenant, LabelVirtualNamespace, LabelKind}"
    and f: "''annot'' \<notin> set hostManagedMetadataFields \<union> {''name'', ''namespace'', ''labels'', ''annotations''}"
    by (simp_all add: key_defs hostManagedMetadataFields_def)
  show ?thesis
    using build_host_preserves [OF json.unstructured_api_axioms wf h lab k f] h lab
    by (intro exI [of _ ?t] exI [of _ "host_of demo_ref ?t"]) (simp add: demo_facts)
qed

text \<open>A fresh mirror agrees with its source: Right after the transform, tenant object and host object
  are content-equal, for every kind: the comparison that drives fromHost and bidirectional sync does not see
  what the transform itself changed.\<close>

theorem build_then_content_equal:
  assumes "unstructured_api U" "wf_meta t" "u_GetKind U t = ref_Kind ref"
    and "BuildHostObject U ref (Some t) = Inr h"
  shows "ContentEqual U t h \<and> ContentEqual U h t"
  using unstructured_api.build_host_cases(2) [OF assms(1,2,4)]
    unstructured_api.content_equal_host [OF assms(1,3)] unstructured_api.ContentEqual_iff [OF assms(1)]
  by simp

theorem build_then_content_equal_witness:
  "\<exists>h. BuildHostObject json_api demo_ref (Some demo_tenant) = Inr h \<and> ContentEqual json_api demo_tenant h"
  using build_then_content_equal [OF json.unstructured_api_axioms demo_facts(1) _ demo_build] demo_build
  by (auto simp: demo_facts)

text \<open>Pulling host content converges and keeps the tenant's identity: After a merge the tenant object is
  content-equal to the host object, and its apiVersion, kind, metadata and status are untouched.\<close>

theorem merge_converges:
  assumes "unstructured_api U" "u_GetKind U h = u_GetKind U t"
  shows "ContentEqual U (MergeHostContentIntoTenant U h t) h \<and>
     (\<forall>k \<in> {''apiVersion'', ''kind'', ''metadata'', ''status''}.
        fmlookup (MergeHostContentIntoTenant U h t) k = fmlookup t k)"
  using unstructured_api.merge_content_equal [OF assms] merge_keeps by blast

theorem merge_converges_witness:
  "ContentEqual json_api
     (MergeHostContentIntoTenant json_api (demo_service ''10.0.0.1'') (demo_service ''10.43.0.9''))
     (demo_service ''10.0.0.1'')"
  using merge_converges [OF json.unstructured_api_axioms, of "demo_service ''10.0.0.1''" "demo_service ''10.43.0.9''"]
  by (simp add: demo_facts)

text \<open>Property C28 (an update of a Service keeps what the host allocated). After adoption the desired Service has the live
  value of every allocator field the live object has, and its other spec fields and all other top-level fields
  are the desired ones.\<close>

theorem adopt_service_fields:
  assumes "unstructured_api U" "u_GetKind U e = ''Service''" "fmlookup d ''spec'' = Some (VMap ds)"
    and "AdoptHostAllocatedFields U (Some e) (Some d) = Some r"
  shows "(\<forall>f \<in> {''clusterIP'', ''clusterIPs'', ''healthCheckNodePort'', ''ipFamilies'', ''ipFamilyPolicy''}.
       peek e [''spec'', f] \<noteq> None \<longrightarrow> peek r [''spec'', f] = peek e [''spec'', f]) \<and>
     (\<forall>f. f \<notin> set serviceAllocatedSpecFields \<longrightarrow> peek r [''spec'', f] = peek d [''spec'', f]) \<and>
     (\<forall>k. k \<noteq> ''spec'' \<longrightarrow> fmlookup r k = fmlookup d k)"
proof -
  have r: "r = fmupd ''spec'' (VMap (adopt_service_spec (map_at ''spec'' e) ds serviceAllocatedSpecFields)) d"
    using assms(2,4) unstructured_api.adopt_service_normal [OF assms(1,3)]
    by (simp add: AdoptHostAllocatedFields_def)
  have d: "map_at ''spec'' d = ds" by (simp add: map_at_def assms(3))
  show ?thesis
    by (simp add: r peek_at adopt_service_spec_lookup d) (simp add: serviceAllocatedSpecFields_def)
qed

theorem adopt_service_fields_witness:
  "\<exists>r. AdoptHostAllocatedFields json_api (Some (demo_service ''10.0.0.1'')) (Some (demo_service ''None'')) = Some r \<and>
     peek r [''spec'', ''clusterIP''] = Some (VStr ''10.0.0.1'')"
proof -
  let ?ds = "fmap_of_list [(''clusterIP'', VStr ''None'')]"
  have d: "fmlookup (demo_service ''None'') ''spec'' = Some (VMap ?ds)"
    by (simp add: demo_service_def)
  have "AdoptHostAllocatedFields json_api (Some (demo_service ''10.0.0.1'')) (Some (demo_service ''None'')) =
      Some (adoptServiceAllocatedFields json_api (demo_service ''10.0.0.1'') (demo_service ''None''))"
    by (simp add: AdoptHostAllocatedFields_def demo_facts)
  from this adopt_service_fields [OF json.unstructured_api_axioms demo_facts(6) d this] show ?thesis
    by (simp add: demo_service_def peek2)
qed

text \<open>Property C27 (an update of a Pod changes only what Kubernetes allows). After adoption the spec is the live spec in
  every field but the two container lists, activeDeadlineSeconds and tolerations; each container list has the
  live containers, in order, differing in nothing but images; the live tolerations are a prefix of the new
  ones; everything outside the spec is the desired object's.\<close>

theorem adopt_pod_fields:
  assumes "unstructured_api U" "u_GetKind U e = ''Pod''" "fmlookup e ''spec'' = Some (VMap es)"
    and "AdoptHostAllocatedFields U (Some e) (Some d) = Some r"
  shows "\<exists>rs. fmlookup r ''spec'' = Some (VMap rs) \<and>
     (\<forall>k. k \<notin> {''containers'', ''initContainers'', ''activeDeadlineSeconds'', ''tolerations''} \<longrightarrow>
        fmlookup rs k = fmlookup es k) \<and>
     (\<forall>f \<in> {''containers'', ''initContainers''}. \<forall>ec. fmlookup es f = Some (VSlice ec) \<longrightarrow>
        (\<exists>rc. fmlookup rs f = Some (VSlice rc) \<and> list_all2 same_but_image ec rc)) \<and>
     (\<forall>et. fmlookup es ''tolerations'' = Some (VSlice et) \<longrightarrow>
        (\<exists>rt. fmlookup rs ''tolerations'' = Some (VSlice rt) \<and> prefix et rt)) \<and>
     (\<forall>k. k \<noteq> ''spec'' \<longrightarrow> fmlookup r k = fmlookup d k)"
proof -
  let ?rs = "adopt_pod_spec es (map_at ''spec'' d)"
  have r: "r = fmupd ''spec'' (VMap ?rs) d"
    using assms(2-4) unstructured_api.adopt_pod_normal [OF assms(1)]
    by (simp add: AdoptHostAllocatedFields_def peek_map_def)
  have "\<exists>rc. fmlookup ?rs f = Some (VSlice rc) \<and> list_all2 same_but_image ec rc"
    if "f \<in> {''containers'', ''initContainers''}" "fmlookup es f = Some (VSlice ec)" for f ec
    using that overlayContainerImages_shape(2) [of ec]
    by (auto simp: adopt_pod_spec_lookup overlay_spec_def peek_slice_def list.rel_refl
        split: option.splits gval.splits)
  moreover have "\<exists>rt. fmlookup ?rs ''tolerations'' = Some (VSlice rt) \<and> prefix et rt"
    if "fmlookup es ''tolerations'' = Some (VSlice et)" for et
    using that by (auto simp: adopt_pod_spec_lookup tolerations_spec_def slice_or_nil_def peek_slice_def
        mergeTolerations_eq split: option.splits gval.splits)
  ultimately show ?thesis
    by (intro exI [of _ ?rs]) (simp add: r adopt_pod_spec_lookup)
qed

theorem adopt_pod_fields_witness:
  "\<exists>r rs. AdoptHostAllocatedFields json_api (Some (demo_pod ''node-1'' ''app:v1'')) (Some (demo_pod '''' ''app:v2'')) = Some r \<and>
     fmlookup r ''spec'' = Some (VMap rs) \<and> fmlookup rs ''nodeName'' = Some (VStr ''node-1'')"
proof -
  obtain es where es: "fmlookup (demo_pod ''node-1'' ''app:v1'') ''spec'' = Some (VMap es)"
    and node: "fmlookup es ''nodeName'' = Some (VStr ''node-1'')"
    by (simp add: demo_pod_def)
  have a: "AdoptHostAllocatedFields json_api (Some (demo_pod ''node-1'' ''app:v1'')) (Some (demo_pod '''' ''app:v2'')) =
      Some (adoptPodImmutableFields json_api (demo_pod ''node-1'' ''app:v1'') (demo_pod '''' ''app:v2''))"
    by (simp add: AdoptHostAllocatedFields_def demo_facts)
  from adopt_pod_fields [OF json.unstructured_api_axioms demo_facts(5) es a] a node show ?thesis by fastforce
qed

text \<open>Tolerations are only added. The merged tolerations are the live ones followed by the desired ones
  that no live one equals, so every live and every desired toleration is present and none is replaced.\<close>

theorem tolerations_only_added:
  "mergeTolerations existing desired = existing @ filter (\<lambda>d. d \<notin> set existing) desired \<and>
   set (mergeTolerations existing desired) = set existing \<union> set desired"
  by (auto simp: mergeTolerations_eq)

end
