(* ===== verification/Kube_Client.thy ===== *)
theory Kube_Client
  imports Unstructured
begin

text \<open>
  The controller-runtime client the sync engine talks through: an external service. A client is a record
  of functions on the world \<open>'w\<close>, which stands for everything outside the program: both API servers, every
  other actor, and time. A call returns its result and the world after it. \<open>Create\<close> and \<open>Update\<close> return the
  object as the server stored it, which is what Go's client writes back into its argument.

  The locale \<open>kube_store\<close> states what an API server promises about the objects it holds while nobody else
  writes to it, in terms of \<open>view\<close>, the objects by kind, namespace and name. The in-memory server at the end
  has every law.
\<close>

type_synonym objkey = "GroupVersionKind \<times> string \<times> string"

record 'w client =
  cl_get :: "GroupVersionKind \<Rightarrow> string \<times> string \<Rightarrow> 'w \<Rightarrow> (goerr + obj) \<times> 'w"
  cl_list :: "GroupVersionKind \<Rightarrow> string option \<Rightarrow> (string \<times> string) list \<Rightarrow> 'w \<Rightarrow> (goerr + obj list) \<times> 'w"
  cl_create :: "obj \<Rightarrow> 'w \<Rightarrow> (goerr + obj) \<times> 'w"
  cl_update :: "obj \<Rightarrow> 'w \<Rightarrow> (goerr + obj) \<times> 'w"
  cl_delete :: "obj \<Rightarrow> 'w \<Rightarrow> goerr option \<times> 'w"

definition obj_key :: "uapi \<Rightarrow> obj \<Rightarrow> objkey" where
  "obj_key U o1 = (u_GroupVersionKind U o1, u_GetNamespace U o1, u_GetName U o1)"

text \<open>The kind of a list, as in \<open>listGVK\<close> of the engine.\<close>

definition list_kind :: "GroupVersionKind \<Rightarrow> GroupVersionKind" where
  "list_kind g = g\<lparr>gvk_Kind := gvk_Kind g @ ''List''\<rparr>"

definition labels_match :: "uapi \<Rightarrow> (string \<times> string) list \<Rightarrow> obj \<Rightarrow> bool" where
  "labels_match U ls o1 =
     list_all (\<lambda>(k, v). case u_GetLabels U o1 of None \<Rightarrow> False | Some m \<Rightarrow> fmlookup m k = Some v) ls"

definition selected :: "uapi \<Rightarrow> GroupVersionKind \<Rightarrow> string option \<Rightarrow> (string \<times> string) list \<Rightarrow> obj \<Rightarrow> bool" where
  "selected U g n ls o1 \<longleftrightarrow>
     list_kind (u_GroupVersionKind U o1) = g \<and> (n = None \<or> n = Some (u_GetNamespace U o1)) \<and> labels_match U ls o1"

locale kube_store =
  fixes U :: uapi and C :: "'w client" and view :: "'w \<Rightarrow> objkey \<Rightarrow> obj option"
  assumes view_key: "view w k = Some o1 \<Longrightarrow> obj_key U o1 = k"
    and get_frame: "cl_get C g nn w = (r, w') \<Longrightarrow> view w' = view w"
    and get_found: "cl_get C g nn w = (Inr o1, w') \<Longrightarrow> view w (g, nn) = Some o1"
    and get_missing: "cl_get C g nn w = (Inl err, w') \<Longrightarrow> IsNotFound err \<Longrightarrow> view w (g, nn) = None"
    and list_frame: "cl_list C g n ls w = (lr, w') \<Longrightarrow> view w' = view w"
    and list_items: "cl_list C g n ls w = (Inr os, w') \<Longrightarrow>
          set os = {o1. view w (obj_key U o1) = Some o1 \<and> selected U g n ls o1}"
    and list_distinct: "cl_list C g n ls w = (Inr os, w') \<Longrightarrow> distinct os"
    and create_other: "cl_create C o1 w = (r, w') \<Longrightarrow> k \<noteq> obj_key U o1 \<Longrightarrow> view w' k = view w k"
    and create_keeps: "cl_create C o1 w = (r, w') \<Longrightarrow> view w k = Some o2 \<Longrightarrow> view w' k = Some o2"
    and create_ok: "cl_create C o1 w = (Inr o2, w') \<Longrightarrow> view w' (obj_key U o1) = Some o2"
    and update_other: "cl_update C o1 w = (r, w') \<Longrightarrow> k \<noteq> obj_key U o1 \<Longrightarrow> view w' k = view w k"
    and update_ok: "cl_update C o1 w = (Inr o2, w') \<Longrightarrow> view w' (obj_key U o1) = Some o2"
    and delete_other: "cl_delete C o1 w = (dr, w') \<Longrightarrow> k \<noteq> obj_key U o1 \<Longrightarrow> view w' k = view w k"
    and delete_ok: "cl_delete C o1 w = (None, w') \<Longrightarrow> view w' (obj_key U o1) = None"
    and delete_missing: "cl_delete C o1 w = (Some err, w') \<Longrightarrow> IsNotFound err \<Longrightarrow> view w' (obj_key U o1) = None"
begin

lemma list_member:
  assumes "cl_list C g n ls w = (Inr os, w')" "o1 \<in> set os"
  shows "view w (obj_key U o1) = Some o1" "selected U g n ls o1"
  using list_items [OF assms(1)] assms(2) by auto

lemma create_present: "cl_create C o1 w = (r, w') \<Longrightarrow> view w k \<noteq> None \<Longrightarrow> view w' k = view w k"
  using create_keeps by fastforce

end

section \<open>An in-memory server\<close>

record mem =
  m_objs :: "obj list"
  m_rv :: nat

definition mem_view :: "mem \<Rightarrow> objkey \<Rightarrow> obj option" where
  "mem_view m k = find (\<lambda>o1. obj_key json_api o1 = k) (m_objs m)"

definition stamp :: "nat \<Rightarrow> obj \<Rightarrow> obj" where
  "stamp n o1 = u_SetResourceVersion json_api o1 (CHR ''r'' # replicate n (CHR ''i''))"

definition not_found :: goerr where "not_found = GoErr ErrNotFound ''not found''"

definition mem_get :: "GroupVersionKind \<Rightarrow> string \<times> string \<Rightarrow> mem \<Rightarrow> (goerr + obj) \<times> mem" where
  "mem_get g k m = (case mem_view m (g, k) of None \<Rightarrow> Inl not_found | Some o1 \<Rightarrow> Inr o1, m)"

definition mem_list :: "GroupVersionKind \<Rightarrow> string option \<Rightarrow> (string \<times> string) list \<Rightarrow> mem \<Rightarrow> (goerr + obj list) \<times> mem" where
  "mem_list g n ls m =
     (Inr (remdups (filter (\<lambda>o1. mem_view m (obj_key json_api o1) = Some o1 \<and> selected json_api g n ls o1) (m_objs m))), m)"

definition mem_create :: "obj \<Rightarrow> mem \<Rightarrow> (goerr + obj) \<times> mem" where
  "mem_create o1 m =
     (case mem_view m (obj_key json_api o1) of
        Some _ \<Rightarrow> (Inl (errorf ''already exists''), m)
      | None \<Rightarrow>
          (let o2 = stamp (m_rv m) o1 in (Inr o2, m\<lparr>m_objs := m_objs m @ [o2], m_rv := Suc (m_rv m)\<rparr>)))"

definition mem_update :: "obj \<Rightarrow> mem \<Rightarrow> (goerr + obj) \<times> mem" where
  "mem_update o1 m =
     (case mem_view m (obj_key json_api o1) of
        None \<Rightarrow> (Inl not_found, m)
      | Some old \<Rightarrow>
          (if u_GetResourceVersion json_api o1 \<noteq> '''' \<and> u_GetResourceVersion json_api o1 \<noteq> u_GetResourceVersion json_api old
           then (Inl (errorf ''conflict''), m)
           else let o2 = stamp (m_rv m) o1
                in (Inr o2, m\<lparr>m_objs := map (\<lambda>x. if obj_key json_api x = obj_key json_api o1 then o2 else x) (m_objs m),
                      m_rv := Suc (m_rv m)\<rparr>)))"

definition mem_delete :: "obj \<Rightarrow> mem \<Rightarrow> goerr option \<times> mem" where
  "mem_delete o1 m =
     (case mem_view m (obj_key json_api o1) of
        None \<Rightarrow> (Some not_found, m)
      | Some _ \<Rightarrow> (None, m\<lparr>m_objs := filter (\<lambda>x. obj_key json_api x \<noteq> obj_key json_api o1) (m_objs m)\<rparr>))"

lemma mem_view_key: "mem_view m k = Some o1 \<Longrightarrow> obj_key json_api o1 = k \<and> o1 \<in> set (m_objs m)"
  unfolding mem_view_def by (induction "m_objs m" arbitrary: m) (auto simp: find_Some_iff)

lemma find_append: "find P (xs @ ys) = (case find P xs of None \<Rightarrow> find P ys | Some x \<Rightarrow> Some x)"
  by (induction xs) auto

text \<open>Stamping a resource version changes neither kind, namespace nor name.\<close>

lemma peek_put_or_keep_other:
  assumes "j \<noteq> k" shows "peek (put_or_keep m [a, k] v) [a, j] = peek m [a, j]"
  using assms by (auto simp: put_or_keep_def path_eval split: option.splits gval.splits)

lemma set_str_other:
  "j \<noteq> k \<Longrightarrow> peek (set_str [a, k] m s) [a, j] = peek m [a, j]"
  "b \<noteq> a \<Longrightarrow> fmlookup (set_str [a, k] m s) b = fmlookup m b"
  by (auto simp: set_str_def peek_put_or_keep_other fmlookup_put_or_keep_other fmlookup_del_other)
     (auto simp: path_eval split: option.splits gval.splits)

lemma obj_key_stamp [simp]: "obj_key json_api (stamp n o1) = obj_key json_api o1"
  by (simp add: obj_key_def stamp_def json_api_def gvk_of_def peek_str_def set_str_other)

lemma find_map_replace:
  assumes "obj_key json_api o2 = k"
  shows "find (\<lambda>x. obj_key json_api x = j) (map (\<lambda>x. if obj_key json_api x = k then o2 else x) xs) =
    (if j = k then (if find (\<lambda>x. obj_key json_api x = k) xs = None then None else Some o2)
     else find (\<lambda>x. obj_key json_api x = j) xs)"
  using assms by (induction xs) auto

lemma find_filter_key:
  "find (\<lambda>x. obj_key json_api x = j) (filter (\<lambda>x. obj_key json_api x \<noteq> k) xs) =
    (if j = k then None else find (\<lambda>x. obj_key json_api x = j) xs)"
  by (induction xs) auto

definition mem_client :: "mem client" where
  "mem_client = \<lparr>cl_get = mem_get, cl_list = mem_list, cl_create = mem_create, cl_update = mem_update,
     cl_delete = mem_delete\<rparr>"

interpretation memory: kube_store json_api mem_client mem_view
proof unfold_locales
  show "mem_view w k = Some o1 \<Longrightarrow> obj_key json_api o1 = k" for w k o1
    using mem_view_key by blast
next
  fix g n ls w os w'
  assume "cl_list mem_client g n ls w = (Inr os, w')"
  then show "set os = {o1. mem_view w (obj_key json_api o1) = Some o1 \<and> selected json_api g n ls o1}"
    by (auto simp: mem_client_def mem_list_def dest: mem_view_key)
qed (auto simp: mem_client_def mem_get_def mem_list_def mem_create_def mem_update_def mem_delete_def
      mem_view_def find_append find_map_replace find_filter_key Let_def not_found_def errorf_def IsNotFound_def
      split: option.splits if_splits)

section \<open>Two clusters\<close>

text \<open>A client of one part of a larger world.\<close>

definition lift_call :: "('w \<Rightarrow> 'm) \<Rightarrow> ('m \<Rightarrow> 'w \<Rightarrow> 'w) \<Rightarrow> ('m \<Rightarrow> 'a \<times> 'm) \<Rightarrow> 'w \<Rightarrow> 'a \<times> 'w" where
  "lift_call part setp f w = (case f (part w) of (a, m) \<Rightarrow> (a, setp m w))"

definition lift_client :: "('w \<Rightarrow> 'm) \<Rightarrow> ('m \<Rightarrow> 'w \<Rightarrow> 'w) \<Rightarrow> 'm client \<Rightarrow> 'w client" where
  "lift_client part setp C =
     \<lparr>cl_get = (\<lambda>g k. lift_call part setp (cl_get C g k)),
      cl_list = (\<lambda>g n ls. lift_call part setp (cl_list C g n ls)),
      cl_create = (\<lambda>o1. lift_call part setp (cl_create C o1)),
      cl_update = (\<lambda>o1. lift_call part setp (cl_update C o1)),
      cl_delete = (\<lambda>o1. lift_call part setp (cl_delete C o1))\<rparr>"

lemma lift_client_simps [simp]:
  "cl_get (lift_client part setp C) g k = lift_call part setp (cl_get C g k)"
  "cl_list (lift_client part setp C) g n ls = lift_call part setp (cl_list C g n ls)"
  "cl_create (lift_client part setp C) o1 = lift_call part setp (cl_create C o1)"
  "cl_update (lift_client part setp C) o1 = lift_call part setp (cl_update C o1)"
  "cl_delete (lift_client part setp C) o1 = lift_call part setp (cl_delete C o1)"
  by (simp_all add: lift_client_def)

lemma lift_call_run:
  assumes "\<And>m w. part (setp m w) = m" "lift_call part setp f w = (a, w')"
  shows "f (part w) = (a, part w')"
  using assms by (auto simp: lift_call_def split: prod.splits)

lemma lift_call_snd: "snd (lift_call part setp f w) = setp (snd (f (part w))) w"
  by (simp add: lift_call_def split: prod.splits)

lemma lift_kube_store:
  assumes store: "kube_store U C view" and part: "\<And>m w. part (setp m w) = m"
  shows "kube_store U (lift_client part setp C) (\<lambda>w. view (part w))"
proof -
  note run = lift_call_run [of part setp, OF part]
  show ?thesis
    by unfold_locales
      (auto dest!: run dest: kube_store.view_key [OF store] kube_store.get_frame [OF store] kube_store.get_found [OF store] kube_store.get_missing [OF store]
        kube_store.list_frame [OF store] kube_store.list_items [OF store] kube_store.list_distinct [OF store] kube_store.create_other [OF store]
        kube_store.create_keeps [OF store] kube_store.create_ok [OF store] kube_store.update_other [OF store]
        kube_store.update_ok [OF store] kube_store.delete_other [OF store] kube_store.delete_ok [OF store]
        kube_store.delete_missing [OF store])
qed

record 'd clusters =
  c_host :: mem
  c_tenant :: mem
  c_tokens :: nat
  c_log :: "'d list"

definition host_client :: "'d clusters client" where
  "host_client = lift_client c_host (\<lambda>m w. w\<lparr>c_host := m\<rparr>) mem_client"

definition tenant_client :: "'d clusters client" where
  "tenant_client = lift_client c_tenant (\<lambda>m w. w\<lparr>c_tenant := m\<rparr>) mem_client"

definition take_token :: "'d clusters \<Rightarrow> bool \<times> 'd clusters" where
  "take_token w = (if c_tokens w = 0 then (False, w) else (True, w\<lparr>c_tokens := c_tokens w - 1\<rparr>))"

definition log_decision :: "'d \<Rightarrow> 'd clusters \<Rightarrow> 'd clusters" where
  "log_decision d w = w\<lparr>c_log := c_log w @ [d]\<rparr>"

interpretation host_memory: kube_store json_api host_client "\<lambda>w. mem_view (c_host w)"
  unfolding host_client_def by (rule lift_kube_store [OF memory.kube_store_axioms]) simp

interpretation tenant_memory: kube_store json_api tenant_client "\<lambda>w. mem_view (c_tenant w)"
  unfolding tenant_client_def by (rule lift_kube_store [OF memory.kube_store_axioms]) simp

end
