(* ===== verification/Syncer_Engine.thy ===== *)
theory Syncer_Engine
  imports Syncplan_Transform Kube_Client
begin

text \<open>
  \<open>src/internal/syncer/engine.go\<close>: one convergence pass of the sync engine. The state of a computation is
  the record \<open>estate\<close>: the one mutable field of the Go \<open>Engine\<close> (\<open>History\<close>, a map that may be nil) and the
  world both clusters live in. Every call to a client, to the rate limiter and to the recorder is a
  function of the world, taken from the record \<open>Engine\<close>; none of them is code of this repository.

  The definitions follow the Go functions one for one. The two loops (\<open>sync_items\<close>, \<open>gc_items\<close>) recurse on
  the listed objects with the Go locals as accumulators. Nothing in this theory assumes anything of the
  clients; the theory \<open>Syncer_Safety\<close> adds what an API server promises.
\<close>

section \<open>Data\<close>

definition DirectionToHost :: string where "DirectionToHost = ''toHost''"
definition DirectionFromHost :: string where "DirectionFromHost = ''fromHost''"
definition DirectionBidirectional :: string where "DirectionBidirectional = ''bidirectional''"

lemmas direction_defs = DirectionToHost_def DirectionFromHost_def DirectionBidirectional_def

record Resource =
  res_GVK :: GroupVersionKind
  res_Direction :: string

definition ActionCreate :: string where "ActionCreate = ''Create''"
definition ActionUpdate :: string where "ActionUpdate = ''Update''"
definition ActionDelete :: string where "ActionDelete = ''Delete''"
definition ActionSkip :: string where "ActionSkip = ''Skip''"

lemmas action_defs = ActionCreate_def ActionUpdate_def ActionDelete_def ActionSkip_def

record Decision =
  d_Action :: string
  d_Kind :: string
  d_Ref :: ResourceRef
  d_Host :: HostTarget
  d_Reason :: string

record ConvergedVersions =
  cv_TenantResourceVersion :: string
  cv_HostResourceVersion :: string

type_synonym ConvergenceHistory = "(string, ConvergedVersions) fmap option"

definition defaultSkipNamespaces :: "(string, bool) fmap" where
  "defaultSkipNamespaces =
     fmap_of_list [(''kube-system'', True), (''kube-public'', True), (''kube-node-lease'', True)]"

record 'w Engine =
  e_Tenant :: string
  e_HostNamespace :: string
  e_VirtualClient :: "'w client"
  e_HostClient :: "'w client"
  e_Recorder :: "(Decision \<Rightarrow> 'w \<Rightarrow> 'w) option"
  e_SkipNamespaces :: "(string, bool) fmap option"
  e_RequiredRuntimeClassName :: string
  e_RateLimiter :: "('w \<Rightarrow> bool \<times> 'w) option"

record 'w estate =
  es_History :: ConvergenceHistory
  es_world :: 'w

section \<open>Effects\<close>

definition world_call :: "('w \<Rightarrow> 'a \<times> 'w) \<Rightarrow> ('w estate, 'a) state" where
  "world_call f = State (\<lambda>s. case f (es_world s) of (a, w) \<Rightarrow> (a, s\<lparr>es_world := w\<rparr>))"

definition setConverged :: "string \<Rightarrow> string \<Rightarrow> string \<Rightarrow> ('w estate, unit) state" where
  "setConverged hostName tenantRV hostRV =
     State (\<lambda>s. ((), s\<lparr>es_History :=
        Some (fmupd hostName \<lparr>cv_TenantResourceVersion = tenantRV, cv_HostResourceVersion = hostRV\<rparr>
               (case es_History s of None \<Rightarrow> fmempty | Some h \<Rightarrow> h))\<rparr>))"

text \<open>The read \<open>last, ok := e.History[name]\<close>, also of a nil map.\<close>

definition history_lookup :: "string \<Rightarrow> ('w estate, ConvergedVersions option) state" where
  "history_lookup n = State (\<lambda>s. (case es_History s of None \<Rightarrow> None | Some h \<Rightarrow> fmlookup h n, s))"

definition record_decision :: "'w Engine \<Rightarrow> Decision \<Rightarrow> ('w estate, unit) state" where
  "record_decision E d =
     (case e_Recorder E of None \<Rightarrow> State_Monad.return () | Some rec \<Rightarrow> world_call (\<lambda>w. ((), rec d w)))"

definition decision :: "string \<Rightarrow> ResourceRef \<Rightarrow> HostTarget \<Rightarrow> string \<Rightarrow> Decision" where
  "decision action ref target reason =
     \<lparr>d_Action = action, d_Kind = ref_Kind ref, d_Ref = ref, d_Host = target, d_Reason = reason\<rparr>"

definition rateLimited :: "'w Engine \<Rightarrow> ResourceRef \<Rightarrow> HostTarget \<Rightarrow> ('w estate, Decision option) state" where
  "rateLimited E ref target =
     (case e_RateLimiter E of
        None \<Rightarrow> State_Monad.return None
      | Some Allow \<Rightarrow> do {
          ok \<leftarrow> world_call Allow;
          State_Monad.return
            (if ok then None
             else Some (decision ActionSkip ref target
                ''apiFairness rate limit reached for this tenant; retrying next sync pass''))
        })"

section \<open>Which objects take part\<close>

definition sameSource :: "ResourceRef \<Rightarrow> ResourceRef \<Rightarrow> bool" where
  "sameSource a b \<longleftrightarrow> ref_TenantCluster a = ref_TenantCluster b \<and>
     ref_VirtualNamespace a = ref_VirtualNamespace b \<and> ref_Name a = ref_Name b"

definition refFor :: "uapi \<Rightarrow> 'w Engine \<Rightarrow> string \<Rightarrow> obj \<Rightarrow> ResourceRef" where
  "refFor U E kind o1 =
     \<lparr>ref_TenantCluster = e_Tenant E, ref_TenantNamespace = e_HostNamespace E,
      ref_VirtualNamespace = u_GetNamespace U o1, ref_Kind = kind, ref_Name = u_GetName U o1\<rparr>"

definition skip :: "'w Engine \<Rightarrow> string \<Rightarrow> bool" where
  "skip E ns =
     (case e_SkipNamespaces E of
        Some m \<Rightarrow> bool_at m ns
      | None \<Rightarrow> bool_at defaultSkipNamespaces ns)"

definition isVirtualInfrastructure :: "uapi \<Rightarrow> string \<Rightarrow> obj \<Rightarrow> bool" where
  "isVirtualInfrastructure U kind o1 =
     (if kind = ''Service'' \<or> kind = ''Endpoints'' then
        u_GetNamespace U o1 = ''default'' \<and> u_GetName U o1 = ''kubernetes''
      else if kind = ''ConfigMap'' then u_GetName U o1 = ''kube-root-ca.crt''
      else False)"

definition listGVK :: "GroupVersionKind \<Rightarrow> GroupVersionKind" where
  "listGVK gvk = gvk\<lparr>gvk_Kind := gvk_Kind gvk @ ''List''\<rparr>"

definition aggregate :: "goerr list \<Rightarrow> goerr option" where
  "aggregate errs =
     (case errs of
        [] \<Rightarrow> None
      | [e] \<Rightarrow> Some e
      | _ \<Rightarrow> Some (errorf (foldl (\<lambda>msg e. msg @ (CHR 0x0A # ''  - '') @ err_Error e)
               (fmt_d (length errs) @ '' sync errors'') errs)))"

section \<open>Writing one pair\<close>

definition pushToHost ::
    "uapi \<Rightarrow> 'w Engine \<Rightarrow> ResourceRef \<Rightarrow> HostTarget \<Rightarrow> obj \<Rightarrow> obj \<Rightarrow> obj \<Rightarrow> bool \<Rightarrow> ('w estate, goerr + Decision) state" where
  "pushToHost U E ref target virtualObj existingHost host0 trackHistory = do {
     lim \<leftarrow> rateLimited E ref target;
     case lim of
       Some d \<Rightarrow> State_Monad.return (Inr d)
     | None \<Rightarrow>
         let host1 = u_SetResourceVersion U host0 (u_GetResourceVersion U existingHost);
             host = the (AdoptHostAllocatedFields U (Some existingHost) (Some host1))
         in do {
           r \<leftarrow> world_call (cl_update (e_HostClient E) host);
           case r of
             Inl err \<Rightarrow> State_Monad.return (Inl err)
           | Inr written \<Rightarrow> do {
               (if trackHistory
                then setConverged (ht_Name target) (u_GetResourceVersion U virtualObj) (u_GetResourceVersion U written)
                else State_Monad.return ());
               State_Monad.return
                 (Inr (decision ActionUpdate ref target ''reconciled host object to match virtual source''))
             }
         }
   }"

definition pullToTenant ::
    "uapi \<Rightarrow> 'w Engine \<Rightarrow> ResourceRef \<Rightarrow> HostTarget \<Rightarrow> obj \<Rightarrow> obj \<Rightarrow> string \<Rightarrow> bool \<Rightarrow> ('w estate, goerr + Decision) state" where
  "pullToTenant U E ref target virtualObj existingHost reason trackHistory = do {
     lim \<leftarrow> rateLimited E ref target;
     case lim of
       Some d \<Rightarrow> State_Monad.return (Inr d)
     | None \<Rightarrow> do {
         r \<leftarrow> world_call (cl_update (e_VirtualClient E) (MergeHostContentIntoTenant U existingHost virtualObj));
         case r of
           Inl err \<Rightarrow> State_Monad.return (Inl err)
         | Inr merged \<Rightarrow> do {
             (if trackHistory
              then setConverged (ht_Name target) (u_GetResourceVersion U merged) (u_GetResourceVersion U existingHost)
              else State_Monad.return ());
             State_Monad.return (Inr (decision ActionUpdate ref target reason))
           }
       }
   }"

definition host_wins_reason :: string where
  "host_wins_reason = ''conflictPolicy \"host-wins\": pulled the host's state into the tenant''"

definition host_changed_reason :: string where
  "host_changed_reason = ''only the host changed since tenant and host last agreed; conflictPolicy \"manual\" only holds back a genuine two-sided conflict''"

definition manual_reason :: string where
  "manual_reason = ''tenant and host disagree; conflictPolicy is \"manual\" (or unset) so neither side was changed''"

definition reconcileBidirectionalConflict ::
    "uapi \<Rightarrow> 'w Engine \<Rightarrow> string \<Rightarrow> ResourceRef \<Rightarrow> HostTarget \<Rightarrow> obj \<Rightarrow> obj \<Rightarrow> obj \<Rightarrow> obj \<Rightarrow> ('w estate, goerr + Decision) state" where
  "reconcileBidirectionalConflict U E conflictPolicy ref target virtualObj existing comparableHost host =
     (if conflictPolicy = ''tenant-wins'' then pushToHost U E ref target virtualObj existing host True
      else if conflictPolicy = ''host-wins'' then
        pullToTenant U E ref target virtualObj comparableHost host_wins_reason True
      else do {
        last \<leftarrow> history_lookup (ht_Name target);
        let manual = State_Monad.return (Inr (decision ActionSkip ref target manual_reason));
        case last of
          None \<Rightarrow> manual
        | Some cv \<Rightarrow>
            let tenantChanged = u_GetResourceVersion U virtualObj \<noteq> cv_TenantResourceVersion cv;
                hostChanged = u_GetResourceVersion U existing \<noteq> cv_HostResourceVersion cv
            in if tenantChanged \<and> \<not> hostChanged then pushToHost U E ref target virtualObj existing host True
               else if hostChanged \<and> \<not> tenantChanged then
                 pullToTenant U E ref target virtualObj comparableHost host_changed_reason True
               else manual
      })"

definition collision_reason :: "ResourceRef \<Rightarrow> string" where
  "collision_reason r = ''host name collides with a different tenant object ('' @
     ref_VirtualNamespace r @ ''/'' @ ref_Name r @ '')''"

text \<open>The live host object as it is compared: without the runtime class this engine stamps itself.\<close>

definition comparable_host :: "uapi \<Rightarrow> 'w Engine \<Rightarrow> ResourceRef \<Rightarrow> obj \<Rightarrow> obj" where
  "comparable_host U E ref existing =
     (if ref_Kind ref = ''Pod'' \<and> e_RequiredRuntimeClassName E \<noteq> ''''
      then u_RemoveNestedField U existing [''spec'', ''runtimeClassName'']
      else existing)"

text \<open>\<open>reconcilePair\<close> once the host object exists (after its second error check).\<close>

definition reconcile_existing ::
    "uapi \<Rightarrow> 'w Engine \<Rightarrow> string \<Rightarrow> string \<Rightarrow> ResourceRef \<Rightarrow> HostTarget \<Rightarrow> obj \<Rightarrow> obj \<Rightarrow> obj \<Rightarrow> ('w estate, goerr + Decision) state" where
  "reconcile_existing U E direction conflictPolicy ref target virtualObj host existing =
     (case ReverseLookup U (Some existing) of (existingRef, managed) \<Rightarrow>
        if \<not> managed then
          State_Monad.return (Inr (decision ActionSkip ref target
            ''host name is already occupied by an object tenantplane does not manage''))
        else if \<not> sameSource existingRef ref then
          State_Monad.return (Inr (decision ActionSkip ref target (collision_reason existingRef)))
        else if direction = DirectionToHost then pushToHost U E ref target virtualObj existing host False
        else
          let comparableHost = comparable_host U E ref existing
          in if ContentEqual U virtualObj comparableHost then do {
               (if direction = DirectionBidirectional
                then setConverged (ht_Name target) (u_GetResourceVersion U virtualObj) (u_GetResourceVersion U existing)
                else State_Monad.return ());
               State_Monad.return (Inr (decision ActionSkip ref target ''tenant and host already agree''))
             }
             else if direction = DirectionFromHost then
               pullToTenant U E ref target virtualObj comparableHost ''host is authoritative for this direction'' False
             else reconcileBidirectionalConflict U E conflictPolicy ref target virtualObj existing comparableHost host)"

text \<open>\<open>reconcilePair\<close> when the host object does not exist yet.\<close>

definition create_pair ::
    "uapi \<Rightarrow> 'w Engine \<Rightarrow> string \<Rightarrow> ResourceRef \<Rightarrow> HostTarget \<Rightarrow> obj \<Rightarrow> obj \<Rightarrow> ('w estate, goerr + Decision) state" where
  "create_pair U E direction ref target virtualObj host = do {
     lim \<leftarrow> rateLimited E ref target;
     case lim of
       Some d \<Rightarrow> State_Monad.return (Inr d)
     | None \<Rightarrow> do {
         r \<leftarrow> world_call (cl_create (e_HostClient E) host);
         case r of
           Inl err \<Rightarrow> State_Monad.return (Inl err)
         | Inr created \<Rightarrow> do {
             (if direction = DirectionBidirectional
              then setConverged (ht_Name target) (u_GetResourceVersion U virtualObj) (u_GetResourceVersion U created)
              else State_Monad.return ());
             State_Monad.return
               (Inr (decision ActionCreate ref target ''virtual object has no host counterpart yet''))
           }
       }
   }"

definition reconcilePair ::
    "uapi \<Rightarrow> 'w Engine \<Rightarrow> string \<Rightarrow> string \<Rightarrow> ResourceRef \<Rightarrow> obj \<Rightarrow> obj \<Rightarrow> ('w estate, goerr + Decision) state" where
  "reconcilePair U E direction conflictPolicy ref virtualObj host = do {
     got \<leftarrow> world_call (cl_get (e_HostClient E) (u_GroupVersionKind U host) (u_GetNamespace U host, u_GetName U host));
     let target = \<lparr>ht_Namespace = u_GetNamespace U host, ht_Name = u_GetName U host\<rparr>;
     case got of
       Inl err \<Rightarrow>
         (if IsNotFound err then create_pair U E direction ref target virtualObj host
          else State_Monad.return (Inl err))
     | Inr existing \<Rightarrow> reconcile_existing U E direction conflictPolicy ref target virtualObj host existing
   }"

section \<open>One pass\<close>

text \<open>
  What \<open>syncPass\<close> does with an item before it touches a cluster: \<open>None\<close> for an item it skips, an error, or
  the reference and the desired host object.
\<close>

definition prepare_host :: "uapi \<Rightarrow> 'w Engine \<Rightarrow> GroupVersionKind \<Rightarrow> obj \<Rightarrow> (goerr + ResourceRef \<times> obj) option" where
  "prepare_host U E gvk o1 =
     (if skip E (u_GetNamespace U o1) then None
      else if isVirtualInfrastructure U (gvk_Kind gvk) o1 then None
      else
        let ref = refFor U E (gvk_Kind gvk) o1;
            item = u_GetNamespace U o1 @ ''/'' @ u_GetName U o1
        in Some (case BuildHostObject U ref (Some o1) of
             Inl err \<Rightarrow> Inl (wrap_err (item @ '': build host object'') err)
           | Inr host0 \<Rightarrow>
               let host = u_SetGroupVersionKind U host0 gvk
               in if gvk_Kind gvk = ''Pod'' \<and> e_RequiredRuntimeClassName E \<noteq> '''' then
                    (case u_SetNestedField U host (VStr (e_RequiredRuntimeClassName E)) [''spec'', ''runtimeClassName''] of
                       (_, Some err) \<Rightarrow> Inl (wrap_err (item @ '': set runtimeClassName'') err)
                     | (stamped, None) \<Rightarrow> Inr (ref, stamped))
                  else Inr (ref, host)))"

fun sync_items ::
    "uapi \<Rightarrow> 'w Engine \<Rightarrow> Resource \<Rightarrow> string \<Rightarrow> obj list \<Rightarrow> Decision list \<Rightarrow> goerr list \<Rightarrow> (string, bool) fmap \<Rightarrow>
     ('w estate, Decision list \<times> goerr list \<times> (string, bool) fmap) state" where
  "sync_items U E res conflictPolicy [] decisions errs desiredHostNames =
     State_Monad.return (decisions, errs, desiredHostNames)"
| "sync_items U E res conflictPolicy (o1 # items) decisions errs desiredHostNames =
     (case prepare_host U E (res_GVK res) o1 of
        None \<Rightarrow> sync_items U E res conflictPolicy items decisions errs desiredHostNames
      | Some (Inl err) \<Rightarrow> sync_items U E res conflictPolicy items decisions (errs @ [err]) desiredHostNames
      | Some (Inr (ref, host)) \<Rightarrow> do {
          let desired = fmupd (u_GetName U host) True desiredHostNames;
          r \<leftarrow> reconcilePair U E (res_Direction res) conflictPolicy ref o1 host;
          case r of
            Inl err \<Rightarrow>
              sync_items U E res conflictPolicy items decisions
                (errs @ [wrap_err (u_GetNamespace U o1 @ ''/'' @ u_GetName U o1 @ '': reconcile'') err]) desired
          | Inr d \<Rightarrow> do {
              record_decision E d;
              sync_items U E res conflictPolicy items (decisions @ [d]) errs desired
            }
        })"

fun gc_items ::
    "uapi \<Rightarrow> 'w Engine \<Rightarrow> GroupVersionKind \<Rightarrow> (string, bool) fmap \<Rightarrow> obj list \<Rightarrow> Decision list \<Rightarrow> goerr list \<Rightarrow>
     ('w estate, Decision list \<times> goerr list) state" where
  "gc_items U E gvk desired [] decisions errs = State_Monad.return (decisions, errs)"
| "gc_items U E gvk desired (o1 # items) decisions errs =
     (if bool_at desired (u_GetName U o1) then gc_items U E gvk desired items decisions errs
      else
        let ref = fst (ReverseLookup U (Some o1));
            target = \<lparr>ht_Namespace = u_GetNamespace U o1, ht_Name = u_GetName U o1\<rparr>
        in do {
          lim \<leftarrow> rateLimited E ref target;
          case lim of
            Some d \<Rightarrow> gc_items U E gvk desired items (decisions @ [d]) errs
          | None \<Rightarrow> do {
              r \<leftarrow> world_call (cl_delete (e_HostClient E) o1);
              if (case r of None \<Rightarrow> False | Some err \<Rightarrow> \<not> IsNotFound err) then
                gc_items U E gvk desired items decisions
                  (errs @ [wrap_err (''delete orphan '' @ u_GetName U o1) (the r)])
              else
                gc_items U E gvk desired items
                  (decisions @ [\<lparr>d_Action = ActionDelete, d_Kind = gvk_Kind gvk, d_Ref = ref, d_Host = target,
                     d_Reason = ''virtual source no longer exists''\<rparr>]) errs
            }
        })"

definition gc_labels :: "'w Engine \<Rightarrow> GroupVersionKind \<Rightarrow> (string \<times> string) list" where
  "gc_labels E gvk =
     [(LabelManagedBy, ManagedByValue), (LabelTenant, SanitizeName (e_Tenant E)),
      (LabelKind, SanitizeName (gvk_Kind gvk))]"

definition collectOrphans ::
    "uapi \<Rightarrow> 'w Engine \<Rightarrow> GroupVersionKind \<Rightarrow> (string, bool) fmap \<Rightarrow> ('w estate, Decision list \<times> goerr option) state" where
  "collectOrphans U E gvk desired = do {
     l \<leftarrow> world_call (cl_list (e_HostClient E) (listGVK gvk) (Some (e_HostNamespace E)) (gc_labels E gvk));
     case l of
       Inl err \<Rightarrow> State_Monad.return ([], Some (wrap_err (''list host '' @ gvk_Kind gvk @ '' for GC'') err))
     | Inr items \<Rightarrow> do {
         (decisions, errs) \<leftarrow> gc_items U E gvk desired items [] [];
         State_Monad.return (decisions, aggregate errs)
       }
   }"

fun record_all :: "'w Engine \<Rightarrow> Decision list \<Rightarrow> ('w estate, unit) state" where
  "record_all E [] = State_Monad.return ()"
| "record_all E (d # ds) = do { record_decision E d; record_all E ds }"

definition syncPass ::
    "uapi \<Rightarrow> 'w Engine \<Rightarrow> Resource \<Rightarrow> string \<Rightarrow> ('w estate, Decision list \<times> goerr option) state" where
  "syncPass U E res conflictPolicy = do {
     l \<leftarrow> world_call (cl_list (e_VirtualClient E) (listGVK (res_GVK res)) None []);
     case l of
       Inl err \<Rightarrow> State_Monad.return ([], Some (wrap_err (''list virtual '' @ gvk_Kind (res_GVK res)) err))
     | Inr items \<Rightarrow> do {
         (decisions, errs, desired) \<leftarrow> sync_items U E res conflictPolicy items [] [] fmempty;
         (gc, err) \<leftarrow> collectOrphans U E (res_GVK res) desired;
         record_all E gc;
         State_Monad.return
           (decisions @ gc, aggregate (errs @ (case err of None \<Rightarrow> [] | Some e \<Rightarrow> [e])))
       }
   }"

definition direction_error :: "string \<Rightarrow> string \<Rightarrow> goerr" where
  "direction_error got expected =
     errorf (''syncer: direction '' @ fmt_q got @ '' is not implemented (only '' @ fmt_q expected @ '')'')"

definition SyncToHost :: "uapi \<Rightarrow> 'w Engine \<Rightarrow> Resource \<Rightarrow> ('w estate, Decision list \<times> goerr option) state" where
  "SyncToHost U E res =
     (if res_Direction res \<noteq> DirectionToHost
      then State_Monad.return ([], Some (direction_error (res_Direction res) DirectionToHost))
      else syncPass U E res '''')"

definition SyncFromHost :: "uapi \<Rightarrow> 'w Engine \<Rightarrow> Resource \<Rightarrow> ('w estate, Decision list \<times> goerr option) state" where
  "SyncFromHost U E res =
     (if res_Direction res \<noteq> DirectionFromHost
      then State_Monad.return ([], Some (direction_error (res_Direction res) DirectionFromHost))
      else syncPass U E res '''')"

definition SyncBidirectional :: "uapi \<Rightarrow> 'w Engine \<Rightarrow> Resource \<Rightarrow> string \<Rightarrow> ('w estate, Decision list \<times> goerr option) state" where
  "SyncBidirectional U E res conflictPolicy =
     (if res_Direction res \<noteq> DirectionBidirectional
      then State_Monad.return ([], Some (direction_error (res_Direction res) DirectionBidirectional))
      else syncPass U E res conflictPolicy)"

section \<open>Running a computation\<close>

lemma run_bind: "run_state (State_Monad.bind m f) s = (case run_state m s of (a, t) \<Rightarrow> run_state (f a) t)"
  by (simp add: State_Monad.bind_def split: prod.splits)

lemma run_return: "run_state (State_Monad.return x) s = (x, s)"
  by (simp add: State_Monad.return_def)

lemma run_world_call:
  "run_state (world_call f) s = (fst (f (es_world s)), s\<lparr>es_world := snd (f (es_world s))\<rparr>)"
  by (simp add: world_call_def split: prod.splits)

lemma run_setConverged:
  "run_state (setConverged n t h) s = ((), s\<lparr>es_History := Some (fmupd n
     \<lparr>cv_TenantResourceVersion = t, cv_HostResourceVersion = h\<rparr>
     (case es_History s of None \<Rightarrow> fmempty | Some m \<Rightarrow> m))\<rparr>)"
  by (simp add: setConverged_def)

lemma run_history_lookup:
  "run_state (history_lookup n) s = (case es_History s of None \<Rightarrow> None | Some h \<Rightarrow> fmlookup h n, s)"
  by (simp add: history_lookup_def)

lemmas run_simps = run_bind run_return run_world_call run_setConverged run_history_lookup

text \<open>A relation that only looks at the world, closed under the calls a computation makes.\<close>

definition on_world :: "('w \<Rightarrow> 'w \<Rightarrow> bool) \<Rightarrow> 'w estate \<Rightarrow> 'w estate \<Rightarrow> bool" where
  "on_world R s t = R (es_world s) (es_world t)"

lemma on_world_refl: "reflp R \<Longrightarrow> reflp (on_world R)"
  by (simp add: on_world_def reflp_def)

lemma on_world_trans: "transp R \<Longrightarrow> transp (on_world R)"
  unfolding on_world_def transp_def by blast

lemma frame_world_call: "(\<And>w. R w (snd (f w))) \<Longrightarrow> state_io_rel (on_world R) (world_call f)"
  by (rule state_io_relI) (auto simp: run_world_call on_world_def)

lemma frame_setConverged: "reflp R \<Longrightarrow> state_io_rel (on_world R) (setConverged n t h)"
  by (rule state_io_relI) (auto simp: run_setConverged on_world_def reflp_def)

lemma frame_history_lookup: "reflp R \<Longrightarrow> state_io_rel R (history_lookup n)"
  by (rule state_io_relI) (auto simp: run_history_lookup reflp_def)

text \<open>The history is written by \<open>setConverged\<close> only.\<close>

definition same_history :: "'w estate \<Rightarrow> 'w estate \<Rightarrow> bool" where
  "same_history s t = (es_History t = es_History s)"

lemma same_history_pre [simp, intro]: "reflp same_history" "transp same_history"
  by (auto simp: same_history_def reflp_def transp_def)

lemma history_world_call: "state_io_rel same_history (world_call f)"
  by (rule state_io_relI) (auto simp: run_world_call same_history_def)

lemma history_record: "state_io_rel same_history (record_decision E d)"
  by (auto simp: record_decision_def intro!: frame_rules history_world_call)

lemma history_rateLimited: "state_io_rel same_history (rateLimited E ref target)"
  unfolding rateLimited_def by (intro frame_rules history_world_call same_history_pre)

lemma history_push: "state_io_rel same_history (pushToHost U E ref target v e h False)"
  unfolding pushToHost_def Let_def if_False
  by (intro frame_rules history_world_call history_rateLimited same_history_pre)

lemma history_pull: "state_io_rel same_history (pullToTenant U E ref target v e r False)"
  unfolding pullToTenant_def if_False
  by (intro frame_rules history_world_call history_rateLimited same_history_pre)

lemma history_pair:
  assumes "direction \<in> {DirectionToHost, DirectionFromHost}"
  shows "state_io_rel same_history (reconcilePair U E direction cp ref v h)"
proof -
  have d: "direction \<noteq> DirectionBidirectional" "direction \<noteq> DirectionToHost \<Longrightarrow> direction = DirectionFromHost"
    using assms by (auto simp: direction_defs)
  show ?thesis
    unfolding reconcilePair_def create_pair_def reconcile_existing_def Let_def
    using d by (auto intro!: frame_rules history_world_call history_rateLimited history_push history_pull)
qed

lemma history_sync_items:
  assumes "res_Direction res \<in> {DirectionToHost, DirectionFromHost}"
  shows "state_io_rel same_history (sync_items U E res cp items ds es des)"
  by (induction items arbitrary: ds es des)
     (auto simp: Let_def intro!: frame_rules history_pair history_record assms
       split: option.splits sum.splits)

lemma history_gc_items: "state_io_rel same_history (gc_items U E gvk des items ds es)"
  by (induction items arbitrary: ds es)
     (auto simp: Let_def intro!: frame_rules history_rateLimited history_world_call)

lemma history_record_all: "state_io_rel same_history (record_all E ds)"
  by (induction ds) (auto intro!: frame_rules history_record)

lemma history_pass:
  assumes "res_Direction res \<in> {DirectionToHost, DirectionFromHost}"
  shows "state_io_rel same_history (syncPass U E res cp)"
  unfolding syncPass_def collectOrphans_def
  by (intro frame_rules history_sync_items history_gc_items history_record_all history_world_call assms same_history_pre)

section \<open>An engine over two clusters in memory\<close>

definition world_engine :: "string \<Rightarrow> string \<Rightarrow> string \<Rightarrow> bool \<Rightarrow> Decision clusters Engine" where
  "world_engine tenant ns runtimeClass limited =
     \<lparr>e_Tenant = tenant, e_HostNamespace = ns, e_VirtualClient = tenant_client, e_HostClient = host_client,
      e_Recorder = Some log_decision, e_SkipNamespaces = None, e_RequiredRuntimeClassName = runtimeClass,
      e_RateLimiter = (if limited then Some take_token else None)\<rparr>"

definition demo_gvk :: GroupVersionKind where
  "demo_gvk = \<lparr>gvk_Group = '''', gvk_Version = ''v1'', gvk_Kind = ''ConfigMap''\<rparr>"

definition demo_res :: "string \<Rightarrow> Resource" where
  "demo_res direction = \<lparr>res_GVK = demo_gvk, res_Direction = direction\<rparr>"

definition demo_config :: obj where
  "demo_config = fmap_of_list
     [(''apiVersion'', VStr ''v1''), (''kind'', VStr ''ConfigMap''),
      (''metadata'', VMap (fmap_of_list [(''name'', VStr ''app''), (''namespace'', VStr ''shop'')])),
      (''data'', VMap (fmap_of_list [(''key'', VStr ''value'')]))]"

definition demo_state :: "obj list \<Rightarrow> obj list \<Rightarrow> Decision clusters estate" where
  "demo_state hosts tenants =
     \<lparr>es_History = None,
      es_world = \<lparr>c_host = \<lparr>m_objs = hosts, m_rv = 5\<rparr>, c_tenant = \<lparr>m_objs = tenants, m_rv = 7\<rparr>,
        c_tokens = 0, c_log = []\<rparr>\<rparr>"

lemma demo_gvk_wf: "gvk_wf demo_gvk"
  by (simp add: gvk_wf_def demo_gvk_def)

lemma demo_config_facts:
  "u_GetName json_api demo_config = ''app''" "u_GetNamespace json_api demo_config = ''shop''"
  "u_GetKind json_api demo_config = ''ConfigMap''" "u_GetLabels json_api demo_config = None"
  "u_GroupVersionKind json_api demo_config = demo_gvk" "wf_meta demo_config"
  "obj_key json_api demo_config = (demo_gvk, ''shop'', ''app'')"
proof -
  show g: "u_GroupVersionKind json_api demo_config = demo_gvk"
    by (rule json.GroupVersionKind_get [OF demo_gvk_wf])
      (simp_all add: demo_config_def demo_gvk_def gv_string_def)
  show n: "u_GetName json_api demo_config = ''app''" "u_GetNamespace json_api demo_config = ''shop''"
    "u_GetKind json_api demo_config = ''ConfigMap''" "u_GetLabels json_api demo_config = None" "wf_meta demo_config"
    by (simp_all add: demo_config_def json.api_laws peek_str_def peek_strmap_def peek_map_def peek2 wf_meta_def)
  show "obj_key json_api demo_config = (demo_gvk, ''shop'', ''app'')"
    by (simp add: obj_key_def g n)
qed

lemma demo_list:
  "cl_list (e_VirtualClient (world_engine T n r l)) (listGVK demo_gvk) None [] (es_world (demo_state hs [demo_config]))
     = (Inr [demo_config], es_world (demo_state hs [demo_config]))"
  by (simp add: world_engine_def tenant_client_def lift_call_def mem_client_def mem_list_def demo_state_def
      mem_view_def demo_config_facts selected_def labels_match_def listGVK_def list_kind_def)

lemma demo_get:
  "cl_get (e_HostClient (world_engine T n r l)) demo_gvk (''shop'', ''app'') (es_world (demo_state [demo_config] ts))
     = (Inr demo_config, es_world (demo_state [demo_config] ts))"
  by (simp add: world_engine_def host_client_def lift_call_def mem_client_def mem_get_def demo_state_def
      mem_view_def demo_config_facts)

section \<open>Every engine, every client\<close>

text \<open>
  The theorems of this section assume nothing of the clients, the limiter and the recorder.
\<close>

text \<open>Property C16 (an engine never overwrites what it cannot prove is its own). Whatever the direction and the conflict
  policy: when the host name is taken by an object that is unmanaged, or whose labels and annotations name another
  tenant object, the pair is skipped and the lookup is the only call made.\<close>

theorem foreign_host_object_is_skipped:
  assumes "cl_get (e_HostClient E) (u_GroupVersionKind U host) (u_GetNamespace U host, u_GetName U host) (es_world s)
      = (Inr existing, w)"
    and "\<not> snd (ReverseLookup U (Some existing)) \<or> \<not> sameSource (fst (ReverseLookup U (Some existing))) ref"
  shows "\<exists>d. run_state (reconcilePair U E direction conflictPolicy ref virtualObj host) s
      = (Inr d, s\<lparr>es_world := w\<rparr>) \<and> d_Action d = ActionSkip \<and> d_Ref d = ref"
  using assms
  by (auto simp: reconcilePair_def reconcile_existing_def run_simps decision_def Let_def split: prod.splits)

theorem foreign_host_object_is_skipped_witness:
  "\<exists>d. run_state (reconcilePair json_api (world_engine ''dev'' ''team'' '''' False) DirectionToHost '''' demo_ref
       demo_config demo_config) (demo_state [demo_config] []) = (Inr d, demo_state [demo_config] []) \<and> d_Action d = ActionSkip"
proof -
  have g: "cl_get (e_HostClient (world_engine ''dev'' ''team'' '''' False)) (u_GroupVersionKind json_api demo_config)
      (u_GetNamespace json_api demo_config, u_GetName json_api demo_config) (es_world (demo_state [demo_config] []))
    = (Inr demo_config, es_world (demo_state [demo_config] []))"
    by (simp add: demo_config_facts demo_get)
  have "\<not> snd (ReverseLookup json_api (Some demo_config))"
    by (simp add: ReverseLookup_def demo_config_facts opt_str_at_def ManagedByValue_def)
  then show ?thesis
    using foreign_host_object_is_skipped [OF g, of demo_ref DirectionToHost "''''" demo_config]
    by (force simp: demo_state_def)
qed

text \<open>One-way passes keep no history: A toHost or fromHost pass, with any resource and any clients, leaves
  the convergence history as it was.\<close>

theorem one_way_passes_keep_history:
  "es_History (snd (run_state (SyncToHost U E res) s)) = es_History s \<and>
   es_History (snd (run_state (SyncFromHost U E res) s)) = es_History s"
proof -
  have "state_io_rel same_history (SyncToHost U E res)" "state_io_rel same_history (SyncFromHost U E res)"
    unfolding SyncToHost_def SyncFromHost_def
    by (auto intro!: frame_rules history_pass)
  then show ?thesis
    by (metis prod.collapse same_history_def state_io_relD)
qed

subsection \<open>Every eligible object is accounted for\<close>

definition eligible :: "uapi \<Rightarrow> 'w Engine \<Rightarrow> GroupVersionKind \<Rightarrow> obj \<Rightarrow> bool" where
  "eligible U E gvk o1 \<longleftrightarrow> \<not> skip E (u_GetNamespace U o1) \<and> \<not> isVirtualInfrastructure U (gvk_Kind gvk) o1"

lemma prepare_host_None: "prepare_host U E gvk o1 = None \<longleftrightarrow> \<not> eligible U E gvk o1"
  by (simp add: prepare_host_def eligible_def Let_def)

lemma prepare_host_Inr:
  assumes "prepare_host U E gvk o1 = Some (Inr (ref, host))"
  shows "eligible U E gvk o1" "ref = refFor U E (gvk_Kind gvk) o1"
proof -
  show "eligible U E gvk o1" using assms prepare_host_None by force
  show "ref = refFor U E (gvk_Kind gvk) o1"
    using assms by (auto simp: prepare_host_def Let_def split: if_splits sum.splits prod.splits option.splits)
qed

text \<open>A run of a pair that returns a decision returns one about the pair.\<close>

lemma rateLimited_ref:
  "run_state (rateLimited E ref target) s = (Some d, t) \<Longrightarrow> d_Ref d = ref"
  by (auto simp: rateLimited_def run_simps decision_def split: option.splits if_splits)

lemma push_ref: "run_state (pushToHost U E ref target v e h b) s = (Inr d, t) \<Longrightarrow> d_Ref d = ref"
  by (auto simp: pushToHost_def run_simps decision_def Let_def dest!: rateLimited_ref
      split: prod.splits option.splits sum.splits if_splits)

lemma pull_ref: "run_state (pullToTenant U E ref target v e r b) s = (Inr d, t) \<Longrightarrow> d_Ref d = ref"
  by (auto simp: pullToTenant_def run_simps decision_def Let_def dest!: rateLimited_ref
      split: prod.splits option.splits sum.splits if_splits)

lemma conflict_ref:
  "run_state (reconcileBidirectionalConflict U E cp ref target v e c h) s = (Inr d, t) \<Longrightarrow> d_Ref d = ref"
  by (auto simp: reconcileBidirectionalConflict_def run_simps decision_def Let_def dest: push_ref pull_ref
      split: option.splits if_splits)

lemma existing_ref:
  "run_state (reconcile_existing U E dir cp ref target v h e) s = (Inr d, t) \<Longrightarrow> d_Ref d = ref"
  by (auto simp: reconcile_existing_def run_simps Let_def dest: push_ref pull_ref conflict_ref
      split: prod.splits if_splits) (auto simp: decision_def)

lemma create_ref: "run_state (create_pair U E dir ref target v h) s = (Inr d, t) \<Longrightarrow> d_Ref d = ref"
  by (auto simp: create_pair_def run_simps decision_def Let_def dest!: rateLimited_ref
      split: prod.splits option.splits sum.splits if_splits)

lemma pair_ref: "run_state (reconcilePair U E dir cp ref v h) s = (Inr d, t) \<Longrightarrow> d_Ref d = ref"
  by (auto simp: reconcilePair_def run_simps Let_def dest: create_ref existing_ref
      split: prod.splits sum.splits if_splits)

definition desired_names :: "uapi \<Rightarrow> 'w Engine \<Rightarrow> GroupVersionKind \<Rightarrow> obj list \<Rightarrow> string set" where
  "desired_names U E gvk items =
     {u_GetName U host | host. \<exists>o1 \<in> set items. \<exists>ref. prepare_host U E gvk o1 = Some (Inr (ref, host))}"

lemma desired_names_simps:
  "desired_names U E gvk [] = {}"
  "desired_names U E gvk (o1 # items) = desired_names U E gvk items \<union>
     (case prepare_host U E gvk o1 of Some (Inr (ref, host)) \<Rightarrow> {u_GetName U host} | _ \<Rightarrow> {})"
  by (auto simp: desired_names_def split: option.splits sum.splits prod.splits)

definition accounted ::
    "uapi \<Rightarrow> 'w Engine \<Rightarrow> GroupVersionKind \<Rightarrow> obj list \<Rightarrow> Decision list \<Rightarrow> goerr list \<Rightarrow> (string, bool) fmap \<Rightarrow>
     Decision list \<times> goerr list \<times> (string, bool) fmap \<Rightarrow> bool" where
  "accounted U E gvk items ds es des = (\<lambda>(ds', es', des').
     \<exists>ds2 es2. ds' = ds @ ds2 \<and> es' = es @ es2 \<and>
       length ds2 + length es2 = length (filter (eligible U E gvk) items) \<and>
       subseq (map d_Ref ds2) (map (refFor U E (gvk_Kind gvk)) (filter (eligible U E gvk) items)) \<and>
       (\<forall>n. bool_at des' n \<longleftrightarrow> bool_at des n \<or> n \<in> desired_names U E gvk items))"

lemma accounted_skipped:
  "prepare_host U E gvk o1 = None \<Longrightarrow> accounted U E gvk items ds es des r \<Longrightarrow> accounted U E gvk (o1 # items) ds es des r"
  by (frule prepare_host_None [THEN iffD1]) (simp add: accounted_def desired_names_simps)

lemma accounted_failed:
  assumes "prepare_host U E gvk o1 = Some (Inl err)" "accounted U E gvk items ds (es @ [e]) des r"
  shows "accounted U E gvk (o1 # items) ds es des r"
proof -
  have "eligible U E gvk o1" using assms(1) prepare_host_None by force
  then show ?thesis using assms by (fastforce simp: accounted_def desired_names_simps)
qed

lemma accounted_error:
  assumes "prepare_host U E gvk o1 = Some (Inr (ref, host))"
    "accounted U E gvk items ds (es @ [e]) (fmupd (u_GetName U host) True des) r"
  shows "accounted U E gvk (o1 # items) ds es des r"
  using assms prepare_host_Inr [OF assms(1)]
  by (fastforce simp: accounted_def desired_names_simps bool_at_def)

lemma accounted_decided:
  assumes "prepare_host U E gvk o1 = Some (Inr (ref, host))" "d_Ref d = ref"
    "accounted U E gvk items (ds @ [d]) es (fmupd (u_GetName U host) True des) r"
  shows "accounted U E gvk (o1 # items) ds es des r"
  using assms prepare_host_Inr [OF assms(1)]
  by (fastforce simp: accounted_def desired_names_simps bool_at_def)

lemma sync_items_accounted:
  "run_state (sync_items U E res cp items ds es des) s = (r, t) \<Longrightarrow> accounted U E (res_GVK res) items ds es des r"
proof (induction items arbitrary: ds es des s)
  case Nil
  then show ?case by (auto simp: run_simps accounted_def desired_names_simps)
next
  case (Cons o1 items)
  consider (skipped) "prepare_host U E (res_GVK res) o1 = None"
    | (failed) err where "prepare_host U E (res_GVK res) o1 = Some (Inl err)"
    | (ready) ref host where "prepare_host U E (res_GVK res) o1 = Some (Inr (ref, host))"
    by (metis option.exhaust sum.exhaust surj_pair)
  then show ?case
  proof cases
    case skipped
    with Cons show ?thesis by (auto intro: accounted_skipped)
  next
    case failed
    with Cons.prems show ?thesis by (auto intro: accounted_failed [OF failed Cons.IH])
  next
    case ready
    obtain p u where p: "run_state (reconcilePair U E (res_Direction res) cp ref o1 host) s = (p, u)"
      by fastforce
    show ?thesis
    proof (cases p)
      case (Inl e)
      then show ?thesis using Cons.prems ready p
        by (auto simp: run_simps Let_def intro: accounted_error [OF ready Cons.IH])
    next
      case (Inr d)
      then have "d_Ref d = ref" using p pair_ref by fast
      then show ?thesis using Inr Cons.prems ready p
        by (auto simp: run_simps Let_def split: prod.splits intro: accounted_decided [OF ready _ Cons.IH])
    qed
  qed
qed

lemma aggregate_None: "aggregate errs = None \<longleftrightarrow> errs = []"
  by (simp add: aggregate_def split: list.splits)

lemma subseq_full: "subseq xs ys \<Longrightarrow> length xs = length ys \<Longrightarrow> xs = ys"
  by (rule subseq_same_length)



subsection \<open>An exhausted budget\<close>

text \<open>A computation whose first step never returns a value outside \<open>P\<close>.\<close>

lemma frame_bind_result:
  assumes "transp R" "state_io_rel R m" "\<And>s. P (fst (run_state m s))" "\<And>x. P x \<Longrightarrow> state_io_rel R (f x)"
  shows "state_io_rel R (State_Monad.bind m f)"
proof (rule state_io_relI)
  fix a s s'
  assume "run_state (State_Monad.bind m f) s = (a, s')"
  then obtain x t where r: "run_state m s = (x, t)" "run_state (f x) t = (a, s')"
    by (auto simp: run_bind split: prod.splits)
  then have "P x" using assms(3) [of s] by simp
  with r assms(2,4) have "R s t" "R t s'" by auto
  with assms(1) show "R s s'" by (rule transpD)
qed

text \<open>
  \<open>denied R E\<close>: the limiter always denies, and \<open>R\<close> bounds what reads, the limiter and the recorder do to the
  world. It says nothing of Create, Update and Delete.
\<close>

definition denied :: "('w \<Rightarrow> 'w \<Rightarrow> bool) \<Rightarrow> 'w Engine \<Rightarrow> bool" where
  "denied R E \<longleftrightarrow> reflp R \<and> transp R \<and>
     (\<exists>Allow. e_RateLimiter E = Some Allow \<and> (\<forall>w. \<not> fst (Allow w) \<and> R w (snd (Allow w)))) \<and>
     (\<forall>g n m w. R w (snd (cl_get (e_HostClient E) g (n, m) w))) \<and>
     (\<forall>g n ls w. R w (snd (cl_list (e_HostClient E) g n ls w)) \<and> R w (snd (cl_list (e_VirtualClient E) g n ls w))) \<and>
     (\<forall>r d w. e_Recorder E = Some r \<longrightarrow> R w (r d w))"

lemma denied_frame:
  assumes "denied R E"
  shows "reflp (on_world R)" "transp (on_world R)"
    "state_io_rel (on_world R) (rateLimited E ref target)"
    "fst (run_state (rateLimited E ref target) s) \<noteq> None"
    "state_io_rel (on_world R) (record_decision E d)"
    "state_io_rel (on_world R) (setConverged n a b)"
    "state_io_rel (on_world R) (history_lookup n)"
    "state_io_rel (on_world R) (world_call (cl_get (e_HostClient E) g (p, q)))"
    "state_io_rel (on_world R) (world_call (cl_list (e_HostClient E) g nn ls))"
    "state_io_rel (on_world R) (world_call (cl_list (e_VirtualClient E) g nn ls))"
proof -
  note d = assms [unfolded denied_def]
  show pre: "reflp (on_world R)" "transp (on_world R)" using d by (simp_all add: on_world_refl on_world_trans)
  show "state_io_rel (on_world R) (rateLimited E ref target)"
    using d pre by (auto simp: rateLimited_def intro!: frame_rules frame_world_call)
  show "fst (run_state (rateLimited E ref target) s) \<noteq> None"
    using d by (auto simp: rateLimited_def run_simps)
  show "state_io_rel (on_world R) (record_decision E d)"
    using d pre by (auto simp: record_decision_def intro!: frame_rules frame_world_call)
  show "state_io_rel (on_world R) (setConverged n a b)" "state_io_rel (on_world R) (history_lookup n)"
    using d pre by (simp_all add: frame_setConverged frame_history_lookup)
  show "state_io_rel (on_world R) (world_call (cl_get (e_HostClient E) g (p, q)))"
    "state_io_rel (on_world R) (world_call (cl_list (e_HostClient E) g nn ls))"
    "state_io_rel (on_world R) (world_call (cl_list (e_VirtualClient E) g nn ls))"
    using d by (auto intro!: frame_world_call)
qed

lemma denied_branch:
  assumes "denied R E"
  shows "state_io_rel (on_world R) (do { lim \<leftarrow> rateLimited E ref target;
      case lim of Some d \<Rightarrow> State_Monad.return (Inr d) | None \<Rightarrow> m })"
  by (rule frame_bind_result [where P = "\<lambda>x. x \<noteq> None", OF denied_frame(2,3,4) [OF assms]])
     (use assms in \<open>auto intro!: assms frame_rules denied_frame\<close>)

lemma denied_pair:
  assumes "denied R E"
  shows "state_io_rel (on_world R) (reconcilePair U E dir cp ref v h)"
proof -
  note f = denied_frame [OF assms] and b = denied_branch [OF assms]
  have push: "state_io_rel (on_world R) (pushToHost U E ref target v e h b)" for target e b
    unfolding pushToHost_def by (rule b)
  have pull: "state_io_rel (on_world R) (pullToTenant U E ref target v e r b)" for target e r b
    unfolding pullToTenant_def by (rule b)
  have create: "state_io_rel (on_world R) (create_pair U E dir ref target v h)" for target
    unfolding create_pair_def by (rule b)
  show ?thesis
    unfolding reconcilePair_def reconcile_existing_def reconcileBidirectionalConflict_def Let_def
    by (intro frame_rules f push pull create)
qed

lemma denied_sync_items:
  assumes "denied R E"
  shows "state_io_rel (on_world R) (sync_items U E res cp items ds es des)"
  by (induction items arbitrary: ds es des)
     (auto simp: Let_def intro!: frame_rules denied_pair denied_frame [OF assms] assms split: option.splits sum.splits)

lemma denied_gc_items:
  assumes "denied R E"
  shows "state_io_rel (on_world R) (gc_items U E gvk des items ds es)"
proof (induction items arbitrary: ds es)
  case Nil
  then show ?case by (auto intro!: frame_rules denied_frame [OF assms])
next
  case (Cons o1 items)
  note f = denied_frame [OF assms]
  show ?case
    by (auto simp: Let_def intro!: frame_rules Cons frame_bind_result [where P = "\<lambda>x. x \<noteq> None", OF f(2,3,4)])
qed

text \<open>Property C18 (a throttled tenant writes nothing). When the rate limiter denies every request, a whole pass, in
  every direction, stays within any reflexive and transitive bound on what reads, the limiter and the recorder do
  to the world. Creates, updates and deletes are not bounded by anything, so none is called, on either cluster.\<close>

theorem throttled_pass_writes_nothing:
  assumes "denied R E"
  shows "R (es_world s) (es_world (snd (run_state (syncPass U E res conflictPolicy) s)))"
proof -
  note f = denied_frame [OF assms]
  have r: "state_io_rel (on_world R) (record_all E ds)" for ds
    by (induction ds) (auto intro!: frame_rules f)
  have "state_io_rel (on_world R) (syncPass U E res conflictPolicy)"
    unfolding syncPass_def collectOrphans_def
    by (intro frame_rules f r denied_sync_items denied_gc_items assms)
  then show ?thesis
    by (metis on_world_def prod.collapse state_io_relD)
qed

theorem throttled_pass_writes_nothing_witness:
  "c_host (es_world (snd (run_state (syncPass json_api
      ((world_engine ''dev'' ''team'' '''' True)\<lparr>e_RateLimiter := Some (Pair False)\<rparr>)
      (demo_res DirectionBidirectional) ''tenant-wins'') (demo_state [] [demo_config])))) = \<lparr>m_objs = [], m_rv = 5\<rparr>"
proof -
  let ?R = "\<lambda>w w' :: Decision clusters. c_host w' = c_host w"
  have "denied ?R ((world_engine ''dev'' ''team'' '''' True)\<lparr>e_RateLimiter := Some (Pair False)\<rparr>)"
    by (auto simp: denied_def reflp_def transp_def world_engine_def host_client_def tenant_client_def lift_call_snd
        mem_client_def mem_get_def mem_list_def log_decision_def)
  from throttled_pass_writes_nothing [OF this, where s = "demo_state [] [demo_config]"] show ?thesis
    by (simp add: demo_state_def)
qed

end
