(* ===== verification/Tenant_Status.thy ===== *)
theory Tenant_Status
  imports Control_Plane Syncer_Engine
begin

text \<open>
  \<open>src/internal/controller/status.go\<close> and \<open>support.go\<close>: the conditions of a TenantCluster. Go mutates the status in
  place; the model returns the TenantCluster. \<open>fmt.Sprintf\<close> with \<open>%s\<close> and \<open>%q\<close> is concatenation and \<open>fmt_q\<close>.
\<close>

definition PhasePending :: string where "PhasePending = ''Pending''"
definition PhaseProvisioning :: string where "PhaseProvisioning = ''Provisioning''"
definition PhaseReady :: string where "PhaseReady = ''Ready''"
definition PhaseDegraded :: string where "PhaseDegraded = ''Degraded''"

lemmas phase_defs = PhasePending_def PhaseProvisioning_def PhaseReady_def PhaseDegraded_def

definition ConditionTrue :: string where "ConditionTrue = ''True''"
definition ConditionFalse :: string where "ConditionFalse = ''False''"

section \<open>Upserting a condition\<close>

fun upsert_condition :: "Condition list \<Rightarrow> string \<Rightarrow> string \<Rightarrow> string \<Rightarrow> string \<Rightarrow> Condition list" where
  "upsert_condition [] conditionType status reason message =
     [\<lparr>c_Type = conditionType, c_Status = status, c_Reason = reason, c_Message = message\<rparr>]"
| "upsert_condition (c # cs) conditionType status reason message =
     (if c_Type c = conditionType
      then c\<lparr>c_Status := status, c_Reason := reason, c_Message := message\<rparr> # cs
      else c # upsert_condition cs conditionType status reason message)"

definition setCondition :: "TenantCluster \<Rightarrow> string \<Rightarrow> string \<Rightarrow> string \<Rightarrow> string \<Rightarrow> TenantCluster" where
  "setCondition tc conditionType status reason message =
     tc\<lparr>tc_Status := (tc_Status tc)\<lparr>ts_Conditions :=
        upsert_condition (ts_Conditions (tc_Status tc)) conditionType status reason message\<rparr>\<rparr>"

section \<open>Support conditions\<close>

definition setKubernetesVersionCondition :: "TenantCluster \<Rightarrow> TenantCluster" where
  "setKubernetesVersionCondition tc =
     (if snd (k3sImageForVersion (tcs_KubernetesVersion (tc_Spec tc)))
      then setCondition tc ''KubernetesVersionSupported'' ConditionTrue ''ImageResolved'' ''''
      else setCondition tc ''KubernetesVersionSupported'' ConditionFalse ''UnsupportedVersion''
        (''kubernetesVersion '' @ fmt_q (tcs_KubernetesVersion (tc_Spec tc)) @
         '' has no known k3s image; using the default ('' @ defaultK3sImage @ '') instead''))"

definition setAdmissionHardeningCondition :: "TenantCluster \<Rightarrow> bool \<Rightarrow> TenantCluster" where
  "setAdmissionHardeningCondition tc supported =
     (if supported then setCondition tc ''AdmissionHardening'' ConditionTrue ''ValidatingAdmissionPolicyActive'' ''''
      else setCondition tc ''AdmissionHardening'' ConditionFalse ''ValidatingAdmissionPolicyUnavailable''
        ''runtimeClassName is still enforced by the sync engine, but the admission-layer backstop is unavailable: this cluster does not serve admissionregistration.k8s.io/v1 ValidatingAdmissionPolicy (requires Kubernetes 1.30+)'')"

definition setControllerScopeCondition :: "TenantCluster \<Rightarrow> bool \<Rightarrow> TenantCluster" where
  "setControllerScopeCondition tc supported =
     (if supported then setCondition tc ''ControllerRBACScoped'' ConditionTrue ''ValidatingAdmissionPolicyActive'' ''''
      else setCondition tc ''ControllerRBACScoped'' ConditionFalse ''ValidatingAdmissionPolicyUnavailable''
        ''the controller's ClusterRole is unavoidably cluster-wide, but the admission-layer policy narrowing it to namespaces it manages is unavailable: this cluster does not serve admissionregistration.k8s.io/v1 ValidatingAdmissionPolicy (requires Kubernetes 1.30+)'')"

definition setModeCondition :: "TenantCluster \<Rightarrow> TenantCluster" where
  "setModeCondition tc =
     (if tcs_Mode (tc_Spec tc) \<noteq> TenantModeShared
      then setCondition tc ''ModeSupported'' ConditionFalse ''NotImplemented''
        (''mode '' @ fmt_q (tcs_Mode (tc_Spec tc)) @ '' is accepted but only '' @ fmt_q TenantModeShared @
         '' is implemented; reconciling as shared'')
      else setCondition tc ''ModeSupported'' ConditionTrue ''Shared'' '''')"

text \<open>The list \<open>advisory\<close> of the Go function is never filled, so its first branch cannot be taken.\<close>

definition setIsolationCondition :: "TenantCluster \<Rightarrow> IsolationProfile option \<Rightarrow> TenantCluster" where
  "setIsolationCondition tc profile =
     (case profile of
        None \<Rightarrow> tc
      | Some _ \<Rightarrow>
          (let advisory = [] :: string list
           in if advisory \<noteq> [] then
                setCondition tc ''IsolationEnforced'' ConditionFalse ''PartiallyEnforced''
                  (''declared but not yet enforced through admission: '' @ strings_Join advisory '', '')
              else setCondition tc ''IsolationEnforced'' ConditionTrue ''Enforced'' ''''))"

definition unsynced :: "SyncedResource \<Rightarrow> bool" where
  "unsynced res \<longleftrightarrow> sr_Direction res \<notin> {DirectionToHost, DirectionFromHost, DirectionBidirectional}"

definition setSyncSupportCondition :: "TenantCluster \<Rightarrow> SyncPolicy option \<Rightarrow> TenantCluster" where
  "setSyncSupportCondition tc policy =
     (case policy of
        None \<Rightarrow> tc
      | Some p \<Rightarrow>
          (let skipped = map (\<lambda>res. sr_APIVersion res @ '' '' @ sr_Kind res @ '' ('' @ sr_Direction res @ '')'')
                 (filter unsynced (sps_Resources (sp_Spec p)));
               notes = (if skipped \<noteq> [] then
                   [''unrecognized sync direction; these declared resources are not synced: '' @ strings_Join skipped '', '']
                 else [])
           in if notes \<noteq> [] then
                setCondition tc ''SyncSupported'' ConditionFalse ''PartiallyImplemented'' (strings_Join notes ''; '')
              else setCondition tc ''SyncSupported'' ConditionTrue ''Implemented'' ''''))"

definition setSupportConditions :: "TenantCluster \<Rightarrow> IsolationProfile option \<Rightarrow> SyncPolicy option \<Rightarrow> TenantCluster" where
  "setSupportConditions tc profile policy =
     setKubernetesVersionCondition (setSyncSupportCondition (setIsolationCondition (setModeCondition tc) profile) policy)"

section \<open>Conditions as a map\<close>

text \<open>What a condition list says about a type: its first entry of that type.\<close>

definition condition_of :: "Condition list \<Rightarrow> string \<Rightarrow> Condition option" where
  "condition_of cs t = find (\<lambda>c. c_Type c = t) cs"

lemma upsert_lookup:
  "condition_of (upsert_condition cs t st r m) t' =
     (if t' = t then Some \<lparr>c_Type = t, c_Status = st, c_Reason = r, c_Message = m\<rparr> else condition_of cs t')"
  by (induction cs) (auto simp: condition_of_def)

lemma upsert_types:
  "map c_Type (upsert_condition cs t st r m) = (if t \<in> set (map c_Type cs) then map c_Type cs else map c_Type cs @ [t])"
  by (induction cs) auto

lemma upsert_distinct: "distinct (map c_Type cs) \<Longrightarrow> distinct (map c_Type (upsert_condition cs t st r m))"
  by (simp only: upsert_types) auto

lemma setCondition_frame [simp]:
  "tc_Meta (setCondition tc t st r m) = tc_Meta tc" "tc_Spec (setCondition tc t st r m) = tc_Spec tc"
  "ts_Phase (tc_Status (setCondition tc t st r m)) = ts_Phase (tc_Status tc)"
  "ts_Endpoint (tc_Status (setCondition tc t st r m)) = ts_Endpoint (tc_Status tc)"
  "ts_ExternalEndpoint (tc_Status (setCondition tc t st r m)) = ts_ExternalEndpoint (tc_Status tc)"
  by (simp_all add: setCondition_def)

lemma setCondition_conditions [simp]:
  "ts_Conditions (tc_Status (setCondition tc t st r m)) = upsert_condition (ts_Conditions (tc_Status tc)) t st r m"
  by (simp add: setCondition_def)

text \<open>Upserting conditions: Setting a condition changes what the status says of that type and of no other,
  never introduces a second entry of a type, keeps the order of the entries, and leaves the rest of the
  TenantCluster alone.\<close>

theorem set_condition_upserts:
  "condition_of (ts_Conditions (tc_Status (setCondition tc t st r m))) t' =
      (if t' = t then Some \<lparr>c_Type = t, c_Status = st, c_Reason = r, c_Message = m\<rparr>
       else condition_of (ts_Conditions (tc_Status tc)) t') \<and>
   map c_Type (ts_Conditions (tc_Status (setCondition tc t st r m))) =
      (let ts = map c_Type (ts_Conditions (tc_Status tc)) in if t \<in> set ts then ts else ts @ [t]) \<and>
   tc_Meta (setCondition tc t st r m) = tc_Meta tc \<and> tc_Spec (setCondition tc t st r m) = tc_Spec tc"
  by (simp add: upsert_lookup upsert_types Let_def)

definition says :: "TenantCluster \<Rightarrow> string \<Rightarrow> string option" where
  "says tc t = map_option c_Status (condition_of (ts_Conditions (tc_Status tc)) t)"

lemma says_set [simp]: "says (setCondition tc t st r m) t' = (if t' = t then Some st else says tc t')"
  by (simp add: says_def upsert_lookup)

lemma says_version:
  "says (setKubernetesVersionCondition tc) t =
     (if t = ''KubernetesVersionSupported''
      then Some (if snd (k3sImageForVersion (tcs_KubernetesVersion (tc_Spec tc))) then ConditionTrue else ConditionFalse)
      else says tc t)"
  by (simp add: setKubernetesVersionCondition_def)

lemma says_sync:
  "says (setSyncSupportCondition tc (Some p)) t =
     (if t = ''SyncSupported''
      then Some (if filter unsynced (sps_Resources (sp_Spec p)) = [] then ConditionTrue else ConditionFalse)
      else says tc t)"
  by (simp add: setSyncSupportCondition_def Let_def)

lemma says_isolation:
  "says (setIsolationCondition tc (Some p)) t = (if t = ''IsolationEnforced'' then Some ConditionTrue else says tc t)"
  by (simp add: setIsolationCondition_def)

lemma says_mode:
  "says (setModeCondition tc) t =
     (if t = ''ModeSupported'' then Some (if tcs_Mode (tc_Spec tc) = TenantModeShared then ConditionTrue else ConditionFalse)
      else says tc t)"
  by (simp add: setModeCondition_def)

lemma support_spec_frame [simp]:
  "tc_Spec (setModeCondition tc) = tc_Spec tc" "tc_Spec (setIsolationCondition tc ip) = tc_Spec tc"
  "tc_Spec (setSyncSupportCondition tc sp) = tc_Spec tc" "tc_Spec (setKubernetesVersionCondition tc) = tc_Spec tc"
  "tc_Meta (setModeCondition tc) = tc_Meta tc" "tc_Meta (setIsolationCondition tc ip) = tc_Meta tc"
  "tc_Meta (setSyncSupportCondition tc sp) = tc_Meta tc" "tc_Meta (setKubernetesVersionCondition tc) = tc_Meta tc"
  by (simp_all add: setModeCondition_def setIsolationCondition_def setSyncSupportCondition_def
      setKubernetesVersionCondition_def Let_def split: option.split)

lemma support_frame [simp]:
  "tc_Meta (setSupportConditions tc ip sp) = tc_Meta tc" "tc_Spec (setSupportConditions tc ip sp) = tc_Spec tc"
  "tc_Meta (setAdmissionHardeningCondition tc b) = tc_Meta tc" "tc_Spec (setAdmissionHardeningCondition tc b) = tc_Spec tc"
  "tc_Meta (setControllerScopeCondition tc b) = tc_Meta tc" "tc_Spec (setControllerScopeCondition tc b) = tc_Spec tc"
  by (simp_all add: setSupportConditions_def setAdmissionHardeningCondition_def setControllerScopeCondition_def)

lemma condition_values [simp]: "ConditionTrue \<noteq> ConditionFalse" "ConditionFalse \<noteq> ConditionTrue"
  by (simp_all add: ConditionTrue_def ConditionFalse_def)

text \<open>Support conditions are honest: After the support conditions are set, the status says that the mode,
  the Kubernetes version and the sync policy are supported exactly when the mode is shared, the version resolves to an
  image and every declared resource has a direction the engine implements.\<close>

theorem support_conditions_honest:
  "(says (setSupportConditions tc (Some profile) (Some policy)) ''ModeSupported'' = Some ConditionTrue \<longleftrightarrow>
      tcs_Mode (tc_Spec tc) = ''shared'') \<and>
   (says (setSupportConditions tc (Some profile) (Some policy)) ''KubernetesVersionSupported'' = Some ConditionTrue \<longleftrightarrow>
      snd (k3sImageForVersion (tcs_KubernetesVersion (tc_Spec tc)))) \<and>
   (says (setSupportConditions tc (Some profile) (Some policy)) ''SyncSupported'' = Some ConditionTrue \<longleftrightarrow>
      list_all (\<lambda>res. sr_Direction res \<in> {''toHost'', ''fromHost'', ''bidirectional''}) (sps_Resources (sp_Spec policy)))"
proof (intro conjI)
  show "says (setSupportConditions tc (Some profile) (Some policy)) ''ModeSupported'' = Some ConditionTrue \<longleftrightarrow>
      tcs_Mode (tc_Spec tc) = ''shared''"
    by (simp add: setSupportConditions_def says_version says_sync says_isolation says_mode TenantModeShared_def)
  show "says (setSupportConditions tc (Some profile) (Some policy)) ''KubernetesVersionSupported'' = Some ConditionTrue \<longleftrightarrow>
      snd (k3sImageForVersion (tcs_KubernetesVersion (tc_Spec tc)))"
    by (simp add: setSupportConditions_def says_version)
  show "says (setSupportConditions tc (Some profile) (Some policy)) ''SyncSupported'' = Some ConditionTrue \<longleftrightarrow>
      list_all (\<lambda>res. sr_Direction res \<in> {''toHost'', ''fromHost'', ''bidirectional''}) (sps_Resources (sp_Spec policy))"
    by (auto simp: setSupportConditions_def says_version says_sync filter_empty_conv list_all_iff unsynced_def direction_defs)
qed

end
