(* ===== verification/Controller_Env.thy ===== *)
theory Controller_Env
  imports Tenant_Status
begin

text \<open>
  What the TenantCluster controller stands on. \<open>TenantClusterReconciler\<close> holds one controller-runtime client;
  Go picks the API type of a call by the type of its argument, the model by the field of the record
  \<open>Reconciler\<close>: a \<open>kind_client\<close> for each typed object, the client of \<open>Kube_Client\<close> for unstructured ones. The other
  fields are the functions of third-party packages the controller calls, and \<open>execInPod\<close>, which only streams
  from a pod. A controller computation is a state monad over the world.
\<close>

record ('a, 'w) kind_client =
  k_Get :: "string \<Rightarrow> string \<Rightarrow> 'w \<Rightarrow> (goerr + 'a) \<times> 'w"
  k_Create :: "'a \<Rightarrow> 'w \<Rightarrow> (goerr + 'a) \<times> 'w"
  k_Update :: "'a \<Rightarrow> 'w \<Rightarrow> (goerr + 'a) \<times> 'w"
  k_StatusUpdate :: "'a \<Rightarrow> 'w \<Rightarrow> (goerr + 'a) \<times> 'w"
  k_Delete :: "'a \<Rightarrow> 'w \<Rightarrow> goerr option \<times> 'w"
  k_CreateOrUpdate :: "string \<Rightarrow> string \<Rightarrow> ('a \<Rightarrow> goerr + 'a) \<Rightarrow> 'w \<Rightarrow> goerr option \<times> 'w"

record Secret =
  se_Meta :: ObjectMeta
  se_Data :: "(string, string) fmap option"

record PersistentVolumeClaim =
  pvc_Meta :: ObjectMeta

record ('q, 'c, 'w) Reconciler =
  r_tc :: "(TenantCluster, 'w) kind_client"
  r_ip :: "(IsolationProfile, 'w) kind_client"
  r_sp :: "(SyncPolicy, 'w) kind_client"
  r_sd :: "(SyncDecision, 'w) kind_client"
  r_ns :: "(Namespace, 'w) kind_client"
  r_svc :: "(Service, 'w) kind_client"
  r_sts :: "('q StatefulSet, 'w) kind_client"
  r_secret :: "(Secret, 'w) kind_client"
  r_pvc :: "(PersistentVolumeClaim, 'w) kind_client"
  r_np :: "(NetworkPolicy, 'w) kind_client"
  r_rq :: "('q ResourceQuota, 'w) kind_client"
  r_lr :: "('q LimitRange, 'w) kind_client"
  r_un :: "'w client"
  r_U :: uapi
  r_ParseQuantity :: "string \<Rightarrow> goerr + 'q"
  r_ContainsFinalizer :: "ObjectMeta \<Rightarrow> string \<Rightarrow> bool"
  r_AddFinalizer :: "ObjectMeta \<Rightarrow> string \<Rightarrow> ObjectMeta"
  r_RemoveFinalizer :: "ObjectMeta \<Rightarrow> string \<Rightarrow> ObjectMeta"
  r_SetControllerReference :: "TenantCluster \<Rightarrow> ObjectMeta \<Rightarrow> goerr + ObjectMeta"
  r_execInPod :: "string \<Rightarrow> string \<Rightarrow> string \<Rightarrow> string list \<Rightarrow> 'w \<Rightarrow> (goerr + string) \<times> 'w"
  r_Eventf :: "(TenantCluster \<Rightarrow> string \<Rightarrow> string \<Rightarrow> string \<Rightarrow> 'w \<Rightarrow> 'w) option"
  r_NewLimiter :: "nat \<Rightarrow> nat \<Rightarrow> 'w \<Rightarrow> ('w \<Rightarrow> bool \<times> 'w) \<times> 'w"
  r_RESTConfigFromKubeConfig :: "string \<Rightarrow> goerr + 'c"
  r_NewClient :: "'c \<Rightarrow> 'w \<Rightarrow> (goerr + 'w client) \<times> 'w"
  r_ParseGroupVersion :: "string \<Rightarrow> goerr + string \<times> string"
  r_Now :: "'w \<Rightarrow> string \<times> 'w"
  r_ListTenants :: "string \<Rightarrow> string \<Rightarrow> 'w \<Rightarrow> (goerr + TenantCluster list) \<times> 'w"

definition api_call :: "('w \<Rightarrow> 'a \<times> 'w) \<Rightarrow> ('w, 'a) state" where
  "api_call f = State f"

lemma run_api_call [simp]: "run_state (api_call f) w = f w"
  by (simp add: api_call_def)

lemma frame_api_call [frame_rules]: "(\<And>w. R w (snd (f w))) \<Longrightarrow> state_io_rel R (api_call f)"
  by (rule state_io_relI) (metis run_api_call snd_conv)

text \<open>\<open>if err := m(); err != nil { return err }\<close>, then the rest.\<close>

definition and_then :: "('w, goerr option) state \<Rightarrow> ('w, goerr option) state \<Rightarrow> ('w, goerr option) state" where
  "and_then m k = do { r \<leftarrow> m; case r of Some err \<Rightarrow> State_Monad.return (Some err) | None \<Rightarrow> k }"

text \<open>The error of a call whose object is not needed any more.\<close>

definition err_of :: "goerr + 'a \<Rightarrow> goerr option" where
  "err_of r = (case r of Inl err \<Rightarrow> Some err | Inr _ \<Rightarrow> None)"

definition ignore_not_found :: "goerr option \<Rightarrow> goerr option" where
  "ignore_not_found r = (case r of Some err \<Rightarrow> (if IsNotFound err then None else Some err) | None \<Rightarrow> None)"

lemma frame_and_then [frame_rules]:
  "reflp R \<Longrightarrow> transp R \<Longrightarrow> state_io_rel R m \<Longrightarrow> state_io_rel R k \<Longrightarrow> state_io_rel R (and_then m k)"
  unfolding and_then_def by (intro frame_rules)

lemma run_and_then:
  "run_state (and_then m k) w = (case run_state m w of (Some err, w') \<Rightarrow> (Some err, w') | (None, w') \<Rightarrow> run_state k w')"
  by (auto simp: and_then_def run_bind run_return split: prod.splits option.splits)

lemmas ctrl_run = run_bind run_return run_api_call run_and_then

end
