(* ===== verification/Admission.thy ===== *)
theory Admission
  imports Controller_Env
begin

text \<open>
  \<open>src/internal/controller/admission.go\<close> and \<open>rbac_scope.go\<close>: the ValidatingAdmissionPolicies that back up the
  controller, as unstructured objects, and the operations that converge them. A map literal is an object with
  those keys; CEL expressions are the text the API server will read.
\<close>

section \<open>Literals\<close>

definition vstr_list :: "string list \<Rightarrow> gval" where
  "vstr_list ss = VSlice (map VStr ss)"

definition vmap :: "(string \<times> gval) list \<Rightarrow> gval" where
  "vmap kvs = VMap (fmap_of_list kvs)"

definition vapGVK :: GroupVersionKind where
  "vapGVK = \<lparr>gvk_Group = ''admissionregistration.k8s.io'', gvk_Version = ''v1'', gvk_Kind = ''ValidatingAdmissionPolicy''\<rparr>"

definition vapBindingGVK :: GroupVersionKind where
  "vapBindingGVK = \<lparr>gvk_Group = ''admissionregistration.k8s.io'', gvk_Version = ''v1'',
     gvk_Kind = ''ValidatingAdmissionPolicyBinding''\<rparr>"

definition isolationProfileParamKind :: gval where
  "isolationProfileParamKind = vmap
     [(''apiVersion'', VStr ''tenantplane.io/v1alpha1''), (''kind'', VStr ''IsolationProfile'')]"

definition runtimeClassPolicyName :: string where "runtimeClassPolicyName = ''tenantplane-runtimeclass''"

definition controllerServiceAccountUsername :: string where
  "controllerServiceAccountUsername = ''system:serviceaccount:tenantplane-system:tenantplane-controller''"

definition writeScopePolicyName :: string where "writeScopePolicyName = ''tenantplane-controller-write-scope''"
definition namespaceScopePolicyName :: string where "namespaceScopePolicyName = ''tenantplane-controller-namespace-scope''"
definition writeScopeBindingName :: string where "writeScopeBindingName = ''tenantplane-controller-write-scope''"
definition namespaceScopeBindingName :: string where "namespaceScopeBindingName = ''tenantplane-controller-namespace-scope''"

text \<open>The \<open>metadata\<close> of a global policy or binding, and one rule of \<open>resourceRules\<close>.\<close>

definition policy_meta :: "string \<Rightarrow> gval" where
  "policy_meta name = vmap [(''name'', VStr name), (''labels'', vmap [(labelManagedBy, VStr ''tenantplane'')])]"

definition resource_rule :: "string \<Rightarrow> string list \<Rightarrow> string list \<Rightarrow> gval" where
  "resource_rule api_group operations resources = vmap
     [(''apiGroups'', vstr_list [api_group]), (''apiVersions'', vstr_list [''v1'']),
      (''operations'', vstr_list operations), (''resources'', vstr_list resources)]"

definition validation :: "string \<Rightarrow> string \<Rightarrow> gval" where
  "validation expression message = vmap [(''expression'', VStr expression), (''message'', VStr message)]"

section \<open>The runtime class policy\<close>

definition buildRuntimeClassPolicy :: "uapi \<Rightarrow> obj" where
  "buildRuntimeClassPolicy U = u_SetGroupVersionKind U (fmap_of_list
     [(''metadata'', policy_meta runtimeClassPolicyName),
      (''spec'', vmap
        [(''failurePolicy'', VStr ''Fail''), (''paramKind'', isolationProfileParamKind),
         (''matchConstraints'', vmap [(''resourceRules'', VSlice [resource_rule '''' [''CREATE''] [''pods'']])]),
         (''validations'', VSlice [validation
            (''params.spec.controls.runtimeClassName == \"\" || '' @
             ''(has(object.spec.runtimeClassName) && object.spec.runtimeClassName == params.spec.controls.runtimeClassName)'')
            (''this namespace's IsolationProfile requires a specific runtimeClassName; '' @
             ''the pod's spec.runtimeClassName is missing or does not match it'')])])]) vapGVK"

definition runtimeClassBindingName :: "TenantCluster \<Rightarrow> string" where
  "runtimeClassBindingName tc = HostName ''runtimeclass'' (tc_Namespace tc) (tc_Name tc)"

definition buildRuntimeClassBinding :: "uapi \<Rightarrow> TenantCluster \<Rightarrow> obj" where
  "buildRuntimeClassBinding U tc = u_SetGroupVersionKind U (fmap_of_list
     [(''metadata'', vmap
        [(''name'', VStr (runtimeClassBindingName tc)),
         (''labels'', vmap [(labelManagedBy, VStr ''tenantplane''), (labelTenant, VStr (tc_Name tc)),
            (labelTenantNamespace, VStr (tc_Namespace tc))])]),
      (''spec'', vmap
        [(''policyName'', VStr runtimeClassPolicyName),
         (''paramRef'', vmap [(''name'', VStr (lor_Name (tcs_IsolationProfileRef (tc_Spec tc)))),
            (''parameterNotFoundAction'', VStr ''Deny'')]),
         (''matchResources'', vmap [(''namespaceSelector'', vmap
            [(''matchLabels'', vmap [(''kubernetes.io/metadata.name'', VStr (tc_Namespace tc))])])]),
         (''validationActions'', vstr_list [''Deny''])])]) vapBindingGVK"

definition admissionHardeningUnsupported :: "goerr \<Rightarrow> bool" where
  "admissionHardeningUnsupported err = IsNoMatchError err"

text \<open>\<open>existing.Object["spec"] = desired.Object["spec"]\<close> and \<open>SetLabels\<close>: what an update sends.\<close>

definition adopt_spec :: "uapi \<Rightarrow> obj \<Rightarrow> obj \<Rightarrow> obj" where
  "adopt_spec U existing desired =
     u_SetLabels U (fmupd ''spec'' (case fmlookup desired ''spec'' of Some v \<Rightarrow> v | None \<Rightarrow> VNil) existing)
       (u_GetLabels U desired)"

text \<open>
  The convergence of one policy object, as in \<open>ensureRuntimeClassPolicy\<close> and the loop body of
  \<open>ensureControllerScopePolicies\<close>: \<open>(ok, err)\<close>, where \<open>ok\<close> is false also when the API is not served.
\<close>

definition ensure_policy :: "('q, 'c, 'w) Reconciler \<Rightarrow> GroupVersionKind \<Rightarrow> string \<Rightarrow> obj \<Rightarrow> ('w, bool \<times> goerr option) state" where
  "ensure_policy R gvk name desired = do {
     got \<leftarrow> api_call (cl_get (r_un R) gvk ('''', name));
     case got of
       Inl getErr \<Rightarrow>
         (if admissionHardeningUnsupported getErr then State_Monad.return (False, None)
          else if IsNotFound getErr then do {
            r \<leftarrow> api_call (cl_create (r_un R) desired);
            case r of
              Inl err \<Rightarrow> State_Monad.return (False, if admissionHardeningUnsupported err then None else Some err)
            | Inr _ \<Rightarrow> State_Monad.return (True, None)
          }
          else State_Monad.return (False, Some getErr))
     | Inr existing \<Rightarrow> do {
         r \<leftarrow> api_call (cl_update (r_un R) (adopt_spec (r_U R) existing desired));
         case r of
           Inl err \<Rightarrow> State_Monad.return (False, Some err)
         | Inr _ \<Rightarrow> State_Monad.return (True, None)
       }
   }"

definition ensureRuntimeClassPolicy :: "('q, 'c, 'w) Reconciler \<Rightarrow> ('w, bool \<times> goerr option) state" where
  "ensureRuntimeClassPolicy R = ensure_policy R vapGVK runtimeClassPolicyName (buildRuntimeClassPolicy (r_U R))"

definition reconcileRuntimeClassBinding :: "('q, 'c, 'w) Reconciler \<Rightarrow> TenantCluster \<Rightarrow> ('w, goerr option) state" where
  "reconcileRuntimeClassBinding R tc =
     (let desired = buildRuntimeClassBinding (r_U R) tc
      in do {
        got \<leftarrow> api_call (cl_get (r_un R) vapBindingGVK ('''', u_GetName (r_U R) desired));
        case got of
          Inl err \<Rightarrow>
            (if IsNotFound err then do { r \<leftarrow> api_call (cl_create (r_un R) desired); State_Monad.return (err_of r) }
             else State_Monad.return (Some err))
        | Inr existing \<Rightarrow> do {
            r \<leftarrow> api_call (cl_update (r_un R) (adopt_spec (r_U R) existing desired));
            State_Monad.return (err_of r)
          }
      })"

definition deleteRuntimeClassBinding :: "('q, 'c, 'w) Reconciler \<Rightarrow> TenantCluster \<Rightarrow> ('w, goerr option) state" where
  "deleteRuntimeClassBinding R tc =
     (let existing = u_SetName (r_U R) (u_SetGroupVersionKind (r_U R) fmempty vapBindingGVK) (runtimeClassBindingName tc)
      in do {
        r \<leftarrow> api_call (cl_delete (r_un R) existing);
        case r of
          None \<Rightarrow> State_Monad.return None
        | Some err \<Rightarrow>
            State_Monad.return
              (if \<not> IsNotFound err \<and> \<not> admissionHardeningUnsupported err then Some err else None)
      })"

section \<open>The scope of the controller\<close>

definition write_operations :: "string list" where
  "write_operations = [''CREATE'', ''UPDATE'', ''DELETE'']"

definition buildControllerWriteScopePolicy :: "uapi \<Rightarrow> obj" where
  "buildControllerWriteScopePolicy U = u_SetGroupVersionKind U (fmap_of_list
     [(''metadata'', policy_meta writeScopePolicyName),
      (''spec'', vmap
        [(''failurePolicy'', VStr ''Fail''),
         (''matchConstraints'', vmap [(''resourceRules'', VSlice
            [resource_rule '''' write_operations
               [''secrets'', ''configmaps'', ''services'', ''resourcequotas'', ''limitranges'', ''persistentvolumeclaims'', ''pods''],
             resource_rule ''apps'' write_operations [''statefulsets'', ''deployments''],
             resource_rule ''networking.k8s.io'' write_operations [''networkpolicies'']])]),
         (''validations'', VSlice [validation
            (''request.userInfo.username != \"'' @ controllerServiceAccountUsername @ ''\"'')
            ''the tenantplane controller may only write to namespaces it manages (labeled app.kubernetes.io/managed-by=tenantplane)''])])])
     vapGVK"

definition buildControllerWriteScopeBinding :: "uapi \<Rightarrow> obj" where
  "buildControllerWriteScopeBinding U = u_SetGroupVersionKind U (fmap_of_list
     [(''metadata'', policy_meta writeScopeBindingName),
      (''spec'', vmap
        [(''policyName'', VStr writeScopePolicyName),
         (''matchResources'', vmap [(''namespaceSelector'', vmap [(''matchExpressions'', VSlice [vmap
            [(''key'', VStr labelManagedBy), (''operator'', VStr ''NotIn''), (''values'', vstr_list [''tenantplane''])]])])]),
         (''validationActions'', vstr_list [''Deny''])])]) vapBindingGVK"

definition buildNamespaceDeleteScopePolicy :: "uapi \<Rightarrow> obj" where
  "buildNamespaceDeleteScopePolicy U = u_SetGroupVersionKind U (fmap_of_list
     [(''metadata'', policy_meta namespaceScopePolicyName),
      (''spec'', vmap
        [(''failurePolicy'', VStr ''Fail''),
         (''matchConstraints'', vmap [(''resourceRules'', VSlice [resource_rule '''' [''DELETE''] [''namespaces'']])]),
         (''validations'', VSlice [validation
            (''request.userInfo.username != \"'' @ controllerServiceAccountUsername @ ''\" || '' @
             ''(has(oldObject.metadata.labels) && \"'' @ labelManagedBy @ ''\" in oldObject.metadata.labels && '' @
             ''oldObject.metadata.labels[\"'' @ labelManagedBy @ ''\"] == \"tenantplane\")'')
            ''the tenantplane controller may only delete namespaces it manages (labeled app.kubernetes.io/managed-by=tenantplane)''])])])
     vapGVK"

definition buildNamespaceDeleteScopeBinding :: "uapi \<Rightarrow> obj" where
  "buildNamespaceDeleteScopeBinding U = u_SetGroupVersionKind U (fmap_of_list
     [(''metadata'', policy_meta namespaceScopeBindingName),
      (''spec'', vmap [(''policyName'', VStr namespaceScopePolicyName), (''validationActions'', vstr_list [''Deny''])])])
     vapBindingGVK"

fun ensure_policies :: "('q, 'c, 'w) Reconciler \<Rightarrow> obj list \<Rightarrow> ('w, bool \<times> goerr option) state" where
  "ensure_policies R [] = State_Monad.return (True, None)"
| "ensure_policies R (desired # objs) = do {
     r \<leftarrow> ensure_policy R (u_GroupVersionKind (r_U R) desired) (u_GetName (r_U R) desired) desired;
     if fst r then ensure_policies R objs else State_Monad.return r
   }"

definition ensureControllerScopePolicies :: "('q, 'c, 'w) Reconciler \<Rightarrow> ('w, bool \<times> goerr option) state" where
  "ensureControllerScopePolicies R = ensure_policies R
     [buildControllerWriteScopePolicy (r_U R), buildControllerWriteScopeBinding (r_U R),
      buildNamespaceDeleteScopePolicy (r_U R), buildNamespaceDeleteScopeBinding (r_U R)]"

end
