(* ===== verification/Tenant_Namespace.thy ===== *)
theory Tenant_Namespace
  imports Admission
begin

text \<open>
  \<open>src/internal/controller/namespace.go\<close> and \<open>isolation_apply.go\<close>: the control-plane namespace of a tenant (creation,
  ownership, teardown) and the isolation objects in its workload namespace. Ranging over a Go map and writing
  the differing entries is \<open>stale_labels\<close>: the entries do not depend on each other, so their order is immaterial.
\<close>

definition teardownFinalizer :: string where "teardownFinalizer = ''tenantplane.io/teardown''"

section \<open>The control-plane namespace\<close>

definition ownedByTenant :: "Namespace \<Rightarrow> TenantCluster \<Rightarrow> bool" where
  "ownedByTenant ns tc \<longleftrightarrow>
     label_at (ns_Meta ns) labelManagedBy = ''tenantplane'' \<and>
     label_at (ns_Meta ns) labelTenant = tc_Name tc \<and>
     label_at (ns_Meta ns) labelTenantNamespace = tc_Namespace tc"

text \<open>The desired labels whose value differs from the live one, and the live labels with them.\<close>

definition stale_labels :: "ObjectMeta \<Rightarrow> strmap \<Rightarrow> strmap" where
  "stale_labels live desired = fmfilter (\<lambda>k. label_at live k \<noteq> str_at desired k) desired"

definition with_labels :: "ObjectMeta \<Rightarrow> strmap \<Rightarrow> ObjectMeta" where
  "with_labels live new = live\<lparr>om_Labels := Some ((case om_Labels live of None \<Rightarrow> fmempty | Some l \<Rightarrow> l) ++\<^sub>f new)\<rparr>"

definition ensureControlPlaneNamespace :: "('q, 'c, 'w) Reconciler \<Rightarrow> TenantCluster \<Rightarrow> ('w, goerr option) state" where
  "ensureControlPlaneNamespace R tc =
     (let desired = buildControlPlaneNamespace tc
      in do {
        got \<leftarrow> api_call (k_Get (r_ns R) '''' (om_Name (ns_Meta desired)));
        case got of
          Inl err \<Rightarrow>
            (if IsNotFound err then do { r \<leftarrow> api_call (k_Create (r_ns R) desired); State_Monad.return (err_of r) }
             else State_Monad.return (Some err))
        | Inr existing \<Rightarrow>
            (if \<not> ownedByTenant existing tc then
               State_Monad.return (Some (errorf (''namespace '' @ fmt_q (om_Name (ns_Meta desired)) @
                 '' already exists and is not managed by tenantplane for this tenant; refusing to adopt it'')))
             else
               let stale = stale_labels (ns_Meta existing) (case om_Labels (ns_Meta desired) of Some l \<Rightarrow> l | None \<Rightarrow> fmempty)
               in if stale \<noteq> fmempty then do {
                    r \<leftarrow> api_call (k_Update (r_ns R) (existing\<lparr>ns_Meta := with_labels (ns_Meta existing) stale\<rparr>));
                    State_Monad.return (err_of r)
                  }
                  else State_Monad.return None)
      })"

definition teardown :: "('q, 'c, 'w) Reconciler \<Rightarrow> TenantCluster \<Rightarrow> ('w, bool \<times> goerr option) state" where
  "teardown R tc = do {
     d \<leftarrow> deleteRuntimeClassBinding R tc;
     case d of
       Some err \<Rightarrow> State_Monad.return (False, Some err)
     | None \<Rightarrow> do {
         got \<leftarrow> api_call (k_Get (r_ns R) '''' (controlPlaneNamespace tc));
         case got of
           Inl err \<Rightarrow> State_Monad.return (if IsNotFound err then (True, None) else (False, Some err))
         | Inr ns \<Rightarrow>
             (if \<not> ownedByTenant ns tc then State_Monad.return (True, None)
              else if om_DeletionTimestamp (ns_Meta ns) = None then do {
                r \<leftarrow> api_call (k_Delete (r_ns R) ns);
                State_Monad.return (False, ignore_not_found r)
              }
              else State_Monad.return (False, None))
       }
   }"

section \<open>Isolation objects in the workload namespace\<close>

text \<open>The mutate functions given to \<open>CreateOrUpdate\<close>.\<close>

definition mutate_np :: "('q, 'c, 'w) Reconciler \<Rightarrow> TenantCluster \<Rightarrow> NetworkPolicy \<Rightarrow> NetworkPolicy \<Rightarrow> goerr + NetworkPolicy" where
  "mutate_np R tc desired np =
     (case r_SetControllerReference R tc ((np_Meta np)\<lparr>om_Labels := om_Labels (np_Meta desired)\<rparr>) of
        Inl err \<Rightarrow> Inl err
      | Inr m \<Rightarrow> Inr (np\<lparr>np_Meta := m, np_PodSelector := np_PodSelector desired, np_PolicyTypes := np_PolicyTypes desired\<rparr>))"

definition mutate_rq :: "('q, 'c, 'w) Reconciler \<Rightarrow> TenantCluster \<Rightarrow> 'q ResourceQuota \<Rightarrow> 'q ResourceQuota \<Rightarrow> goerr + 'q ResourceQuota" where
  "mutate_rq R tc desired quota =
     (case r_SetControllerReference R tc ((rq_Meta quota)\<lparr>om_Labels := om_Labels (rq_Meta desired)\<rparr>) of
        Inl err \<Rightarrow> Inl err
      | Inr m \<Rightarrow> Inr (quota\<lparr>rq_Meta := m, rq_Hard := rq_Hard desired\<rparr>))"

definition mutate_lr :: "('q, 'c, 'w) Reconciler \<Rightarrow> TenantCluster \<Rightarrow> 'q LimitRange \<Rightarrow> 'q LimitRange \<Rightarrow> goerr + 'q LimitRange" where
  "mutate_lr R tc desired lr =
     (case r_SetControllerReference R tc ((lr_Meta lr)\<lparr>om_Labels := om_Labels (lr_Meta desired)\<rparr>) of
        Inl err \<Rightarrow> Inl err
      | Inr m \<Rightarrow> Inr (lr\<lparr>lr_Meta := m, lr_Limits := lr_Limits desired\<rparr>))"

definition applyNamespacePodSecurityLabels ::
    "('q, 'c, 'w) Reconciler \<Rightarrow> string \<Rightarrow> Profile \<Rightarrow> ('w, goerr option) state" where
  "applyNamespacePodSecurityLabels R namespace profile = do {
     got \<leftarrow> api_call (k_Get (r_ns R) '''' namespace);
     case got of
       Inl err \<Rightarrow> State_Monad.return (if IsNotFound err then None else Some err)
     | Inr ns \<Rightarrow>
         (let stale = stale_labels (ns_Meta ns) (fmupd labelManagedBy ''tenantplane'' fmempty ++\<^sub>f PodSecurityLabels profile)
          in if stale = fmempty then State_Monad.return None
             else do {
               r \<leftarrow> api_call (k_Update (r_ns R) (ns\<lparr>ns_Meta := with_labels (ns_Meta ns) stale\<rparr>));
               State_Monad.return (err_of r)
             })
   }"

text \<open>The three guarded \<open>CreateOrUpdate\<close> blocks: nothing to do for a nil builder result.\<close>

definition apply_optional ::
    "('a, 'w) kind_client \<Rightarrow> ('a \<Rightarrow> string) \<Rightarrow> string \<Rightarrow> ('a \<Rightarrow> 'a \<Rightarrow> goerr + 'a) \<Rightarrow> 'a option \<Rightarrow> ('w, goerr option) state" where
  "apply_optional C name_of namespace mutate desired0 =
     (case desired0 of
        None \<Rightarrow> State_Monad.return None
      | Some desired \<Rightarrow> api_call (k_CreateOrUpdate C namespace (name_of desired) (mutate desired)))"

text \<open>The outer \<open>None\<close> is the panic of \<open>BuildLimitRange\<close>.\<close>

definition applyIsolation :: "('q, 'c, 'w) Reconciler \<Rightarrow> TenantCluster \<Rightarrow> Profile \<Rightarrow> ('w, goerr option option) state" where
  "applyIsolation R tc profile =
     (let namespace = tc_Namespace tc
      in do {
        e1 \<leftarrow> apply_optional (r_np R) (\<lambda>np. om_Name (np_Meta np)) namespace (mutate_np R tc) (BuildNetworkPolicy profile namespace);
        case e1 of
          Some err \<Rightarrow> State_Monad.return (Some (Some err))
        | None \<Rightarrow>
            (case BuildResourceQuota (r_ParseQuantity R) profile (rr_CPU (tcs_Resources (tc_Spec tc)))
                (rr_Memory (tcs_Resources (tc_Spec tc))) namespace of
               Inl err \<Rightarrow> State_Monad.return (Some (Some err))
             | Inr desiredQuota \<Rightarrow> do {
                 e2 \<leftarrow> apply_optional (r_rq R) (\<lambda>q. om_Name (rq_Meta q)) namespace (mutate_rq R tc) desiredQuota;
                 case e2 of
                   Some err \<Rightarrow> State_Monad.return (Some (Some err))
                 | None \<Rightarrow>
                     (case BuildLimitRange (r_ParseQuantity R) profile namespace of
                        None \<Rightarrow> State_Monad.return None
                      | Some desiredLR \<Rightarrow> do {
                          e3 \<leftarrow> apply_optional (r_lr R) (\<lambda>l. om_Name (lr_Meta l)) namespace (mutate_lr R tc) desiredLR;
                          case e3 of
                            Some err \<Rightarrow> State_Monad.return (Some (Some err))
                          | None \<Rightarrow> do {
                              e4 \<leftarrow> applyNamespacePodSecurityLabels R namespace profile;
                              State_Monad.return (Some e4)
                            }
                        })
               })
      })"

end
