(* ===== verification/Sync_Control.thy ===== *)
theory Sync_Control
  imports Tenant_Namespace
begin

text \<open>
  \<open>src/internal/controller/sync.go\<close>, \<open>sync_decisions.go\<close> and \<open>decision_recorder.go\<close>: a sync run of a tenant. It builds
  an engine from the policy and the profile, runs one pass per declared resource with the convergence history
  threaded through all of them, and persists decisions and history in the SyncDecision object of the tenant.
  Log lines are left out. A Go \<open>int\<close> used as a slice bound is read with \<open>nat\<close> where it is positive.
\<close>

section \<open>Events\<close>

definition event_Record :: "('q, 'c, 'w) Reconciler \<Rightarrow> TenantCluster \<Rightarrow> Decision \<Rightarrow> 'w \<Rightarrow> 'w" where
  "event_Record R tc d w =
     (case r_Eventf R of
        None \<Rightarrow> w
      | Some Eventf \<Rightarrow>
          let eventType = (if d_Action d = ActionDelete then ''Warning'' else ''Normal'')
          in Eventf tc eventType (''Sync'' @ d_Action d)
               (d_Kind d @ '' '' @ ref_VirtualNamespace (d_Ref d) @ ''/'' @ ref_Name (d_Ref d) @ '' -> host '' @
                ht_Namespace (d_Host d) @ ''/'' @ ht_Name (d_Host d) @ '': '' @ d_Reason d) w)"

section \<open>Persisted decisions\<close>

definition to_converged :: "ApiConvergedVersions \<Rightarrow> ConvergedVersions" where
  "to_converged v = \<lparr>cv_TenantResourceVersion = acv_TenantResourceVersion v, cv_HostResourceVersion = acv_HostResourceVersion v\<rparr>"

definition from_converged :: "ConvergedVersions \<Rightarrow> ApiConvergedVersions" where
  "from_converged v = \<lparr>acv_TenantResourceVersion = cv_TenantResourceVersion v, acv_HostResourceVersion = cv_HostResourceVersion v\<rparr>"

definition loadConvergenceHistory ::
    "('q, 'c, 'w) Reconciler \<Rightarrow> TenantCluster \<Rightarrow> ('w, goerr + (string, ConvergedVersions) fmap) state" where
  "loadConvergenceHistory R tc = do {
     got \<leftarrow> api_call (k_Get (r_sd R) (tc_Namespace tc) (tc_Name tc));
     State_Monad.return
       (case got of
          Inl err \<Rightarrow> (if IsNotFound err then Inr fmempty else Inl err)
        | Inr sd \<Rightarrow> Inr (case sds_LastConverged (sd_Status sd) of None \<Rightarrow> fmempty | Some m \<Rightarrow> fmmap to_converged m))
   }"

definition decision_entry :: "string \<Rightarrow> Decision \<Rightarrow> SyncDecisionEntry" where
  "decision_entry now d =
     \<lparr>sde_Time = now, sde_Action = d_Action d, sde_Kind = d_Kind d,
      sde_TenantNamespace = ref_VirtualNamespace (d_Ref d), sde_TenantName = ref_Name (d_Ref d),
      sde_HostNamespace = ht_Namespace (d_Host d), sde_HostName = ht_Name (d_Host d), sde_Reason = d_Reason d\<rparr>"

text \<open>The status after a pass: the entries trimmed to the last \<open>retain\<close>, and the history when it is not empty.\<close>

definition updated_status ::
    "SyncDecisionStatus \<Rightarrow> string \<Rightarrow> Decision list \<Rightarrow> int \<Rightarrow> ConvergenceHistory \<Rightarrow> SyncDecisionStatus" where
  "updated_status st now decisions retain history =
     (let entries = sds_Entries st @ map (decision_entry now) decisions;
          entries = (if int (length entries) > retain then drop (length entries - nat retain) entries else entries);
          st1 = st\<lparr>sds_Entries := entries\<rparr>
      in case history of
           None \<Rightarrow> st1
         | Some h \<Rightarrow> (if h = fmempty then st1 else st1\<lparr>sds_LastConverged := Some (fmmap from_converged h)\<rparr>))"

definition new_sync_decision :: "TenantCluster \<Rightarrow> SyncDecision" where
  "new_sync_decision tc =
     \<lparr>sd_Meta = object_meta (tc_Name tc) (tc_Namespace tc) None,
      sd_Status = \<lparr>sds_Entries = [], sds_LastConverged = None\<rparr>\<rparr>"

text \<open>The SyncDecision object to update: the stored one, or a new one the tenant owns.\<close>

definition get_or_create_decision :: "('q, 'c, 'w) Reconciler \<Rightarrow> TenantCluster \<Rightarrow> ('w, goerr + SyncDecision) state" where
  "get_or_create_decision R tc = do {
     got \<leftarrow> api_call (k_Get (r_sd R) (tc_Namespace tc) (tc_Name tc));
     case got of
       Inr sd \<Rightarrow> State_Monad.return (Inr sd)
     | Inl err \<Rightarrow>
         (if \<not> IsNotFound err then State_Monad.return (Inl err)
          else let sd = new_sync_decision tc
               in case r_SetControllerReference R tc (sd_Meta sd) of
                    Inl err2 \<Rightarrow> State_Monad.return (Inl err2)
                  | Inr m \<Rightarrow> api_call (k_Create (r_sd R) (sd\<lparr>sd_Meta := m\<rparr>)))
   }"

definition recordSyncDecisions ::
    "('q, 'c, 'w) Reconciler \<Rightarrow> TenantCluster \<Rightarrow> Decision list \<Rightarrow> int \<Rightarrow> ConvergenceHistory \<Rightarrow> ('w, goerr option) state" where
  "recordSyncDecisions R tc decisions retain history =
     (if decisions = [] \<or> retain \<le> 0 then State_Monad.return None
      else do {
        got \<leftarrow> get_or_create_decision R tc;
        case got of
          Inl err \<Rightarrow> State_Monad.return (Some err)
        | Inr sd \<Rightarrow> do {
            now \<leftarrow> api_call (r_Now R);
            r \<leftarrow> api_call (k_StatusUpdate (r_sd R) (sd\<lparr>sd_Status := updated_status (sd_Status sd) now decisions retain history\<rparr>));
            State_Monad.return (err_of r)
          }
      })"

section \<open>A sync run\<close>

definition fairnessRateTenant :: nat where "fairnessRateTenant = 20"
definition fairnessBurstTenant :: nat where "fairnessBurstTenant = 40"
definition fairnessRateTenantStrict :: nat where "fairnessRateTenantStrict = 5"
definition fairnessBurstTenantStrict :: nat where "fairnessBurstTenantStrict = 10"

definition rateLimiterForFairness :: "('q, 'c, 'w) Reconciler \<Rightarrow> string \<Rightarrow> ('w, ('w \<Rightarrow> bool \<times> 'w) option) state" where
  "rateLimiterForFairness R apiFairness =
     (if apiFairness = ''tenant'' then do {
        l \<leftarrow> api_call (r_NewLimiter R fairnessRateTenant fairnessBurstTenant);
        State_Monad.return (Some l)
      }
      else if apiFairness = ''tenant-strict'' then do {
        l \<leftarrow> api_call (r_NewLimiter R fairnessRateTenantStrict fairnessBurstTenantStrict);
        State_Monad.return (Some l)
      }
      else State_Monad.return None)"

definition virtualClientFor :: "('q, 'c, 'w) Reconciler \<Rightarrow> TenantCluster \<Rightarrow> string \<Rightarrow> ('w, goerr + 'w client) state" where
  "virtualClientFor R tc secretName = do {
     got \<leftarrow> api_call (k_Get (r_secret R) (tc_Namespace tc) secretName);
     case got of
       Inl err \<Rightarrow>
         State_Monad.return (Inl (if IsNotFound err
           then errorf (''kubeconfig secret '' @ fmt_q secretName @ '' not found yet'') else err))
     | Inr secret \<Rightarrow>
         (case Option.bind (se_Data secret) (\<lambda>m. fmlookup m ''kubeconfig'') of
            None \<Rightarrow> State_Monad.return (Inl (errorf
              (''kubeconfig secret '' @ fmt_q secretName @ '' has no \"kubeconfig\" key'')))
          | Some raw \<Rightarrow>
              (case r_RESTConfigFromKubeConfig R raw of
                 Inl err \<Rightarrow> State_Monad.return (Inl (wrap_err ''parse kubeconfig'' err))
               | Inr restConfig \<Rightarrow> api_call (r_NewClient R restConfig)))
   }"

definition parsed_resource :: "('q, 'c, 'w) Reconciler \<Rightarrow> SyncedResource \<Rightarrow> Resource list" where
  "parsed_resource R res =
     (case r_ParseGroupVersion R (sr_APIVersion res) of
        Inl err \<Rightarrow> []
      | Inr (g, v) \<Rightarrow>
          [\<lparr>res_GVK = \<lparr>gvk_Group = g, gvk_Version = v, gvk_Kind = sr_Kind res\<rparr>, res_Direction = sr_Direction res\<rparr>])"

definition syncResourcesFromPolicy :: "('q, 'c, 'w) Reconciler \<Rightarrow> SyncPolicy option \<Rightarrow> Resource list" where
  "syncResourcesFromPolicy R policy =
     (case policy of None \<Rightarrow> [] | Some p \<Rightarrow> concat (map (parsed_resource R) (sps_Resources (sp_Spec p))))"

text \<open>The \<open>switch\<close> on the direction: \<open>None\<close> is its default case.\<close>

definition sync_resource ::
    "uapi \<Rightarrow> 'w Engine \<Rightarrow> SyncPolicy \<Rightarrow> Resource \<Rightarrow> ('w estate, Decision list \<times> goerr option) state option" where
  "sync_resource U E policy res =
     (if res_Direction res = DirectionToHost then Some (SyncToHost U E res)
      else if res_Direction res = DirectionFromHost then Some (SyncFromHost U E res)
      else if res_Direction res = DirectionBidirectional
        then Some (SyncBidirectional U E res (sps_ConflictPolicy (sp_Spec policy)))
      else None)"

text \<open>A computation on the world inside one on the state of the engine.\<close>

definition on_host :: "('w, 'a) state \<Rightarrow> ('w estate, 'a) state" where
  "on_host m = world_call (run_state m)"

fun sync_resources ::
    "('q, 'c, 'w) Reconciler \<Rightarrow> 'w Engine \<Rightarrow> TenantCluster \<Rightarrow> SyncPolicy \<Rightarrow> Resource list \<Rightarrow> goerr option \<Rightarrow>
     ('w estate, goerr option) state" where
  "sync_resources R E tc policy [] firstErr = State_Monad.return firstErr"
| "sync_resources R E tc policy (res # resources) firstErr =
     (case sync_resource (r_U R) E policy res of
        None \<Rightarrow> sync_resources R E tc policy resources firstErr
      | Some pass \<Rightarrow> do {
          r \<leftarrow> pass;
          case r of
            (decisions, Some err) \<Rightarrow>
              sync_resources R E tc policy resources (case firstErr of None \<Rightarrow> Some err | Some e \<Rightarrow> Some e)
          | (decisions, None) \<Rightarrow> do {
              (if xs_RecordDecisions (sps_Explain (sp_Spec policy)) then do {
                 history \<leftarrow> State (\<lambda>s. (es_History s, s));
                 _ \<leftarrow> on_host (recordSyncDecisions R tc decisions (xs_Retain (sps_Explain (sp_Spec policy))) history);
                 State_Monad.return ()
               } else State_Monad.return ());
              sync_resources R E tc policy resources firstErr
            }
        })"

definition sync_engine ::
    "('q, 'c, 'w) Reconciler \<Rightarrow> TenantCluster \<Rightarrow> SyncPolicy \<Rightarrow> Profile \<Rightarrow> 'w client \<Rightarrow> ('w \<Rightarrow> bool \<times> 'w) option \<Rightarrow> 'w Engine" where
  "sync_engine R tc policy profile virtualClient limiter =
     \<lparr>e_Tenant = tc_Name tc, e_HostNamespace = tc_Namespace tc, e_VirtualClient = virtualClient,
      e_HostClient = r_un R,
      e_Recorder = (if xs_RecordDecisions (sps_Explain (sp_Spec policy)) then Some (event_Record R tc) else None),
      e_SkipNamespaces = None, e_RequiredRuntimeClassName = p_RuntimeClassName profile, e_RateLimiter = limiter\<rparr>"

definition runSync ::
    "('q, 'c, 'w) Reconciler \<Rightarrow> TenantCluster \<Rightarrow> SyncPolicy \<Rightarrow> Profile \<Rightarrow> string \<Rightarrow> ('w, goerr option) state" where
  "runSync R tc policy profile kubeconfigSecret =
     (let resources = syncResourcesFromPolicy R (Some policy)
      in if resources = [] then State_Monad.return None
         else do {
           vc \<leftarrow> virtualClientFor R tc kubeconfigSecret;
           case vc of
             Inl err \<Rightarrow> State_Monad.return (Some (wrap_err ''connect to tenant control plane'' err))
           | Inr virtualClient \<Rightarrow> do {
               h \<leftarrow> (if xs_RecordDecisions (sps_Explain (sp_Spec policy)) then do {
                       l \<leftarrow> loadConvergenceHistory R tc;
                       State_Monad.return (case l of Inl err \<Rightarrow> Inl err | Inr m \<Rightarrow> Inr (Some m))
                     } else State_Monad.return (Inr None));
               case h of
                 Inl err \<Rightarrow> State_Monad.return (Some (wrap_err ''load sync convergence history'' err))
               | Inr history \<Rightarrow> do {
                   limiter \<leftarrow> rateLimiterForFairness R (p_APIFairness profile);
                   State (\<lambda>w. case run_state (sync_resources R (sync_engine R tc policy profile virtualClient limiter)
                       tc policy resources None) \<lparr>es_History = history, es_world = w\<rparr> of
                     (r, s) \<Rightarrow> (r, es_world s))
                 }
             }
         })"

end
