(* ===== verification/Go_Duration.thy ===== *)
theory Go_Duration
  imports Control_Plane Complex_Main
begin

text \<open>
  \<open>time.ParseDuration\<close> of the Go standard library, which \<open>syncRequeueInterval\<close> calls: a sign, then numbers with an
  optional fraction and a unit, in nanoseconds with the overflow checks of the original. The program drops the
  error's text, so a parse is an option. Go computes a fraction in double precision; here it is the exact product
  rounded down, which differs by at most the rounding of one double multiplication and division.
\<close>

definition dur_digit :: "char \<Rightarrow> nat" where "dur_digit c = byte c - 48"

definition two63 :: nat where "two63 = 9223372036854775808"

text \<open>\<open>leadingInt\<close>: the value and the rest, or overflow.\<close>

fun leading_int :: "nat \<Rightarrow> string \<Rightarrow> (nat \<times> string) option" where
  "leading_int x [] = Some (x, [])"
| "leading_int x (c # s) =
     (if \<not> ascii_digit c then Some (x, c # s)
      else if x > two63 div 10 then None
      else if x * 10 + dur_digit c > two63 then None
      else leading_int (x * 10 + dur_digit c) s)"

text \<open>\<open>leadingFraction\<close>: the digits read before an overflow, their scale, and the rest.\<close>

fun leading_fraction :: "nat \<Rightarrow> nat \<Rightarrow> bool \<Rightarrow> string \<Rightarrow> nat \<times> nat \<times> string" where
  "leading_fraction x scale overflow [] = (x, scale, [])"
| "leading_fraction x scale overflow (c # s) =
     (if \<not> ascii_digit c then (x, scale, c # s)
      else if overflow then leading_fraction x scale overflow s
      else if x > (two63 - 1) div 10 then leading_fraction x scale True s
      else if x * 10 + dur_digit c > two63 then leading_fraction x scale True s
      else leading_fraction (x * 10 + dur_digit c) (scale * 10) overflow s)"

definition unitMap :: "(string \<times> nat) list" where
  "unitMap = [(''ns'', 1), (''us'', 1000), ([chr 194, chr 181, CHR ''s''], 1000), ([chr 206, chr 188, CHR ''s''], 1000),
     (''ms'', 1000000), (''s'', 1000000000), (''m'', 60000000000), (''h'', 3600000000000)]"

text \<open>The optional fraction: its digits, their scale, the rest, and whether it had any digit.\<close>

definition dur_fraction :: "string \<Rightarrow> nat \<times> nat \<times> string \<times> bool" where
  "dur_fraction s =
     (if s \<noteq> [] \<and> hd s = CHR ''.'' then
        (case leading_fraction 0 1 False (tl s) of (f, scale, r) \<Rightarrow> (f, scale, r, length r \<noteq> length (tl s)))
      else (0, 1, s, False))"

definition unit_char :: "char \<Rightarrow> bool" where
  "unit_char c \<longleftrightarrow> \<not> (c = CHR ''.'' \<or> ascii_digit c)"

text \<open>The unit and the value \<open>v.f\<close> in it.\<close>

definition dur_value :: "nat \<Rightarrow> nat \<Rightarrow> nat \<Rightarrow> string \<Rightarrow> nat option" where
  "dur_value v f scale u =
     (case map_of unitMap u of
        None \<Rightarrow> None
      | Some unit \<Rightarrow>
          (if v > two63 div unit then None
           else let v1 = v * unit + (if f > 0 then nat \<lfloor>rat_of_nat f * (rat_of_nat unit / rat_of_nat scale)\<rfloor> else 0)
                in if v1 > two63 then None else Some v1))"

text \<open>One number with its unit: the nanoseconds and the rest.\<close>

definition dur_step :: "string \<Rightarrow> (nat \<times> string) option" where
  "dur_step s =
     (if unit_char (hd s) then None
      else case leading_int 0 s of
             None \<Rightarrow> None
           | Some (v, s1) \<Rightarrow>
               (case dur_fraction s1 of (f, scale, s2, post) \<Rightarrow>
                  (let u = takeWhile unit_char s2
                   in if length s1 = length s \<and> \<not> post then None
                      else if u = [] then None
                      else map_option (\<lambda>n. (n, dropWhile unit_char s2)) (dur_value v f scale u))))"

lemma leading_int_rest: "leading_int x s = Some (v, r) \<Longrightarrow> length r \<le> length s"
  by (induction x s rule: leading_int.induct) (auto split: if_splits)

lemma leading_fraction_rest: "length (snd (snd (leading_fraction x sc ov s))) \<le> length s"
proof (induction s arbitrary: x sc ov)
  case (Cons c s)
  have "length (snd (snd (leading_fraction x' sc' ov' s))) \<le> Suc (length s)" for x' sc' ov'
    using Cons.IH [of x' sc' ov'] by simp
  then show ?case by simp
qed simp

lemma dur_fraction_rest: "dur_fraction s = (f, scale, r, post) \<Longrightarrow> length r \<le> length s"
  using leading_fraction_rest [of 0 1 False "tl s"]
  by (auto simp: dur_fraction_def split: if_splits prod.splits)

lemma dur_step_shorter:
  assumes "dur_step s = Some (v, r)" shows "length r < length s"
proof -
  obtain w s1 where s1: "leading_int 0 s = Some (w, s1)"
    using assms by (auto simp: dur_step_def split: if_splits option.splits)
  obtain f scale s2 post where s2: "dur_fraction s1 = (f, scale, s2, post)" by (metis prod_cases4)
  have "takeWhile unit_char s2 \<noteq> []" "r = dropWhile unit_char s2"
    using assms s1 s2 by (auto simp: dur_step_def Let_def split: if_splits)
  moreover have "length s2 = length (takeWhile unit_char s2) + length (dropWhile unit_char s2)"
    by (metis length_append takeWhile_dropWhile_id)
  ultimately show ?thesis
    using leading_int_rest [OF s1] dur_fraction_rest [OF s2] by (cases "takeWhile unit_char s2") auto
qed

function dur_loop :: "nat \<Rightarrow> string \<Rightarrow> nat option" where
  "dur_loop d s =
     (if s = [] then Some d
      else case dur_step s of
             None \<Rightarrow> None
           | Some (v, r) \<Rightarrow> (let d1 = (d + v) mod (2 * two63) in if d1 > two63 then None else dur_loop d1 r))"
  by auto
termination by (relation "measure (\<lambda>(d, s). length s)") (auto dest: dur_step_shorter)

declare dur_loop.simps [simp del]

definition ParseDuration :: "string \<Rightarrow> int option" where
  "ParseDuration s0 =
     (let signed = (s0 \<noteq> [] \<and> (hd s0 = CHR ''-'' \<or> hd s0 = CHR ''+''));
          neg = (s0 \<noteq> [] \<and> hd s0 = CHR ''-'');
          s = (if signed then tl s0 else s0)
      in if s = ''0'' then Some 0
         else if s = [] then None
         else case dur_loop 0 s of
                None \<Rightarrow> None
              | Some d \<Rightarrow>
                  (if neg then Some (- int d)
                   else if d > two63 - 1 then None else Some (int d)))"

end
