(* ===== verification/Reconcile.thy ===== *)
theory Reconcile
  imports Sync_Control Go_Duration
begin

text \<open>
  \<open>src/internal/controller/tenantcluster_controller.go\<close>: the reconcile loop of a TenantCluster. Go updates the
  TenantCluster through a pointer; the model passes it on, with what the server returned after an update. A result is
  the requeue delay in nanoseconds (0: none) and the error. \<open>None\<close> is a panic, which only \<open>MustParse\<close> can cause.
\<close>

definition isoProfileIndexKey :: string where "isoProfileIndexKey = ''.spec.isolationProfileRef.name''"
definition syncPolicyIndexKey :: string where "syncPolicyIndexKey = ''.spec.syncPolicyRef.name''"

definition second :: int where "second = 1000000000"
definition requeueWaiting :: int where "requeueWaiting = 5 * second"
definition requeueSteady :: int where "requeueSteady = 60 * second"

record Result =
  res_RequeueAfter :: int

type_synonym outcome = "Result \<times> goerr option"

definition finished :: "goerr option \<Rightarrow> outcome" where
  "finished err = (\<lparr>res_RequeueAfter = 0\<rparr>, err)"

definition requeue :: "int \<Rightarrow> outcome" where
  "requeue d = (\<lparr>res_RequeueAfter = d\<rparr>, None)"

section \<open>Small operations\<close>

definition syncRequeueInterval :: "SyncPolicy option \<Rightarrow> int" where
  "syncRequeueInterval policy =
     (case policy of
        None \<Rightarrow> requeueSteady
      | Some p \<Rightarrow>
          (let dd = sps_DriftDetection (sp_Spec p)
           in if \<not> dd_Enabled dd \<or> dd_Interval dd = '''' then requeueSteady
              else case ParseDuration (dd_Interval dd) of
                     None \<Rightarrow> requeueSteady
                   | Some d \<Rightarrow> (if d < requeueWaiting then requeueWaiting else d)))"

definition with_phase :: "TenantCluster \<Rightarrow> string \<Rightarrow> TenantCluster" where
  "with_phase tc phase = tc\<lparr>tc_Status := (tc_Status tc)\<lparr>ts_Phase := phase\<rparr>\<rparr>"

definition degrade :: "('q, 'c, 'w) Reconciler \<Rightarrow> TenantCluster \<Rightarrow> string \<Rightarrow> string \<Rightarrow> ('w, outcome) state" where
  "degrade R tc reason message = do {
     r \<leftarrow> api_call (k_StatusUpdate (r_tc R)
            (setCondition (with_phase tc PhaseDegraded) ''Ready'' ConditionFalse reason message));
     State_Monad.return (case r of Inl err \<Rightarrow> finished (Some err) | Inr _ \<Rightarrow> requeue requeueWaiting)
   }"

definition meta_with_labels_of :: "ObjectMeta \<Rightarrow> ObjectMeta \<Rightarrow> ObjectMeta" where
  "meta_with_labels_of m desired = m\<lparr>om_Labels := om_Labels desired\<rparr>"

definition reconcileService :: "('q, 'c, 'w) Reconciler \<Rightarrow> Service \<Rightarrow> ('w, goerr option) state" where
  "reconcileService R desired = do {
     got \<leftarrow> api_call (k_Get (r_svc R) (om_Namespace (sv_Meta desired)) (om_Name (sv_Meta desired)));
     case got of
       Inl err \<Rightarrow>
         (if IsNotFound err then do { r \<leftarrow> api_call (k_Create (r_svc R) desired); State_Monad.return (err_of r) }
          else State_Monad.return (Some err))
     | Inr existing \<Rightarrow> do {
         r \<leftarrow> api_call (k_Update (r_svc R)
            (existing\<lparr>sv_Meta := meta_with_labels_of (sv_Meta existing) (sv_Meta desired),
                      sv_Ports := sv_Ports desired, sv_Selector := sv_Selector desired\<rparr>));
         State_Monad.return (err_of r)
       }
   }"

definition reconcileExternalService :: "('q, 'c, 'w) Reconciler \<Rightarrow> TenantCluster \<Rightarrow> ('w, goerr option) state" where
  "reconcileExternalService R tc = do {
     got \<leftarrow> api_call (k_Get (r_svc R) (controlPlaneNamespace tc) (externalServiceName tc));
     case buildExternalService tc of
       None \<Rightarrow>
         (case got of
            Inl err \<Rightarrow> State_Monad.return (if IsNotFound err then None else Some err)
          | Inr existing \<Rightarrow> api_call (k_Delete (r_svc R) existing))
     | Some desired \<Rightarrow>
         (case got of
            Inl err \<Rightarrow>
              (if IsNotFound err then do { r \<leftarrow> api_call (k_Create (r_svc R) desired); State_Monad.return (err_of r) }
               else State_Monad.return (Some err))
          | Inr existing \<Rightarrow> do {
              r \<leftarrow> api_call (k_Update (r_svc R)
                (existing\<lparr>sv_Meta := (meta_with_labels_of (sv_Meta existing) (sv_Meta desired))
                            \<lparr>om_Annotations := om_Annotations (sv_Meta desired)\<rparr>,
                          sv_Type := sv_Type desired, sv_Ports := sv_Ports desired, sv_Selector := sv_Selector desired\<rparr>));
              State_Monad.return (err_of r)
            })
   }"

fun first_address :: "LoadBalancerIngress list \<Rightarrow> string" where
  "first_address [] = ''''"
| "first_address (ing # ings) =
     (let host = (if lbi_Hostname ing = '''' then lbi_IP ing else lbi_Hostname ing)
      in if host \<noteq> '''' then ''https://'' @ host @ '':'' @ fmt_d apiPort else first_address ings)"

definition externalEndpoint :: "('q, 'c, 'w) Reconciler \<Rightarrow> TenantCluster \<Rightarrow> ('w, goerr + string) state" where
  "externalEndpoint R tc =
     (if \<not> ex_LoadBalancer (cp_Expose (tcs_ControlPlane (tc_Spec tc))) then State_Monad.return (Inr '''')
      else do {
        got \<leftarrow> api_call (k_Get (r_svc R) (controlPlaneNamespace tc) (externalServiceName tc));
        State_Monad.return
          (case got of
             Inl err \<Rightarrow> (if IsNotFound err then Inr '''' else Inl err)
           | Inr svc \<Rightarrow> Inr (first_address (sv_Ingress svc)))
      })"

definition reconcileStatefulSet :: "('q, 'c, 'w) Reconciler \<Rightarrow> TenantCluster \<Rightarrow> ('w, (goerr + 'q StatefulSet) option) state" where
  "reconcileStatefulSet R tc =
     (case buildStatefulSet (r_ParseQuantity R) tc of
        None \<Rightarrow> State_Monad.return None
      | Some (Inl err) \<Rightarrow> State_Monad.return (Some (Inl err))
      | Some (Inr desired) \<Rightarrow> do {
          got \<leftarrow> api_call (k_Get (r_sts R) (om_Namespace (ss_Meta desired)) (om_Name (ss_Meta desired)));
          case got of
            Inl err \<Rightarrow>
              (if IsNotFound err then do { r \<leftarrow> api_call (k_Create (r_sts R) desired); State_Monad.return (Some r) }
               else State_Monad.return (Some (Inl err)))
          | Inr existing \<Rightarrow> do {
              r \<leftarrow> api_call (k_Update (r_sts R)
                (existing\<lparr>ss_Meta := meta_with_labels_of (ss_Meta existing) (ss_Meta desired),
                          ss_Replicas := ss_Replicas desired, ss_Template := ss_Template desired\<rparr>));
              State_Monad.return (Some r)
            }
        })"

definition kubeconfig_of :: "Secret \<Rightarrow> string" where
  "kubeconfig_of s = (case se_Data s of None \<Rightarrow> '''' | Some m \<Rightarrow> str_at m ''kubeconfig'')"

definition ensureKubeconfigSecret :: "('q, 'c, 'w) Reconciler \<Rightarrow> TenantCluster \<Rightarrow> string \<Rightarrow> ('w, goerr + Secret) state" where
  "ensureKubeconfigSecret R tc name =
     (let fqdn = controlPlaneServiceFQDN tc
      in do {
        got \<leftarrow> api_call (k_Get (r_secret R) (tc_Namespace tc) name);
        if (case got of Inr existing \<Rightarrow> strings_Contains (kubeconfig_of existing) fqdn | Inl _ \<Rightarrow> False)
        then State_Monad.return got
        else if (case got of Inl err \<Rightarrow> \<not> IsNotFound err | Inr _ \<Rightarrow> False) then State_Monad.return got
        else do {
          raw \<leftarrow> api_call (r_execInPod R (controlPlaneNamespace tc) (controlPlanePodName tc) ''k3s''
                    [''cat'', ''/etc/rancher/k3s/k3s.yaml'']);
          case raw of
            Inl execErr \<Rightarrow> State_Monad.return (Inl (wrap_err ''read kubeconfig from control-plane pod'' execErr))
          | Inr text1 \<Rightarrow>
              (let data = Some (fmupd ''kubeconfig'' (rewriteKubeconfigServer text1 fqdn) fmempty)
               in case got of
                    Inr existing \<Rightarrow> api_call (k_Update (r_secret R) (existing\<lparr>se_Data := data\<rparr>))
                  | Inl _ \<Rightarrow>
                      (case r_SetControllerReference R tc (object_meta name (tc_Namespace tc) (Some (controlPlaneLabels tc))) of
                         Inl err \<Rightarrow> State_Monad.return (Inl err)
                       | Inr m \<Rightarrow> api_call (k_Create (r_secret R) \<lparr>se_Meta = m, se_Data = data\<rparr>)))
        }
      })"

section \<open>Objects of earlier versions\<close>

definition isLegacy :: "TenantCluster \<Rightarrow> ObjectMeta \<Rightarrow> bool" where
  "isLegacy tc m \<longleftrightarrow> label_at m labelManagedBy = ''tenantplane'' \<and>
     label_at m ''app.kubernetes.io/name'' = ''tenantplane-control-plane'' \<and> label_at m labelTenant = tc_Name tc"

text \<open>Get an object and delete it when the guard holds of its metadata; a missing object is no error.\<close>

definition delete_if :: "('a, 'w) kind_client \<Rightarrow> ('a \<Rightarrow> bool) \<Rightarrow> string \<Rightarrow> string \<Rightarrow> ('w, goerr option) state" where
  "delete_if C guard ns name = do {
     got \<leftarrow> api_call (k_Get C ns name);
     case got of
       Inl err \<Rightarrow> State_Monad.return (if IsNotFound err then None else Some err)
     | Inr x \<Rightarrow>
         (if guard x then do { r \<leftarrow> api_call (k_Delete C x); State_Monad.return (ignore_not_found r) }
          else State_Monad.return None)
   }"

definition cleanupLegacyControlPlane :: "('q, 'c, 'w) Reconciler \<Rightarrow> TenantCluster \<Rightarrow> ('w, goerr option) state" where
  "cleanupLegacyControlPlane R tc =
     (if tc_Namespace tc = controlPlaneNamespace tc then State_Monad.return None
      else
        and_then (delete_if (r_sts R) (\<lambda>sts. isLegacy tc (ss_Meta sts)) (tc_Namespace tc) (controlPlaneName tc))
        (and_then (delete_if (r_svc R) (\<lambda>svc. isLegacy tc (sv_Meta svc)) (tc_Namespace tc) (controlPlaneName tc))
        (and_then (delete_if (r_svc R) (\<lambda>svc. isLegacy tc (sv_Meta svc)) (tc_Namespace tc) (externalServiceName tc))
          (delete_if (r_pvc R) (\<lambda>pvc. True) (tc_Namespace tc) (''data-'' @ controlPlanePodName tc)))))"

section \<open>Watches\<close>

definition mapControlPlaneObject :: "strmap option \<Rightarrow> (string \<times> string) list" where
  "mapControlPlaneObject labels =
     (let label = (\<lambda>k. case labels of None \<Rightarrow> '''' | Some l \<Rightarrow> str_at l k)
      in if label labelManagedBy \<noteq> ''tenantplane'' then []
         else let tenant = label labelTenant; tenantNamespace = label labelTenantNamespace
              in if tenant = '''' \<or> tenantNamespace = '''' then [] else [(tenantNamespace, tenant)])"

definition mapForIndex :: "('q, 'c, 'w) Reconciler \<Rightarrow> string \<Rightarrow> string \<Rightarrow> ('w, (string \<times> string) list) state" where
  "mapForIndex R indexKey name = do {
     l \<leftarrow> api_call (r_ListTenants R indexKey name);
     State_Monad.return (case l of Inl _ \<Rightarrow> [] | Inr tcs \<Rightarrow> map (\<lambda>tc. (tc_Namespace tc, tc_Name tc)) tcs)
   }"

section \<open>Reconcile\<close>

text \<open>The steps after the control plane is ready: kubeconfig, endpoints, and the sync run.\<close>

definition reconcile_ready ::
    "('q, 'c, 'w) Reconciler \<Rightarrow> TenantCluster \<Rightarrow> SyncPolicy \<Rightarrow> Profile \<Rightarrow> ('w, outcome) state" where
  "reconcile_ready R tc syncPolicy profile =
     (let secretName = controlPlaneName tc @ ''-kubeconfig''
      in do {
        k \<leftarrow> ensureKubeconfigSecret R tc secretName;
        case k of
          Inl err \<Rightarrow> degrade R tc ''KubeconfigExtractFailed'' (err_Error err)
        | Inr _ \<Rightarrow> do {
            e \<leftarrow> externalEndpoint R tc;
            case e of
              Inl err \<Rightarrow> State_Monad.return (finished (Some err))
            | Inr external \<Rightarrow>
                let tc1 = tc\<lparr>tc_Status := (tc_Status tc)
                      \<lparr>ts_Phase := PhaseReady,
                       ts_Endpoint := ''https://'' @ controlPlaneServiceFQDN tc @ '':'' @ fmt_d apiPort,
                       ts_ExternalEndpoint := external\<rparr>\<rparr>;
                    tc2 = setCondition tc1 ''Ready'' ConditionTrue ''ControlPlaneRunning'' ''''
                in do {
                  s \<leftarrow> runSync R tc2 syncPolicy profile secretName;
                  case s of
                    Some err \<Rightarrow> do {
                      u \<leftarrow> api_call (k_StatusUpdate (r_tc R) (setCondition tc2 ''Synced'' ConditionFalse ''SyncFailed'' (err_Error err)));
                      State_Monad.return (case u of Inl updateErr \<Rightarrow> finished (Some updateErr) | Inr _ \<Rightarrow> requeue requeueWaiting)
                    }
                  | None \<Rightarrow> do {
                      u \<leftarrow> api_call (k_StatusUpdate (r_tc R) (setCondition tc2 ''Synced'' ConditionTrue ''SyncComplete'' ''''));
                      State_Monad.return
                        (case u of Inl updateErr \<Rightarrow> finished (Some updateErr)
                         | Inr _ \<Rightarrow> requeue (syncRequeueInterval (Some syncPolicy)))
                    }
                }
          }
      })"

text \<open>The control-plane objects, from the namespace to the StatefulSet and its readiness.\<close>

definition reconcile_control_plane ::
    "('q, 'c, 'w) Reconciler \<Rightarrow> TenantCluster \<Rightarrow> SyncPolicy \<Rightarrow> Profile \<Rightarrow> ('w, outcome option) state" where
  "reconcile_control_plane R tc syncPolicy profile =
     (let fail = (\<lambda>reason err. do { r \<leftarrow> degrade R tc reason (err_Error err); State_Monad.return (Some r) })
      in do {
        e1 \<leftarrow> ensureControlPlaneNamespace R tc;
        case e1 of Some err \<Rightarrow> fail ''ControlPlaneNamespaceFailed'' err | None \<Rightarrow> do {
        e2 \<leftarrow> cleanupLegacyControlPlane R tc;
        case e2 of Some err \<Rightarrow> fail ''LegacyCleanupFailed'' err | None \<Rightarrow> do {
        e3 \<leftarrow> reconcileService R (buildHeadlessService tc);
        case e3 of Some err \<Rightarrow> fail ''ServiceReconcileFailed'' err | None \<Rightarrow> do {
        e4 \<leftarrow> reconcileExternalService R tc;
        case e4 of Some err \<Rightarrow> fail ''ExternalServiceReconcileFailed'' err | None \<Rightarrow> do {
        s \<leftarrow> reconcileStatefulSet R tc;
        case s of
          None \<Rightarrow> State_Monad.return None
        | Some (Inl err) \<Rightarrow> fail ''StatefulSetReconcileFailed'' err
        | Some (Inr sts) \<Rightarrow>
            (if sint (ss_ReadyReplicas sts) < 1 then do {
               u \<leftarrow> api_call (k_StatusUpdate (r_tc R)
                     (setCondition (with_phase tc PhaseProvisioning) ''Ready'' ConditionFalse ''WaitingForControlPlane''
                        ''control-plane pod is not ready yet''));
               State_Monad.return (Some (case u of Inl err \<Rightarrow> finished (Some err) | Inr _ \<Rightarrow> requeue requeueWaiting))
             }
             else do { r \<leftarrow> reconcile_ready R tc syncPolicy profile; State_Monad.return (Some r) })
        }}}}
      })"

text \<open>Isolation and the two admission-layer policies, with the conditions that report them.\<close>

definition reconcile_isolation ::
    "('q, 'c, 'w) Reconciler \<Rightarrow> TenantCluster \<Rightarrow> SyncPolicy \<Rightarrow> Profile \<Rightarrow> ('w, outcome option) state" where
  "reconcile_isolation R tc syncPolicy profile =
     (let fail = (\<lambda>tc reason err. do { r \<leftarrow> degrade R tc reason (err_Error err); State_Monad.return (Some r) })
      in do {
        iso \<leftarrow> applyIsolation R tc profile;
        case iso of
          None \<Rightarrow> State_Monad.return None
        | Some (Some err) \<Rightarrow> fail tc ''IsolationApplyFailed'' err
        | Some None \<Rightarrow> do {
            a \<leftarrow> ensureRuntimeClassPolicy R;
            case a of
              (_, Some err) \<Rightarrow> fail tc ''AdmissionPolicyFailed'' err
            | (admissionSupported, None) \<Rightarrow> do {
                b \<leftarrow> (if admissionSupported then reconcileRuntimeClassBinding R tc else State_Monad.return None);
                case b of
                  Some err \<Rightarrow> fail tc ''AdmissionBindingFailed'' err
                | None \<Rightarrow> do {
                    let tc1 = setAdmissionHardeningCondition tc admissionSupported;
                    c \<leftarrow> ensureControllerScopePolicies R;
                    case c of
                      (_, Some err) \<Rightarrow> fail tc1 ''ControllerScopePolicyFailed'' err
                    | (scopeSupported, None) \<Rightarrow>
                        reconcile_control_plane R (setControllerScopeCondition tc1 scopeSupported) syncPolicy profile
                  }
              }
          }
      })"

text \<open>The references of a live TenantCluster and the settings that are not implemented.\<close>

definition reconcile_live :: "('q, 'c, 'w) Reconciler \<Rightarrow> TenantCluster \<Rightarrow> ('w, outcome option) state" where
  "reconcile_live R tc =
     (let some = (\<lambda>m. do { r \<leftarrow> m; State_Monad.return (Some r) });
          isoName = lor_Name (tcs_IsolationProfileRef (tc_Spec tc)); policyName = lor_Name (tcs_SyncPolicyRef (tc_Spec tc))
      in do {
        i \<leftarrow> api_call (k_Get (r_ip R) '''' isoName);
        case i of
          Inl err \<Rightarrow> some (degrade R tc ''IsolationProfileNotFound''
            (''isolationProfile '' @ fmt_q isoName @ '' not found: '' @ err_Error err))
        | Inr isoProfile \<Rightarrow> do {
            p \<leftarrow> api_call (k_Get (r_sp R) '''' policyName);
            case p of
              Inl err \<Rightarrow> some (degrade R tc ''SyncPolicyNotFound''
                (''syncPolicy '' @ fmt_q policyName @ '' not found: '' @ err_Error err))
            | Inr syncPolicy \<Rightarrow>
                (let tc1 = setSupportConditions tc (Some isoProfile) (Some syncPolicy);
                     datastore = ds_Type (cp_Datastore (tcs_ControlPlane (tc_Spec tc)))
                 in if datastore \<noteq> ''sqlite'' then
                      some (degrade R tc1 ''DatastoreNotImplemented''
                        (''datastore type '' @ fmt_q datastore @ '' is accepted but only \"sqlite\" is implemented''))
                    else reconcile_isolation R tc1 syncPolicy (profileFromCR isoProfile))
          }
      })"

text \<open>A TenantCluster that is being deleted.\<close>

definition reconcile_deleted :: "('q, 'c, 'w) Reconciler \<Rightarrow> TenantCluster \<Rightarrow> ('w, outcome) state" where
  "reconcile_deleted R tc =
     (if \<not> r_ContainsFinalizer R (tc_Meta tc) teardownFinalizer then State_Monad.return (finished None)
      else do {
        t \<leftarrow> teardown R tc;
        case t of
          (_, Some err) \<Rightarrow> State_Monad.return (finished (Some err))
        | (True, None) \<Rightarrow> do {
            r \<leftarrow> api_call (k_Update (r_tc R) (tc\<lparr>tc_Meta := r_RemoveFinalizer R (tc_Meta tc) teardownFinalizer\<rparr>));
            State_Monad.return (finished (err_of r))
          }
        | (False, None) \<Rightarrow> State_Monad.return (requeue requeueWaiting)
      })"

definition Reconcile :: "('q, 'c, 'w) Reconciler \<Rightarrow> string \<Rightarrow> string \<Rightarrow> ('w, outcome option) state" where
  "Reconcile R namespace name = do {
     got \<leftarrow> api_call (k_Get (r_tc R) namespace name);
     case got of
       Inl err \<Rightarrow> State_Monad.return (Some (finished (if IsNotFound err then None else Some err)))
     | Inr tc \<Rightarrow>
         (if om_DeletionTimestamp (tc_Meta tc) \<noteq> None then do {
            r \<leftarrow> reconcile_deleted R tc; State_Monad.return (Some r)
          }
          else if \<not> r_ContainsFinalizer R (tc_Meta tc) teardownFinalizer then do {
            u \<leftarrow> api_call (k_Update (r_tc R) (tc\<lparr>tc_Meta := r_AddFinalizer R (tc_Meta tc) teardownFinalizer\<rparr>));
            case u of
              Inl err \<Rightarrow> State_Monad.return (Some (finished (Some err)))
            | Inr tc1 \<Rightarrow> reconcile_live R tc1
          }
          else reconcile_live R tc)
   }"

end
