(* ===== verification/Controller_Safety.thy ===== *)
theory Controller_Safety
  imports Reconcile
begin

text \<open>
  What the controller's operations do to the objects they find. The locale \<open>kind_store\<close> states what an API server
  promises about the objects of one kind while nobody else writes to them; it is interpreted on a list of objects
  with any key. \<open>ctl_world\<close> is a small host cluster for the concrete instances.
\<close>

section \<open>A store of typed objects\<close>

locale kind_store =
  fixes C :: "('a, 'w) kind_client" and key :: "'a \<Rightarrow> string \<times> string" and view :: "'w \<Rightarrow> string \<times> string \<Rightarrow> 'a option"
  assumes view_key: "view w k = Some x \<Longrightarrow> key x = k"
    and get_frame: "k_Get C n m w = (r, w') \<Longrightarrow> view w' = view w"
    and get_found: "k_Get C n m w = (Inr x, w') \<Longrightarrow> view w (n, m) = Some x"
    and get_missing: "k_Get C n m w = (Inl err, w') \<Longrightarrow> IsNotFound err \<Longrightarrow> view w (n, m) = None"
    and create_keeps: "k_Create C x w = (r, w') \<Longrightarrow> view w k = Some y \<Longrightarrow> view w' k = Some y"
    and create_ok: "k_Create C x w = (Inr y, w') \<Longrightarrow> view w' (key x) = Some y"
    and update_other: "k_Update C x w = (r, w') \<Longrightarrow> k \<noteq> key x \<Longrightarrow> view w' k = view w k"
    and status_other: "k_StatusUpdate C x w = (r, w') \<Longrightarrow> k \<noteq> key x \<Longrightarrow> view w' k = view w k"
    and delete_other: "k_Delete C x w = (d, w') \<Longrightarrow> k \<noteq> key x \<Longrightarrow> view w' k = view w k"
    and delete_ok: "k_Delete C x w = (None, w') \<Longrightarrow> view w' (key x) = None"
begin

text \<open>An operation guarded by a lookup only reaches the object it found.\<close>

lemma delete_if_keeps:
  assumes "run_state (delete_if C guard n m) w = (r, w')" "view w k = Some x" "\<not> guard x"
  shows "view w' k = Some x"
proof -
  obtain got v where g: "k_Get C n m w = (got, v)" by fastforce
  note frame = get_frame [OF g]
  show ?thesis
  proof (cases got)
    case (Inl err)
    then show ?thesis using assms g frame by (auto simp: delete_if_def ctrl_run)
  next
    case (Inr y)
    then have y: "view w (n, m) = Some y" using get_found g by blast
    show ?thesis
    proof (cases "k = key y")
      case True
      then show ?thesis using assms g Inr frame y view_key [OF y] by (auto simp: delete_if_def ctrl_run)
    next
      case False
      then show ?thesis using assms g Inr frame
        by (auto simp: delete_if_def ctrl_run split: if_splits prod.splits dest: delete_other)
    qed
  qed
qed

end

definition list_view :: "('a \<Rightarrow> string \<times> string) \<Rightarrow> 'a list \<Rightarrow> string \<times> string \<Rightarrow> 'a option" where
  "list_view key xs k = find (\<lambda>x. key x = k) xs"

definition replace_by :: "('a \<Rightarrow> string \<times> string) \<Rightarrow> 'a \<Rightarrow> 'a list \<Rightarrow> 'a list" where
  "replace_by key x xs = map (\<lambda>y. if key y = key x then x else y) xs"

definition list_update_call :: "('a \<Rightarrow> string \<times> string) \<Rightarrow> 'a \<Rightarrow> 'a list \<Rightarrow> (goerr + 'a) \<times> 'a list" where
  "list_update_call key x xs =
     (case list_view key xs (key x) of None \<Rightarrow> (Inl not_found, xs) | Some _ \<Rightarrow> (Inr x, replace_by key x xs))"

definition list_client :: "('a \<Rightarrow> string \<times> string) \<Rightarrow> ('a, 'a list) kind_client" where
  "list_client key =
     \<lparr>k_Get = (\<lambda>n m xs. (case list_view key xs (n, m) of None \<Rightarrow> Inl not_found | Some x \<Rightarrow> Inr x, xs)),
      k_Create = (\<lambda>x xs. case list_view key xs (key x) of
         Some _ \<Rightarrow> (Inl (errorf ''already exists''), xs) | None \<Rightarrow> (Inr x, xs @ [x])),
      k_Update = list_update_call key, k_StatusUpdate = list_update_call key,
      k_Delete = (\<lambda>x xs. case list_view key xs (key x) of
         None \<Rightarrow> (Some not_found, xs) | Some _ \<Rightarrow> (None, filter (\<lambda>y. key y \<noteq> key x) xs)),
      k_CreateOrUpdate = (\<lambda>n m f xs. (Some (errorf ''not supported''), xs))\<rparr>"

lemma list_view_key: "list_view key xs k = Some x \<Longrightarrow> key x = k"
  by (auto simp: list_view_def find_Some_iff)

lemma list_view_append: "list_view key (xs @ ys) k = (case list_view key xs k of None \<Rightarrow> list_view key ys k | Some x \<Rightarrow> Some x)"
  by (induction xs) (auto simp: list_view_def)

lemma list_view_replace: "k \<noteq> key x \<Longrightarrow> list_view key (replace_by key x xs) k = list_view key xs k"
  by (induction xs) (auto simp: list_view_def replace_by_def)

lemma list_view_filter:
  "list_view key (filter (\<lambda>y. key y \<noteq> j) xs) k = (if k = j then None else list_view key xs k)"
  by (induction xs) (auto simp: list_view_def)

lemma list_view_single: "list_view key [x] k = (if key x = k then Some x else None)"
  by (simp add: list_view_def)

interpretation listed: kind_store "list_client key" key "list_view key"
  by unfold_locales
    (auto simp: list_client_def list_update_call_def list_view_key list_view_append list_view_replace list_view_filter
      list_view_single not_found_def errorf_def IsNotFound_def split: option.splits)

section \<open>A small host cluster\<close>

definition lift_kind :: "('w \<Rightarrow> 'm) \<Rightarrow> ('m \<Rightarrow> 'w \<Rightarrow> 'w) \<Rightarrow> ('a, 'm) kind_client \<Rightarrow> ('a, 'w) kind_client" where
  "lift_kind part setp C =
     \<lparr>k_Get = (\<lambda>n m. lift_call part setp (k_Get C n m)), k_Create = (\<lambda>x. lift_call part setp (k_Create C x)),
      k_Update = (\<lambda>x. lift_call part setp (k_Update C x)), k_StatusUpdate = (\<lambda>x. lift_call part setp (k_StatusUpdate C x)),
      k_Delete = (\<lambda>x. lift_call part setp (k_Delete C x)),
      k_CreateOrUpdate = (\<lambda>n m f. lift_call part setp (k_CreateOrUpdate C n m f))\<rparr>"

lemma lift_kind_simps [simp]:
  "k_Get (lift_kind part setp C) n m = lift_call part setp (k_Get C n m)"
  "k_Create (lift_kind part setp C) x = lift_call part setp (k_Create C x)"
  "k_Update (lift_kind part setp C) x = lift_call part setp (k_Update C x)"
  "k_StatusUpdate (lift_kind part setp C) x = lift_call part setp (k_StatusUpdate C x)"
  "k_Delete (lift_kind part setp C) x = lift_call part setp (k_Delete C x)"
  by (simp_all add: lift_kind_def)

lemma lift_kind_store:
  assumes store: "kind_store C key view" and part: "\<And>m w. part (setp m w) = m"
  shows "kind_store (lift_kind part setp C) key (\<lambda>w. view (part w))"
proof -
  note run = lift_call_run [of part setp, OF part]
  show ?thesis
    by unfold_locales
      (auto dest!: run dest: kind_store.view_key [OF store] kind_store.get_frame [OF store] kind_store.get_found [OF store]
        kind_store.get_missing [OF store] kind_store.create_keeps [OF store] kind_store.create_ok [OF store]
        kind_store.update_other [OF store] kind_store.status_other [OF store] kind_store.delete_other [OF store]
        kind_store.delete_ok [OF store])
qed

record ctl_world =
  w_tc :: "TenantCluster list"
  w_ns :: "Namespace list"
  w_svc :: "Service list"
  w_sts :: "string StatefulSet list"
  w_pvc :: "PersistentVolumeClaim list"
  w_sd :: "SyncDecision list"
  w_un :: mem
  w_ten :: mem

definition meta_key :: "ObjectMeta \<Rightarrow> string \<times> string" where
  "meta_key m = (om_Namespace m, om_Name m)"

abbreviation ns_key :: "Namespace \<Rightarrow> string \<times> string" where "ns_key ns \<equiv> meta_key (ns_Meta ns)"

definition ns_client :: "(Namespace, ctl_world) kind_client" where
  "ns_client = lift_kind w_ns (\<lambda>m w. w\<lparr>w_ns := m\<rparr>) (list_client ns_key)"

abbreviation svc_key :: "Service \<Rightarrow> string \<times> string" where "svc_key svc \<equiv> meta_key (sv_Meta svc)"

definition svc_client :: "(Service, ctl_world) kind_client" where
  "svc_client = lift_kind w_svc (\<lambda>m w. w\<lparr>w_svc := m\<rparr>) (list_client svc_key)"

definition pvc_client :: "(PersistentVolumeClaim, ctl_world) kind_client" where
  "pvc_client = lift_kind w_pvc (\<lambda>m w. w\<lparr>w_pvc := m\<rparr>) (list_client (\<lambda>p. meta_key (pvc_Meta p)))"

definition sd_client :: "(SyncDecision, ctl_world) kind_client" where
  "sd_client = lift_kind w_sd (\<lambda>m w. w\<lparr>w_sd := m\<rparr>) (list_client (\<lambda>d. meta_key (sd_Meta d)))"

text \<open>A kind of which the cluster has no object and accepts none.\<close>

definition no_objects :: "('a, 'w) kind_client" where
  "no_objects =
     \<lparr>k_Get = (\<lambda>n m w. (Inl not_found, w)), k_Create = (\<lambda>x w. (Inl (errorf ''forbidden''), w)),
      k_Update = (\<lambda>x w. (Inl not_found, w)), k_StatusUpdate = (\<lambda>x w. (Inl not_found, w)),
      k_Delete = (\<lambda>x w. (Some not_found, w)), k_CreateOrUpdate = (\<lambda>n m f w. (Some (errorf ''forbidden''), w))\<rparr>"

definition ctl_reconciler :: "(string, unit, ctl_world) Reconciler" where
  "ctl_reconciler =
     \<lparr>r_tc = no_objects, r_ip = no_objects, r_sp = no_objects, r_sd = sd_client, r_ns = ns_client, r_svc = svc_client,
      r_sts = no_objects, r_secret = no_objects, r_pvc = pvc_client, r_np = no_objects, r_rq = no_objects,
      r_lr = no_objects, r_un = lift_client w_un (\<lambda>m w. w\<lparr>w_un := m\<rparr>) mem_client, r_U = json_api,
      r_ParseQuantity = text_quantity, r_ContainsFinalizer = (\<lambda>m f. f \<in> set (om_Finalizers m)),
      r_AddFinalizer = (\<lambda>m f. m\<lparr>om_Finalizers := om_Finalizers m @ [f]\<rparr>),
      r_RemoveFinalizer = (\<lambda>m f. m\<lparr>om_Finalizers := filter (\<lambda>x. x \<noteq> f) (om_Finalizers m)\<rparr>),
      r_SetControllerReference = (\<lambda>tc m. Inr (m\<lparr>om_OwnerReferences := [\<lparr>or_Kind = ''TenantCluster'', or_Name = tc_Name tc\<rparr>]\<rparr>)),
      r_execInPod = (\<lambda>n p c cmd w. (Inl (errorf ''no such pod''), w)), r_Eventf = None,
      r_NewLimiter = (\<lambda>r b w. (Pair True, w)), r_RESTConfigFromKubeConfig = (\<lambda>s. Inr ()),
      r_NewClient = (\<lambda>c w. (Inl (errorf ''connection refused''), w)),
      r_ParseGroupVersion = (\<lambda>s. Inr ('''', s)), r_Now = Pair ''2026-01-01T00:00:00Z'', r_ListTenants = (\<lambda>i v w. (Inr [], w))\<rparr>"

lemma ctl_reconciler_simps [simp]:
  "r_tc ctl_reconciler = no_objects" "r_sd ctl_reconciler = sd_client" "r_ns ctl_reconciler = ns_client"
  "r_svc ctl_reconciler = svc_client" "r_sts ctl_reconciler = no_objects" "r_pvc ctl_reconciler = pvc_client"
  "r_np ctl_reconciler = no_objects" "r_un ctl_reconciler = lift_client w_un (\<lambda>m w. w\<lparr>w_un := m\<rparr>) mem_client"
  "r_U ctl_reconciler = json_api" "r_ParseQuantity ctl_reconciler = text_quantity"
  by (simp_all add: ctl_reconciler_def)

interpretation ctl_ns: kind_store ns_client ns_key "\<lambda>w. list_view ns_key (w_ns w)"
  unfolding ns_client_def by (rule lift_kind_store [OF listed.kind_store_axioms]) simp

interpretation ctl_svc: kind_store svc_client svc_key "\<lambda>w. list_view svc_key (w_svc w)"
  unfolding svc_client_def by (rule lift_kind_store [OF listed.kind_store_axioms]) simp

interpretation ctl_sd: kind_store sd_client "\<lambda>d. meta_key (sd_Meta d)" "\<lambda>w. list_view (\<lambda>d. meta_key (sd_Meta d)) (w_sd w)"
  unfolding sd_client_def by (rule lift_kind_store [OF listed.kind_store_axioms]) simp

section \<open>Namespaces\<close>

lemma with_labels_key [simp]: "meta_key (with_labels m l) = meta_key m"
  by (simp add: with_labels_def meta_key_def)

lemma ensure_namespace_keeps:
  assumes "kind_store (r_ns R) ns_key nsview" "nsview w k = Some ns" "\<not> ownedByTenant ns tc"
    and "run_state (ensureControlPlaneNamespace R tc) w = (r, w')"
  shows "nsview w' k = Some ns"
proof -
  note st = kind_store.get_frame [OF assms(1)] kind_store.get_found [OF assms(1)] kind_store.create_keeps [OF assms(1)]
    kind_store.update_other [OF assms(1)] kind_store.view_key [OF assms(1)]
  obtain got v where g: "k_Get (r_ns R) '''' (controlPlaneNamespace tc) w = (got, v)" by fastforce
  have name: "om_Name (ns_Meta (buildControlPlaneNamespace tc)) = controlPlaneNamespace tc"
    by (simp add: buildControlPlaneNamespace_def object_meta_def)
  show ?thesis
  proof (cases got)
    case (Inl err)
    then show ?thesis
      using assms(2,4) g st(1) [OF g] st(3)
      by (auto simp: ensureControlPlaneNamespace_def ctrl_run Let_def name split: if_splits prod.splits)
  next
    case (Inr ex)
    have "k \<noteq> ns_key ex \<or> \<not> ownedByTenant ex tc"
      using st(2) [of _ _ w ex v] st(5) g Inr assms(2,3) by (metis option.inject)
    then show ?thesis
      using assms(2,4) g Inr st(1) [OF g] st(4) [of "ex\<lparr>ns_Meta := with_labels (ns_Meta ex) _\<rparr>" v _ _ k]
      by (auto simp: ensureControlPlaneNamespace_def ctrl_run Let_def name split: if_splits prod.splits)
  qed
qed

lemma teardown_keeps:
  assumes "kind_store (r_ns R) ns_key nsview" "nsview w k = Some ns" "\<not> ownedByTenant ns tc"
    and un: "\<And>o1 w r w'. cl_delete (r_un R) o1 w = (r, w') \<Longrightarrow> nsview w' = nsview w"
    and run: "run_state (teardown R tc) w = (r, w')"
  shows "nsview w' k = Some ns"
proof -
  note st = kind_store.get_frame [OF assms(1)] kind_store.get_found [OF assms(1)] kind_store.delete_other [OF assms(1)]
    kind_store.view_key [OF assms(1)]
  obtain d u where d: "run_state (deleteRuntimeClassBinding R tc) w = (d, u)" by fastforce
  then have du: "nsview u = nsview w"
    by (auto simp: deleteRuntimeClassBinding_def Let_def ctrl_run split: prod.splits option.splits dest!: un)
  obtain got v where g: "k_Get (r_ns R) '''' (controlPlaneNamespace tc) u = (got, v)" by fastforce
  show ?thesis
  proof (cases "d = None \<and> \<not> isl got")
    case False
    then show ?thesis using run d g du st(1) [OF g] assms(2)
      by (cases d; cases got) (auto simp: teardown_def ctrl_run)
  next
    case True
    then obtain ex where ex: "got = Inr ex" "d = None" by (cases got) auto
    have "k \<noteq> ns_key ex \<or> \<not> ownedByTenant ex tc"
      using st(2) [of _ _ u ex v] st(4) g ex assms(2,3) du by (metis option.inject)
    show ?thesis
    proof (cases "ownedByTenant ex tc")
      case False
      then show ?thesis using run d g ex du st(1) [OF g] assms(2) by (simp add: teardown_def ctrl_run)
    next
      case True
      then have "k \<noteq> ns_key ex" using \<open>k \<noteq> ns_key ex \<or> \<not> ownedByTenant ex tc\<close> by simp
      obtain b x where x: "k_Delete (r_ns R) ex v = (b, x)" by fastforce
      have "nsview x k = nsview v k" using st(3) [OF x] \<open>k \<noteq> ns_key ex\<close> by simp
      moreover have "w' = v \<or> w' = x"
        using run [unfolded teardown_def] True
        by (simp add: ctrl_run d [unfolded ex] g [unfolded ex] x split: if_splits)
      ultimately show ?thesis using st(1) [OF g] du assms(2) by auto
    qed
  qed
qed

text \<open>Property C13 (foreign namespaces survive the tenant's life). A namespace without the labels tenantplane stamps for
  this very tenant is neither changed by ensuring the control-plane namespace nor deleted by the teardown, even
  when it has the control-plane namespace's name.\<close>

theorem foreign_namespace_survives:
  assumes "kind_store (r_ns R) ns_key nsview" "nsview w k = Some ns" "\<not> ownedByTenant ns tc"
    and "\<And>o1 w r w'. cl_delete (r_un R) o1 w = (r, w') \<Longrightarrow> nsview w' = nsview w"
  shows "nsview (snd (run_state (ensureControlPlaneNamespace R tc) w)) k = Some ns \<and>
     nsview (snd (run_state (teardown R tc) w)) k = Some ns"
  by (intro conjI ensure_namespace_keeps [OF assms(1-3) prod.collapse [symmetric]]
    teardown_keeps [OF assms(1-4) prod.collapse [symmetric]])

definition squatter :: Namespace where
  "squatter = \<lparr>ns_Meta = object_meta (controlPlaneNamespace (demo_tc ''dev'' ''team'')) '''' None\<rparr>"

theorem foreign_namespace_survives_witness:
  "list_view ns_key (w_ns (snd (run_state (teardown ctl_reconciler (demo_tc ''dev'' ''team''))
      \<lparr>w_tc = [], w_ns = [squatter], w_svc = [], w_sts = [], w_pvc = [], w_sd = [], w_un = \<lparr>m_objs = [], m_rv = 0\<rparr>,
        w_ten = \<lparr>m_objs = [], m_rv = 0\<rparr>\<rparr>)))
      ('''', controlPlaneNamespace (demo_tc ''dev'' ''team'')) = Some squatter"
proof -
  let ?w = "\<lparr>w_tc = [], w_ns = [squatter], w_svc = [], w_sts = [], w_pvc = [], w_sd = [], w_un = \<lparr>m_objs = [], m_rv = 0\<rparr>,
        w_ten = \<lparr>m_objs = [], m_rv = 0\<rparr>\<rparr>"
  have v: "list_view ns_key (w_ns ?w) ('''', controlPlaneNamespace (demo_tc ''dev'' ''team'')) = Some squatter"
    by (simp add: list_view_def squatter_def object_meta_def meta_key_def)
  have o: "\<not> ownedByTenant squatter (demo_tc ''dev'' ''team'')"
    by (simp add: ownedByTenant_def squatter_def object_meta_def label_at_def)
  have s: "kind_store (r_ns ctl_reconciler) ns_key (\<lambda>w. list_view ns_key (w_ns w))"
    by (simp add: ctl_ns.kind_store_axioms)
  have u: "cl_delete (r_un ctl_reconciler) o1 w = (r, w') \<Longrightarrow> list_view ns_key (w_ns w') = list_view ns_key (w_ns w)" for o1 w r w'
    by (auto simp: lift_call_def split: prod.splits)
  show ?thesis
  proof (rule conjunct2 [OF foreign_namespace_survives [where R = ctl_reconciler, OF s v o]])
    show "list_view ns_key (w_ns w') = list_view ns_key (w_ns w)"
      if "cl_delete (r_un ctl_reconciler) o1 w = (r, w')" for o1 w r w'
      using that by (rule u)
  qed
qed

section \<open>What a write leaves behind\<close>

text \<open>The part \<open>conf\<close> of an object that \<open>Update\<close> stores and the part \<open>stat\<close> that \<open>Status().Update\<close> stores.\<close>

locale kind_store_write = kind_store C key view
  for C :: "('a, 'w) kind_client" and key :: "'a \<Rightarrow> string \<times> string" and view :: "'w \<Rightarrow> string \<times> string \<Rightarrow> 'a option" +
  fixes conf :: "'a \<Rightarrow> 'c" and stat :: "'a \<Rightarrow> 's"
  assumes update_ok: "k_Update C x w = (Inr y, w') \<Longrightarrow> view w' (key x) = Some y \<and> conf y = conf x"
    and status_ok: "k_StatusUpdate C x w = (Inr y, w') \<Longrightarrow> view w' (key x) = Some y \<and> stat y = stat x"
begin

text \<open>Reading back after a successful status update, with other writers absent.\<close>

lemma status_read:
  assumes "k_StatusUpdate C x w = (Inr y, w1)" "key x = (n, m)" "k_Get C n m w1 = (got, w2)"
  shows "(\<exists>z. got = Inr z \<and> stat z = stat x) \<or> (\<exists>err. got = Inl err \<and> \<not> IsNotFound err)"
proof (cases got)
  case (Inl err)
  then show ?thesis using assms status_ok [OF assms(1)] get_missing by fastforce
next
  case (Inr z)
  then show ?thesis using assms status_ok [OF assms(1)] get_found by fastforce
qed

end

lemma list_view_replaced: "list_view key xs (key x) = Some z \<Longrightarrow> list_view key (replace_by key x xs) (key x) = Some x"
  by (induction xs) (auto simp: list_view_def replace_by_def split: if_splits)

lemma list_update_ok:
  "list_update_call key x xs = (Inr y, xs') \<Longrightarrow> list_view key xs' (key x) = Some y \<and> y = x"
  by (auto simp: list_update_call_def list_view_replaced split: option.splits)

lemma lift_kind_store_write:
  assumes store: "kind_store_write C key view conf stat" and part: "\<And>m w. part (setp m w) = m"
  shows "kind_store_write (lift_kind part setp C) key (\<lambda>w. view (part w)) conf stat"
proof (intro kind_store_write.intro lift_kind_store kind_store_write_axioms.intro part)
  note run = lift_call_run [of part setp, OF part]
  show "kind_store C key view" using store by (rule kind_store_write.axioms)
  show "view (part w') (key x) = Some y \<and> conf y = conf x" if "k_Update (lift_kind part setp C) x w = (Inr y, w')" for x w y w'
    using that kind_store_write.update_ok [OF store] by (auto dest: run)
  show "view (part w') (key x) = Some y \<and> stat y = stat x" if "k_StatusUpdate (lift_kind part setp C) x w = (Inr y, w')" for x w y w'
    using that kind_store_write.status_ok [OF store] by (auto dest: run)
qed

interpretation listed_write: kind_store_write "list_client key" key "list_view key" conf stat
  by unfold_locales (auto simp: list_client_def dest: list_update_ok)

interpretation ctl_ns_write: kind_store_write ns_client ns_key "\<lambda>w. list_view ns_key (w_ns w)" "\<lambda>ns. om_Labels (ns_Meta ns)" "\<lambda>ns. ()"
  unfolding ns_client_def by (rule lift_kind_store_write [OF listed_write.kind_store_write_axioms]) simp

interpretation ctl_sd_write: kind_store_write sd_client "\<lambda>d. meta_key (sd_Meta d)"
    "\<lambda>w. list_view (\<lambda>d. meta_key (sd_Meta d)) (w_sd w)" "\<lambda>d. ()" sd_Status
  unfolding sd_client_def by (rule lift_kind_store_write [OF listed_write.kind_store_write_axioms]) simp

end
