(* ===== verification/Controller_Lifecycle.thy ===== *)
theory Controller_Lifecycle
  imports Controller_Safety
begin

text \<open>
  Properties of whole controller operations: the life cycle of a TenantCluster around its control-plane namespace, the
  isolation and legacy steps, the SyncDecision object as the store of decisions and convergence history, and
  what \<open>Reconcile\<close> asks for next. They hold for every client that keeps the laws of \<open>kind_store_write\<close>; the
  witnesses run them on \<open>ctl_reconciler\<close>.
\<close>

section \<open>The SyncDecision object\<close>

abbreviation sd_key :: "SyncDecision \<Rightarrow> string \<times> string" where "sd_key d \<equiv> meta_key (sd_Meta d)"

definition last_n :: "nat \<Rightarrow> 'a list \<Rightarrow> 'a list" where
  "last_n n xs = drop (length xs - n) xs"

lemma to_from_converged [simp]: "to_converged (from_converged v) = v"
  by (simp add: to_converged_def from_converged_def)

lemma converged_map_roundtrip: "fmmap to_converged (fmmap from_converged h) = h"
  by (simp add: fmap.map_comp comp_def fmap.map_ident)

lemma updated_entries:
  "0 < retain \<Longrightarrow> sds_Entries (updated_status st now ds retain h) = last_n (nat retain) (sds_Entries st @ map (decision_entry now) ds)"
  by (auto simp: updated_status_def Let_def last_n_def split: option.splits)

lemma updated_history:
  "m \<noteq> fmempty \<Longrightarrow> sds_LastConverged (updated_status st now ds retain (Some m)) = Some (fmmap from_converged m)"
  by (simp add: updated_status_def Let_def)

text \<open>The object found or created for the tenant has the tenant's key.\<close>

lemma decision_object_key:
  assumes store: "kind_store (r_sd R) sd_key sdview"
    and ref: "\<And>m m'. r_SetControllerReference R tc m = Inr m' \<Longrightarrow> meta_key m' = meta_key m"
    and run: "run_state (get_or_create_decision R tc) w = (Inr sd, w')"
  shows "sd_key sd = (tc_Namespace tc, tc_Name tc) \<and>
    (\<forall>old. sdview w (tc_Namespace tc, tc_Name tc) = Some old \<longrightarrow> sd = old)"
proof -
  let ?k = "(tc_Namespace tc, tc_Name tc)"
  have new: "meta_key (sd_Meta (new_sync_decision tc)) = ?k"
    by (simp add: new_sync_decision_def object_meta_def meta_key_def)
  obtain got v where g: "k_Get (r_sd R) (tc_Namespace tc) (tc_Name tc) w = (got, v)" by fastforce
  show ?thesis
  proof (cases got)
    case (Inr x)
    then have "sd = x" using run g by (simp add: get_or_create_decision_def ctrl_run)
    moreover have "sdview w ?k = Some x" using kind_store.get_found [OF store] g Inr by blast
    ultimately show ?thesis using kind_store.view_key [OF store, of w ?k x] by simp
  next
    case (Inl err)
    then obtain m where nf: "IsNotFound err" and m: "r_SetControllerReference R tc (sd_Meta (new_sync_decision tc)) = Inr m"
      and c: "k_Create (r_sd R) (new_sync_decision tc\<lparr>sd_Meta := m\<rparr>) v = (Inr sd, w')"
      using run g by (auto simp: get_or_create_decision_def ctrl_run Let_def split: if_splits sum.splits)
    have "sdview w' (sd_key (new_sync_decision tc\<lparr>sd_Meta := m\<rparr>)) = Some sd"
      using kind_store.create_ok [OF store c] by simp
    then have "sdview w' ?k = Some sd" using ref [OF m] new by simp
    moreover have "sdview w ?k = None" using kind_store.get_missing [OF store] g Inl nf by blast
    ultimately show ?thesis using kind_store.view_key [OF store, of w' ?k sd] by simp
  qed
qed

text \<open>Property C15 (what one pass records, the next one loads). When recording a pass succeeds, the SyncDecision object of
  the tenant holds the last \<open>retain\<close> of its old entries followed by the new ones, at most \<open>retain\<close> of them, and the
  next successful load of the convergence history returns the history that was recorded.\<close>

theorem recorded_history_is_loaded:
  assumes "kind_store_write (r_sd R) sd_key sdview (\<lambda>d. ()) sd_Status"
    and "\<And>m m'. r_SetControllerReference R tc m = Inr m' \<Longrightarrow> meta_key m' = meta_key m"
    and "decisions \<noteq> []" "0 < retain" "history = Some m" "m \<noteq> fmempty"
    and "run_state (recordSyncDecisions R tc decisions retain history) w = (None, w1)"
    and "run_state (loadConvergenceHistory R tc) w1 = (Inr loaded, w2)"
  shows "loaded = m \<and>
    (\<exists>now sd. sdview w1 (tc_Namespace tc, tc_Name tc) = Some sd \<and> int (length (sds_Entries (sd_Status sd))) \<le> retain \<and>
      (\<forall>old. sdview w (tc_Namespace tc, tc_Name tc) = Some old \<longrightarrow>
        sds_Entries (sd_Status sd) = last_n (nat retain) (sds_Entries (sd_Status old) @ map (decision_entry now) decisions)))"
proof -
  note store = kind_store_write.axioms(1) [OF assms(1)]
  let ?k = "(tc_Namespace tc, tc_Name tc)"
  obtain sd v where g: "run_state (get_or_create_decision R tc) w = (Inr sd, v)"
    using assms(3,4,7) by (auto simp: recordSyncDecisions_def ctrl_run split: prod.splits sum.splits)
  obtain now u where now: "r_Now R v = (now, u)" by fastforce
  let ?st = "updated_status (sd_Status sd) now decisions retain (Some m)"
  obtain y where y: "k_StatusUpdate (r_sd R) (sd\<lparr>sd_Status := ?st\<rparr>) u = (Inr y, w1)"
    using assms(3-5,7) g now by (auto simp: recordSyncDecisions_def ctrl_run err_of_def split: prod.splits sum.splits)
  note key = decision_object_key [OF store assms(2) g]
  have vy: "sdview w1 ?k = Some y" "sd_Status y = ?st"
    using kind_store_write.status_ok [OF assms(1) y] key by auto
  obtain got w3 where l: "k_Get (r_sd R) (tc_Namespace tc) (tc_Name tc) w1 = (got, w3)" by fastforce
  have "loaded = m"
    using kind_store_write.status_read [OF assms(1) y _ l] key assms(8) l updated_history [OF assms(6)]
    by (auto simp: loadConvergenceHistory_def ctrl_run converged_map_roundtrip)
  moreover have "int (length (sds_Entries (sd_Status y))) \<le> retain"
    using assms(4) by (simp add: vy updated_entries last_n_def)
  moreover have "sds_Entries (sd_Status y) = last_n (nat retain) (sds_Entries (sd_Status old) @ map (decision_entry now) decisions)"
    if "sdview w ?k = Some old" for old
    using key that assms(4) by (simp add: vy updated_entries)
  ultimately show ?thesis using vy(1) by blast
qed

definition demo_decision :: Decision where
  "demo_decision = \<lparr>d_Action = ActionUpdate, d_Kind = ''ConfigMap'',
     d_Ref = \<lparr>ref_TenantCluster = ''dev'', ref_TenantNamespace = ''team'', ref_VirtualNamespace = ''shop'',
       ref_Kind = ''ConfigMap'', ref_Name = ''cfg''\<rparr>,
     d_Host = \<lparr>ht_Namespace = ''team'', ht_Name = ''h''\<rparr>, d_Reason = ''tenant changed''\<rparr>"

definition demo_history :: "(string, ConvergedVersions) fmap" where
  "demo_history = fmap_of_list [(''h'', \<lparr>cv_TenantResourceVersion = ''4'', cv_HostResourceVersion = ''9''\<rparr>)]"

abbreviation empty_world :: ctl_world where
  "empty_world \<equiv> \<lparr>w_tc = [], w_ns = [], w_svc = [], w_sts = [], w_pvc = [], w_sd = [], w_un = \<lparr>m_objs = [], m_rv = 0\<rparr>,
     w_ten = \<lparr>m_objs = [], m_rv = 0\<rparr>\<rparr>"

lemma ctl_set_owner: "r_SetControllerReference ctl_reconciler tc m = Inr m' \<Longrightarrow> meta_key m' = meta_key m"
  by (auto simp: ctl_reconciler_def meta_key_def)

theorem recorded_history_is_loaded_witness:
  "fst (run_state (loadConvergenceHistory ctl_reconciler (demo_tc ''dev'' ''team''))
      (snd (run_state (recordSyncDecisions ctl_reconciler (demo_tc ''dev'' ''team'') [demo_decision] 5 (Some demo_history)) empty_world)))
    = Inr demo_history"
proof -
  let ?tc = "demo_tc ''dev'' ''team''"
  let ?rec = "run_state (recordSyncDecisions ctl_reconciler ?tc [demo_decision] 5 (Some demo_history)) empty_world"
  let ?load = "run_state (loadConvergenceHistory ctl_reconciler ?tc) (snd ?rec)"
  have store: "kind_store_write (r_sd ctl_reconciler) sd_key (\<lambda>w. list_view sd_key (w_sd w)) (\<lambda>d. ()) sd_Status"
    by (simp add: ctl_sd_write.kind_store_write_axioms)
  have ne: "demo_history \<noteq> fmempty" by (simp add: demo_history_def)
  have rec: "?rec = (None, snd ?rec)"
    by (simp add: recordSyncDecisions_def get_or_create_decision_def ctrl_run Let_def sd_client_def lift_call_def list_client_def
        list_view_def list_update_call_def new_sync_decision_def object_meta_def meta_key_def demo_tc_def not_found_def IsNotFound_def
        ctl_reconciler_def err_of_def)
  have "isl (fst ?load) = False"
    by (simp add: recordSyncDecisions_def get_or_create_decision_def loadConvergenceHistory_def ctrl_run Let_def sd_client_def
        lift_call_def list_client_def replace_by_def
        list_view_def list_update_call_def new_sync_decision_def object_meta_def meta_key_def demo_tc_def not_found_def IsNotFound_def
        ctl_reconciler_def err_of_def)
  then obtain loaded where load: "?load = (Inr loaded, snd ?load)" by (cases ?load; cases "fst ?load") auto
  have "loaded = demo_history"
    by (rule conjunct1 [OF recorded_history_is_loaded [OF store _ _ _ refl ne rec load]]) (simp_all add: ctl_set_owner)
  then show ?thesis using arg_cong [OF load, of fst] by simp
qed

section \<open>The life cycle of a TenantCluster\<close>

lemma runtime_class_binding_view:
  assumes un: "\<And>o1 w r w'. cl_delete (r_un R) o1 w = (r, w') \<Longrightarrow> nsview w' = nsview w"
    and "run_state (deleteRuntimeClassBinding R tc) w = (d, u)"
  shows "nsview u = nsview w"
  using assms(2) by (auto simp: deleteRuntimeClassBinding_def Let_def ctrl_run split: prod.splits option.splits dest!: un)

text \<open>While a namespace the tenant owns exists, teardown does not report that it is finished.\<close>

lemma teardown_waits:
  assumes store: "kind_store (r_ns R) ns_key nsview"
    and un: "\<And>o1 w r w'. cl_delete (r_un R) o1 w = (r, w') \<Longrightarrow> nsview w' = nsview w"
    and ns: "nsview w ('''', controlPlaneNamespace tc) = Some ns" "ownedByTenant ns tc"
  shows "fst (fst (run_state (teardown R tc) w)) = False"
proof -
  obtain d u where d: "run_state (deleteRuntimeClassBinding R tc) w = (d, u)" by fastforce
  have du: "nsview u = nsview w" by (rule runtime_class_binding_view [OF un d])
  obtain got v where g: "k_Get (r_ns R) '''' (controlPlaneNamespace tc) u = (got, v)" by fastforce
  have view: "nsview u ('''', controlPlaneNamespace tc) = Some ns" using du un ns(1) by metis
  show ?thesis
  proof (cases got)
    case (Inl err)
    then have "\<not> IsNotFound err" using kind_store.get_missing [OF store] g view by fastforce
    then show ?thesis using d g Inl by (cases d) (auto simp: teardown_def ctrl_run)
  next
    case (Inr x)
    then have "x = ns" using kind_store.get_found [OF store] g view by fastforce
    then show ?thesis using d g Inr ns(2) by (cases d) (auto simp: teardown_def ctrl_run split: prod.splits)
  qed
qed

text \<open>Property C12 (the finalizer outlives the namespace). While the control-plane namespace this tenant owns exists, a
  reconcile of the deleted TenantCluster does what teardown does and nothing else, so the finalizer stays, and it
  asks to be called again or returns an error.\<close>

theorem finalizer_outlives_the_namespace:
  assumes "kind_store (r_ns R) ns_key nsview"
    and "\<And>o1 w r w'. cl_delete (r_un R) o1 w = (r, w') \<Longrightarrow> nsview w' = nsview w"
    and "nsview w ('''', controlPlaneNamespace tc) = Some ns" "ownedByTenant ns tc"
    and "r_ContainsFinalizer R (tc_Meta tc) teardownFinalizer"
  shows "snd (run_state (reconcile_deleted R tc) w) = snd (run_state (teardown R tc) w) \<and>
    (fst (run_state (reconcile_deleted R tc) w) = requeue requeueWaiting \<or>
     (\<exists>err. fst (run_state (reconcile_deleted R tc) w) = finished (Some err)))"
proof -
  obtain b e w' where t: "run_state (teardown R tc) w = ((b, e), w')" by (metis prod.exhaust)
  have "\<not> b" using teardown_waits [OF assms(1-4)] t by simp
  then show ?thesis using t assms(5) by (cases e) (auto simp: reconcile_deleted_def ctrl_run)
qed

definition owned_namespace :: "TenantCluster \<Rightarrow> Namespace" where
  "owned_namespace tc = buildControlPlaneNamespace tc"

definition deleted_tc :: TenantCluster where
  "deleted_tc = (demo_tc ''dev'' ''team'')\<lparr>tc_Meta := (tc_Meta (demo_tc ''dev'' ''team''))
     \<lparr>om_Finalizers := [teardownFinalizer], om_DeletionTimestamp := Some ''2026-01-01T00:00:00Z''\<rparr>\<rparr>"

theorem finalizer_outlives_the_namespace_witness:
  "snd (run_state (reconcile_deleted ctl_reconciler deleted_tc) (empty_world\<lparr>w_ns := [owned_namespace deleted_tc]\<rparr>)) =
   snd (run_state (teardown ctl_reconciler deleted_tc) (empty_world\<lparr>w_ns := [owned_namespace deleted_tc]\<rparr>))"
proof (rule conjunct1 [OF finalizer_outlives_the_namespace [where R = ctl_reconciler
      and nsview = "\<lambda>w. list_view ns_key (w_ns w)" and ns = "owned_namespace deleted_tc"]])
  show "kind_store (r_ns ctl_reconciler) ns_key (\<lambda>w. list_view ns_key (w_ns w))"
    by (simp add: ctl_ns.kind_store_axioms)
  show "list_view ns_key (w_ns w') = list_view ns_key (w_ns w)" if "cl_delete (r_un ctl_reconciler) o1 w = (r, w')" for o1 w r w'
    using that by (auto simp: lift_call_def split: prod.splits)
  show "list_view ns_key (w_ns (empty_world\<lparr>w_ns := [owned_namespace deleted_tc]\<rparr>)) ('''', controlPlaneNamespace deleted_tc) =
      Some (owned_namespace deleted_tc)"
    by (simp add: list_view_def owned_namespace_def buildControlPlaneNamespace_def object_meta_def meta_key_def)
  show "ownedByTenant (owned_namespace deleted_tc) deleted_tc"
    by (simp add: ownedByTenant_def owned_namespace_def buildControlPlaneNamespace_def object_meta_def label_at_def str_at_def label_defs)
  show "r_ContainsFinalizer ctl_reconciler (tc_Meta deleted_tc) teardownFinalizer"
    by (simp add: ctl_reconciler_def deleted_tc_def)
qed

section \<open>Isolation\<close>

lemma stale_empty: "stale_labels live desired = fmempty \<Longrightarrow> fmlookup desired k = Some v \<Longrightarrow> label_at live k = v"
proof -
  assume s: "stale_labels live desired = fmempty" "fmlookup desired k = Some v"
  have "fmlookup (stale_labels live desired) k = None" by (simp add: s(1))
  then show ?thesis using s(2) by (auto simp: stale_labels_def str_at_def split: if_splits)
qed

lemma labels_after:
  "fmlookup desired k = Some v \<Longrightarrow> label_at (with_labels live (stale_labels live desired)) k = v"
  by (cases "om_Labels live") (auto simp: stale_labels_def with_labels_def label_at_def str_at_def)

lemma pod_security_desired:
  "fmlookup (fmupd labelManagedBy ''tenantplane'' fmempty ++\<^sub>f PodSecurityLabels profile) k =
     (if k \<in> {''pod-security.kubernetes.io/enforce'', ''pod-security.kubernetes.io/audit'', ''pod-security.kubernetes.io/warn''}
      then Some (p_PodSecurity profile) else if k = ''app.kubernetes.io/managed-by'' then Some ''tenantplane'' else None)"
  by (simp add: PodSecurityLabels_def label_defs)

lemma namespace_labels_stamped:
  assumes "kind_store_write (r_ns R) ns_key nsview (\<lambda>ns. om_Labels (ns_Meta ns)) (\<lambda>ns. ())"
    and "run_state (applyNamespacePodSecurityLabels R namespace profile) w = (None, w')"
    and "nsview w' ('''', namespace) = Some ns"
    and "fmlookup (fmupd labelManagedBy ''tenantplane'' fmempty ++\<^sub>f PodSecurityLabels profile) k = Some x"
  shows "label_at (ns_Meta ns) k = x"
proof -
  note store = kind_store_write.axioms(1) [OF assms(1)]
  let ?desired = "fmupd labelManagedBy ''tenantplane'' fmempty ++\<^sub>f PodSecurityLabels profile"
  obtain got v where g: "k_Get (r_ns R) '''' namespace w = (got, v)" by fastforce
  note frame = kind_store.get_frame [OF store g]
  show ?thesis
  proof (cases got)
    case (Inl err)
    then have "IsNotFound err" "w' = v"
      using assms(2) g by (auto simp: applyNamespacePodSecurityLabels_def ctrl_run split: if_splits)
    then show ?thesis using kind_store.get_missing [OF store] g Inl frame assms(3) by fastforce
  next
    case (Inr live)
    then have l: "nsview w ('''', namespace) = Some live" using kind_store.get_found [OF store] g by blast
    show ?thesis
    proof (cases "stale_labels (ns_Meta live) ?desired = fmempty")
      case True
      then have "w' = v" using assms(2) g Inr by (simp add: applyNamespacePodSecurityLabels_def ctrl_run Let_def)
      then have "ns = live" using l frame assms(3) by simp
      then show ?thesis using stale_empty [OF True assms(4)] by simp
    next
      case False
      let ?new = "live\<lparr>ns_Meta := with_labels (ns_Meta live) (stale_labels (ns_Meta live) ?desired)\<rparr>"
      obtain y where y: "k_Update (r_ns R) ?new v = (Inr y, w')"
        using assms(2) g Inr False
        by (auto simp: applyNamespacePodSecurityLabels_def ctrl_run Let_def err_of_def split: prod.splits sum.splits)
      have "ns_key live = ('''', namespace)" using kind_store.view_key [OF store l] .
      then have "ns = y" "om_Labels (ns_Meta y) = om_Labels (ns_Meta ?new)"
        using kind_store_write.update_ok [OF assms(1) y] assms(3) by auto
      then show ?thesis using labels_after [OF assms(4), of "ns_Meta live"] by (simp add: label_at_def)
    qed
  qed
qed

text \<open>Property C19 (isolation is stamped on the namespace). When applying a profile succeeds, the workload namespace (if it
  exists) is labelled as managed and carries the profile's Pod Security level in all three modes; and a profile that
  demands the default-deny policy had it created or updated without error.\<close>

theorem isolation_is_stamped:
  assumes "kind_store_write (r_ns R) ns_key nsview (\<lambda>ns. om_Labels (ns_Meta ns)) (\<lambda>ns. ())"
    and "run_state (applyIsolation R tc profile) w = (Some None, w')"
  shows "(case nsview w' ('''', tc_Namespace tc) of
        None \<Rightarrow> True
      | Some ns \<Rightarrow> label_at (ns_Meta ns) ''app.kubernetes.io/managed-by'' = ''tenantplane'' \<and>
          list_all (\<lambda>mode. label_at (ns_Meta ns) (''pod-security.kubernetes.io/'' @ mode) = p_PodSecurity profile)
            [''enforce'', ''audit'', ''warn'']) \<and>
    (case BuildNetworkPolicy profile (tc_Namespace tc) of
        None \<Rightarrow> \<not> p_DefaultDenyNetworkPolicy profile
      | Some np \<Rightarrow> fst (k_CreateOrUpdate (r_np R) (tc_Namespace tc) ''tenantplane-default-deny'' (mutate_np R tc np) w) = None)"
proof -
  have np: "fst (k_CreateOrUpdate (r_np R) (tc_Namespace tc) ''tenantplane-default-deny'' (mutate_np R tc np) w) = None"
    if "BuildNetworkPolicy profile (tc_Namespace tc) = Some np" for np
    using assms(2) that
    by (auto simp: applyIsolation_def ctrl_run Let_def apply_optional_def BuildNetworkPolicy_def object_meta_def
        networkPolicyName_def split: prod.splits option.splits if_splits)
  have "\<exists>v. run_state (applyNamespacePodSecurityLabels R (tc_Namespace tc) profile) v = (None, w')"
    using assms(2) by (auto simp: applyIsolation_def ctrl_run Let_def split: prod.splits option.splits sum.splits)
  then obtain v where run: "run_state (applyNamespacePodSecurityLabels R (tc_Namespace tc) profile) v = (None, w')" by blast
  have label: "label_at (ns_Meta ns) k = x"
    if "nsview w' ('''', tc_Namespace tc) = Some ns"
      "(if k \<in> {''pod-security.kubernetes.io/enforce'', ''pod-security.kubernetes.io/audit'', ''pod-security.kubernetes.io/warn''}
        then Some (p_PodSecurity profile) else if k = ''app.kubernetes.io/managed-by'' then Some ''tenantplane'' else None) = Some x"
    for ns k x
    by (rule namespace_labels_stamped [OF assms(1) run that(1)]) (simp only: pod_security_desired that(2))
  have stamped: "label_at (ns_Meta ns) ''app.kubernetes.io/managed-by'' = ''tenantplane'' \<and>
      list_all (\<lambda>mode. label_at (ns_Meta ns) (''pod-security.kubernetes.io/'' @ mode) = p_PodSecurity profile)
        [''enforce'', ''audit'', ''warn'']"
    if "nsview w' ('''', tc_Namespace tc) = Some ns" for ns
    using that by (simp add: label)
  show ?thesis
  proof (intro conjI)
    show "case nsview w' ('''', tc_Namespace tc) of None \<Rightarrow> True
      | Some ns \<Rightarrow> label_at (ns_Meta ns) ''app.kubernetes.io/managed-by'' = ''tenantplane'' \<and>
          list_all (\<lambda>mode. label_at (ns_Meta ns) (''pod-security.kubernetes.io/'' @ mode) = p_PodSecurity profile)
            [''enforce'', ''audit'', ''warn'']"
      using stamped by (cases "nsview w' ('''', tc_Namespace tc)") auto
  qed (use np in \<open>auto simp: BuildNetworkPolicy_def split: option.splits\<close>)
qed

definition demo_profile :: Profile where
  "demo_profile = \<lparr>p_Level = ''restricted'', p_PodSecurity = ''restricted'', p_DefaultDenyNetworkPolicy = True,
     p_RequireResourceRequests = False, p_RuntimeClassName = '''', p_BlockHostPathVolumes = True,
     p_BlockPrivilegedContainers = True, p_APIFairness = ''none''\<rparr>"

definition np_reconciler :: "(string, unit, ctl_world) Reconciler" where
  "np_reconciler = ctl_reconciler\<lparr>r_np := no_objects\<lparr>k_CreateOrUpdate := (\<lambda>n m f w. (None, w))\<rparr>\<rparr>"

definition team_world :: ctl_world where
  "team_world = empty_world\<lparr>w_ns := [\<lparr>ns_Meta = object_meta ''team'' '''' None\<rparr>]\<rparr>"

lemma apply_isolation_demo:
  "fst (run_state (applyIsolation np_reconciler (demo_tc ''dev'' ''team'') demo_profile) team_world) = Some None"
  "list_view ns_key (w_ns (snd (run_state (applyIsolation np_reconciler (demo_tc ''dev'' ''team'') demo_profile) team_world)))
     ('''', ''team'') \<noteq> None"
proof -
  have stale: "stale_labels (object_meta ''team'' '''' None) (fmupd labelManagedBy ''tenantplane'' fmempty ++\<^sub>f PodSecurityLabels demo_profile) \<noteq> fmempty"
  proof
    assume "stale_labels (object_meta ''team'' '''' None) (fmupd labelManagedBy ''tenantplane'' fmempty ++\<^sub>f PodSecurityLabels demo_profile) = fmempty"
    from stale_empty [OF this, of "''app.kubernetes.io/managed-by''"]
    show False by (simp only: pod_security_desired) (simp add: label_at_def object_meta_def)
  qed
  show "fst (run_state (applyIsolation np_reconciler (demo_tc ''dev'' ''team'') demo_profile) team_world) = Some None"
    "list_view ns_key (w_ns (snd (run_state (applyIsolation np_reconciler (demo_tc ''dev'' ''team'') demo_profile) team_world)))
       ('''', ''team'') \<noteq> None"
    using stale
    by (simp_all add: applyIsolation_def apply_optional_def BuildNetworkPolicy_def BuildResourceQuota_def BuildLimitRange_def
        applyNamespacePodSecurityLabels_def np_reconciler_def ctl_reconciler_def ctrl_run Let_def demo_profile_def team_world_def
        ns_client_def lift_call_def list_client_def list_view_def list_update_call_def replace_by_def err_of_def
        object_meta_def meta_key_def demo_tc_def with_labels_def)
qed

theorem isolation_is_stamped_witness:
  "\<exists>ns. list_view ns_key (w_ns (snd (run_state (applyIsolation np_reconciler (demo_tc ''dev'' ''team'') demo_profile) team_world)))
       ('''', ''team'') = Some ns \<and> label_at (ns_Meta ns) ''pod-security.kubernetes.io/enforce'' = ''restricted''"
proof -
  have s: "kind_store_write (r_ns np_reconciler) ns_key (\<lambda>w. list_view ns_key (w_ns w)) (\<lambda>ns. om_Labels (ns_Meta ns)) (\<lambda>ns. ())"
    by (simp add: np_reconciler_def ctl_ns_write.kind_store_write_axioms)
  have r: "run_state (applyIsolation np_reconciler (demo_tc ''dev'' ''team'') demo_profile) team_world =
      (Some None, snd (run_state (applyIsolation np_reconciler (demo_tc ''dev'' ''team'') demo_profile) team_world))"
    using apply_isolation_demo(1) by (metis prod.collapse)
  obtain ns where "list_view ns_key (w_ns (snd (run_state (applyIsolation np_reconciler (demo_tc ''dev'' ''team'') demo_profile) team_world)))
     ('''', ''team'') = Some ns" using apply_isolation_demo(2) by blast
  moreover have "tc_Namespace (demo_tc ''dev'' ''team'') = ''team''" by (simp add: demo_tc_def object_meta_def)
  moreover have "p_PodSecurity demo_profile = ''restricted''" by (simp add: demo_profile_def)
  ultimately show ?thesis using isolation_is_stamped [OF s r] by simp
qed

section \<open>What Reconcile asks for next\<close>

text \<open>Every result of a computation satisfies \<open>Q\<close>, whatever the world answers.\<close>

definition yields :: "('a \<Rightarrow> bool) \<Rightarrow> ('w, 'a) state \<Rightarrow> bool" where
  "yields Q m \<longleftrightarrow> (\<forall>w. Q (fst (run_state m w)))"

named_theorems yields_rules

lemma yields_return [yields_rules]: "Q x \<Longrightarrow> yields Q (State_Monad.return x)"
  by (simp add: yields_def run_return)

lemma yields_seq: "yields P m \<Longrightarrow> (\<And>x. P x \<Longrightarrow> yields Q (k x)) \<Longrightarrow> yields Q (do { x \<leftarrow> m; k x })"
  by (auto simp: yields_def run_bind split: prod.splits) (metis fst_conv)

lemma yields_bind [yields_rules]: "(\<And>x. yields Q (k x)) \<Longrightarrow> yields Q (do { x \<leftarrow> m; k x })"
  by (auto simp: yields_def run_bind split: prod.splits)

lemma yields_if [yields_rules]: "(b \<Longrightarrow> yields Q m) \<Longrightarrow> (\<not> b \<Longrightarrow> yields Q n) \<Longrightarrow> yields Q (if b then m else n)"
  by simp

lemma yields_option [yields_rules]:
  "(x = None \<Longrightarrow> yields Q m) \<Longrightarrow> (\<And>a. x = Some a \<Longrightarrow> yields Q (k a)) \<Longrightarrow>
   yields Q (case x of None \<Rightarrow> m | Some a \<Rightarrow> k a)"
  by (cases x) simp_all

lemma yields_sum [yields_rules]:
  "(\<And>a. x = Inl a \<Longrightarrow> yields Q (l a)) \<Longrightarrow> (\<And>b. x = Inr b \<Longrightarrow> yields Q (r b)) \<Longrightarrow>
   yields Q (case x of Inl a \<Rightarrow> l a | Inr b \<Rightarrow> r b)"
  by (cases x) simp_all

lemma yields_prod [yields_rules]: "(\<And>a b. yields Q (k a b)) \<Longrightarrow> yields Q (case x of (a, b) \<Rightarrow> k a b)"
  by (cases x) simp

lemma yields_bool [yields_rules]: "yields Q m \<Longrightarrow> yields Q n \<Longrightarrow> yields Q (case b of True \<Rightarrow> m | False \<Rightarrow> n)"
  by (cases b) simp_all

text \<open>The outcomes of a live TenantCluster: an error, or a requeue; and \<open>settled\<close> adds the end of a deletion.\<close>

definition live_outcome :: "outcome \<Rightarrow> bool" where
  "live_outcome oc \<longleftrightarrow> (\<exists>err. oc = finished (Some err)) \<or> oc = requeue requeueWaiting \<or> (\<exists>p. oc = requeue (syncRequeueInterval p))"

definition lives :: "outcome option \<Rightarrow> bool" where
  "lives r \<longleftrightarrow> (case r of None \<Rightarrow> True | Some oc \<Rightarrow> live_outcome oc)"

definition settled :: "outcome option \<Rightarrow> bool" where
  "settled r \<longleftrightarrow> lives r \<or> r = Some (finished None)"

lemma live_outcome_simps [simp]:
  "live_outcome (finished (Some err))" "live_outcome (requeue requeueWaiting)" "live_outcome (requeue (syncRequeueInterval p))"
  by (auto simp: live_outcome_def)

lemma lives_simps [simp]: "lives (Some oc) = live_outcome oc" "lives None"
  by (simp_all add: lives_def)

lemma requeue_values: "requeueWaiting = 5000000000" "requeueSteady = 60000000000"
  by (simp_all add: requeueWaiting_def requeueSteady_def second_def)

lemma syncRequeueInterval_floor: "5000000000 \<le> syncRequeueInterval p"
  by (auto simp: syncRequeueInterval_def requeue_values Let_def split: option.splits)

lemma live_outcome_bounds:
  "live_outcome oc \<Longrightarrow> (snd oc \<noteq> None \<and> res_RequeueAfter (fst oc) = 0) \<or> (snd oc = None \<and> 5000000000 \<le> res_RequeueAfter (fst oc))"
  using syncRequeueInterval_floor by (auto simp: live_outcome_def finished_def requeue_def requeue_values)

lemma yields_some: "yields live_outcome m \<Longrightarrow> yields lives (do { r \<leftarrow> m; State_Monad.return (Some r) })"
  by (rule yields_seq [where P = live_outcome]) (simp_all add: yields_return)

lemma degrade_lives [yields_rules]: "yields live_outcome (degrade R tc reason message)"
  unfolding degrade_def by (intro yields_rules) (simp split: sum.splits)

lemma reconcile_ready_lives: "yields live_outcome (reconcile_ready R tc policy profile)"
  unfolding reconcile_ready_def Let_def by (intro yields_rules) (simp_all split: sum.splits)

lemmas yields_stages = yields_some [OF degrade_lives] yields_some [OF reconcile_ready_lives]

lemma reconcile_control_plane_lives: "yields lives (reconcile_control_plane R tc policy profile)"
  unfolding reconcile_control_plane_def Let_def by (intro yields_stages yields_rules) (simp_all split: sum.splits)

lemma reconcile_isolation_lives: "yields lives (reconcile_isolation R tc policy profile)"
  unfolding reconcile_isolation_def Let_def by (intro yields_stages reconcile_control_plane_lives yields_rules) simp_all

lemma reconcile_live_lives: "yields lives (reconcile_live R tc)"
  unfolding reconcile_live_def Let_def by (intro yields_stages reconcile_isolation_lives yields_rules)

lemma reconcile_live_settled: "yields settled (reconcile_live R tc)"
  using reconcile_live_lives [of R tc] by (simp add: yields_def settled_def)

lemma reconcile_deleted_settled: "yields settled (do { r \<leftarrow> reconcile_deleted R tc; State_Monad.return (Some r) })"
proof (rule yields_seq)
  show "yields (\<lambda>oc. settled (Some oc)) (reconcile_deleted R tc)"
    unfolding reconcile_deleted_def
    by (intro yields_rules) (auto simp: settled_def err_of_def split: sum.splits)
qed (simp add: yields_return)

text \<open>Property C32 (Reconcile never spins). Whatever the clusters answer, a reconcile that does not panic either returns an
  error and no delay, or no error and either no requeue or one in at least five seconds, also for a SyncPolicy that
  asks for a shorter drift-detection interval.\<close>

theorem reconcile_never_spins:
  "case fst (run_state (Reconcile R namespace name) w) of
     None \<Rightarrow> True
   | Some (res, err) \<Rightarrow>
       (if err = None then res_RequeueAfter res = 0 \<or> 5 * 10 ^ 9 \<le> res_RequeueAfter res else res_RequeueAfter res = 0)"
proof -
  have "yields settled (Reconcile R namespace name)"
    unfolding Reconcile_def
    by (intro reconcile_deleted_settled reconcile_live_settled yields_rules) (auto simp: settled_def)
  then have s: "settled (fst (run_state (Reconcile R namespace name) w))" by (simp add: yields_def)
  show ?thesis
  proof (cases "fst (run_state (Reconcile R namespace name) w)")
    case (Some oc)
    then show ?thesis
      using s live_outcome_bounds [of oc] by (cases oc) (auto simp: settled_def finished_def)
  qed simp
qed

text \<open>Property C33 (a live tenant is visited again). A reconcile of a TenantCluster that is not being deleted never ends without
  an error and without a requeue, whatever its references, its datastore or the cluster look like: drift is looked at
  again even when nothing triggers a watch.\<close>

theorem live_tenant_is_revisited:
  assumes "k_Get (r_tc R) namespace name w = (Inr tc, w1)" "om_DeletionTimestamp (tc_Meta tc) = None"
    and "fst (run_state (Reconcile R namespace name) w) = Some (res, None)"
  shows "5 * 10 ^ 9 \<le> res_RequeueAfter res"
proof -
  have l: "lives (fst (run_state (reconcile_live R t) v))" for t v
    using reconcile_live_lives [of R] by (simp add: yields_def)
  have "lives (fst (run_state (Reconcile R namespace name) w))"
    using assms(1,2) l by (auto simp: Reconcile_def ctrl_run split: prod.splits sum.splits)
  then show ?thesis using assms(3) live_outcome_bounds [of "(res, None)"] by simp
qed

definition live_tc :: TenantCluster where
  "live_tc = (demo_tc ''dev'' ''team'')\<lparr>tc_Meta := (tc_Meta (demo_tc ''dev'' ''team''))\<lparr>om_Finalizers := [teardownFinalizer]\<rparr>\<rparr>"

definition live_reconciler :: "(string, unit, ctl_world) Reconciler" where
  "live_reconciler = ctl_reconciler\<lparr>r_tc := no_objects
     \<lparr>k_Get := (\<lambda>n m w. (Inr live_tc, w)), k_StatusUpdate := (\<lambda>x w. (Inr x, w))\<rparr>\<rparr>"

lemma live_degrades:
  "fst (run_state (Reconcile live_reconciler ''team'' ''dev'') empty_world) = Some (\<lparr>res_RequeueAfter = requeueWaiting\<rparr>, None)"
  by (simp add: Reconcile_def reconcile_live_def degrade_def ctrl_run Let_def live_reconciler_def ctl_reconciler_def no_objects_def
      live_tc_def demo_tc_def object_meta_def requeue_def)

theorem live_tenant_is_revisited_witness:
  "5 * 10 ^ 9 \<le> res_RequeueAfter (fst (the (fst (run_state (Reconcile live_reconciler ''team'' ''dev'') empty_world))))"
proof -
  have g: "k_Get (r_tc live_reconciler) ''team'' ''dev'' empty_world = (Inr live_tc, empty_world)"
    by (simp add: live_reconciler_def)
  have d: "om_DeletionTimestamp (tc_Meta live_tc) = None" by (simp add: live_tc_def demo_tc_def object_meta_def)
  show ?thesis using live_tenant_is_revisited [OF g d live_degrades] by (simp add: live_degrades)
qed

section \<open>Watches\<close>

text \<open>Watch events find their tenant: The labels of every object the controller builds in the control-plane
  namespace map back to exactly the TenantCluster they were built for.\<close>

theorem watch_events_find_their_tenant:
  "list_all (\<lambda>labels. mapControlPlaneObject labels =
       (if tc_Name tc = '''' \<or> tc_Namespace tc = '''' then [] else [(tc_Namespace tc, tc_Name tc)]))
     ([om_Labels (ns_Meta (buildControlPlaneNamespace tc)), om_Labels (sv_Meta (buildHeadlessService tc)),
       om_Labels (ss_Meta (stateful_set tc size requests limits)), pt_Labels (ss_Template (stateful_set tc size requests limits))] @
      (case buildExternalService tc of None \<Rightarrow> [] | Some svc \<Rightarrow> [om_Labels (sv_Meta svc)]))"
  by (auto simp: mapControlPlaneObject_def buildControlPlaneNamespace_def buildHeadlessService_def stateful_set_def
      buildExternalService_def controlPlaneLabels_def object_meta_def str_at_def label_defs ExemptLabelKey_def Let_def)

section \<open>Objects of earlier versions\<close>

lemma delete_if_frame:
  assumes "\<And>n m w r w'. k_Get C n m w = (r, w') \<Longrightarrow> view w' = view w"
    and "\<And>x w r w'. k_Delete C x w = (r, w') \<Longrightarrow> view w' = view w"
    and "run_state (delete_if C guard n m) w = (r, w')"
  shows "view w' = view w"
  using assms(3) by (auto simp: delete_if_def ctrl_run dest!: assms(1,2) split: prod.splits sum.splits if_splits)

lemma and_then_keeps:
  assumes "\<And>w r w'. run_state m w = (r, w') \<Longrightarrow> P w \<Longrightarrow> P w'" "\<And>w r w'. run_state k w = (r, w') \<Longrightarrow> P w \<Longrightarrow> P w'"
    and "run_state (and_then m k) w = (r, w')" "P w"
  shows "P w'"
  using assms(3,4) by (auto simp: run_and_then split: prod.splits option.splits dest: assms(1,2))

text \<open>Property C34 (the legacy cleanup spares unlabelled Services). Removing the control-plane objects of earlier versions
  leaves every Service that does not carry this tenant's control-plane labels as it is.\<close>

theorem legacy_cleanup_spares_services:
  assumes "kind_store (r_svc R) svc_key view"
    and "\<And>n m w r w'. k_Get (r_sts R) n m w = (r, w') \<Longrightarrow> view w' = view w"
    and "\<And>x w r w'. k_Delete (r_sts R) x w = (r, w') \<Longrightarrow> view w' = view w"
    and "\<And>n m w r w'. k_Get (r_pvc R) n m w = (r, w') \<Longrightarrow> view w' = view w"
    and "\<And>x w r w'. k_Delete (r_pvc R) x w = (r, w') \<Longrightarrow> view w' = view w"
    and "view w k = Some svc" "\<not> isLegacy tc (sv_Meta svc)"
  shows "view (snd (run_state (cleanupLegacyControlPlane R tc) w)) k = Some svc"
proof -
  let ?P = "\<lambda>w. view w k = Some svc"
  have sts: "?P w'" if "run_state (delete_if (r_sts R) g n m) w = (r, w')" "?P w" for g n m w r w'
    using delete_if_frame [where view = view, OF assms(2,3) that(1)] that(2) by simp
  have pvc: "?P w'" if "run_state (delete_if (r_pvc R) g n m) w = (r, w')" "?P w" for g n m w r w'
    using delete_if_frame [where view = view, OF assms(4,5) that(1)] that(2) by simp
  have svcs: "?P w'" if "run_state (delete_if (r_svc R) (\<lambda>svc. isLegacy tc (sv_Meta svc)) n m) w = (r, w')" "?P w" for n m w r w'
    using kind_store.delete_if_keeps [OF assms(1) that] assms(7) by simp
  obtain r w' where run: "run_state (cleanupLegacyControlPlane R tc) w = (r, w')" by fastforce
  have "?P w'"
  proof (cases "tc_Namespace tc = controlPlaneNamespace tc")
    case True
    then show ?thesis using run assms(6) by (simp add: cleanupLegacyControlPlane_def ctrl_run)
  next
    case False
    then have run: "run_state
        (and_then (delete_if (r_sts R) (\<lambda>sts. isLegacy tc (ss_Meta sts)) (tc_Namespace tc) (controlPlaneName tc))
        (and_then (delete_if (r_svc R) (\<lambda>svc. isLegacy tc (sv_Meta svc)) (tc_Namespace tc) (controlPlaneName tc))
        (and_then (delete_if (r_svc R) (\<lambda>svc. isLegacy tc (sv_Meta svc)) (tc_Namespace tc) (externalServiceName tc))
          (delete_if (r_pvc R) (\<lambda>pvc. True) (tc_Namespace tc) (''data-'' @ controlPlanePodName tc))))) w = (r, w')"
      using run by (simp only: cleanupLegacyControlPlane_def if_False)
    show ?thesis
      by (rule and_then_keeps [where P = ?P, OF _ _ run assms(6)], erule (1) sts,
          erule and_then_keeps [where P = ?P, rotated 2], assumption, erule (1) svcs,
          erule and_then_keeps [where P = ?P, rotated 2], assumption, erule (1) svcs, erule (1) pvc)
  qed
  then show ?thesis by (simp add: run)
qed

text \<open>The claim of the tenant's old volume is deleted whatever its labels are.\<close>

lemma legacy_cleanup_deletes_any_claim:
  assumes "tc_Namespace tc \<noteq> controlPlaneNamespace tc"
    and "\<And>n m w. k_Get (r_sts R) n m w = (Inl not_found, w)" "\<And>n m w. k_Get (r_svc R) n m w = (Inl not_found, w)"
    and "k_Get (r_pvc R) (tc_Namespace tc) (''data-'' @ controlPlanePodName tc) w = (Inr pvc, w1)"
  shows "snd (run_state (cleanupLegacyControlPlane R tc) w) = snd (k_Delete (r_pvc R) pvc w1)"
  using assms
  by (simp add: cleanupLegacyControlPlane_def delete_if_def ctrl_run not_found_def IsNotFound_def split: prod.splits)

definition user_service :: Service where
  "user_service = (buildHeadlessService (demo_tc ''dev'' ''team''))\<lparr>sv_Meta := object_meta ''dev-control-plane'' ''team'' None\<rparr>"

theorem legacy_cleanup_spares_services_witness:
  "list_view svc_key (w_svc (snd (run_state (cleanupLegacyControlPlane ctl_reconciler (demo_tc ''dev'' ''team''))
      (empty_world\<lparr>w_svc := [user_service]\<rparr>)))) (''team'', ''dev-control-plane'') = Some user_service"
proof (rule legacy_cleanup_spares_services [where R = ctl_reconciler and view = "\<lambda>w. list_view svc_key (w_svc w)"])
  show "kind_store (r_svc ctl_reconciler) svc_key (\<lambda>w. list_view svc_key (w_svc w))"
    by (simp add: ctl_svc.kind_store_axioms)
  show "list_view svc_key (w_svc (empty_world\<lparr>w_svc := [user_service]\<rparr>)) (''team'', ''dev-control-plane'') = Some user_service"
    by (simp add: list_view_def user_service_def object_meta_def meta_key_def)
  show "\<not> isLegacy (demo_tc ''dev'' ''team'') (sv_Meta user_service)"
    by (simp add: isLegacy_def user_service_def object_meta_def label_at_def)
qed (auto simp: no_objects_def pvc_client_def lift_call_def split: prod.splits)

end
