(* ===== verification/Syncer_Safety.thy ===== *)
theory Syncer_Safety
  imports Syncer_Engine
begin

text \<open>
  What a pass of the sync engine does to the two clusters, when both API servers keep the promises of
  \<open>kube_store\<close> and nobody else writes during the pass. The locale \<open>engine_env\<close> collects this: \<open>hview\<close> and
  \<open>tview\<close> are the objects of the host and of the tenant cluster, each client acts on its own cluster, and
  neither the limiter nor the recorder touches an object. It is interpreted on every engine over two
  in-memory clusters (\<open>world_engine\<close>).
\<close>

section \<open>Identity of an object\<close>

text \<open>Two objects with the same apiVersion, kind and metadata: they differ in content at most.\<close>

definition same_identity :: "obj \<Rightarrow> obj \<Rightarrow> bool" where
  "same_identity a b \<longleftrightarrow> (\<forall>k \<in> {''apiVersion'', ''kind'', ''metadata''}. fmlookup a k = fmlookup b k)"

lemma same_identity_refl [simp]: "same_identity a a"
  by (simp add: same_identity_def)

lemma same_identity_trans: "same_identity a b \<Longrightarrow> same_identity b c \<Longrightarrow> same_identity a c"
  by (simp add: same_identity_def)

lemma same_identity_put: "hd p = ''spec'' \<Longrightarrow> same_identity (put_or_keep m p v) m"
  by (auto simp: same_identity_def fmlookup_put_or_keep_other)

lemma same_identity_spec [simp]: "same_identity (fmupd ''spec'' v m) m"
  by (simp add: same_identity_def)

lemma same_identity_del: "hd p = ''spec'' \<Longrightarrow> same_identity (del m p) m"
  by (auto simp: same_identity_def fmlookup_del_other)

context unstructured_api begin

lemma identity_accessors:
  assumes "same_identity a b"
  shows "obj_key U a = obj_key U b" "u_GetName U a = u_GetName U b" "u_GetNamespace U a = u_GetNamespace U b"
    "u_GetKind U a = u_GetKind U b" "u_GetLabels U a = u_GetLabels U b" "u_GetAnnotations U a = u_GetAnnotations U b"
    "u_GroupVersionKind U a = u_GroupVersionKind U b" "u_GetResourceVersion U a = u_GetResourceVersion U b"
proof -
  have g: "u_GroupVersionKind U a = u_GroupVersionKind U b"
    using assms by (intro GroupVersionKind_congr) (auto simp: same_identity_def)
  then show "u_GroupVersionKind U a = u_GroupVersionKind U b" .
  show "obj_key U a = obj_key U b" "u_GetName U a = u_GetName U b" "u_GetNamespace U a = u_GetNamespace U b"
    "u_GetKind U a = u_GetKind U b" "u_GetLabels U a = u_GetLabels U b" "u_GetAnnotations U a = u_GetAnnotations U b"
    "u_GetResourceVersion U a = u_GetResourceVersion U b"
    using assms g by (simp_all add: obj_key_def api_laws peek_str_def peek_strmap_def peek_map_def peek2 same_identity_def)
qed

lemma reverse_lookup_congr:
  assumes "same_identity a b" shows "ReverseLookup U (Some a) = ReverseLookup U (Some b)"
  unfolding ReverseLookup_def option.case identity_accessors [OF assms] ..

lemma adopt_identity: "same_identity (the (AdoptHostAllocatedFields U (Some e) (Some d))) d"
proof -
  have s: "same_identity (foldl (\<lambda>d field. case u_NestedFieldCopy U e [''spec'', field] of None \<Rightarrow> d
      | Some value \<Rightarrow> fst (u_SetNestedField U d value [''spec'', field])) m fs) m" for m fs
  proof (induction fs arbitrary: m)
    case (Cons f fs)
    show ?case
      using Cons.IH [of m] same_identity_trans [OF Cons.IH same_identity_put, of "[''spec'', f]" m]
      by (auto simp: SetNestedField_obj split: option.splits)
  qed simp
  then show ?thesis
    by (auto simp: AdoptHostAllocatedFields_def adoptServiceAllocatedFields_def adoptPodImmutableFields_def Let_def
        SetNestedMap_obj put_or_keep_def split: option.splits)
qed

lemma rv_accessors:
  "u_GetName U (u_SetResourceVersion U m r) = u_GetName U m"
  "u_GetNamespace U (u_SetResourceVersion U m r) = u_GetNamespace U m"
  "u_GetLabels U (u_SetResourceVersion U m r) = u_GetLabels U m"
  "u_GetAnnotations U (u_SetResourceVersion U m r) = u_GetAnnotations U m"
  "obj_key U (u_SetResourceVersion U m r) = obj_key U m"
proof -
  have g: "u_GroupVersionKind U (u_SetResourceVersion U m r) = u_GroupVersionKind U m"
    by (rule GroupVersionKind_congr) (simp_all add: SetResourceVersion set_str_other)
  show "u_GetName U (u_SetResourceVersion U m r) = u_GetName U m"
    "u_GetNamespace U (u_SetResourceVersion U m r) = u_GetNamespace U m"
    "u_GetLabels U (u_SetResourceVersion U m r) = u_GetLabels U m"
    "u_GetAnnotations U (u_SetResourceVersion U m r) = u_GetAnnotations U m"
    "obj_key U (u_SetResourceVersion U m r) = obj_key U m"
    using g by (simp_all add: obj_key_def api_laws peek_str_def peek_strmap_def peek_map_def set_str_other)
qed

lemma pushed_identity:
  "obj_key U (the (AdoptHostAllocatedFields U (Some e) (Some (u_SetResourceVersion U h r)))) = obj_key U h"
  "u_GetLabels U (the (AdoptHostAllocatedFields U (Some e) (Some (u_SetResourceVersion U h r)))) = u_GetLabels U h"
  "u_GetAnnotations U (the (AdoptHostAllocatedFields U (Some e) (Some (u_SetResourceVersion U h r)))) = u_GetAnnotations U h"
  using identity_accessors [OF adopt_identity] by (simp_all add: rv_accessors)

end

lemma run_world_case:
  "run_state (world_call f) s = (case f (es_world s) of (a, w) \<Rightarrow> (a, s\<lparr>es_world := w\<rparr>))"
  by (simp add: world_call_def)

lemmas run_cases = run_bind run_return run_world_case run_setConverged run_history_lookup

declare split_paired_All [simp del] split_paired_Ex [simp del]

section \<open>Ownership\<close>

text \<open>The objects a pass for tenant \<open>T\<close> may touch: labelled as managed by tenantplane for \<open>T\<close> or for its sanitised name.\<close>

definition owned_by :: "uapi \<Rightarrow> string \<Rightarrow> obj \<Rightarrow> bool" where
  "owned_by U T o1 \<longleftrightarrow> opt_str_at (u_GetLabels U o1) LabelManagedBy = ManagedByValue \<and>
     opt_str_at (u_GetLabels U o1) LabelTenant \<in> {T, SanitizeName T}"

definition same_source_as :: "uapi \<Rightarrow> ResourceRef \<Rightarrow> obj \<Rightarrow> bool" where
  "same_source_as U ref o1 \<longleftrightarrow> snd (ReverseLookup U (Some o1)) \<and> sameSource (fst (ReverseLookup U (Some o1))) ref"

lemma same_source_owned: "same_source_as U ref o1 \<Longrightarrow> owned_by U (ref_TenantCluster ref) o1"
  by (auto simp: same_source_as_def owned_by_def ReverseLookup_def sameSource_def Let_def split: if_splits)

lemma gc_selected_owned: "selected U g n (gc_labels E gvk) o1 \<Longrightarrow> owned_by U (e_Tenant E) o1"
  by (auto simp: selected_def labels_match_def gc_labels_def owned_by_def opt_str_at_def str_at_def split: option.splits)

section \<open>A quiet environment\<close>

locale engine_env =
  unstructured_api U + host: kube_store U "e_HostClient E" hview + tenant: kube_store U "e_VirtualClient E" tview
  for U :: uapi and E :: "'w Engine" and hview :: "'w \<Rightarrow> objkey \<Rightarrow> obj option" and tview :: "'w \<Rightarrow> objkey \<Rightarrow> obj option" +
  assumes host_get: "cl_get (e_HostClient E) g nn w = (r, w') \<Longrightarrow> tview w' = tview w"
    and host_list: "cl_list (e_HostClient E) g n ls w = (lr, w') \<Longrightarrow> tview w' = tview w"
    and host_create: "cl_create (e_HostClient E) o1 w = (r, w') \<Longrightarrow> tview w' = tview w"
    and host_update: "cl_update (e_HostClient E) o1 w = (r, w') \<Longrightarrow> tview w' = tview w"
    and host_delete: "cl_delete (e_HostClient E) o1 w = (dr, w') \<Longrightarrow> tview w' = tview w"
    and tenant_list: "cl_list (e_VirtualClient E) g n ls w = (lr, w') \<Longrightarrow> hview w' = hview w"
    and tenant_update: "cl_update (e_VirtualClient E) o1 w = (r, w') \<Longrightarrow> hview w' = hview w"
    and limiter: "e_RateLimiter E = Some Allow \<Longrightarrow> Allow w = (b, w') \<Longrightarrow> hview w' = hview w \<and> tview w' = tview w"
    and recorder: "e_Recorder E = Some rec \<Longrightarrow> hview (rec d w) = hview w \<and> tview (rec d w) = tview w"
begin

lemma limited_view:
  "run_state (rateLimited E ref target) s = (x, t) \<Longrightarrow>
     hview (es_world t) = hview (es_world s) \<and> tview (es_world t) = tview (es_world s)"
  by (auto simp: rateLimited_def run_simps split: option.splits if_splits dest!: limiter [OF _ prod.collapse [symmetric]])

lemma record_view:
  "run_state (record_decision E d) s = (x, t) \<Longrightarrow>
     hview (es_world t) = hview (es_world s) \<and> tview (es_world t) = tview (es_world s)"
  by (auto simp: record_decision_def run_simps split: option.splits dest!: recorder)

lemma update_pushed:
  "cl_update (e_HostClient E) (the (AdoptHostAllocatedFields U (Some e) (Some (u_SetResourceVersion U h rv)))) w = (r, w') \<Longrightarrow>
   k \<noteq> obj_key U h \<Longrightarrow> hview w' k = hview w k"
  by (erule host.update_other) (simp add: pushed_identity)

lemma push_view:
  assumes "run_state (pushToHost U E ref target v e h b) s = (r, t)"
  shows "tview (es_world t) = tview (es_world s) \<and>
    (\<forall>k. k \<noteq> obj_key U h \<longrightarrow> hview (es_world t) k = hview (es_world s) k)"
  using assms
  by (auto simp: pushToHost_def run_cases Let_def split: prod.splits option.splits sum.splits if_splits
      dest!: limited_view dest: host_update update_pushed)

lemma pull_view:
  assumes "run_state (pullToTenant U E ref target v e rs b) s = (r, t)"
  shows "hview (es_world t) = hview (es_world s) \<and>
    (\<forall>k. k \<noteq> obj_key U (MergeHostContentIntoTenant U e v) \<longrightarrow> tview (es_world t) k = tview (es_world s) k)"
  using assms
  by (auto simp: pullToTenant_def run_cases Let_def split: prod.splits option.splits sum.splits if_splits
      dest!: limited_view dest: tenant_update tenant.update_other)

lemma create_view:
  assumes "run_state (create_pair U E dir ref target v h) s = (r, t)"
  shows "tview (es_world t) = tview (es_world s) \<and>
    (\<forall>k o2. hview (es_world s) k = Some o2 \<longrightarrow> hview (es_world t) k = Some o2) \<and>
    (\<forall>k. k \<noteq> obj_key U h \<longrightarrow> hview (es_world t) k = hview (es_world s) k)"
  using assms
  by (auto simp: create_pair_def run_cases Let_def split: prod.splits option.splits sum.splits if_splits
      dest!: limited_view dest: host_create host.create_keeps host.create_other)


lemma merge_identity: "same_identity (MergeHostContentIntoTenant U e v) v"
  using merge_keeps by (auto simp: same_identity_def)

lemma conflict_view:
  assumes "run_state (reconcileBidirectionalConflict U E cp ref target v e c h) s = (r, t)"
  shows "(\<forall>k. k \<noteq> obj_key U h \<longrightarrow> hview (es_world t) k = hview (es_world s) k) \<and>
    (\<forall>k. k \<noteq> obj_key U v \<longrightarrow> tview (es_world t) k = tview (es_world s) k)"
  using assms identity_accessors(1) [OF merge_identity]
  by (auto simp: reconcileBidirectionalConflict_def run_cases Let_def split: option.splits if_splits
      dest!: push_view pull_view)

lemma existing_view:
  assumes "run_state (reconcile_existing U E dir cp ref target v h e) s = (r, t)"
  shows "(\<forall>k. k \<noteq> obj_key U h \<longrightarrow> hview (es_world t) k = hview (es_world s) k) \<and>
    (\<forall>k. k \<noteq> obj_key U v \<longrightarrow> tview (es_world t) k = tview (es_world s) k)"
    "\<not> snd (ReverseLookup U (Some e)) \<or> \<not> sameSource (fst (ReverseLookup U (Some e))) ref \<Longrightarrow> t = s"
  using assms identity_accessors(1) [OF merge_identity]
  by (auto simp: reconcile_existing_def run_cases Let_def split: option.splits if_splits prod.splits
      dest!: push_view pull_view conflict_view)

lemma pair_view:
  assumes "run_state (reconcilePair U E dir cp ref v h) s = (r, t)"
  shows "(\<forall>k. k \<noteq> obj_key U h \<longrightarrow> hview (es_world t) k = hview (es_world s) k) \<and>
    (\<forall>k. k \<noteq> obj_key U v \<longrightarrow> tview (es_world t) k = tview (es_world s) k)"
    "hview (es_world s) k = Some o1 \<Longrightarrow> \<not> same_source_as U ref o1 \<Longrightarrow> hview (es_world t) k = Some o1"
proof -
  obtain got w where g: "cl_get (e_HostClient E) (u_GroupVersionKind U h) (u_GetNamespace U h, u_GetName U h) (es_world s) = (got, w)"
    by fastforce
  note views = host.get_frame [OF g] host_get [OF g]
  show "(\<forall>k. k \<noteq> obj_key U h \<longrightarrow> hview (es_world t) k = hview (es_world s) k) \<and>
    (\<forall>k. k \<noteq> obj_key U v \<longrightarrow> tview (es_world t) k = tview (es_world s) k)"
    using assms g views
    by (auto simp: reconcilePair_def run_cases Let_def split: sum.splits if_splits
        dest!: create_view existing_view(1))
  show "hview (es_world t) k = Some o1" if o1: "hview (es_world s) k = Some o1" "\<not> same_source_as U ref o1"
  proof (cases got)
    case (Inl err)
    then show ?thesis using assms g views o1
      by (auto simp: reconcilePair_def run_cases Let_def simp del: split_paired_All split: if_splits dest!: create_view)
  next
    case (Inr ex)
    then have e: "run_state (reconcile_existing U E dir cp ref \<lparr>ht_Namespace = u_GetNamespace U h, ht_Name = u_GetName U h\<rparr>
        v h ex) (s\<lparr>es_world := w\<rparr>) = (r, t)"
      using assms g by (simp add: reconcilePair_def run_cases Let_def)
    have "hview (es_world s) (obj_key U h) = Some ex"
      using host.get_found g Inr by (simp add: obj_key_def)
    with o1 views existing_view [OF e] show ?thesis
      by (cases "k = obj_key U h") (auto simp: same_source_as_def)
  qed
qed

lemma sync_items_view:
  assumes "run_state (sync_items U E res cp items ds es des) s = (r, t)"
  shows "(\<forall>k o1. hview (es_world s) k = Some o1 \<and> \<not> owned_by U (e_Tenant E) o1 \<longrightarrow> hview (es_world t) k = Some o1) \<and>
    (\<forall>k. k \<notin> obj_key U ` set items \<longrightarrow> tview (es_world t) k = tview (es_world s) k)"
  using assms
proof (induction items arbitrary: ds es des s)
  case Nil
  then show ?case by (simp add: run_cases)
next
  case (Cons o1 items)
  consider (rest) ds' es' des' where "run_state (sync_items U E res cp items ds' es' des') s = (r, t)"
    | (ready) ref host where "prepare_host U E (res_GVK res) o1 = Some (Inr (ref, host))"
    using Cons.prems by (auto split: option.splits sum.splits)
  then show ?case
  proof cases
    case rest
    then show ?thesis using Cons.IH by auto
  next
    case ready
    then have T: "ref_TenantCluster ref = e_Tenant E" using prepare_host_Inr(2) by (fastforce simp: refFor_def)
    obtain p u where p: "run_state (reconcilePair U E (res_Direction res) cp ref o1 host) s = (p, u)"
      by fastforce
    obtain ds' es' des' u' where rest: "run_state (sync_items U E res cp items ds' es' des') u' = (r, t)"
      and u': "hview (es_world u') = hview (es_world u)" "tview (es_world u') = tview (es_world u)"
      using Cons.prems ready p by (auto simp: run_cases Let_def split: sum.splits prod.splits dest!: record_view)
    have h: "hview (es_world t) k = Some o2"
      if "hview (es_world s) k = Some o2" "\<not> owned_by U (e_Tenant E) o2" for k o2
      using pair_view(2) [OF p that(1)] that same_source_owned [of U ref o2] T u' Cons.IH [OF rest] by force
    have v: "tview (es_world t) k = tview (es_world s) k" if "k \<notin> obj_key U ` set (o1 # items)" for k
      using that pair_view(1) [OF p] u' Cons.IH [OF rest] by force
    show ?thesis using h v by blast
  qed
qed

lemma delete_view:
  "cl_delete (e_HostClient E) o1 w = (x, w') \<Longrightarrow>
     tview w' = tview w \<and> (\<forall>k. hview w' k = hview w k \<or> k = obj_key U o1)"
  using host_delete host.delete_other by blast

lemma gc_items_view:
  assumes "run_state (gc_items U E gvk des items ds es) s = (r, t)"
  shows "tview (es_world t) = tview (es_world s) \<and>
    (\<forall>k. hview (es_world t) k = hview (es_world s) k \<or>
       (\<exists>o1 \<in> set items. k = obj_key U o1 \<and> \<not> bool_at des (u_GetName U o1)))"
  using assms
proof (induction items arbitrary: ds es s)
  case Nil
  then show ?case by (simp add: run_cases)
next
  case (Cons o1 items)
  obtain ds' es' u where rest: "run_state (gc_items U E gvk des items ds' es') u = (r, t)"
    and u: "tview (es_world u) = tview (es_world s)"
      "\<forall>k. hview (es_world u) k = hview (es_world s) k \<or> k = obj_key U o1 \<and> \<not> bool_at des (u_GetName U o1)"
    using Cons.prems
    by (auto simp: run_cases Let_def split: if_splits prod.splits option.splits dest!: limited_view delete_view)
  have "hview (es_world t) k = hview (es_world s) k \<or>
      (\<exists>x \<in> set (o1 # items). k = obj_key U x \<and> \<not> bool_at des (u_GetName U x))" for k
    using Cons.IH [OF rest] u(2) by (metis list.set_intros)
  then show ?case using Cons.IH [OF rest] u(1) by simp
qed

text \<open>Without a limiter and without an error every orphan in the list is gone, and stays gone.\<close>

lemma gc_items_removed:
  assumes "run_state (gc_items U E gvk des items ds es) s = ((ds', []), t)" "e_RateLimiter E = None"
  shows "(\<forall>o1 \<in> set items. \<not> bool_at des (u_GetName U o1) \<longrightarrow> hview (es_world t) (obj_key U o1) = None) \<and>
    (\<forall>k. hview (es_world s) k = None \<longrightarrow> hview (es_world t) k = None) \<and> es = []"
  using assms(1)
proof (induction items arbitrary: ds es s)
  case Nil
  then show ?case by (simp add: run_cases)
next
  case (Cons o1 items)
  show ?case
  proof (cases "bool_at des (u_GetName U o1)")
    case True
    then show ?thesis using Cons by simp
  next
    case False
    obtain x w where d: "cl_delete (e_HostClient E) o1 (es_world s) = (x, w)" by fastforce
    show ?thesis
    proof (cases "case x of None \<Rightarrow> False | Some err \<Rightarrow> \<not> IsNotFound err")
      case True
      then show ?thesis
        using Cons.prems Cons.IH False d assms(2)
        by (fastforce simp: run_cases rateLimited_def Let_def split: option.splits)
    next
      case ok: False
      have gone: "hview w (obj_key U o1) = None"
        using ok d host.delete_ok host.delete_missing by (auto split: option.splits)
      obtain ds2 where rest: "run_state (gc_items U E gvk des items ds2 es) (s\<lparr>es_world := w\<rparr>) = ((ds', []), t)"
        using Cons.prems False d ok assms(2) by (auto simp: run_cases rateLimited_def Let_def split: option.splits)
      have "hview w k = None" if "hview (es_world s) k = None" for k
        using that gone host.delete_other [OF d] by (cases "k = obj_key U o1") auto
      then show ?thesis using Cons.IH [OF rest] gone by simp
    qed
  qed
qed

end

context engine_env begin

lemma record_all_view:
  "run_state (record_all E ds) s = (x, t) \<Longrightarrow>
     hview (es_world t) = hview (es_world s) \<and> tview (es_world t) = tview (es_world s)"
  by (induction ds arbitrary: s) (auto simp: run_cases split: prod.splits dest!: record_view)

lemma orphan_listed:
  assumes "cl_list (e_HostClient E) (listGVK gvk) (Some n) ls w = (Inr items, w')"
  shows "o1 \<in> set items \<Longrightarrow> hview w (obj_key U o1) = Some o1 \<and> selected U (listGVK gvk) (Some n) ls o1"
    "hview w (obj_key U o1) = Some o1 \<Longrightarrow> selected U (listGVK gvk) (Some n) ls o1 \<Longrightarrow> o1 \<in> set items"
  using host.list_items [OF assms] by auto

lemma collect_view:
  assumes "run_state (collectOrphans U E gvk des) s = ((ds, err), t)"
  shows "tview (es_world t) = tview (es_world s)"
    "hview (es_world t) k \<noteq> hview (es_world s) k \<Longrightarrow> \<exists>o1. k = obj_key U o1 \<and> hview (es_world s) k = Some o1 \<and>
       selected U (listGVK gvk) (Some (e_HostNamespace E)) (gc_labels E gvk) o1 \<and> \<not> bool_at des (u_GetName U o1)"
    "err = None \<Longrightarrow> e_RateLimiter E = None \<Longrightarrow> hview (es_world t) (obj_key U o1) = Some o1 \<Longrightarrow>
       selected U (listGVK gvk) (Some (e_HostNamespace E)) (gc_labels E gvk) o1 \<Longrightarrow> bool_at des (u_GetName U o1)"
proof -
  obtain l w where l: "cl_list (e_HostClient E) (listGVK gvk) (Some (e_HostNamespace E)) (gc_labels E gvk) (es_world s) = (l, w)"
    by fastforce
  note views = host.list_frame [OF l] host_list [OF l]
  show "tview (es_world t) = tview (es_world s)"
    using assms l views by (auto simp: collectOrphans_def run_cases split: sum.splits prod.splits dest!: gc_items_view)
  show "\<exists>o1. k = obj_key U o1 \<and> hview (es_world s) k = Some o1 \<and>
       selected U (listGVK gvk) (Some (e_HostNamespace E)) (gc_labels E gvk) o1 \<and> \<not> bool_at des (u_GetName U o1)"
    if "hview (es_world t) k \<noteq> hview (es_world s) k"
  proof (cases l)
    case (Inl e)
    then show ?thesis using assms l views that by (auto simp: collectOrphans_def run_cases)
  next
    case (Inr items)
    then obtain es where "run_state (gc_items U E gvk des items [] []) (s\<lparr>es_world := w\<rparr>) = ((ds, es), t)"
      using assms l by (auto simp: collectOrphans_def run_cases split: prod.splits)
    from gc_items_view [OF this] that views obtain o1 where "o1 \<in> set items" "k = obj_key U o1" "\<not> bool_at des (u_GetName U o1)"
      by auto
    with orphan_listed(1) l Inr show ?thesis by blast
  qed
  show "bool_at des (u_GetName U o1)"
    if none: "err = None" and nolim: "e_RateLimiter E = None" and o1: "hview (es_world t) (obj_key U o1) = Some o1"
      "selected U (listGVK gvk) (Some (e_HostNamespace E)) (gc_labels E gvk) o1"
  proof (rule ccontr)
    assume nd: "\<not> bool_at des (u_GetName U o1)"
    obtain items where li: "l = Inr items" using assms l none by (cases l) (auto simp: collectOrphans_def run_cases)
    have g: "run_state (gc_items U E gvk des items [] []) (s\<lparr>es_world := w\<rparr>) = ((ds, []), t)"
      using assms l li none by (auto simp: collectOrphans_def run_cases aggregate_None split: prod.splits)
    note removed = gc_items_removed [OF g nolim]
    show False
    proof (cases "o1 \<in> set items")
      case True
      then show ?thesis using removed nd o1(1) by auto
    next
      case False
      then have "hview (es_world s) (obj_key U o1) \<noteq> Some o1" using orphan_listed(2) l li o1(2) by blast
      moreover have "hview (es_world s) (obj_key U o1) \<noteq> None" using removed o1(1) views by auto
      moreover have "hview (es_world t) (obj_key U o1) = hview (es_world s) (obj_key U o1) \<or>
          (\<exists>x \<in> set items. obj_key U o1 = obj_key U x \<and> \<not> bool_at des (u_GetName U x))"
        using gc_items_view [OF g] views by simp
      ultimately show ?thesis using o1(1) removed by auto
    qed
  qed
qed

lemma pass_view:
  assumes "run_state (syncPass U E res cp) s = ((ds, err), t)"
  shows "hview (es_world s) k = Some o1 \<Longrightarrow> \<not> owned_by U (e_Tenant E) o1 \<Longrightarrow> hview (es_world t) k = Some o1"
    "cl_list (e_VirtualClient E) (listGVK (res_GVK res)) None [] (es_world s) = (Inr items, w) \<Longrightarrow>
       k \<notin> obj_key U ` set items \<Longrightarrow> tview (es_world t) k = tview (es_world s) k"
proof -
  obtain l w where l: "cl_list (e_VirtualClient E) (listGVK (res_GVK res)) None [] (es_world s) = (l, w)"
    by fastforce
  note views = tenant.list_frame [OF l] tenant_list [OF l]
  obtain p u where p: "run_state (sync_items U E res cp (projr l) [] [] fmempty) (s\<lparr>es_world := w\<rparr>) = (p, u)"
    by fastforce
  obtain gc gerr v where g: "run_state (collectOrphans U E (res_GVK res) (snd (snd p))) u = ((gc, gerr), v)"
    by (metis prod.collapse)
  have tv: "isl l \<and> t = s\<lparr>es_world := w\<rparr> \<or>
      \<not> isl l \<and> hview (es_world t) = hview (es_world v) \<and> tview (es_world t) = tview (es_world v)"
    using assms l p g
    by (cases l; cases p) (auto simp: syncPass_def run_cases split: prod.splits dest!: record_all_view)
  note si = sync_items_view [OF p]
  show "hview (es_world t) k = Some o1" if o1: "hview (es_world s) k = Some o1" "\<not> owned_by U (e_Tenant E) o1"
  proof -
    have "hview (es_world u) k = Some o1" using si o1 views by simp
    then have "hview (es_world v) k = Some o1"
      using collect_view(2) [OF g, of k] gc_selected_owned o1(2) by force
    with tv views o1 show ?thesis by auto
  qed
  show "tview (es_world t) k = tview (es_world s) k"
    if "cl_list (e_VirtualClient E) (listGVK (res_GVK res)) None [] (es_world s) = (Inr items, w)"
      "k \<notin> obj_key U ` set items" for items w
    using that l tv views si collect_view(1) [OF g] by auto
qed

lemma pass_ghosts:
  assumes "cl_list (e_VirtualClient E) (listGVK (res_GVK res)) None [] (es_world s) = (Inr items, w)"
    and "run_state (syncPass U E res cp) s = ((ds, err), t)"
  shows "(err = None \<and> e_RateLimiter E = None \<longrightarrow>
       (\<forall>o1. hview (es_world t) (obj_key U o1) = Some o1 \<and>
          selected U (listGVK (res_GVK res)) (Some (e_HostNamespace E)) (gc_labels E (res_GVK res)) o1 \<longrightarrow>
          u_GetName U o1 \<in> desired_names U E (res_GVK res) items)) \<and>
     (\<exists>p u. run_state (sync_items U E res cp items [] [] fmempty) (s\<lparr>es_world := w\<rparr>) = (p, u) \<and>
       (\<forall>k. hview (es_world t) k \<noteq> hview (es_world u) k \<longrightarrow>
         (\<exists>o1. k = obj_key U o1 \<and> u_GetName U o1 \<notin> desired_names U E (res_GVK res) items)))"
proof -
  obtain synced es des u where p: "run_state (sync_items U E res cp items [] [] fmempty) (s\<lparr>es_world := w\<rparr>) = ((synced, es, des), u)"
    by (metis prod.collapse)
  obtain gc gerr v where g: "run_state (collectOrphans U E (res_GVK res) des) u = ((gc, gerr), v)"
    by (metis prod.collapse)
  have v: "hview (es_world t) = hview (es_world v)" and err: "err = None \<Longrightarrow> gerr = None"
    using assms p g
    by (auto simp: syncPass_def run_cases aggregate_None split: prod.splits option.splits
        dest!: record_all_view)
  have des: "bool_at des n \<longleftrightarrow> n \<in> desired_names U E (res_GVK res) items" for n
    using sync_items_accounted [OF p] by (auto simp: accounted_def bool_at_def)
  show ?thesis
    using collect_view(2,3) [OF g] err unfolding p v des by blast
qed

end

section \<open>The in-memory environment\<close>

lemma world_engine_fields [simp]:
  "e_Tenant (world_engine T n r l) = T" "e_HostNamespace (world_engine T n r l) = n"
  "e_HostClient (world_engine T n r l) = host_client" "e_VirtualClient (world_engine T n r l) = tenant_client"
  "e_Recorder (world_engine T n r l) = Some log_decision" "e_SkipNamespaces (world_engine T n r l) = None"
  "e_RequiredRuntimeClassName (world_engine T n r l) = r"
  "e_RateLimiter (world_engine T n r l) = (if l then Some take_token else None)"
  by (simp_all add: world_engine_def)

abbreviation host_objs :: "Decision clusters \<Rightarrow> objkey \<Rightarrow> obj option" where
  "host_objs w \<equiv> mem_view (c_host w)"

abbreviation tenant_objs :: "Decision clusters \<Rightarrow> objkey \<Rightarrow> obj option" where
  "tenant_objs w \<equiv> mem_view (c_tenant w)"

interpretation demo: engine_env json_api "world_engine T n r l" host_objs tenant_objs
proof (intro engine_env.intro engine_env_axioms.intro)
  show "unstructured_api json_api" by (rule json.unstructured_api_axioms)
  show "kube_store json_api (e_HostClient (world_engine T n r l)) host_objs"
    by (simp add: host_memory.kube_store_axioms)
  show "kube_store json_api (e_VirtualClient (world_engine T n r l)) tenant_objs"
    by (simp add: tenant_memory.kube_store_axioms)
qed (auto simp: host_client_def tenant_client_def lift_call_def take_token_def log_decision_def
      split: prod.splits if_splits)

lemma demo_list_res:
  "cl_list (e_VirtualClient (world_engine T n r l)) (listGVK (res_GVK (demo_res d))) None [] (es_world (demo_state hs [demo_config]))
     = (Inr [demo_config], es_world (demo_state hs [demo_config]))"
  using demo_list by (simp add: demo_res_def)

section \<open>Properties\<close>

text \<open>What is not the tenant's own is never touched: in every direction and under every conflict policy, an
  object of the host cluster that is not labelled as managed by tenantplane for this tenant is after a pass what it
  was before, whatever the tenant's objects are called.\<close>

theorem foreign_objects_survive_a_pass:
  assumes "engine_env U E hview tview" "hview (es_world s) k = Some o1" "\<not> owned_by U (e_Tenant E) o1"
  shows "hview (es_world (snd (run_state (syncPass U E res conflictPolicy) s))) k = Some o1"
  using engine_env.pass_view(1) [OF assms(1) _ assms(2,3)] by (metis prod.collapse)

lemma demo_config_foreign: "\<not> owned_by json_api T demo_config"
  by (simp add: owned_by_def demo_config_facts opt_str_at_def ManagedByValue_def)

lemma demo_config_in_host: "host_objs (es_world (demo_state [demo_config] ts)) (demo_gvk, ''shop'', ''app'') = Some demo_config"
  by (simp add: demo_state_def mem_view_def demo_config_facts)

theorem foreign_objects_survive_a_pass_witness:
  "host_objs (es_world (snd (run_state (syncPass json_api (world_engine ''dev'' ''shop'' '''' False)
      (demo_res DirectionToHost) '''') (demo_state [demo_config] [demo_config])))) (demo_gvk, ''shop'', ''app'') = Some demo_config"
  by (rule foreign_objects_survive_a_pass [OF demo.engine_env_axioms demo_config_in_host demo_config_foreign])





end
