(* ===== verification/Sync_Run.thy ===== *)
theory Sync_Run
  imports Controller_Lifecycle Syncer_Safety
begin

text \<open>
  The sync engine inside the controller: what a whole run of \<open>runSync\<close> leaves alone. The locale \<open>sync_host\<close> says that every
  engine the run can build works on stores that keep the laws of \<open>engine_env\<close>, and that the other calls of a run do not
  reach the objects of the host cluster the engine sees. It is interpreted on the small host cluster, with the tenant's
  objects in a second store.
\<close>

section \<open>The environment of a run\<close>

definition limits :: "('q, 'c, 'w) Reconciler \<Rightarrow> ('w \<Rightarrow> bool \<times> 'w) option \<Rightarrow> bool" where
  "limits R l \<longleftrightarrow> (case l of None \<Rightarrow> True | Some f \<Rightarrow> \<exists>n b w. fst (r_NewLimiter R n b w) = f)"

lemma limiter_limits: "run_state (rateLimiterForFairness R fairness) w = (l, w') \<Longrightarrow> limits R l"
  by (auto simp: rateLimiterForFairness_def ctrl_run limits_def split: if_splits prod.splits) (metis fst_conv)+

lemma client_origin:
  "run_state (virtualClientFor R tc name) w = (Inr vc, w') \<Longrightarrow> \<exists>c u. r_NewClient R c u = (Inr vc, w')"
  by (auto simp: virtualClientFor_def ctrl_run split: prod.splits sum.splits option.splits)

text \<open>The calls of a run that are not the engine's stay within a relation.\<close>

definition run_calls :: "('w \<Rightarrow> 'w \<Rightarrow> bool) \<Rightarrow> ('q, 'c, 'w) Reconciler \<Rightarrow> bool" where
  "run_calls Q R \<longleftrightarrow> reflp Q \<and> transp Q \<and> (\<forall>n m w. Q w (snd (k_Get (r_secret R) n m w))) \<and>
     (\<forall>c w. Q w (snd (r_NewClient R c w))) \<and> (\<forall>a b w. Q w (snd (r_NewLimiter R a b w))) \<and> (\<forall>w. Q w (snd (r_Now R w))) \<and>
     (\<forall>n m w. Q w (snd (k_Get (r_sd R) n m w))) \<and> (\<forall>x w. Q w (snd (k_Create (r_sd R) x w))) \<and>
     (\<forall>x w. Q w (snd (k_StatusUpdate (r_sd R) x w)))"

lemma run_calls_frame:
  assumes "run_calls Q R"
  shows "state_io_rel Q (recordSyncDecisions R tc ds retain history)" "state_io_rel Q (loadConvergenceHistory R tc)"
    "state_io_rel Q (virtualClientFor R tc name)" "state_io_rel Q (rateLimiterForFairness R fairness)"
  unfolding recordSyncDecisions_def get_or_create_decision_def loadConvergenceHistory_def virtualClientFor_def
    rateLimiterForFairness_def Let_def
  by (intro frame_rules; use assms in \<open>simp add: run_calls_def\<close>)+

lemma on_host_frame: "state_io_rel Q m \<Longrightarrow> state_io_rel (on_world Q) (on_host m)"
  unfolding on_host_def by (rule frame_world_call) (metis prod.collapse state_io_relD)

text \<open>A run stays within a relation when these calls and the passes do.\<close>

lemma sync_resource_frame:
  assumes "reflp Q" "\<And>cp. state_io_rel (on_world Q) (syncPass U E res cp)" "sync_resource U E policy res = Some pass"
  shows "state_io_rel (on_world Q) pass"
  using assms(2,3) on_world_refl [OF assms(1)]
  by (auto simp: sync_resource_def SyncToHost_def SyncFromHost_def SyncBidirectional_def split: if_splits intro!: frame_rules)

lemma sync_resources_frame:
  assumes "run_calls Q R" "\<And>res cp. state_io_rel (on_world Q) (syncPass (r_U R) E res cp)"
  shows "state_io_rel (on_world Q) (sync_resources R E tc policy resources err)"
proof (induction resources arbitrary: err)
  case (Cons res resources)
  have pre: "reflp Q" "transp Q" using assms(1) by (simp_all add: run_calls_def)
  have h: "state_io_rel (on_world Q) (State (\<lambda>s. (es_History s, s)))"
    by (rule state_io_relI) (use reflpD [OF pre(1)] in \<open>auto simp: on_world_def\<close>)
  show ?case
    unfolding sync_resources.simps
    by (intro frame_rules on_world_refl on_world_trans pre sync_resource_frame [OF pre(1) assms(2)] on_host_frame
        run_calls_frame [OF assms(1)] Cons h)
qed (use assms(1) in \<open>simp add: frame_return on_world_refl run_calls_def\<close>)

lemma run_sync_frame:
  assumes calls: "run_calls Q R"
    and passes: "\<And>c u vc w l res cp. r_NewClient R c u = (Inr vc, w) \<Longrightarrow> limits R l \<Longrightarrow>
      state_io_rel (on_world Q) (syncPass (r_U R) (sync_engine R tc policy profile vc l) res cp)"
  shows "state_io_rel Q (runSync R tc policy profile name)"
proof (rule state_io_relI)
  have pre: "reflp Q" "transp Q" using calls by (simp_all add: run_calls_def)
  note calls' = run_calls_frame [OF calls]
  fix r w w' assume run: "run_state (runSync R tc policy profile name) w = (r, w')"
  define history where "history = (if xs_RecordDecisions (sps_Explain (sp_Spec policy)) then do {
      l \<leftarrow> loadConvergenceHistory R tc;
      State_Monad.return (case l of Inl err \<Rightarrow> Inl err | Inr m \<Rightarrow> Inr (Some m))
    } else State_Monad.return (Inr None))"
  obtain vc w1 where c: "run_state (virtualClientFor R tc name) w = (vc, w1)" by fastforce
  obtain h w2 where h: "run_state history w1 = (h, w2)" by fastforce
  obtain l w3 where l: "run_state (rateLimiterForFairness R (p_APIFairness profile)) w2 = (l, w3)" by fastforce
  have hist: "state_io_rel Q history" unfolding history_def by (intro frame_rules calls' pre)
  note q = state_io_relD [OF calls'(3) c] state_io_relD [OF hist h] state_io_relD [OF calls'(4) l]
  have q': "Q w w" "Q w w2" "Q w w3"
    using reflpD [OF pre(1)] transpD [OF pre(2) q(1,2)] transpD [OF pre(2) transpD [OF pre(2) q(1,2)] q(3)] by simp_all
  show "Q w w'"
  proof (cases vc)
    case (Inl err)
    then show ?thesis using run c q q' by (auto simp: runSync_def ctrl_run Let_def split: if_splits)
  next
    case (Inr v)
    obtain cfg u where "r_NewClient R cfg u = (Inr v, w1)" using client_origin [OF c [unfolded Inr]] by blast
    note p = sync_resources_frame [OF calls passes [OF this limiter_limits [OF l]]]
    show ?thesis
    proof (cases h)
      case (Inl err)
      then show ?thesis using run c \<open>vc = Inr v\<close> h q q' unfolding history_def
        by (auto simp: runSync_def ctrl_run Let_def split: if_splits)
    next
      case some: (Inr hs)
      let ?m = "sync_resources R (sync_engine R tc policy profile v l) tc policy (syncResourcesFromPolicy R (Some policy)) None"
      obtain x s where s: "run_state ?m \<lparr>es_History = hs, es_world = w3\<rparr> = (x, s)" by fastforce
      have "Q w3 (es_world s)" using state_io_relD [OF p s] by (simp add: on_world_def)
      then have "Q w (es_world s)" by (rule transpD [OF pre(2) q'(3)])
      then show ?thesis using run c Inr h some l s q'(1) unfolding history_def
        by (auto simp: runSync_def ctrl_run Let_def split: if_splits)
    qed
  qed
qed

locale sync_host =
  fixes R :: "('q, 'c, 'w) Reconciler"
    and hview :: "'w \<Rightarrow> objkey \<Rightarrow> obj option" and tview :: "'w \<Rightarrow> objkey \<Rightarrow> obj option"
  assumes engine: "r_NewClient R c w = (Inr vc, w') \<Longrightarrow> limits R l \<Longrightarrow>
      engine_env (r_U R) (sync_engine R tc policy profile vc l) hview tview"
    and secret: "hview (snd (k_Get (r_secret R) n m w)) = hview w"
    and dial: "hview (snd (r_NewClient R c w)) = hview w"
    and new_limiter: "hview (snd (r_NewLimiter R a b w)) = hview w"
    and now: "hview (snd (r_Now R w)) = hview w"
    and sd_get: "hview (snd (k_Get (r_sd R) n m w)) = hview w"
    and sd_create: "hview (snd (k_Create (r_sd R) x w)) = hview w"
    and sd_status: "hview (snd (k_StatusUpdate (r_sd R) x w)) = hview w"
begin

text \<open>An object that is there with this value stays there.\<close>

abbreviation keeps :: "objkey \<Rightarrow> obj \<Rightarrow> 'w \<Rightarrow> 'w \<Rightarrow> bool" where
  "keeps k o1 w w' \<equiv> hview w k = Some o1 \<longrightarrow> hview w' k = Some o1"

lemma keeps_pre [simp]: "reflp (keeps k o1)" "transp (keeps k o1)"
  by (auto simp: reflp_def transp_def)

lemma calls_keep: "run_calls (keeps k o1) R"
  by (simp add: run_calls_def secret dial new_limiter now sd_get sd_create sd_status)

lemma run_keeps:
  assumes "\<not> owned_by (r_U R) (tc_Name tc) o1" "hview w k = Some o1"
  shows "hview (snd (run_state (runSync R tc policy profile name) w)) k = Some o1"
proof -
  have "state_io_rel (on_world (keeps k o1)) (syncPass (r_U R) (sync_engine R tc policy profile vc l) res cp)"
    if "r_NewClient R c u = (Inr vc, v)" "limits R l" for c u vc v l res cp
  proof (rule state_io_relI)
    fix x s t assume "run_state (syncPass (r_U R) (sync_engine R tc policy profile vc l) res cp) s = (x, t)"
    then show "on_world (keeps k o1) s t"
      using engine_env.pass_view(1) [OF engine [OF that]] assms(1) by (cases x) (simp add: on_world_def sync_engine_def)
  qed
  then have "state_io_rel (keeps k o1) (runSync R tc policy profile name)"
    by (rule run_sync_frame [OF calls_keep])
  then show ?thesis using frame_run [of "keeps k o1"] assms(2) by blast
qed

end

section \<open>A host cluster with a tenant\<close>

definition demo_secret :: Secret where
  "demo_secret = \<lparr>se_Meta = object_meta ''dev-control-plane-kubeconfig'' ''team'' None,
     se_Data = Some (fmap_of_list [(''kubeconfig'', ''apiVersion: v1'')])\<rparr>"

definition sync_reconciler :: "(string, unit, ctl_world) Reconciler" where
  "sync_reconciler = ctl_reconciler
     \<lparr>r_secret := no_objects\<lparr>k_Get := (\<lambda>n m w. (Inr demo_secret, w))\<rparr>,
      r_NewClient := (\<lambda>c w. (Inr (lift_client w_ten (\<lambda>m w. w\<lparr>w_ten := m\<rparr>) mem_client), w))\<rparr>"

text \<open>An engine over any two servers that keep the laws, one for the host and one for the tenant.\<close>

lemma lifted_engine:
  assumes "kube_store json_api H hv" "kube_store json_api T tv"
    and "r_un R = lift_client w_un (\<lambda>m w. w\<lparr>w_un := m\<rparr>) H" "vc = lift_client w_ten (\<lambda>m w. w\<lparr>w_ten := m\<rparr>) T"
    and "r_Eventf R = None" "\<And>f. l = Some f \<Longrightarrow> f = Pair True"
  shows "engine_env json_api (sync_engine R tc policy profile vc l) (\<lambda>w. hv (w_un w)) (\<lambda>w. tv (w_ten w))"
proof (intro engine_env.intro engine_env_axioms.intro)
  show "unstructured_api json_api" by (rule json.unstructured_api_axioms)
  show "kube_store json_api (e_HostClient (sync_engine R tc policy profile vc l)) (\<lambda>w. hv (w_un w))"
    by (simp add: sync_engine_def assms(3) lift_kube_store [OF assms(1)])
  show "kube_store json_api (e_VirtualClient (sync_engine R tc policy profile vc l)) (\<lambda>w. tv (w_ten w))"
    by (simp add: sync_engine_def assms(4) lift_kube_store [OF assms(2)])
qed (auto simp: sync_engine_def assms(3-5) lift_call_def event_Record_def split: prod.splits if_splits dest: assms(6))

interpretation ctl_sync: sync_host sync_reconciler "\<lambda>w. mem_view (w_un w)" "\<lambda>w. mem_view (w_ten w)"
proof (intro sync_host.intro)
  show "engine_env (r_U sync_reconciler) (sync_engine sync_reconciler tc policy profile vc l) (\<lambda>w. mem_view (w_un w)) (\<lambda>w. mem_view (w_ten w))"
    if "r_NewClient sync_reconciler c w = (Inr vc, w')" "limits sync_reconciler l" for c w vc w' l tc policy profile
  proof -
    have vc: "vc = lift_client w_ten (\<lambda>m w. w\<lparr>w_ten := m\<rparr>) mem_client" using that(1) by (simp add: sync_reconciler_def)
    have l: "f = Pair True" if "l = Some f" for f
      using \<open>limits sync_reconciler l\<close> that by (auto simp: limits_def sync_reconciler_def ctl_reconciler_def)
    have U: "r_U sync_reconciler = json_api" by (simp add: sync_reconciler_def)
    show ?thesis unfolding U
      by (rule lifted_engine [OF memory.kube_store_axioms memory.kube_store_axioms _ vc _ l])
        (simp_all add: sync_reconciler_def ctl_reconciler_def)
  qed
qed (auto simp: sync_reconciler_def ctl_reconciler_def no_objects_def sd_client_def lift_call_snd)


definition demo_policy :: SyncPolicy where
  "demo_policy = \<lparr>sp_Meta = object_meta ''default'' '''' None,
     sp_Spec = \<lparr>sps_ConflictPolicy = ''host-wins'', sps_DriftDetection = \<lparr>dd_Enabled = False, dd_Interval = ''''\<rparr>,
       sps_Explain = \<lparr>xs_RecordDecisions = True, xs_Retain = 10\<rparr>,
       sps_Resources = [\<lparr>sr_APIVersion = ''v1'', sr_Kind = ''ConfigMap'', sr_Direction = ''bidirectional''\<rparr>]\<rparr>\<rparr>"


end
