(* ===== verification/Syncer_Convergence.thy ===== *)
theory Syncer_Convergence
  imports Syncer_Safety
begin

text \<open>
  What a pair converges to: which live mirrors the engine recognises as its own, what a bidirectional
  conflict does given the recorded history, that a pulled tenant object agrees with its host object on the next
  pass, that a toHost pass never writes to the tenant, that every decision reaches the recorder, and that every
  Pod built for the host carries the required runtime class.
\<close>

section \<open>Recognising a mirror\<close>

text \<open>Property C24 (a mirror is recognised exactly for sanitised tenant names). Take the host object built for a tenant
  object and any live object with its labels and annotations. The engine finds that it comes from the same source
  if and only if sanitising leaves the tenant name alone: for a tenant \<open>a.b\<close>, every pass after the first one skips
  the object as a collision.\<close>

theorem mirror_recognised_iff:
  assumes "unstructured_api U" "wf_meta t" "BuildHostObject U ref (Some t) = Inr h"
    and "u_GetLabels U live = u_GetLabels U h" "u_GetAnnotations U live = u_GetAnnotations U h"
  shows "same_source_as U ref live \<longleftrightarrow> SanitizeName (ref_TenantCluster ref) = ref_TenantCluster ref"
  using unstructured_api.build_host_cases(2) [OF assms(1-3)] assms(4,5)
    unstructured_api.reverse_lookup_host [OF assms(1), of ref t]
  by (auto simp: same_source_as_def ReverseLookup_def sameSource_def Let_def split: if_splits)

theorem mirror_recognised_iff_witness:
  "\<exists>h. BuildHostObject json_api (demo_ref\<lparr>ref_TenantCluster := ''a.b''\<rparr>) (Some demo_tenant) = Inr h \<and>
     \<not> same_source_as json_api (demo_ref\<lparr>ref_TenantCluster := ''a.b''\<rparr>) h"
proof -
  let ?ref = "demo_ref\<lparr>ref_TenantCluster := ''a.b''\<rparr>"
  have h: "BuildHostObject json_api ?ref (Some demo_tenant) = Inr (host_of ?ref demo_tenant)"
    by (rule json.host_normal_form) (simp_all add: demo_facts complete_ref_def demo_ref_def)
  have "SanitizeName ''a.b'' \<noteq> ''a.b''"
    by (simp add: name_eval)
  then show ?thesis
    using mirror_recognised_iff [OF json.unstructured_api_axioms demo_facts(1) h refl refl] h by auto
qed

section \<open>Bidirectional conflicts\<close>

text \<open>Property C17 (manual conflicts). Under any policy but the two winners, with no rate limit, a differing pair with a
  recorded agreement is resolved by which resource versions moved since: only the tenant's, the host object is
  updated; only the host's, the tenant object is updated; both or neither, or no recorded agreement, both sides and
  the history stay as they are. A successful update records the new pair of versions, and nothing else changes
  the history.\<close>

theorem manual_conflict_outcome:
  assumes "conflictPolicy \<notin> {''tenant-wins'', ''host-wins''}" "e_RateLimiter E = None"
    and "h = (case es_History s of None \<Rightarrow> fmempty | Some m \<Rightarrow> m)"
    and "pushed = the (AdoptHostAllocatedFields U (Some existing) (Some (u_SetResourceVersion U host (u_GetResourceVersion U existing))))"
    and "tenantMoved = (\<lambda>cv. u_GetResourceVersion U virtualObj \<noteq> cv_TenantResourceVersion cv)"
    and "hostMoved = (\<lambda>cv. u_GetResourceVersion U existing \<noteq> cv_HostResourceVersion cv)"
  shows "run_state (reconcileBidirectionalConflict U E conflictPolicy ref target virtualObj existing comparable host) s =
     (case fmlookup h (ht_Name target) of
        None \<Rightarrow> (Inr (decision ActionSkip ref target manual_reason), s)
      | Some cv \<Rightarrow>
         (if tenantMoved cv = hostMoved cv then (Inr (decision ActionSkip ref target manual_reason), s)
          else if tenantMoved cv then
            (case cl_update (e_HostClient E) pushed (es_world s) of
               (Inl err, w) \<Rightarrow> (Inl err, s\<lparr>es_world := w\<rparr>)
             | (Inr written, w) \<Rightarrow>
                 (Inr (decision ActionUpdate ref target ''reconciled host object to match virtual source''),
                  \<lparr>es_History = Some (fmupd (ht_Name target)
                     \<lparr>cv_TenantResourceVersion = u_GetResourceVersion U virtualObj,
                      cv_HostResourceVersion = u_GetResourceVersion U written\<rparr> h), es_world = w\<rparr>))
          else
            (case cl_update (e_VirtualClient E) (MergeHostContentIntoTenant U comparable virtualObj) (es_world s) of
               (Inl err, w) \<Rightarrow> (Inl err, s\<lparr>es_world := w\<rparr>)
             | (Inr merged, w) \<Rightarrow>
                 (Inr (decision ActionUpdate ref target host_changed_reason),
                  \<lparr>es_History = Some (fmupd (ht_Name target)
                     \<lparr>cv_TenantResourceVersion = u_GetResourceVersion U merged,
                      cv_HostResourceVersion = u_GetResourceVersion U comparable\<rparr> h), es_world = w\<rparr>))))"
  using assms
  by (auto simp: reconcileBidirectionalConflict_def pushToHost_def pullToTenant_def rateLimited_def run_cases Let_def
      split: option.splits prod.splits sum.splits)

theorem manual_conflict_outcome_witness:
  "\<exists>s. es_History s = Some (fmap_of_list [(''h'', \<lparr>cv_TenantResourceVersion = ''1'', cv_HostResourceVersion = ''2''\<rparr>)]) \<and>
     run_state (reconcileBidirectionalConflict json_api (world_engine ''dev'' ''team'' '''' False) ''manual'' demo_ref
       \<lparr>ht_Namespace = ''team'', ht_Name = ''h''\<rparr> demo_config demo_config demo_config demo_config) s =
     (Inr (decision ActionSkip demo_ref \<lparr>ht_Namespace = ''team'', ht_Name = ''h''\<rparr> manual_reason), s)"
proof -
  let ?h = "fmap_of_list [(''h'', \<lparr>cv_TenantResourceVersion = ''1'', cv_HostResourceVersion = ''2''\<rparr>)]"
  let ?s = "(demo_state [] [])\<lparr>es_History := Some ?h\<rparr>"
  have p: "''manual'' \<notin> {''tenant-wins'', ''host-wins''}" by simp
  have rv: "u_GetResourceVersion json_api demo_config = ''''"
    by (simp add: json.api_laws peek_str_def peek2 demo_config_def)
  show ?thesis
    using manual_conflict_outcome [OF p, where E = "world_engine ''dev'' ''team'' '''' False" and h = ?h and s = ?s
        and U = json_api and existing = demo_config and virtualObj = demo_config and ref = demo_ref
        and target = "\<lparr>ht_Namespace = ''team'', ht_Name = ''h''\<rparr>" and host = demo_config and comparable = demo_config,
        OF _ _ refl refl refl]
    by (intro exI [of _ ?s]) (simp add: rv)
qed

text \<open>A pulled object agrees: After the host's content was merged into the tenant object and the server
  stored that content, the next pass of the pair, fromHost or bidirectional, under any policy, skips it as agreed:
  the lookup is its only call, and a bidirectional pass records the agreement. This holds with a required runtime
  class too, which is left out of the merge and of the comparison.\<close>

theorem pulled_object_agrees:
  assumes "unstructured_api U" "u_GetKind U existing = u_GetKind U v" "u_GetKind U v' = u_GetKind U v"
    and "contentFrom v' = contentFrom (MergeHostContentIntoTenant U (comparable_host U E ref existing) v)"
    and "cl_get (e_HostClient E) (u_GroupVersionKind U host) (u_GetNamespace U host, u_GetName U host) (es_world s)
      = (Inr existing, w)"
    and "same_source_as U ref existing" "direction \<in> {DirectionFromHost, DirectionBidirectional}"
  shows "run_state (reconcilePair U E direction conflictPolicy ref v' host) s =
      (Inr (decision ActionSkip ref \<lparr>ht_Namespace = u_GetNamespace U host, ht_Name = u_GetName U host\<rparr>
         ''tenant and host already agree''),
       \<lparr>es_History =
          (if direction = DirectionBidirectional
           then Some (fmupd (u_GetName U host)
             \<lparr>cv_TenantResourceVersion = u_GetResourceVersion U v', cv_HostResourceVersion = u_GetResourceVersion U existing\<rparr>
             (case es_History s of None \<Rightarrow> fmempty | Some h \<Rightarrow> h))
           else es_History s),
        es_world = w\<rparr>)"
proof -
  let ?c = "comparable_host U E ref existing"
  have "same_identity ?c existing"
    using unstructured_api.RemoveNestedField [OF assms(1)] by (simp add: comparable_host_def same_identity_del)
  then have k: "u_GetKind U ?c = u_GetKind U v"
    using unstructured_api.identity_accessors(4) [OF assms(1)] assms(2) by metis
  have "u_GetKind U (MergeHostContentIntoTenant U ?c v) = u_GetKind U v"
    using merge_keeps [of "''kind''"] by (simp add: unstructured_api.GetKind [OF assms(1)] peek_str_def)
  then have "ContentEqual U v' ?c"
    using unstructured_api.merge_content_equal [OF assms(1) k] assms(3,4)
    by (simp add: unstructured_api.ContentEqual_iff [OF assms(1)])
  moreover have "direction \<noteq> DirectionToHost" using assms(7) by (auto simp: direction_defs)
  ultimately show ?thesis
    using assms(5,6)
    by (cases s) (auto simp: reconcilePair_def reconcile_existing_def run_cases Let_def same_source_as_def split: prod.splits)
qed

text \<open>A live mirror of \<open>demo_config\<close> that somebody edited on the host.\<close>

definition shop_ref :: ResourceRef where
  "shop_ref = \<lparr>ref_TenantCluster = ''dev'', ref_TenantNamespace = ''team'', ref_VirtualNamespace = ''shop'',
     ref_Kind = ''ConfigMap'', ref_Name = ''app''\<rparr>"

definition edited_mirror :: obj where
  "edited_mirror = fmupd ''data'' (VMap (fmap_of_list [(''key'', VStr ''edited'')])) (host_of shop_ref demo_config)"

lemma edited_mirror_facts:
  "u_GetKind json_api edited_mirror = ''ConfigMap''" "same_source_as json_api shop_ref edited_mirror"
  "obj_key json_api edited_mirror = (demo_gvk, ''team'', HostName ''app'' ''shop'' ''dev'')"
proof -
  have ident: "same_identity edited_mirror (host_of shop_ref demo_config)"
    by (simp add: same_identity_def edited_mirror_def)
  note i = json.identity_accessors [OF ident]
  show "u_GetKind json_api edited_mirror = ''ConfigMap''"
    by (simp add: i json.host_accessors demo_config_facts)
  have dns: "SanitizeName ''dev'' = ''dev''" "SanitizeName ''team'' = ''team''"
    by (simp_all add: SanitizeName_id dns_safe_def inner_dashes_def dns_char_def)
  then have "same_source_as json_api shop_ref (host_of shop_ref demo_config)"
    by (simp add: same_source_as_def json.reverse_lookup_host sameSource_def) (simp add: shop_ref_def)
  then show "same_source_as json_api shop_ref edited_mirror"
    unfolding same_source_as_def json.reverse_lookup_congr [OF ident] .
  have "u_GroupVersionKind json_api (host_of shop_ref demo_config) = demo_gvk"
    unfolding demo_config_facts(5) [symmetric]
    by (rule json.GroupVersionKind_congr) (simp_all add: host_of_other shop_ref_def strip_object_id)
  then show "obj_key json_api edited_mirror = (demo_gvk, ''team'', HostName ''app'' ''shop'' ''dev'')"
    by (simp add: i obj_key_def json.host_accessors shop_ref_def dns)
qed


theorem pulled_object_agrees_witness:
  "\<exists>v'. contentFrom v' = contentFrom (MergeHostContentIntoTenant json_api edited_mirror demo_config) \<and>
     fst (run_state (reconcilePair json_api (world_engine ''dev'' ''team'' '''' False) DirectionFromHost '''' shop_ref v' edited_mirror)
       (demo_state [edited_mirror] [])) =
     Inr (decision ActionSkip shop_ref \<lparr>ht_Namespace = ''team'', ht_Name = HostName ''app'' ''shop'' ''dev''\<rparr>
       ''tenant and host already agree'')"
proof -
  let ?E = "world_engine ''dev'' ''team'' '''' False" and ?v' = "MergeHostContentIntoTenant json_api edited_mirror demo_config"
  have k: "u_GroupVersionKind json_api edited_mirror = demo_gvk" "u_GetNamespace json_api edited_mirror = ''team''"
    "u_GetName json_api edited_mirror = HostName ''app'' ''shop'' ''dev''"
    using edited_mirror_facts(3) by (simp_all add: obj_key_def)
  have c: "comparable_host json_api ?E shop_ref edited_mirror = edited_mirror"
    by (simp add: comparable_host_def)
  have kv: "u_GetKind json_api ?v' = u_GetKind json_api demo_config"
    using merge_keeps [of "''kind''"] by (simp add: json.GetKind peek_str_def)
  have g: "cl_get (e_HostClient ?E) (u_GroupVersionKind json_api edited_mirror)
      (u_GetNamespace json_api edited_mirror, u_GetName json_api edited_mirror) (es_world (demo_state [edited_mirror] []))
    = (Inr edited_mirror, es_world (demo_state [edited_mirror] []))"
    by (simp add: k host_client_def lift_call_def mem_client_def mem_get_def demo_state_def mem_view_def edited_mirror_facts)
  show ?thesis
    using pulled_object_agrees [OF json.unstructured_api_axioms _ kv _ g edited_mirror_facts(2), of DirectionFromHost "''''"]
    by (intro exI [of _ ?v']) (simp add: c k edited_mirror_facts demo_config_facts)
qed

section \<open>The tenant cluster in a toHost pass\<close>

text \<open>
  \<open>reads_only R E\<close>: \<open>R\<close> bounds everything an engine calls but Update on the tenant cluster.
\<close>

definition all_but_tenant_update :: "('w \<Rightarrow> 'w \<Rightarrow> bool) \<Rightarrow> 'w Engine \<Rightarrow> bool" where
  "all_but_tenant_update R E \<longleftrightarrow> reflp R \<and> transp R \<and>
     (\<forall>f w. e_RateLimiter E = Some f \<longrightarrow> R w (snd (f w))) \<and> (\<forall>r d w. e_Recorder E = Some r \<longrightarrow> R w (r d w)) \<and>
     (\<forall>g n m w. R w (snd (cl_get (e_HostClient E) g (n, m) w))) \<and>
     (\<forall>g n ls w. R w (snd (cl_list (e_HostClient E) g n ls w)) \<and> R w (snd (cl_list (e_VirtualClient E) g n ls w))) \<and>
     (\<forall>o1 w. R w (snd (cl_create (e_HostClient E) o1 w)) \<and> R w (snd (cl_update (e_HostClient E) o1 w)) \<and>
        R w (snd (cl_delete (e_HostClient E) o1 w)))"

lemma abtu_frame:
  assumes "all_but_tenant_update R E"
  shows "reflp (on_world R)" "transp (on_world R)"
    "state_io_rel (on_world R) (rateLimited E ref target)" "state_io_rel (on_world R) (record_decision E d)"
    "state_io_rel (on_world R) (setConverged n a b)" "state_io_rel (on_world R) (history_lookup n)"
    "state_io_rel (on_world R) (world_call (cl_get (e_HostClient E) g (p, q)))"
    "state_io_rel (on_world R) (world_call (cl_list (e_HostClient E) g nn ls))"
    "state_io_rel (on_world R) (world_call (cl_list (e_VirtualClient E) g nn ls))"
    "state_io_rel (on_world R) (world_call (cl_create (e_HostClient E) o1))"
    "state_io_rel (on_world R) (world_call (cl_update (e_HostClient E) o1))"
    "state_io_rel (on_world R) (world_call (cl_delete (e_HostClient E) o1))"
proof -
  note d = assms [unfolded all_but_tenant_update_def]
  show pre: "reflp (on_world R)" "transp (on_world R)" using d by (simp_all add: on_world_refl on_world_trans)
  show "state_io_rel (on_world R) (rateLimited E ref target)" "state_io_rel (on_world R) (record_decision E d)"
    using d pre by (auto simp: rateLimited_def record_decision_def intro!: frame_rules frame_world_call)
  show "state_io_rel (on_world R) (setConverged n a b)" "state_io_rel (on_world R) (history_lookup n)"
    using d pre by (simp_all add: frame_setConverged frame_history_lookup)
qed (use assms in \<open>auto simp: all_but_tenant_update_def intro!: frame_world_call\<close>)

lemma abtu_pair:
  assumes "all_but_tenant_update R E"
  shows "state_io_rel (on_world R) (reconcilePair U E DirectionToHost cp ref v h)"
proof -
  note f = abtu_frame [OF assms]
  have "state_io_rel (on_world R) (pushToHost U E ref target v e h b)" for target e b
    unfolding pushToHost_def Let_def by (intro frame_rules f)
  then show ?thesis
    by (auto simp: reconcilePair_def reconcile_existing_def create_pair_def Let_def intro!: frame_rules f)
qed

lemma abtu_items:
  assumes "all_but_tenant_update R E" "res_Direction res = DirectionToHost"
  shows "state_io_rel (on_world R) (sync_items U E res cp items ds es des)"
    "state_io_rel (on_world R) (gc_items U E gvk des items ds es)"
    "state_io_rel (on_world R) (record_all E ds)"
proof -
  note f = abtu_frame [OF assms(1)]
  show "state_io_rel (on_world R) (sync_items U E res cp items ds es des)"
    by (induction items arbitrary: ds es des)
      (auto simp: Let_def assms(2) intro!: frame_rules abtu_pair f assms(1) split: option.splits sum.splits)
  show "state_io_rel (on_world R) (gc_items U E gvk des items ds es)"
    by (induction items arbitrary: ds es) (auto simp: Let_def intro!: frame_rules f)
  show "state_io_rel (on_world R) (record_all E ds)"
    by (induction ds) (auto intro!: frame_rules f)
qed

text \<open>ToHost never writes to the tenant: A toHost pass stays within any bound on the calls other than Update
  on the tenant cluster, so it makes no such call, whatever the two clusters answer.\<close>

theorem to_host_never_writes_the_tenant:
  assumes "all_but_tenant_update R E"
  shows "R (es_world s) (es_world (snd (run_state (SyncToHost U E res) s)))"
proof -
  note f = abtu_frame [OF assms]
  have "state_io_rel (on_world R) (SyncToHost U E res)"
    unfolding SyncToHost_def syncPass_def collectOrphans_def
    by (auto intro!: frame_rules f abtu_items assms)
  then show ?thesis
    by (metis on_world_def prod.collapse state_io_relD)
qed

theorem to_host_never_writes_the_tenant_witness:
  "c_tenant (es_world (snd (run_state (SyncToHost json_api (world_engine ''dev'' ''team'' '''' True) (demo_res DirectionToHost))
      (demo_state [] [demo_config])))) = \<lparr>m_objs = [demo_config], m_rv = 7\<rparr>"
proof -
  have "all_but_tenant_update (\<lambda>w w' :: Decision clusters. c_tenant w' = c_tenant w) (world_engine ''dev'' ''team'' '''' True)"
    by (auto simp: all_but_tenant_update_def reflp_def transp_def host_client_def tenant_client_def lift_call_snd
        mem_client_def mem_list_def log_decision_def take_token_def)
  from to_host_never_writes_the_tenant [OF this, where s = "demo_state [] [demo_config]"] show ?thesis
    by (simp add: demo_state_def)
qed

section \<open>Every decision is recorded\<close>

text \<open>\<open>lg\<close> is what the recorder was given: no client and no limiter changes it.\<close>

definition logs_to :: "('w \<Rightarrow> Decision list) \<Rightarrow> 'w Engine \<Rightarrow> bool" where
  "logs_to lg E \<longleftrightarrow> (\<exists>r. e_Recorder E = Some r \<and> (\<forall>d w. lg (r d w) = lg w @ [d])) \<and>
     all_but_tenant_update (\<lambda>w w'. lg w' = lg w) (E\<lparr>e_Recorder := None\<rparr>) \<and>
     (\<forall>o1 w. lg (snd (cl_update (e_VirtualClient E) o1 w)) = lg w)"

lemma log_calls:
  assumes "logs_to lg E"
  shows "state_io_rel (on_world (\<lambda>w w'. lg w' = lg w)) (reconcilePair U E dir cp ref v h)"
    "state_io_rel (on_world (\<lambda>w w'. lg w' = lg w)) (collectOrphans U E gvk des)"
    "run_state (record_decision E d) s = (x, t) \<Longrightarrow> lg (es_world t) = lg (es_world s) @ [d]"
proof -
  let ?R = "on_world (\<lambda>w w'. lg w' = lg w)"
  note d = assms [unfolded logs_to_def, THEN conjunct2, THEN conjunct1]
  have lim: "state_io_rel ?R (rateLimited E ref target)" for ref target
    using abtu_frame(3) [OF d] by (simp add: rateLimited_def)
  have upd: "state_io_rel ?R (world_call (cl_update (e_VirtualClient E) o1))" for o1
    using assms by (auto simp: logs_to_def intro!: frame_world_call)
  note f = abtu_frame(1,2,5,6) [OF d] abtu_frame(7-12) [OF d, simplified] lim upd
  have push: "state_io_rel ?R (pushToHost U E ref target v e h b)" for target e b
    unfolding pushToHost_def Let_def by (intro frame_rules f)
  have pull: "state_io_rel ?R (pullToTenant U E ref target v e r b)" for target e r b
    unfolding pullToTenant_def by (intro frame_rules f)
  show "state_io_rel ?R (reconcilePair U E dir cp ref v h)"
    unfolding reconcilePair_def reconcile_existing_def reconcileBidirectionalConflict_def create_pair_def Let_def
    by (intro frame_rules f push pull)
  have "state_io_rel ?R (gc_items U E gvk des items ds es)" for items ds es
    by (induction items arbitrary: ds es) (auto simp: Let_def intro!: frame_rules f)
  then show "state_io_rel ?R (collectOrphans U E gvk des)"
    unfolding collectOrphans_def by (intro frame_rules f)
  show "run_state (record_decision E d) s = (x, t) \<Longrightarrow> lg (es_world t) = lg (es_world s) @ [d]"
    using assms by (auto simp: logs_to_def record_decision_def run_simps)
qed

lemma log_sync_items:
  assumes "logs_to lg E" "run_state (sync_items U E res cp items ds es des) s = ((ds', es', des'), t)"
  shows "\<exists>new. ds' = ds @ new \<and> lg (es_world t) = lg (es_world s) @ new"
  using assms(2)
proof (induction items arbitrary: ds es des s)
  case Nil
  then show ?case by (simp add: run_simps)
next
  case (Cons o1 items)
  have pair: "run_state (reconcilePair U E (res_Direction res) cp ref o1 host) s = (p, u) \<Longrightarrow>
      lg (es_world u) = lg (es_world s)" for ref host p u
    using log_calls(1) [OF assms(1)] by (force simp: on_world_def dest: state_io_relD)
  show ?case
    using Cons.prems
    by (auto simp: run_bind Let_def split: option.splits sum.splits prod.splits
        dest!: Cons.IH pair log_calls(3) [OF assms(1)])
qed

text \<open>Every decision reaches the recorder: Whatever the recorder keeps, after a pass it was given exactly
  the decisions the pass returns, in that order, and nothing else.\<close>

theorem decisions_are_recorded:
  assumes "logs_to lg E" "run_state (syncPass U E res cp) s = ((ds, err), t)"
  shows "lg (es_world t) = lg (es_world s) @ ds"
proof -
  have list: "lg (snd (cl_list (e_VirtualClient E) g n ls w)) = lg w" for g n ls w
    using assms(1) by (simp add: logs_to_def all_but_tenant_update_def)
  have all: "run_state (record_all E gc) s' = (x, t') \<Longrightarrow> lg (es_world t') = lg (es_world s') @ gc" for gc s' x t'
    by (induction gc arbitrary: s') (auto simp: run_simps split: prod.splits dest!: log_calls(3) [OF assms(1)])
  have gc: "run_state (collectOrphans U E gvk des) u = (p, v) \<Longrightarrow> lg (es_world v) = lg (es_world u)" for gvk des u p v
    using log_calls(2) [OF assms(1)] by (force simp: on_world_def dest: state_io_relD)
  show ?thesis
    using assms(2)
    by (auto simp: syncPass_def run_simps list split: sum.splits prod.splits
        dest!: log_sync_items [OF assms(1)] gc all)
qed

theorem decisions_are_recorded_witness:
  "\<exists>ds err t. run_state (syncPass json_api (world_engine ''dev'' ''team'' '''' True) (demo_res DirectionFromHost) '''')
       (demo_state [] [demo_config]) = ((ds, err), t) \<and> c_log (es_world t) = ds"
proof -
  obtain ds err t where p: "run_state (syncPass json_api (world_engine ''dev'' ''team'' '''' True) (demo_res DirectionFromHost) '''')
       (demo_state [] [demo_config]) = ((ds, err), t)"
    by (metis prod.collapse)
  have "logs_to c_log (world_engine ''dev'' ''team'' '''' True)"
    by (auto simp: logs_to_def all_but_tenant_update_def reflp_def transp_def host_client_def tenant_client_def
        lift_call_snd log_decision_def take_token_def)
  from decisions_are_recorded [OF this p] p show ?thesis
    by (simp add: demo_state_def)
qed

section \<open>What is written for a tenant object\<close>

text \<open>Where a mirror lives, and what identifies it there.\<close>

definition mirror_key :: "'w Engine \<Rightarrow> GroupVersionKind \<Rightarrow> ResourceRef \<Rightarrow> objkey" where
  "mirror_key E gvk ref =
     (gvk, SanitizeName (e_HostNamespace E), HostName (ref_Name ref) (ref_VirtualNamespace ref) (e_Tenant E))"

context unstructured_api begin

lemma prepared_identity:
  assumes "gvk_wf gvk" "wf_meta o1" "prepare_host U E gvk o1 = Some (Inr (ref, host))"
  shows "ref = refFor U E (gvk_Kind gvk) o1" "obj_key U host = mirror_key E gvk ref"
    "u_GetLabels U host = Some (labels_of ref o1)" "u_GetAnnotations U host = Some (annotations_of ref o1)"
proof -
  show r: "ref = refFor U E (gvk_Kind gvk) o1" using prepare_host_Inr [OF assms(3)] by simp
  obtain h where b: "BuildHostObject U ref (Some o1) = Inr h"
    and host: "host = u_SetGroupVersionKind U h gvk \<or>
      host = fst (u_SetNestedField U (u_SetGroupVersionKind U h gvk) (VStr (e_RequiredRuntimeClassName E)) [''spec'', ''runtimeClassName''])"
    using assms(3) r by (force simp: prepare_host_def Let_def split: if_splits sum.splits prod.splits option.splits)
  let ?g = "u_SetGroupVersionKind U h gvk"
  have h: "h = host_of ref o1" using build_host_cases(2) [OF assms(2) b] .
  have "same_identity host ?g"
    using host by (auto simp: SetNestedField_obj same_identity_put)
  note i = identity_accessors [OF this]
  have g: "u_GroupVersionKind U ?g = gvk" using GroupVersionKind_set [OF assms(1)] .
  have m: "fmlookup ?g ''metadata'' = fmlookup h ''metadata''" by (simp add: SetGroupVersionKind)
  have acc: "u_GetNamespace U ?g = u_GetNamespace U h" "u_GetName U ?g = u_GetName U h"
    "u_GetLabels U ?g = u_GetLabels U h" "u_GetAnnotations U ?g = u_GetAnnotations U h"
    using m by (simp_all add: api_laws peek_str_def peek_strmap_def peek_map_def peek2)
  show "obj_key U host = mirror_key E gvk ref"
    unfolding obj_key_def i g acc by (simp add: h host_accessors mirror_key_def r refFor_def)
  show "u_GetLabels U host = Some (labels_of ref o1)" "u_GetAnnotations U host = Some (annotations_of ref o1)"
    unfolding i acc by (simp_all add: h host_accessors)
qed

end

text \<open>Property C22 (confinement of a prepared host object). Whatever the tenant object is, the host object prepared for it
  has the requested kind, lives in the sanitised host namespace under a name of at most 63 bytes, is labelled as
  managed for this tenant, and a Pod carries the required runtime class, also when the tenant asked for another.\<close>

theorem prepared_host_is_confined:
  assumes "unstructured_api U" "gvk_wf gvk" "wf_meta o1" "prepare_host U E gvk o1 = Some (Inr (ref, host))"
  shows "u_GroupVersionKind U host = gvk \<and> u_GetNamespace U host = SanitizeName (e_HostNamespace E) \<and>
     length (u_GetName U host) \<le> 63 \<and>
     opt_str_at (u_GetLabels U host) LabelManagedBy = ManagedByValue \<and>
     opt_str_at (u_GetLabels U host) LabelTenant = SanitizeName (e_Tenant E) \<and>
     (gvk_Kind gvk = ''Pod'' \<and> e_RequiredRuntimeClassName E \<noteq> '''' \<longrightarrow>
        peek host [''spec'', ''runtimeClassName''] = Some (VStr (e_RequiredRuntimeClassName E)))"
proof -
  have key: "obj_key U host = mirror_key E gvk ref" and l: "u_GetLabels U host = Some (labels_of ref o1)"
    and r: "ref = refFor U E (gvk_Kind gvk) o1"
    using unstructured_api.prepared_identity [OF assms] by auto
  have rc: "peek host [''spec'', ''runtimeClassName''] = Some (VStr (e_RequiredRuntimeClassName E))"
    if pod: "gvk_Kind gvk = ''Pod''" "e_RequiredRuntimeClassName E \<noteq> ''''"
  proof -
    obtain g where "u_SetNestedField U g (VStr (e_RequiredRuntimeClassName E)) [''spec'', ''runtimeClassName''] = (host, None)"
      using assms(4) pod by (auto simp: prepare_host_def Let_def split: if_splits sum.splits prod.splits option.splits)
    then show ?thesis
      using unstructured_api.SetNestedField_obj [OF assms(1), of g "VStr (e_RequiredRuntimeClassName E)" "[''spec'', ''runtimeClassName'']"]
        unstructured_api.SetNestedField_err [OF assms(1), of g "VStr (e_RequiredRuntimeClassName E)" "[''spec'', ''runtimeClassName'']"]
      by (auto simp: put_or_keep_def peek_put_same split: option.splits)
  qed
  show ?thesis
    using key l rc HostName_length
    by (simp add: obj_key_def mirror_key_def opt_str_at_def labels_of_at) (simp add: r refFor_def)
qed

definition demo_workload :: obj where
  "demo_workload = fmap_of_list
     [(''apiVersion'', VStr ''v1''), (''kind'', VStr ''Pod''),
      (''metadata'', VMap (fmap_of_list [(''name'', VStr ''app''), (''namespace'', VStr ''shop'')])),
      (''spec'', VMap (fmap_of_list [(''runtimeClassName'', VStr ''runc'')]))]"

theorem prepared_host_is_confined_witness:
  "\<exists>ref host. prepare_host json_api (world_engine ''dev'' ''team'' ''gvisor'' False) (demo_gvk\<lparr>gvk_Kind := ''Pod''\<rparr>) demo_workload
       = Some (Inr (ref, host)) \<and> peek host [''spec'', ''runtimeClassName''] = Some (VStr ''gvisor'')"
proof -
  let ?E = "world_engine ''dev'' ''team'' ''gvisor'' False" and ?g = "demo_gvk\<lparr>gvk_Kind := ''Pod''\<rparr>"
  let ?ref = "refFor json_api ?E ''Pod'' demo_workload"
  have wf: "gvk_wf ?g" by (simp add: gvk_wf_def demo_gvk_def)
  have f: "u_GetName json_api demo_workload = ''app''" "u_GetNamespace json_api demo_workload = ''shop''"
    "wf_meta demo_workload"
    by (simp_all add: demo_workload_def json.api_laws peek_str_def peek2 wf_meta_def)
  have b: "BuildHostObject json_api ?ref (Some demo_workload) = Inr (host_of ?ref demo_workload)"
    by (rule json.host_normal_form) (simp_all add: f complete_ref_def refFor_def)
  have "fmlookup (contentFrom (host_of ?ref demo_workload)) ''spec'' = fmlookup (contentFrom demo_workload) ''spec''"
    by (simp add: host_of_content refFor_def strip_object_id)
  then have spec: "fmlookup (u_SetGroupVersionKind json_api (host_of ?ref demo_workload) ?g) ''spec'' = fmlookup demo_workload ''spec''"
    by (simp add: json.SetGroupVersionKind contentFrom_lookup)
  obtain h where "u_SetNestedField json_api (u_SetGroupVersionKind json_api (host_of ?ref demo_workload) ?g)
      (VStr ''gvisor'') [''spec'', ''runtimeClassName''] = (h, None)"
    using spec json.SetNestedField_err [of "u_SetGroupVersionKind json_api (host_of ?ref demo_workload) ?g" "VStr ''gvisor''"
        "[''spec'', ''runtimeClassName'']"]
    by (cases "u_SetNestedField json_api (u_SetGroupVersionKind json_api (host_of ?ref demo_workload) ?g)
      (VStr ''gvisor'') [''spec'', ''runtimeClassName'']") (simp add: path_eval demo_workload_def)
  then have p: "prepare_host json_api ?E ?g demo_workload = Some (Inr (?ref, h))"
    using b by (simp add: prepare_host_def f skip_def bool_at_def defaultSkipNamespaces_def isVirtualInfrastructure_def Let_def)
  show ?thesis
    using prepared_host_is_confined [OF json.unstructured_api_axioms wf f(3) p] p by simp
qed

end
