(* ===== verification/Syncer_Mirror.thy ===== *)
theory Syncer_Mirror
  imports Syncer_Convergence
begin

text \<open>
  What a pass establishes: the mirror. The theory adds to the laws of the two servers that they store what they are
  sent (locale \<open>mirror_env\<close>), and follows one listed object through its pair (locale \<open>mirror_item\<close>), the loop over the
  items and garbage collection. The results are a refinement (after a toHost pass the host's image is the tenant's),
  convergence (a pass that resolves every difference ends in agreement) and stability (agreement is kept, and nothing
  is written). Both locales are interpreted on the engine over two in-memory clusters.
\<close>

section \<open>What is compared, and where a mirror lives\<close>

text \<open>The content of an object as the engine compares it (\<open>ContentEqual_iff\<close>).\<close>

definition content_of :: "uapi \<Rightarrow> obj \<Rightarrow> obj" where
  "content_of U o1 = strip_object (u_GetKind U o1) (contentFrom o1)"

context unstructured_api begin

lemma content_equal: "ContentEqual U a b \<longleftrightarrow> content_of U a = content_of U b"
  by (simp add: ContentEqual_iff content_of_def)

lemma prepared_shape:
  assumes "gvk_wf gvk" "wf_meta o1" "gvk_Kind gvk \<noteq> ''Pod''" "prepare_host U E gvk o1 = Some (Inr (ref, host))"
  shows "u_GetKind U host = gvk_Kind gvk" "contentFrom host = strip_object (gvk_Kind gvk) (contentFrom o1)"
proof -
  obtain h where b: "BuildHostObject U ref (Some o1) = Inr h" and host: "host = u_SetGroupVersionKind U h gvk"
    using assms(3,4) by (auto simp: prepare_host_def Let_def split: if_splits sum.splits)
  show "u_GetKind U host = gvk_Kind gvk" by (simp add: host SetGroupVersionKind GetKind peek_str_def)
  have "contentFrom host = contentFrom h"
    by (rule fmap_ext) (simp add: contentFrom_lookup host SetGroupVersionKind)
  then show "contentFrom host = strip_object (gvk_Kind gvk) (contentFrom o1)"
    using build_host_cases(2) [OF assms(2) b] prepare_host_Inr(2) [OF assms(4)] by (simp add: host_of_content refFor_def)
qed

end

text \<open>
  The objects the mirror theorems are about: no Pods (an update of a Pod keeps the live spec but for a few fields,
  theorem \<open>adopt_pod_fields\<close>), and a Service has a spec that is a map, as every Service an API server accepts.
\<close>

definition mirrorable :: "GroupVersionKind \<Rightarrow> obj \<Rightarrow> bool" where
  "mirrorable gvk o1 \<longleftrightarrow> wf_meta o1 \<and> gvk_Kind gvk \<noteq> ''Pod'' \<and>
     (gvk_Kind gvk = ''Service'' \<longrightarrow> (case fmlookup o1 ''spec'' of Some (VMap _) \<Rightarrow> True | _ \<Rightarrow> False))"

lemma adopt_service_strip:
  "strip_service_spec (adopt_service_spec es ds serviceAllocatedSpecFields) = strip_service_spec ds"
  by (rule fmap_ext) (simp add: strip_service_spec_lookup adopt_service_spec_lookup ports_not_allocated)

context unstructured_api begin

lemma rv_content:
  "contentFrom (u_SetResourceVersion U m r) = contentFrom m" "u_GetKind U (u_SetResourceVersion U m r) = u_GetKind U m"
  "wf_meta m \<Longrightarrow> wf_meta (u_SetResourceVersion U m r)"
proof -
  show "wf_meta m \<Longrightarrow> wf_meta (u_SetResourceVersion U m r)"
    by (simp add: SetResourceVersion set_str_def wf_meta_del put_meta)
  show "contentFrom (u_SetResourceVersion U m r) = contentFrom m"
    by (rule fmap_ext) (auto simp: contentFrom_lookup SetResourceVersion set_str_other)
  show "u_GetKind U (u_SetResourceVersion U m r) = u_GetKind U m"
    by (simp add: GetKind peek_str_def SetResourceVersion set_str_other)
qed

text \<open>Adopting the fields a Service got on the host leaves the compared content alone.\<close>

lemma pushed_content:
  assumes "u_GetKind U e = kind" "u_GetKind U h = kind" "kind \<noteq> ''Pod''"
    and "kind = ''Service'' \<Longrightarrow> fmlookup h ''spec'' = Some (VMap sp)"
  shows "content_of U (the (AdoptHostAllocatedFields U (Some e) (Some (u_SetResourceVersion U h r)))) = content_of U h"
proof -
  let ?d = "u_SetResourceVersion U h r"
  let ?p = "the (AdoptHostAllocatedFields U (Some e) (Some ?d))"
  have k: "u_GetKind U ?p = kind"
    using identity_accessors(4) [OF adopt_identity] rv_content(2) assms(2) by metis
  show ?thesis
  proof (cases "kind = ''Service''")
    case False
    then show ?thesis using assms by (simp add: AdoptHostAllocatedFields_def content_of_def rv_content)
  next
    case True
    have d: "fmlookup ?d ''spec'' = Some (VMap sp)"
      using assms(4) [OF True] by (simp add: SetResourceVersion set_str_other)
    have p: "?p = fmupd ''spec'' (VMap (adopt_service_spec (map_at ''spec'' e) sp serviceAllocatedSpecFields)) ?d"
      using True assms(1) adopt_service_normal [OF d] by (simp add: AdoptHostAllocatedFields_def)
    have "strip_object kind (contentFrom ?p) = strip_object kind (contentFrom ?d)"
    proof (rule fmap_ext)
      fix x
      show "fmlookup (strip_object kind (contentFrom ?p)) x = fmlookup (strip_object kind (contentFrom ?d)) x"
        using d True
        by (cases "x = ''spec''")
          (simp_all add: p strip_object_lookup_other strip_object_spec contentFrom_lookup adopt_service_strip)
    qed
    then show ?thesis using k assms(2) by (simp add: content_of_def rv_content)
  qed
qed

lemma prepared_spec:
  assumes "gvk_wf gvk" "mirrorable gvk o1" "prepare_host U E gvk o1 = Some (Inr (ref, host))" "gvk_Kind gvk = ''Service''"
  shows "\<exists>sp. fmlookup host ''spec'' = Some (VMap sp)"
proof -
  have "fmlookup (contentFrom host) ''spec'' = fmlookup (strip_object ''Service'' (contentFrom o1)) ''spec''"
    using prepared_shape(2) [OF assms(1) _ _ assms(3)] assms(2,4) by (simp add: mirrorable_def)
  then show ?thesis
    using assms(2,4)
    by (auto simp: contentFrom_lookup strip_object_spec mirrorable_def split: option.splits gval.splits)
qed

lemma prepared_content:
  assumes "gvk_wf gvk" "mirrorable gvk o1" "prepare_host U E gvk o1 = Some (Inr (ref, host))" "u_GetKind U o1 = gvk_Kind gvk"
  shows "content_of U host = content_of U o1"
  using prepared_shape [OF assms(1) _ _ assms(3)] assms(2,4)
  by (simp add: content_of_def mirrorable_def)

end

section \<open>Servers that store what they are sent\<close>

text \<open>\<open>stores U a b\<close>: the server was sent \<open>a\<close> and stored \<open>b\<close>. It may fill in status, metadata of its own and the
  fields it allocates for a Service.\<close>

definition stores :: "uapi \<Rightarrow> obj \<Rightarrow> obj \<Rightarrow> bool" where
  "stores U a b \<longleftrightarrow> u_GetLabels U b = u_GetLabels U a \<and> u_GetAnnotations U b = u_GetAnnotations U a \<and>
     content_of U b = content_of U a \<and> (wf_meta a \<longrightarrow> wf_meta b)"

locale mirror_env = engine_env U E hview tview
  for U :: uapi and E :: "'w Engine" and hview :: "'w \<Rightarrow> objkey \<Rightarrow> obj option" and tview :: "'w \<Rightarrow> objkey \<Rightarrow> obj option" +
  assumes host_create_stores: "cl_create (e_HostClient E) o1 w = (Inr o2, w') \<Longrightarrow> stores U o1 o2"
    and host_update_stores: "cl_update (e_HostClient E) o1 w = (Inr o2, w') \<Longrightarrow> stores U o1 o2"
    and tenant_update_stores: "cl_update (e_VirtualClient E) o1 w = (Inr o2, w') \<Longrightarrow> stores U o1 o2"
    and host_kind: "hview w (g, nn) = Some o1 \<Longrightarrow> u_GetKind U o1 = gvk_Kind g"
    and tenant_kind: "tview w (g, nn) = Some o1 \<Longrightarrow> u_GetKind U o1 = gvk_Kind g"
    and no_limit: "e_RateLimiter E = None"

lemma stamp_stores: "stores json_api o1 (stamp n o1)"
  by (simp add: stores_def stamp_def json.rv_accessors content_of_def json.rv_content)

lemma mem_stores:
  "mem_create o1 m = (Inr o2, m') \<Longrightarrow> stores json_api o1 o2" "mem_update o1 m = (Inr o2, m') \<Longrightarrow> stores json_api o1 o2"
  by (auto simp: mem_create_def mem_update_def Let_def stamp_stores split: option.splits if_splits)

lemma mem_view_kind: "mem_view m (g, nn) = Some o1 \<Longrightarrow> u_GetKind json_api o1 = gvk_Kind g"
  by (drule mem_view_key) (auto simp: obj_key_def json_api_def gvk_of_def Let_def)

interpretation world: mirror_env json_api "world_engine T n r False" host_objs tenant_objs
proof (intro mirror_env.intro mirror_env_axioms.intro)
  show "engine_env json_api (world_engine T n r False) host_objs tenant_objs" by (rule demo.engine_env_axioms)
qed (auto simp: host_client_def tenant_client_def lift_call_def mem_client_def mem_view_kind split: prod.splits dest: mem_stores)

section \<open>The outcome of one pair\<close>

definition agree_reason :: string where "agree_reason = ''tenant and host already agree''"

text \<open>The live host object \<open>e\<close> is the engine's mirror of the source \<open>ref\<close> and agrees with the tenant object \<open>v\<close>.\<close>

definition mirrors :: "uapi \<Rightarrow> 'w Engine \<Rightarrow> ResourceRef \<Rightarrow> obj \<Rightarrow> obj \<Rightarrow> bool" where
  "mirrors U E ref v e \<longleftrightarrow> same_source_as U ref e \<and> ContentEqual U v (comparable_host U E ref e)"

text \<open>The passes in which every difference is resolved: all but a bidirectional one without a winner.\<close>

definition decisive :: "string \<Rightarrow> string \<Rightarrow> bool" where
  "decisive direction conflictPolicy \<longleftrightarrow> direction = DirectionToHost \<or> direction = DirectionFromHost \<or>
     direction = DirectionBidirectional \<and> conflictPolicy \<in> {''tenant-wins'', ''host-wins''}"

text \<open>A decision that settles its pair: a write, or a skip because both sides agree.\<close>

definition settles :: "Decision \<Rightarrow> bool" where
  "settles d \<longleftrightarrow> d_Action d = ActionSkip \<longrightarrow> d_Reason d = agree_reason"

lemma comparable_other: "ref_Kind ref \<noteq> ''Pod'' \<Longrightarrow> comparable_host U E ref e = e"
  by (simp add: comparable_host_def)

context unstructured_api begin

lemma built_source:
  assumes "u_GetLabels U e = Some (labels_of ref v)" "u_GetAnnotations U e = Some (annotations_of ref v)"
    and "SanitizeName (ref_TenantCluster ref) = ref_TenantCluster ref"
  shows "same_source_as U ref e"
  using assms by (simp add: same_source_as_def ReverseLookup_def sameSource_def Let_def opt_str_at_def labels_of_at annotations_of_at)

end

context mirror_env begin

lemma unlimited: "run_state (rateLimited E ref target) s = (None, s)"
  by (simp add: rateLimited_def no_limit run_return)

lemma create_run:
  assumes "run_state (create_pair U E dir ref target v h) s = (Inr d, t)"
  shows "\<exists>e. hview (es_world t) (obj_key U h) = Some e \<and> stores U h e" "tview (es_world t) = tview (es_world s)"
    "d_Action d = ActionCreate"
proof -
  obtain e w where u: "cl_create (e_HostClient E) h (es_world s) = (Inr e, w)" and t: "es_world t = w"
    and "d_Action d = ActionCreate"
    using assms
    by (auto simp: create_pair_def run_cases unlimited decision_def Let_def split: prod.splits sum.splits if_splits)
  then show "d_Action d = ActionCreate" by simp
  show "tview (es_world t) = tview (es_world s)" using host_create [OF u] t by simp
  show "\<exists>e. hview (es_world t) (obj_key U h) = Some e \<and> stores U h e"
    using host.create_ok [OF u] host_create_stores [OF u] t by auto
qed

lemma push_run:
  assumes "run_state (pushToHost U E ref target v x h b) s = (Inr d, t)"
  shows "\<exists>e. hview (es_world t) (obj_key U h) = Some e \<and>
      stores U (the (AdoptHostAllocatedFields U (Some x) (Some (u_SetResourceVersion U h (u_GetResourceVersion U x))))) e"
    "tview (es_world t) = tview (es_world s)" "d_Action d = ActionUpdate"
proof -
  let ?p = "the (AdoptHostAllocatedFields U (Some x) (Some (u_SetResourceVersion U h (u_GetResourceVersion U x))))"
  obtain e w where u: "cl_update (e_HostClient E) ?p (es_world s) = (Inr e, w)" and t: "es_world t = w"
    and "d_Action d = ActionUpdate"
    using assms
    by (auto simp: pushToHost_def run_cases unlimited decision_def Let_def split: prod.splits sum.splits if_splits)
  then show "d_Action d = ActionUpdate" by simp
  show "tview (es_world t) = tview (es_world s)" using host_update [OF u] t by simp
  show "\<exists>e. hview (es_world t) (obj_key U h) = Some e \<and> stores U ?p e"
    using host.update_ok [OF u] host_update_stores [OF u] t pushed_identity(1) by auto
qed

lemma pull_run:
  assumes "run_state (pullToTenant U E ref target v x rs b) s = (Inr d, t)"
  shows "\<exists>v'. tview (es_world t) (obj_key U v) = Some v' \<and> stores U (MergeHostContentIntoTenant U x v) v'"
    "hview (es_world t) = hview (es_world s)" "d_Action d = ActionUpdate"
proof -
  obtain v' w where u: "cl_update (e_VirtualClient E) (MergeHostContentIntoTenant U x v) (es_world s) = (Inr v', w)"
    and t: "es_world t = w" and "d_Action d = ActionUpdate"
    using assms
    by (auto simp: pullToTenant_def run_cases unlimited decision_def Let_def split: prod.splits sum.splits if_splits)
  then show "d_Action d = ActionUpdate" by simp
  show "hview (es_world t) = hview (es_world s)" using tenant_update [OF u] t by simp
  show "\<exists>v'. tview (es_world t) (obj_key U v) = Some v' \<and> stores U (MergeHostContentIntoTenant U x v) v'"
    using tenant.update_ok [OF u] tenant_update_stores [OF u] t identity_accessors(1) [OF merge_identity] by auto
qed

text \<open>
  \<open>agreed gvk ref dir s v\<close>: on the host is a mirror of \<open>ref\<close> which the tenant's object under the key of \<open>v\<close> agrees with;
  after a toHost pass it has the labels the transform gave it.
\<close>

definition agreed :: "GroupVersionKind \<Rightarrow> ResourceRef \<Rightarrow> string \<Rightarrow> 'w estate \<Rightarrow> obj \<Rightarrow> bool" where
  "agreed gvk ref dir s v \<longleftrightarrow> (\<exists>v' e. tview (es_world s) (obj_key U v) = Some v' \<and> wf_meta v' \<and>
     hview (es_world s) (mirror_key E gvk ref) = Some e \<and> mirrors U E ref v' e \<and>
     (dir = DirectionToHost \<longrightarrow> u_GetLabels U e = Some (labels_of ref v)))"

end

text \<open>An item of the list of a pass, with the host object prepared for it.\<close>

locale mirror_item = mirror_env U E hview tview
  for U :: uapi and E :: "'w Engine" and hview :: "'w \<Rightarrow> objkey \<Rightarrow> obj option" and tview :: "'w \<Rightarrow> objkey \<Rightarrow> obj option" +
  fixes gvk :: GroupVersionKind and v :: obj and ref :: ResourceRef and h :: obj
  assumes wf: "gvk_wf gvk" and mirrorable: "mirrorable gvk v"
    and prepared: "prepare_host U E gvk v = Some (Inr (ref, h))" and v_kind: "u_GetKind U v = gvk_Kind gvk"
    and clean: "SanitizeName (e_Tenant E) = e_Tenant E"
begin

lemmas v_wf = conjunct1 [OF mirrorable [unfolded mirrorable_def]]
lemmas ident = prepared_identity [OF wf v_wf prepared]
lemmas shape = prepared_shape [OF wf v_wf _ prepared]

lemma not_pod: "gvk_Kind gvk \<noteq> ''Pod''"
  using mirrorable by (simp add: mirrorable_def)

lemma ref_facts: "ref_Kind ref = gvk_Kind gvk" "ref_TenantCluster ref = e_Tenant E"
  using ident(1) by (simp_all add: refFor_def)

lemma h_key: "obj_key U h = mirror_key E gvk ref"
  using ident(2) .

lemma comparable: "comparable_host U E ref e = e"
  using ref_facts(1) not_pod by (simp add: comparable_other)

lemma h_content: "content_of U h = content_of U v"
  using prepared_content [OF wf mirrorable prepared v_kind] .

lemma stored_mirrors:
  assumes "u_GetLabels U e = u_GetLabels U h" "u_GetAnnotations U e = u_GetAnnotations U h" "content_of U e = content_of U h"
  shows "mirrors U E ref v e" "u_GetLabels U e = Some (labels_of ref v)"
  using assms built_source [of e ref v] ident(3,4) clean
  by (simp_all add: mirrors_def content_equal h_content ref_facts comparable)

end

context mirror_item begin

lemma created_agrees:
  assumes "run_state (create_pair U E dir ref target v h) s = (Inr d, t)" "tview (es_world s) (obj_key U v) = Some v"
  shows "agreed gvk ref dir t v"
proof -
  obtain e where "hview (es_world t) (obj_key U h) = Some e" "stores U h e"
    using create_run(1) [OF assms(1)] by blast
  then show ?thesis
    using create_run(2) [OF assms(1)] assms(2) stored_mirrors [of e] h_key
    by (auto simp: agreed_def stores_def v_wf)
qed

lemma pushed_agrees:
  assumes "run_state (pushToHost U E ref target v x h b) s = (Inr d, t)" "tview (es_world s) (obj_key U v) = Some v"
    and "u_GetKind U x = gvk_Kind gvk"
  shows "agreed gvk ref dir t v"
proof -
  let ?p = "the (AdoptHostAllocatedFields U (Some x) (Some (u_SetResourceVersion U h (u_GetResourceVersion U x))))"
  obtain e where e: "hview (es_world t) (obj_key U h) = Some e" "stores U ?p e"
    using push_run(1) [OF assms(1)] by blast
  have "content_of U ?p = content_of U h"
  proof (cases "gvk_Kind gvk = ''Service''")
    case True
    then obtain sp where "fmlookup h ''spec'' = Some (VMap sp)"
      using prepared_spec [OF wf mirrorable prepared] by blast
    then show ?thesis using pushed_content [OF assms(3) shape(1) [OF not_pod] not_pod] by blast
  next
    case False
    then show ?thesis using pushed_content [OF assms(3) shape(1) [OF not_pod] not_pod, of fmempty] by blast
  qed
  then show ?thesis
    using e push_run(2) [OF assms(1)] assms(2) stored_mirrors [of e] h_key pushed_identity(2,3)
    by (auto simp: agreed_def stores_def v_wf)
qed

lemma pulled_agrees:
  assumes "run_state (pullToTenant U E ref target v x rs b) s = (Inr d, t)" "dir \<noteq> DirectionToHost"
    and "hview (es_world s) (obj_key U h) = Some x" "same_source_as U ref x" "u_GetKind U x = gvk_Kind gvk"
  shows "agreed gvk ref dir t v"
proof -
  obtain v' where v': "tview (es_world t) (obj_key U v) = Some v'" "stores U (MergeHostContentIntoTenant U x v) v'"
    using pull_run(1) [OF assms(1)] by blast
  have "wf_meta (MergeHostContentIntoTenant U x v)"
    using v_wf merge_keeps [of "''metadata''"] by (simp add: wf_meta_def)
  moreover have "content_of U v' = content_of U x"
    using v'(2) merge_content_equal [of x v] assms(5) v_kind by (simp add: stores_def content_equal)
  ultimately show ?thesis
    using v' pull_run(2) [OF assms(1)] assms(2-4) h_key
    by (auto simp: agreed_def mirrors_def content_equal comparable stores_def)
qed

lemma skipped_agrees:
  assumes "es_world t = w" "hview w (obj_key U h) = Some x" "same_source_as U ref x"
    and "ContentEqual U v x" "tview w (obj_key U v) = Some v" "dir \<noteq> DirectionToHost"
  shows "agreed gvk ref dir t v"
  using assms h_key by (auto simp: agreed_def mirrors_def comparable v_wf)

lemma conflict_agrees:
  assumes "run_state (reconcileBidirectionalConflict U E cp ref target v x x h) s = (Inr d, t)"
    and "cp \<in> {''tenant-wins'', ''host-wins''}" "dir \<noteq> DirectionToHost" "tview (es_world s) (obj_key U v) = Some v"
    and "hview (es_world s) (obj_key U h) = Some x" "same_source_as U ref x" "u_GetKind U x = gvk_Kind gvk"
  shows "agreed gvk ref dir t v"
  using assms pushed_agrees [OF _ assms(4,7)] pulled_agrees [OF _ assms(3,5,6,7)]
  by (auto simp: reconcileBidirectionalConflict_def)

lemma existing_agrees:
  assumes "run_state (reconcile_existing U E dir cp ref target v h x) s = (Inr d, t)"
    and "settles d" "decisive dir cp" "tview (es_world s) (obj_key U v) = Some v"
    and "hview (es_world s) (obj_key U h) = Some x" "u_GetKind U x = gvk_Kind gvk"
  shows "agreed gvk ref dir t v"
proof -
  have m: "same_source_as U ref x"
    using assms(1,2)
    by (auto simp: reconcile_existing_def run_cases same_source_as_def settles_def decision_def agree_reason_def
        collision_reason_def split: if_splits prod.splits)
  then obtain r where r: "ReverseLookup U (Some x) = (r, True)" "sameSource r ref"
    by (metis (full_types) prod.collapse same_source_as_def)
  consider (push) "dir = DirectionToHost" | (skip) "dir \<noteq> DirectionToHost" "ContentEqual U v x"
    | (pull) "dir = DirectionFromHost" "\<not> ContentEqual U v x"
    | (both) "dir = DirectionBidirectional" "\<not> ContentEqual U v x"
    using assms(3) by (auto simp: decisive_def)
  then show ?thesis
  proof cases
    case push
    then show ?thesis using assms(1) r pushed_agrees [OF _ assms(4,6)] by (simp add: reconcile_existing_def)
  next
    case skip
    then have "es_world t = es_world s"
      using assms(1) r by (auto simp: reconcile_existing_def run_cases Let_def comparable split: if_splits)
    then show ?thesis using skipped_agrees [OF _ assms(5) m skip(2) assms(4) skip(1)] by simp
  next
    case pull
    then show ?thesis using assms(1) r pulled_agrees [OF _ _ assms(5) m assms(6)]
      by (simp add: reconcile_existing_def comparable direction_defs)
  next
    case both
    then show ?thesis using assms(1,3) r conflict_agrees [OF _ _ _ assms(4,5) m assms(6)]
      by (simp add: reconcile_existing_def comparable direction_defs decisive_def)
  qed
qed

lemma pair_agrees:
  assumes "run_state (reconcilePair U E dir cp ref v h) s = (Inr d, t)"
    and "settles d" "decisive dir cp" "tview (es_world s) (obj_key U v) = Some v"
  shows "agreed gvk ref dir t v"
proof -
  obtain got w where g: "cl_get (e_HostClient E) (u_GroupVersionKind U h) (u_GetNamespace U h, u_GetName U h) (es_world s) = (got, w)"
    by fastforce
  note views = host.get_frame [OF g] host_get [OF g]
  show ?thesis
  proof (cases got)
    case (Inl err)
    then show ?thesis
      using assms g views by (auto simp: reconcilePair_def run_cases Let_def split: if_splits intro: created_agrees)
  next
    case (Inr x)
    have x: "hview (es_world s) (obj_key U h) = Some x" using host.get_found g Inr by (simp add: obj_key_def)
    moreover from this have "u_GetKind U x = gvk_Kind gvk"
      using host_kind h_key by (simp add: mirror_key_def)
    ultimately show ?thesis
      using assms g views Inr
      by (auto simp: reconcilePair_def run_cases Let_def intro: existing_agrees)
  qed
qed

end

section \<open>A loop over the items\<close>

text \<open>An item of the list of kind \<open>gvk\<close>, as the server listed it.\<close>

definition item_ok :: "uapi \<Rightarrow> GroupVersionKind \<Rightarrow> obj \<Rightarrow> bool" where
  "item_ok U gvk v \<longleftrightarrow> mirrorable gvk v \<and> u_GroupVersionKind U v = gvk \<and> u_GetKind U v = gvk_Kind gvk"

lemma item_same_source:
  assumes "item_ok U gvk x" "item_ok U gvk v" "same_source_as U (refFor U E k x) e" "same_source_as U (refFor U E k v) e"
  shows "obj_key U x = obj_key U v"
  using assms by (auto simp: item_ok_def same_source_as_def sameSource_def refFor_def obj_key_def)

context mirror_env begin

abbreviation ref_of :: "GroupVersionKind \<Rightarrow> obj \<Rightarrow> ResourceRef" where
  "ref_of gvk v \<equiv> refFor U E (gvk_Kind gvk) v"

lemma agreed_view:
  "hview (es_world t) = hview (es_world s) \<Longrightarrow> tview (es_world t) = tview (es_world s) \<Longrightarrow>
   agreed gvk ref dir t v = agreed gvk ref dir s v"
  by (simp add: agreed_def)

lemma pair_keeps_agreed:
  assumes "run_state (reconcilePair U E dir' cp (ref_of gvk v) v h) s = (p, t)" "agreed gvk (ref_of gvk x) dir s x"
    and "item_ok U gvk x" "item_ok U gvk v" "obj_key U x \<noteq> obj_key U v"
  shows "agreed gvk (ref_of gvk x) dir t x"
proof -
  obtain v' e where a: "tview (es_world s) (obj_key U x) = Some v'" "wf_meta v'"
      "hview (es_world s) (mirror_key E gvk (ref_of gvk x)) = Some e" "mirrors U E (ref_of gvk x) v' e"
      "dir = DirectionToHost \<longrightarrow> u_GetLabels U e = Some (labels_of (ref_of gvk x) x)"
    using assms(2) unfolding agreed_def by blast
  have "\<not> same_source_as U (ref_of gvk v) e"
    using item_same_source [OF assms(3,4)] a(4) assms(5) by (auto simp: mirrors_def)
  then have "hview (es_world t) (mirror_key E gvk (ref_of gvk x)) = Some e"
    using pair_view(2) [OF assms(1) a(3)] by blast
  moreover have "tview (es_world t) (obj_key U x) = Some v'"
    using pair_view(1) [OF assms(1)] a(1) assms(5) by auto
  ultimately show ?thesis using a unfolding agreed_def by blast
qed

lemma sync_items_agree:
  assumes "run_state (sync_items U E res cp items ds es des) s = ((ds', [], des'), t)"
    and "\<And>d. d \<in> set ds' \<Longrightarrow> settles d" "decisive (res_Direction res) cp" "gvk_wf (res_GVK res)"
    and "SanitizeName (e_Tenant E) = e_Tenant E"
    and "\<And>v. v \<in> set items \<Longrightarrow> item_ok U (res_GVK res) v \<and> tview (es_world s) (obj_key U v) = Some v"
    and "distinct (map (obj_key U) items)"
  shows "(\<forall>v \<in> set items. eligible U E (res_GVK res) v \<longrightarrow>
       (\<exists>h. prepare_host U E (res_GVK res) v = Some (Inr (ref_of (res_GVK res) v, h))) \<and>
       agreed (res_GVK res) (ref_of (res_GVK res) v) (res_Direction res) t v) \<and>
     (\<forall>x. item_ok U (res_GVK res) x \<and> obj_key U x \<notin> obj_key U ` set items \<and>
        agreed (res_GVK res) (ref_of (res_GVK res) x) (res_Direction res) s x \<longrightarrow>
        agreed (res_GVK res) (ref_of (res_GVK res) x) (res_Direction res) t x)"
  using assms(1,6,7)
proof (induction items arbitrary: ds es des s)
  case Nil
  then show ?case by (simp add: run_cases)
next
  case (Cons v items)
  let ?g = "res_GVK res" and ?d = "res_Direction res"
  have ok: "item_ok U ?g v" "tview (es_world s) (obj_key U v) = Some v" using Cons.prems(2) by auto
  consider (skipped) "prepare_host U E ?g v = None"
    | (failed) err where "prepare_host U E ?g v = Some (Inl err)"
    | (ready) h where "prepare_host U E ?g v = Some (Inr (ref_of ?g v, h))"
    by (metis option.exhaust sum.exhaust surj_pair prepare_host_Inr(2))
  then show ?case
  proof cases
    case skipped
    then have "run_state (sync_items U E res cp items ds es des) s = ((ds', [], des'), t)"
      using Cons.prems(1) by simp
    moreover have "\<not> eligible U E ?g v" using skipped by (simp add: prepare_host_None)
    ultimately show ?thesis using Cons.IH Cons.prems(2,3) by auto
  next
    case failed
    then show ?thesis
      using Cons.prems(1) by (auto dest!: sync_items_accounted simp: accounted_def)
  next
    case ready
    obtain p u where p: "run_state (reconcilePair U E ?d cp (ref_of ?g v) v h) s = (p, u)"
      by fastforce
    show ?thesis
    proof (cases p)
      case (Inl e)
      then show ?thesis
        using Cons.prems(1) ready p by (auto simp: run_cases Let_def dest!: sync_items_accounted simp: accounted_def)
    next
      case (Inr d)
      obtain u' where r: "run_state (record_decision E d) u = ((), u')"
        by (cases "run_state (record_decision E d) u") auto
      note u' = record_view [OF r]
      have rest: "run_state (sync_items U E res cp items (ds @ [d]) es (fmupd (u_GetName U h) True des)) u' = ((ds', [], des'), t)"
        using Cons.prems(1) ready p r Inr by (auto simp: run_cases Let_def)
      then have "settles d" using assms(2) by (auto dest!: sync_items_accounted simp: accounted_def)
      moreover have item: "mirror_item U E hview tview ?g v (ref_of ?g v) h"
        using ok ready assms(4,5) by unfold_locales (auto simp: item_ok_def)
      ultimately have "agreed ?g (ref_of ?g v) ?d u v"
        using mirror_item.pair_agrees [OF item] p Inr assms(3) ok(2) by blast
      then have v: "agreed ?g (ref_of ?g v) ?d u' v" using u' agreed_view by blast
      have other: "agreed ?g (ref_of ?g x) ?d u' x"
        if "item_ok U ?g x" "obj_key U x \<noteq> obj_key U v" "agreed ?g (ref_of ?g x) ?d s x" for x
        using pair_keeps_agreed [OF p that(3,1) ok(1) that(2)] u' agreed_view by blast
      have items: "item_ok U ?g x \<and> tview (es_world u') (obj_key U x) = Some x" if "x \<in> set items" for x
        using that Cons.prems(2,3) pair_view(1) [OF p] u' by (force simp: image_iff)
      note IH = Cons.IH [OF rest items]
      show ?thesis
        using IH Cons.prems(3) v ok(1) ready other by (auto simp: image_iff)
    qed
  qed
qed

end

section \<open>Agreement of two clusters\<close>

text \<open>
  \<open>converged U E gvk hv tv\<close>: every tenant object that takes part can be built and has its mirror in the host cluster,
  and every host object that garbage collection would look at is named like one of them.
\<close>

definition converged ::
    "uapi \<Rightarrow> 'w Engine \<Rightarrow> GroupVersionKind \<Rightarrow> (objkey \<Rightarrow> obj option) \<Rightarrow> (objkey \<Rightarrow> obj option) \<Rightarrow> bool" where
  "converged U E gvk hv tv \<longleftrightarrow>
     (\<forall>nn v. tv (gvk, nn) = Some v \<and> eligible U E gvk v \<longrightarrow>
        (\<exists>ref h e. prepare_host U E gvk v = Some (Inr (ref, h)) \<and> hv (obj_key U h) = Some e \<and> mirrors U E ref v e)) \<and>
     (\<forall>o1. hv (obj_key U o1) = Some o1 \<and>
        selected U (listGVK gvk) (Some (e_HostNamespace E)) (gc_labels E gvk) o1 \<longrightarrow>
        (\<exists>nn v ref h. tv (gvk, nn) = Some v \<and> prepare_host U E gvk v = Some (Inr (ref, h)) \<and> u_GetName U h = u_GetName U o1))"

lemma listed_kind:
  "selected U (listGVK gvk) n ls o1 \<Longrightarrow> u_GroupVersionKind U o1 = gvk"
  by (cases "u_GroupVersionKind U o1"; cases gvk) (simp add: selected_def listGVK_def list_kind_def)

lemma selected_all: "selected U (listGVK gvk) None [] o1 \<longleftrightarrow> u_GroupVersionKind U o1 = gvk"
  using listed_kind [of U gvk None "[]" o1] by (auto simp: selected_def listGVK_def list_kind_def labels_match_def)

lemma eligible_congr:
  "u_GetNamespace U a = u_GetNamespace U b \<Longrightarrow> u_GetName U a = u_GetName U b \<Longrightarrow> eligible U E gvk a = eligible U E gvk b"
  by (simp add: eligible_def isVirtualInfrastructure_def)

context mirror_item begin

text \<open>The host object of a tenant object depends on its key only, but for the content.\<close>

lemma prepare_again:
  assumes "wf_meta v'" "obj_key U v' = obj_key U v"
  shows "\<exists>h'. prepare_host U E gvk v' = Some (Inr (ref, h')) \<and> obj_key U h' = obj_key U h"
proof -
  have k: "u_GetNamespace U v' = u_GetNamespace U v" "u_GetName U v' = u_GetName U v" using assms(2) by (simp_all add: obj_key_def)
  obtain h0 where "BuildHostObject U ref (Some v) = Inr h0"
    using prepared ident(1) not_pod by (auto simp: prepare_host_def Let_def split: if_splits sum.splits)
  then have "complete_ref ref" using build_host_cases(1) [OF v_wf] by blast
  then have b: "BuildHostObject U ref (Some v') = Inr (host_of ref v')" using host_normal_form [OF assms(1)] by blast
  have "eligible U E gvk v'" using prepare_host_Inr(1) [OF prepared] eligible_congr k by metis
  moreover have "refFor U E (gvk_Kind gvk) v' = ref" using ident(1) k by (simp add: refFor_def)
  ultimately have "prepare_host U E gvk v' = Some (Inr (ref, u_SetGroupVersionKind U (host_of ref v') gvk))"
    using b not_pod by (simp add: prepare_host_def eligible_def Let_def)
  then show ?thesis using prepared_identity(2) [OF wf assms(1)] ident(2) by metis
qed

end

section \<open>A whole pass\<close>

text \<open>The steps of a pass that reports no error.\<close>

lemma pass_parts:
  assumes "run_state (syncPass U E res cp) s = ((ds, None), t)"
    and "cl_list (e_VirtualClient E) (listGVK (res_GVK res)) None [] (es_world s) = (Inr items, w)"
  obtains synced des u gc v where
    "run_state (sync_items U E res cp items [] [] fmempty) (s\<lparr>es_world := w\<rparr>) = ((synced, [], des), u)"
    "run_state (collectOrphans U E (res_GVK res) des) u = ((gc, None), v)"
    "run_state (record_all E gc) v = ((), t)" "ds = synced @ gc"
proof -
  obtain synced es des u where p: "run_state (sync_items U E res cp items [] [] fmempty) (s\<lparr>es_world := w\<rparr>) = ((synced, es, des), u)"
    by (metis prod.collapse)
  obtain gc gerr v where g: "run_state (collectOrphans U E (res_GVK res) des) u = ((gc, gerr), v)"
    by (metis prod.collapse)
  have "es = []" "gerr = None" "run_state (record_all E gc) v = ((), t)" "ds = synced @ gc"
    using assms p g by (auto simp: syncPass_def run_cases aggregate_None split: prod.splits option.splits)
  with p g that show thesis by blast
qed

context mirror_env begin

lemma collect_keeps:
  assumes "run_state (collectOrphans U E gvk des) u = ((gc, err), v)" "bool_at des (snd (snd k))"
  shows "hview (es_world v) k = hview (es_world u) k"
proof (rule ccontr)
  assume "hview (es_world v) k \<noteq> hview (es_world u) k"
  then obtain o1 where "k = obj_key U o1" "\<not> bool_at des (u_GetName U o1)"
    using collect_view(2) [OF assms(1)] by blast
  with assms(2) show False by (simp add: obj_key_def)
qed

lemma listed_items:
  assumes "cl_list (e_VirtualClient E) (listGVK gvk) None [] w0 = (Inr items, w)"
    and "\<forall>v \<in> set items. mirrorable gvk v"
  shows "v \<in> set items \<Longrightarrow> item_ok U gvk v \<and> tview w (obj_key U v) = Some v"
    "tview w0 (gvk, nn) = Some v \<Longrightarrow> v \<in> set items" "distinct (map (obj_key U) items)"
proof -
  have vw: "tview w = tview w0" using tenant.list_frame [OF assms(1)] .
  have set: "set items = {o1. tview w0 (obj_key U o1) = Some o1 \<and> u_GroupVersionKind U o1 = gvk}"
    using tenant.list_items [OF assms(1)] by (simp add: selected_all)
  show "item_ok U gvk v \<and> tview w (obj_key U v) = Some v" if v: "v \<in> set items"
  proof -
    have "tview w0 (obj_key U v) = Some v" "u_GroupVersionKind U v = gvk" using v unfolding set by auto
    moreover from this have "u_GetKind U v = gvk_Kind gvk" using tenant_kind by (simp add: obj_key_def)
    ultimately show ?thesis using assms(2) v vw by (simp add: item_ok_def)
  qed
  show "tview w0 (gvk, nn) = Some v \<Longrightarrow> v \<in> set items"
  proof -
    assume v: "tview w0 (gvk, nn) = Some v"
    then have k: "obj_key U v = (gvk, nn)" by (rule tenant.view_key)
    then have "u_GroupVersionKind U v = gvk" by (simp add: obj_key_def)
    with v k show "v \<in> set items" unfolding set by simp
  qed
  have "inj_on (obj_key U) (set items)"
    unfolding set by (rule inj_onI) (metis (mono_tags, lifting) mem_Collect_eq option.inject)
  then show "distinct (map (obj_key U) items)"
    using tenant.list_distinct [OF assms(1)] by (simp add: distinct_map)
qed

lemma pass_agrees:
  assumes list: "cl_list (e_VirtualClient E) (listGVK (res_GVK res)) None [] (es_world s) = (Inr items, w)"
    and items: "\<forall>v \<in> set items. mirrorable (res_GVK res) v"
    and names: "gvk_wf (res_GVK res)" "SanitizeName (e_Tenant E) = e_Tenant E"
    and run: "run_state (syncPass U E res cp) s = ((ds, None), t)"
    and dec: "decisive (res_Direction res) cp" "\<forall>d \<in> set ds. settles d"
    and v: "v \<in> set items" "eligible U E (res_GVK res) v"
  shows "\<exists>h. prepare_host U E (res_GVK res) v = Some (Inr (ref_of (res_GVK res) v, h))"
    "agreed (res_GVK res) (ref_of (res_GVK res) v) (res_Direction res) t v"
proof -
  let ?g = "res_GVK res"
  obtain synced des u gc x where
    si: "run_state (sync_items U E res cp items [] [] fmempty) (s\<lparr>es_world := w\<rparr>) = ((synced, [], des), u)"
    and go: "run_state (collectOrphans U E ?g des) u = ((gc, None), x)"
    and rec: "run_state (record_all E gc) x = ((), t)" and ds: "ds = synced @ gc"
    using pass_parts [OF run list] by metis
  have ok: "item_ok U ?g a \<and> tview (es_world (s\<lparr>es_world := w\<rparr>)) (obj_key U a) = Some a" if "a \<in> set items" for a
    using listed_items(1) [OF list items that] by simp
  have st: "settles d" if "d \<in> set synced" for d using dec(2) that ds by auto
  have "(\<exists>h. prepare_host U E ?g v = Some (Inr (ref_of ?g v, h))) \<and> agreed ?g (ref_of ?g v) (res_Direction res) u v"
    using sync_items_agree [OF si st dec(1) names ok listed_items(3) [OF list items]] v by blast
  then obtain h where h: "prepare_host U E ?g v = Some (Inr (ref_of ?g v, h))"
    and a: "agreed ?g (ref_of ?g v) (res_Direction res) u v" by blast
  show "\<exists>h. prepare_host U E ?g v = Some (Inr (ref_of ?g v, h))" using h by blast
  have "mirrorable ?g v" using items v(1) by blast
  then have key: "obj_key U h = mirror_key E ?g (ref_of ?g v)"
    using prepared_identity(2) [OF names(1) _ h] by (simp add: mirrorable_def)
  have "u_GetName U h \<in> desired_names U E ?g items" using h v(1) by (auto simp: desired_names_def)
  then have "bool_at des (u_GetName U h)"
    using sync_items_accounted [OF si] by (auto simp: accounted_def bool_at_def)
  then have "hview (es_world x) (mirror_key E ?g (ref_of ?g v)) = hview (es_world u) (mirror_key E ?g (ref_of ?g v))"
    using collect_keeps [OF go, of "obj_key U h"] key by (simp add: obj_key_def)
  moreover have "tview (es_world x) = tview (es_world u)" using collect_view(1) [OF go] .
  moreover note record_all_view [OF rec]
  ultimately show "agreed ?g (ref_of ?g v) (res_Direction res) t v" using a by (simp add: agreed_def)
qed

lemma pass_converges:
  assumes list: "cl_list (e_VirtualClient E) (listGVK (res_GVK res)) None [] (es_world s) = (Inr items, w)"
    and items: "\<forall>v \<in> set items. mirrorable (res_GVK res) v"
    and names: "gvk_wf (res_GVK res)" "SanitizeName (e_Tenant E) = e_Tenant E"
    and run: "run_state (syncPass U E res cp) s = ((ds, None), t)"
    and dec: "decisive (res_Direction res) cp" "\<forall>d \<in> set ds. settles d"
  shows "converged U E (res_GVK res) (hview (es_world t)) (tview (es_world t))"
  unfolding converged_def
proof (intro conjI allI impI; (elim conjE)?)
  let ?g = "res_GVK res"
  note pa = pass_agrees [OF list items names run dec]
  have final: "\<exists>v' h e. tview (es_world t) (obj_key U v) = Some v' \<and> prepare_host U E ?g v' = Some (Inr (ref_of ?g v, h)) \<and>
      hview (es_world t) (obj_key U h) = Some e \<and> mirrors U E (ref_of ?g v) v' e \<and> obj_key U h = mirror_key E ?g (ref_of ?g v)"
    if v: "v \<in> set items" "eligible U E ?g v" for v
  proof -
    obtain h where h: "prepare_host U E ?g v = Some (Inr (ref_of ?g v, h))" using pa(1) [OF v] by blast
    have ok: "item_ok U ?g v" using listed_items(1) [OF list items v(1)] by blast
    obtain v' e where a: "tview (es_world t) (obj_key U v) = Some v'" "wf_meta v'"
      "hview (es_world t) (mirror_key E ?g (ref_of ?g v)) = Some e" "mirrors U E (ref_of ?g v) v' e"
      using pa(2) [OF v] unfolding agreed_def by blast
    have i: "mirror_item U E hview tview ?g v (ref_of ?g v) h"
      using ok h names by unfold_locales (auto simp: item_ok_def)
    show ?thesis
      using mirror_item.prepare_again [OF i a(2)] tenant.view_key [OF a(1)] a mirror_item.h_key [OF i] by metis
  qed
  show "\<exists>ref h e. prepare_host U E ?g v = Some (Inr (ref, h)) \<and> hview (es_world t) (obj_key U h) = Some e \<and> mirrors U E ref v e"
    if v: "tview (es_world t) (?g, nn) = Some v" "eligible U E ?g v" for nn v
  proof -
    have key: "obj_key U v = (?g, nn)" using tenant.view_key [OF v(1)] .
    obtain v0 where v0: "v0 \<in> set items" "obj_key U v0 = (?g, nn)"
    proof (cases "(?g, nn) \<in> obj_key U ` set items")
      case True
      with that show thesis by auto
    next
      case False
      then have "tview (es_world s) (?g, nn) = Some v"
        using pass_view(2) [OF run list] v(1) by simp
      from listed_items(2) [OF list items this] key that show thesis by blast
    qed
    then have "eligible U E ?g v0" using v(2) key eligible_congr [of U v0 v E ?g] by (auto simp: obj_key_def)
    from final [OF v0(1) this] v0(2) v(1) show ?thesis by auto
  qed
  show "\<exists>nn v ref h. tview (es_world t) (?g, nn) = Some v \<and> prepare_host U E ?g v = Some (Inr (ref, h)) \<and> u_GetName U h = u_GetName U o1"
    if o1: "hview (es_world t) (obj_key U o1) = Some o1"
      "selected U (listGVK ?g) (Some (e_HostNamespace E)) (gc_labels E ?g) o1" for o1
  proof -
    have "u_GetName U o1 \<in> desired_names U E ?g items"
      using pass_ghosts [OF list run] o1 no_limit by blast
    then obtain v ref h where v: "v \<in> set items" "prepare_host U E ?g v = Some (Inr (ref, h))" "u_GetName U h = u_GetName U o1"
      unfolding desired_names_def by auto
    from prepare_host_Inr [OF v(2)] have r: "eligible U E ?g v" "ref = ref_of ?g v" by auto
    obtain v' h' where f: "tview (es_world t) (obj_key U v) = Some v'" "prepare_host U E ?g v' = Some (Inr (ref_of ?g v, h'))"
      "obj_key U h' = mirror_key E ?g (ref_of ?g v)"
      using final [OF v(1) r(1)] by blast
    have "obj_key U h = mirror_key E ?g (ref_of ?g v)"
      using prepared_identity(2) [OF names(1) _ v(2)] items v(1) r(2) by (auto simp: mirrorable_def)
    with f(3) v(3) have "u_GetName U h' = u_GetName U o1" by (simp add: obj_key_def mirror_key_def)
    moreover have "obj_key U v = (?g, u_GetNamespace U v, u_GetName U v)"
      using listed_items(1) [OF list items v(1)] by (simp add: item_ok_def obj_key_def)
    ultimately show ?thesis using f(1,2) by metis
  qed
qed

end

section \<open>A pass over agreeing clusters\<close>

lemma gc_items_none:
  "(\<forall>o1 \<in> set items. bool_at des (u_GetName U o1)) \<Longrightarrow> run_state (gc_items U E gvk des items ds es) s = ((ds, es), s)"
  by (induction items) (simp_all add: run_return)

context engine_env begin

lemma agreed_pair_is_skipped:
  assumes "run_state (reconcilePair U E dir cp ref v h) s = (p, t)"
    and "hview (es_world s) (obj_key U h) = Some e" "mirrors U E ref v e" "dir \<in> {DirectionFromHost, DirectionBidirectional}"
  shows "hview (es_world t) = hview (es_world s) \<and> tview (es_world t) = tview (es_world s) \<and>
    (\<forall>d. p = Inr d \<longrightarrow> d_Action d = ActionSkip \<and> d_Reason d = agree_reason)"
proof -
  obtain got w where g: "cl_get (e_HostClient E) (u_GroupVersionKind U h) (u_GetNamespace U h, u_GetName U h) (es_world s) = (got, w)"
    by fastforce
  note views = host.get_frame [OF g] host_get [OF g]
  have key: "(u_GroupVersionKind U h, u_GetNamespace U h, u_GetName U h) = obj_key U h" by (simp add: obj_key_def)
  have dir: "dir \<noteq> DirectionToHost" using assms(4) by (auto simp: direction_defs)
  show ?thesis
  proof (cases got)
    case (Inl err)
    then have "\<not> IsNotFound err" using host.get_missing g assms(2) key by fastforce
    then show ?thesis using assms(1) g Inl views by (auto simp: reconcilePair_def run_cases Let_def)
  next
    case (Inr x)
    then have "x = e" using host.get_found g assms(2) key by fastforce
    then show ?thesis
      using assms(1,3) g Inr views dir
      by (auto simp: reconcilePair_def reconcile_existing_def run_cases Let_def mirrors_def same_source_as_def
          decision_def agree_reason_def split: prod.splits if_splits)
  qed
qed

lemma agreed_items_are_skipped:
  assumes "run_state (sync_items U E res cp items ds es des) s = ((ds', es', des'), t)"
    and "res_Direction res \<in> {DirectionFromHost, DirectionBidirectional}"
    and "\<And>v ref h. v \<in> set items \<Longrightarrow> prepare_host U E (res_GVK res) v = Some (Inr (ref, h)) \<Longrightarrow>
      \<exists>e. hview (es_world s) (obj_key U h) = Some e \<and> mirrors U E ref v e"
    and "\<And>d. d \<in> set ds \<Longrightarrow> d_Action d = ActionSkip \<and> d_Reason d = agree_reason"
  shows "hview (es_world t) = hview (es_world s) \<and> tview (es_world t) = tview (es_world s) \<and>
    (\<forall>d \<in> set ds'. d_Action d = ActionSkip \<and> d_Reason d = agree_reason)"
  using assms(1,3,4)
proof (induction items arbitrary: ds es des s)
  case Nil
  then show ?case by (simp add: run_cases)
next
  case (Cons v items)
  consider (rest) es2 where "run_state (sync_items U E res cp items ds es2 des) s = ((ds', es', des'), t)"
    | (ready) ref h where "prepare_host U E (res_GVK res) v = Some (Inr (ref, h))"
    using Cons.prems(1) by (auto split: option.splits sum.splits)
  then show ?case
  proof cases
    case rest
    show ?thesis by (rule Cons.IH [OF rest Cons.prems(2,3)]) simp_all
  next
    case ready
    obtain e where e: "hview (es_world s) (obj_key U h) = Some e" "mirrors U E ref v e"
      using Cons.prems(2) ready by (meson list.set_intros(1))
    obtain p u where p: "run_state (reconcilePair U E (res_Direction res) cp ref v h) s = (p, u)"
      by fastforce
    note q = agreed_pair_is_skipped [OF p e assms(2)]
    obtain ds2 es2 des2 u' where rest: "run_state (sync_items U E res cp items ds2 es2 des2) u' = ((ds', es', des'), t)"
      and u': "hview (es_world u') = hview (es_world s)" "tview (es_world u') = tview (es_world s)"
      and ds2: "\<forall>d \<in> set ds2. d_Action d = ActionSkip \<and> d_Reason d = agree_reason"
      using Cons.prems(1,3) ready p q
      by (auto simp: run_cases Let_def split: sum.splits prod.splits dest!: record_view)
    show ?thesis
      using Cons.IH [OF rest] Cons.prems(2) u' ds2 by simp
  qed
qed

lemma converged_quiet:
  assumes "converged U E (res_GVK res) (hview (es_world s)) (tview (es_world s))"
    and "res_Direction res \<in> {DirectionFromHost, DirectionBidirectional}"
    and "run_state (syncPass U E res cp) s = ((ds, err), t)"
  shows "hview (es_world t) = hview (es_world s) \<and> tview (es_world t) = tview (es_world s) \<and>
    (\<forall>d \<in> set ds. d_Action d = ActionSkip \<and> d_Reason d = agree_reason)"
proof -
  let ?g = "res_GVK res"
  obtain l w where l: "cl_list (e_VirtualClient E) (listGVK ?g) None [] (es_world s) = (l, w)"
    by fastforce
  note views = tenant.list_frame [OF l] tenant_list [OF l]
  show ?thesis
  proof (cases l)
    case (Inl e)
    then show ?thesis using assms(3) l views by (auto simp: syncPass_def run_cases)
  next
    case (Inr items)
    have items: "set items = {o1. tview (es_world s) (obj_key U o1) = Some o1 \<and> u_GroupVersionKind U o1 = ?g}"
      using tenant.list_items l Inr by (simp add: selected_all)
    obtain synced es des u where p: "run_state (sync_items U E res cp items [] [] fmempty) (s\<lparr>es_world := w\<rparr>) = ((synced, es, des), u)"
      by (metis prod.collapse)
    obtain gc gerr x where g: "run_state (collectOrphans U E ?g des) u = ((gc, gerr), x)"
      by (metis prod.collapse)
    have "\<exists>e. hview w (obj_key U h) = Some e \<and> mirrors U E ref v e"
      if "v \<in> set items" "prepare_host U E ?g v = Some (Inr (ref, h))" for v ref h
    proof -
      have "tview (es_world s) (?g, u_GetNamespace U v, u_GetName U v) = Some v" using that(1) items by (auto simp: obj_key_def)
      then show ?thesis
        using assms(1) that(2) prepare_host_Inr(1) [OF that(2)] views(2) unfolding converged_def by fastforce
    qed
    then have u: "hview (es_world u) = hview w \<and> tview (es_world u) = tview w \<and>
        (\<forall>d \<in> set synced. d_Action d = ActionSkip \<and> d_Reason d = agree_reason)"
      using agreed_items_are_skipped [OF p assms(2)] by simp
    have des: "bool_at des n \<longleftrightarrow> n \<in> desired_names U E ?g items" for n
      using sync_items_accounted [OF p] by (auto simp: accounted_def bool_at_def)
    have orphans: "bool_at des (u_GetName U o1)"
      if o1: "hview w (obj_key U o1) = Some o1" "selected U (listGVK ?g) (Some (e_HostNamespace E)) (gc_labels E ?g) o1" for o1
    proof -
      obtain nn v ref h where v: "tview (es_world s) (?g, nn) = Some v" "prepare_host U E ?g v = Some (Inr (ref, h))"
        "u_GetName U h = u_GetName U o1"
        using conjunct2 [OF assms(1) [unfolded converged_def]] o1 unfolding views(2) by blast
      have "obj_key U v = (?g, nn)" using tenant.view_key [OF v(1)] .
      moreover from this have "u_GroupVersionKind U v = ?g" by (simp add: obj_key_def)
      ultimately have "v \<in> set items" using v(1) unfolding items by simp
      then show ?thesis using v(2,3) unfolding des desired_names_def mem_Collect_eq by metis
    qed
    have "gc = [] \<and> hview (es_world x) = hview w \<and> tview (es_world x) = tview w"
    proof -
      obtain hl y where hl: "cl_list (e_HostClient E) (listGVK ?g) (Some (e_HostNamespace E)) (gc_labels E ?g) (es_world u) = (hl, y)"
        by fastforce
      note hv = host.list_frame [OF hl] host_list [OF hl]
      show ?thesis
      proof (cases hl)
        case (Inl e)
        then show ?thesis using g hl hv u by (auto simp: collectOrphans_def run_cases)
      next
        case (Inr os)
        have "\<forall>o1 \<in> set os. bool_at des (u_GetName U o1)"
          using orphan_listed(1) [OF hl [unfolded Inr]] orphans hv u by simp
        then have none: "run_state (gc_items U E ?g des os [] []) q = (([], []), q)" for q
          by (rule gc_items_none)
        show ?thesis using g hl Inr hv u none by (auto simp: collectOrphans_def run_cases)
      qed
    qed
    then show ?thesis
      using assms(3) l Inr p g u views by (auto simp: syncPass_def run_cases)
  qed
qed

end

section \<open>The two images\<close>

text \<open>
  The abstract states of a resource: what the engine shows of a host cluster (the objects labelled for this tenant and
  kind in the host namespace, by name) and of a tenant cluster (the objects that take part, by host name), each with
  the content that is compared.
\<close>

definition host_image :: "uapi \<Rightarrow> 'w Engine \<Rightarrow> GroupVersionKind \<Rightarrow> (objkey \<Rightarrow> obj option) \<Rightarrow> (string \<times> obj) set" where
  "host_image U E gvk hv =
     {(n, content_of U o1) | n o1. hv (gvk, e_HostNamespace E, n) = Some o1 \<and> labels_match U (gc_labels E gvk) o1}"

definition tenant_image :: "uapi \<Rightarrow> 'w Engine \<Rightarrow> GroupVersionKind \<Rightarrow> (objkey \<Rightarrow> obj option) \<Rightarrow> (string \<times> obj) set" where
  "tenant_image U E gvk tv =
     {(HostName name ns (e_Tenant E), content_of U v) | ns name v. tv (gvk, ns, name) = Some v \<and> eligible U E gvk v}"

lemma built_labels: "u_GetLabels U e = Some (labels_of (refFor U E (gvk_Kind gvk) v) v) \<Longrightarrow> labels_match U (gc_labels E gvk) e"
  by (simp add: labels_match_def gc_labels_def labels_of_def mergeMap_def HostLabels_def refFor_def key_defs)

context mirror_env begin

lemma to_host_keeps_tenant:
  "tview (es_world (snd (run_state (SyncToHost U E res) s))) = tview (es_world s)"
proof -
  have "all_but_tenant_update (\<lambda>w w'. tview w' = tview w) E"
    by (auto simp: all_but_tenant_update_def reflp_def transp_def no_limit recorder
        host_get [OF prod.collapse [symmetric]] host_list [OF prod.collapse [symmetric]]
        tenant.list_frame [OF prod.collapse [symmetric]] host_create [OF prod.collapse [symmetric]]
        host_update [OF prod.collapse [symmetric]] host_delete [OF prod.collapse [symmetric]])
  from to_host_never_writes_the_tenant [OF this] show ?thesis .
qed

lemma to_host_refines:
  assumes list: "cl_list (e_VirtualClient E) (listGVK (res_GVK res)) None [] (es_world s) = (Inr items, w)"
    and items: "\<forall>v \<in> set items. mirrorable (res_GVK res) v"
    and names: "gvk_wf (res_GVK res)" "SanitizeName (e_Tenant E) = e_Tenant E" "SanitizeName (e_HostNamespace E) = e_HostNamespace E"
    and run: "run_state (SyncToHost U E res) s = ((ds, None), t)"
    and settled: "\<forall>d \<in> set ds. settles d"
  shows "host_image U E (res_GVK res) (hview (es_world t)) = tenant_image U E (res_GVK res) (tview (es_world s))"
proof -
  let ?g = "res_GVK res"
  have dir: "res_Direction res = DirectionToHost" and pass: "run_state (syncPass U E res '''') s = ((ds, None), t)"
    using run by (auto simp: SyncToHost_def run_return split: if_splits)
  have dec: "decisive (res_Direction res) ''''" "\<forall>d \<in> set ds. settles d"
    using settled by (simp_all add: decisive_def dir)
  note pa = pass_agrees [OF list items names(1,2) pass dec]
  have tv: "tview (es_world t) = tview (es_world s)" using to_host_keeps_tenant [of res s] run by simp
  have vw: "tview w = tview (es_world s)" using tenant.list_frame [OF list] .
  have mirror: "\<exists>e. hview (es_world t) (?g, e_HostNamespace E, HostName (u_GetName U v) (u_GetNamespace U v) (e_Tenant E)) = Some e \<and>
      content_of U e = content_of U v \<and> labels_match U (gc_labels E ?g) e"
    if v: "v \<in> set items" "eligible U E ?g v" for v
  proof -
    have ok: "item_ok U ?g v" "tview (es_world s) (obj_key U v) = Some v"
      using listed_items(1) [OF list items v(1)] vw by auto
    obtain e where e: "hview (es_world t) (mirror_key E ?g (ref_of ?g v)) = Some e" "mirrors U E (ref_of ?g v) v e"
      "u_GetLabels U e = Some (labels_of (ref_of ?g v) v)"
      using pa(2) [OF v] dir ok(2) tv unfolding agreed_def by auto
    have "ref_Kind (ref_of ?g v) \<noteq> ''Pod''" using ok(1) by (simp add: item_ok_def mirrorable_def refFor_def)
    then have "content_of U e = content_of U v" using e(2) by (simp add: mirrors_def content_equal comparable_other)
    then show ?thesis using e(1) built_labels [OF e(3)] names(3) by (simp add: mirror_key_def refFor_def)
  qed
  show ?thesis
  proof (rule set_eqI, clarify)
    fix n c
    have "\<exists>v \<in> set items. eligible U E ?g v \<and> n = HostName (u_GetName U v) (u_GetNamespace U v) (e_Tenant E)"
      if o1: "hview (es_world t) (?g, e_HostNamespace E, n) = Some o1" "labels_match U (gc_labels E ?g) o1" for o1
    proof -
      have key: "obj_key U o1 = (?g, e_HostNamespace E, n)" using host.view_key [OF o1(1)] .
      then have "selected U (listGVK ?g) (Some (e_HostNamespace E)) (gc_labels E ?g) o1"
        using o1(2) by (simp add: selected_def obj_key_def listGVK_def list_kind_def)
      then have "u_GetName U o1 \<in> desired_names U E ?g items"
        using conjunct1 [OF pass_ghosts [OF list pass]] o1(1) key no_limit by simp
      then have "n \<in> desired_names U E ?g items" using key by (simp add: obj_key_def)
      then obtain v ref h where v: "v \<in> set items" "prepare_host U E ?g v = Some (Inr (ref, h))" "u_GetName U h = n"
        unfolding desired_names_def by auto
      then show ?thesis
        using prepare_host_Inr [OF v(2)] prepared_identity(2) [OF names(1) _ v(2)] items
        by (auto simp: mirrorable_def mirror_key_def obj_key_def refFor_def)
    qed
    then have "(n, c) \<in> host_image U E ?g (hview (es_world t)) \<longleftrightarrow>
        (\<exists>v \<in> set items. eligible U E ?g v \<and> n = HostName (u_GetName U v) (u_GetNamespace U v) (e_Tenant E) \<and> c = content_of U v)"
      using mirror unfolding host_image_def by force
    also have "\<dots> \<longleftrightarrow> (n, c) \<in> tenant_image U E ?g (tview (es_world s))"
    proof -
      have "v \<in> set items \<longleftrightarrow> tview (es_world s) (?g, u_GetNamespace U v, u_GetName U v) = Some v" for v
        using listed_items(1) [OF list items, of v] listed_items(2) [OF list items, of "(u_GetNamespace U v, u_GetName U v)" v] vw
        by (auto simp: item_ok_def obj_key_def)
      moreover have "u_GetNamespace U v = ns \<and> u_GetName U v = name" if "tview (es_world s) (?g, ns, name) = Some v" for ns name v
        using tenant.view_key [OF that] by (simp add: obj_key_def)
      ultimately show ?thesis unfolding tenant_image_def by blast
    qed
    finally show "(n, c) \<in> host_image U E ?g (hview (es_world t)) \<longleftrightarrow> (n, c) \<in> tenant_image U E ?g (tview (es_world s))" .
  qed
qed

end

section \<open>A pass over a concrete tenant\<close>

definition demo_mirror :: obj where
  "demo_mirror = u_SetGroupVersionKind json_api (host_of shop_ref demo_config) demo_gvk"

abbreviation demo_engine :: "Decision clusters Engine" where
  "demo_engine \<equiv> world_engine ''dev'' ''team'' '''' False"

lemma demo_names: "SanitizeName ''dev'' = ''dev''" "SanitizeName ''team'' = ''team''"
  by (simp_all add: SanitizeName_id dns_safe_def inner_dashes_def dns_char_def)

lemma demo_prepared: "prepare_host json_api demo_engine demo_gvk demo_config = Some (Inr (shop_ref, demo_mirror))"
proof -
  have r: "refFor json_api demo_engine (gvk_Kind demo_gvk) demo_config = shop_ref"
    by (simp add: refFor_def shop_ref_def demo_config_facts demo_gvk_def)
  have b: "BuildHostObject json_api shop_ref (Some demo_config) = Inr (host_of shop_ref demo_config)"
    by (rule json.host_normal_form) (simp_all add: demo_config_facts complete_ref_def shop_ref_def)
  show ?thesis
    unfolding prepare_host_def r Let_def b
    by (simp add: demo_config_facts demo_gvk_def skip_def bool_at_def defaultSkipNamespaces_def
        isVirtualInfrastructure_def) (simp add: demo_mirror_def demo_gvk_def)
qed

lemma demo_mirrorable: "mirrorable demo_gvk demo_config"
  by (simp add: mirrorable_def demo_config_facts demo_gvk_def)

interpretation config: mirror_item json_api demo_engine host_objs tenant_objs demo_gvk demo_config shop_ref demo_mirror
  by unfold_locales
    (simp_all add: demo_gvk_wf demo_mirrorable demo_prepared demo_config_facts demo_names, simp add: demo_gvk_def)

lemma demo_mirror_key: "obj_key json_api demo_mirror = (demo_gvk, ''team'', HostName ''app'' ''shop'' ''dev'')"
  by (simp add: config.h_key mirror_key_def demo_names shop_ref_def)

definition demo_created :: Decision where
  "demo_created = decision ActionCreate shop_ref \<lparr>ht_Namespace = ''team'', ht_Name = HostName ''app'' ''shop'' ''dev''\<rparr>
     ''virtual object has no host counterpart yet''"

lemma demo_pair:
  "\<exists>u. run_state (reconcilePair json_api demo_engine dir cp shop_ref demo_config demo_mirror) (demo_state [] [demo_config]) =
      (Inr demo_created, u) \<and> m_objs (c_host (es_world u)) = [stamp 5 demo_mirror]"
proof -
  let ?s = "demo_state [] [demo_config]"
  note k = demo_mirror_key [unfolded obj_key_def, simplified]
  have get: "cl_get host_client demo_gvk (''team'', HostName ''app'' ''shop'' ''dev'') (es_world ?s) = (Inl not_found, es_world ?s)"
    by (simp add: host_client_def lift_call_def mem_client_def mem_get_def demo_state_def mem_view_def)
  have create: "cl_create host_client demo_mirror (es_world ?s) =
      (Inr (stamp 5 demo_mirror), (es_world ?s)\<lparr>c_host := \<lparr>m_objs = [stamp 5 demo_mirror], m_rv = 6\<rparr>\<rparr>)"
    by (simp add: host_client_def lift_call_def mem_client_def mem_create_def demo_state_def mem_view_def Let_def)
  have nf: "IsNotFound not_found" by (simp add: IsNotFound_def not_found_def)
  show ?thesis
    unfolding reconcilePair_def create_pair_def run_cases world.unlimited Let_def world_engine_fields
    by (simp add: k get nf create world.unlimited run_cases demo_created_def)
qed

lemma demo_collect:
  assumes "m_objs (c_host (es_world u)) = [stamp 5 demo_mirror]"
    and "bool_at des (HostName ''app'' ''shop'' ''dev'')"
  shows "run_state (collectOrphans json_api demo_engine demo_gvk des) u = (([], None), u)"
proof -
  let ?os = "remdups (filter (\<lambda>o1. mem_view (c_host (es_world u)) (obj_key json_api o1) = Some o1 \<and>
      selected json_api (listGVK demo_gvk) (Some ''team'') (gc_labels demo_engine demo_gvk) o1) [stamp 5 demo_mirror])"
  have list: "cl_list host_client (listGVK demo_gvk) (Some ''team'') (gc_labels demo_engine demo_gvk) (es_world u) = (Inr ?os, es_world u)"
    by (simp add: host_client_def lift_call_def mem_client_def mem_list_def assms(1) del: filter.simps)
  have "u_GetName json_api (stamp 5 demo_mirror) = HostName ''app'' ''shop'' ''dev''"
    using demo_mirror_key by (simp add: stamp_def json.rv_accessors obj_key_def)
  then have "\<forall>o1 \<in> set ?os. bool_at des (u_GetName json_api o1)" using assms(2) by simp
  then have "run_state (gc_items json_api demo_engine demo_gvk des ?os [] []) u = (([], []), u)"
    by (rule gc_items_none)
  then show ?thesis
    by (simp add: collectOrphans_def run_cases list aggregate_def del: filter.simps)
qed

lemma demo_pass:
  "\<exists>t. run_state (syncPass json_api demo_engine (demo_res dir) cp) (demo_state [] [demo_config]) = (([demo_created], None), t)"
proof -
  let ?s = "demo_state [] [demo_config]"
  have name: "u_GetName json_api demo_mirror = HostName ''app'' ''shop'' ''dev''"
    using demo_mirror_key by (simp add: obj_key_def)
  have list: "cl_list tenant_client (listGVK demo_gvk) None [] (es_world ?s) = (Inr [demo_config], es_world ?s)"
    using demo_list by simp
  obtain u where u: "run_state (reconcilePair json_api demo_engine dir cp shop_ref demo_config demo_mirror) ?s = (Inr demo_created, u)"
    "m_objs (c_host (es_world u)) = [stamp 5 demo_mirror]"
    using demo_pair by blast
  have "run_state (collectOrphans json_api demo_engine demo_gvk (fmupd (HostName ''app'' ''shop'' ''dev'') True fmempty))
      (u\<lparr>es_world := log_decision demo_created (es_world u)\<rparr>) =
      (([], None), u\<lparr>es_world := log_decision demo_created (es_world u)\<rparr>)"
    by (rule demo_collect) (simp_all add: u(2) log_decision_def bool_at_def)
  then show ?thesis
    by (simp add: syncPass_def run_cases demo_res_def list demo_prepared Let_def name u(1) record_decision_def aggregate_def)
qed

section \<open>No name is taken\<close>

context mirror_item begin

lemma conflict_settles:
  assumes "run_state (reconcileBidirectionalConflict U E cp ref target v x c h) s = (Inr d, t)"
    and "cp \<in> {''tenant-wins'', ''host-wins''}"
  shows "settles d"
  using assms push_run(3) [of ref target v x h True s d t] pull_run(3) [of ref target v c host_wins_reason True s d t]
  by (auto simp: reconcileBidirectionalConflict_def settles_def action_defs)

lemma existing_settles:
  assumes "run_state (reconcile_existing U E dir cp ref target v h x) s = (Inr d, t)"
    and "same_source_as U ref x" "decisive dir cp"
  shows "settles d"
proof -
  obtain r where r: "ReverseLookup U (Some x) = (r, True)" "sameSource r ref"
    using assms(2) by (metis (full_types) prod.collapse same_source_as_def)
  consider (push) "dir = DirectionToHost" | (skip) "dir \<noteq> DirectionToHost" "ContentEqual U v x"
    | (pull) "dir = DirectionFromHost" "\<not> ContentEqual U v x"
    | (both) "dir = DirectionBidirectional" "\<not> ContentEqual U v x"
    using assms(3) by (auto simp: decisive_def)
  then show ?thesis
  proof cases
    case push
    then show ?thesis using assms(1) r push_run(3) [of ref target v x h False s d t]
      by (simp add: reconcile_existing_def settles_def action_defs)
  next
    case skip
    then show ?thesis
      using assms(1) r by (auto simp: reconcile_existing_def run_cases Let_def comparable settles_def decision_def agree_reason_def
          split: prod.splits)
  next
    case pull
    then show ?thesis using assms(1) r pull_run(3) [of ref target v x _ False s d t]
      by (simp add: reconcile_existing_def comparable direction_defs settles_def action_defs)
  next
    case both
    then show ?thesis using assms(1,3) r conflict_settles
      by (simp add: reconcile_existing_def comparable direction_defs decisive_def)
  qed
qed

lemma pair_settles:
  assumes "run_state (reconcilePair U E dir cp ref v h) s = (Inr d, t)" "decisive dir cp"
    and "\<And>e. hview (es_world s) (obj_key U h) = Some e \<Longrightarrow> same_source_as U ref e"
  shows "settles d"
proof -
  obtain got w where g: "cl_get (e_HostClient E) (u_GroupVersionKind U h) (u_GetNamespace U h, u_GetName U h) (es_world s) = (got, w)"
    by fastforce
  show ?thesis
  proof (cases got)
    case (Inl err)
    then show ?thesis
      using assms(1) g create_run(3) [of dir ref _ v h _ d t]
      by (auto simp: reconcilePair_def run_cases Let_def settles_def action_defs split: if_splits)
  next
    case (Inr x)
    then have "hview (es_world s) (obj_key U h) = Some x" using host.get_found g by (simp add: obj_key_def)
    from assms(3) [OF this] show ?thesis
      using assms(1,2) g Inr by (auto simp: reconcilePair_def run_cases Let_def intro: existing_settles)
  qed
qed

end

context mirror_env begin

lemma sync_items_settle:
  assumes "run_state (sync_items U E res cp items ds es des) s = ((ds', es', des'), t)"
    and "decisive (res_Direction res) cp" "gvk_wf (res_GVK res)" "SanitizeName (e_Tenant E) = e_Tenant E"
    and "\<forall>v \<in> set items. item_ok U (res_GVK res) v" "\<forall>d \<in> set ds. settles d"
    and "\<forall>v \<in> set items. eligible U E (res_GVK res) v \<longrightarrow>
      (\<forall>e. hview (es_world s) (mirror_key E (res_GVK res) (ref_of (res_GVK res) v)) = Some e \<longrightarrow>
        same_source_as U (ref_of (res_GVK res) v) e)"
    and "distinct (map (\<lambda>v. mirror_key E (res_GVK res) (ref_of (res_GVK res) v)) (filter (eligible U E (res_GVK res)) items))"
  shows "\<forall>d \<in> set ds'. settles d"
  using assms(1,5-8)
proof (induction items arbitrary: ds es des s)
  case Nil
  then show ?case by (simp add: run_cases)
next
  case (Cons v items)
  let ?g = "res_GVK res" and ?d = "res_Direction res"
  have rest: "\<forall>x \<in> set items. item_ok U ?g x"
    "\<forall>x \<in> set items. eligible U E ?g x \<longrightarrow> (\<forall>e. hview (es_world s) (mirror_key E ?g (ref_of ?g x)) = Some e \<longrightarrow>
        same_source_as U (ref_of ?g x) e)"
    "distinct (map (\<lambda>v. mirror_key E ?g (ref_of ?g v)) (filter (eligible U E ?g) items))"
    using Cons.prems(2,4,5) by (auto split: if_splits)
  consider (go) es2 where "run_state (sync_items U E res cp items ds es2 des) s = ((ds', es', des'), t)"
    | (ready) h where "prepare_host U E ?g v = Some (Inr (ref_of ?g v, h))"
    using Cons.prems(1) by (auto split: option.splits sum.splits dest: prepare_host_Inr(2))
  then show ?case
  proof cases
    case go
    show ?thesis by (rule Cons.IH [OF go rest(1) Cons.prems(3) rest(2,3)])
  next
    case ready
    have el: "eligible U E ?g v" using prepare_host_Inr(1) [OF ready] .
    have item: "mirror_item U E hview tview ?g v (ref_of ?g v) h"
      using Cons.prems(2) ready assms(3,4) by unfold_locales (auto simp: item_ok_def)
    note key = mirror_item.h_key [OF item]
    obtain p u where p: "run_state (reconcilePair U E ?d cp (ref_of ?g v) v h) s = (p, u)"
      by fastforce
    have st: "settles d" if "p = Inr d" for d
      using mirror_item.pair_settles [OF item] p that assms(2) Cons.prems(4) el key by auto
    obtain ds2 es2 des2 u' where go: "run_state (sync_items U E res cp items ds2 es2 des2) u' = ((ds', es', des'), t)"
      and u': "hview (es_world u') = hview (es_world u)" and ds2: "\<forall>d \<in> set ds2. settles d"
      using Cons.prems(1,3) ready p st
      by (auto simp: run_cases Let_def split: sum.splits prod.splits dest!: record_view)
    have "hview (es_world u') (mirror_key E ?g (ref_of ?g x)) = hview (es_world s) (mirror_key E ?g (ref_of ?g x))"
      if "x \<in> set items" "eligible U E ?g x" for x
    proof -
      have "mirror_key E ?g (ref_of ?g x) \<noteq> obj_key U h" using Cons.prems(5) el that key by (auto simp: image_iff)
      then show ?thesis using pair_view(1) [OF p] u' by simp
    qed
    then have "\<forall>x \<in> set items. eligible U E ?g x \<longrightarrow> (\<forall>e. hview (es_world u') (mirror_key E ?g (ref_of ?g x)) = Some e \<longrightarrow>
        same_source_as U (ref_of ?g x) e)"
      using rest(2) by simp
    from Cons.IH [OF go rest(1) ds2 this rest(3)] show ?thesis .
  qed
qed

lemma gc_items_settle:
  "run_state (gc_items U E gvk des items ds es) s = ((ds', es'), t) \<Longrightarrow> \<forall>d \<in> set ds. settles d \<Longrightarrow> \<forall>d \<in> set ds'. settles d"
proof (induction items arbitrary: ds es s)
  case Nil
  then show ?case by (simp add: run_cases)
next
  case (Cons o1 items)
  obtain ds2 es2 u where "run_state (gc_items U E gvk des items ds2 es2) u = ((ds', es'), t)" "\<forall>d \<in> set ds2. settles d"
    using Cons.prems by (auto simp: run_cases unlimited Let_def settles_def action_defs split: if_splits prod.splits)
  then show ?case by (rule Cons.IH)
qed

end

text \<open>
  \<open>unclaimed U E gvk hv tv\<close>: the host name of an eligible tenant object is free or taken by its own mirror, and no other
  eligible object of the kind has the same host name. \<open>mirrorable_tenant\<close>: every object of the kind is mirrorable.
\<close>

definition unclaimed ::
    "uapi \<Rightarrow> 'w Engine \<Rightarrow> GroupVersionKind \<Rightarrow> (objkey \<Rightarrow> obj option) \<Rightarrow> (objkey \<Rightarrow> obj option) \<Rightarrow> bool" where
  "unclaimed U E gvk hv tv \<longleftrightarrow>
     (\<forall>nn v. tv (gvk, nn) = Some v \<and> eligible U E gvk v \<longrightarrow>
        (\<forall>e. hv (mirror_key E gvk (refFor U E (gvk_Kind gvk) v)) = Some e \<longrightarrow>
           same_source_as U (refFor U E (gvk_Kind gvk) v) e) \<and>
        (\<forall>nn' v'. tv (gvk, nn') = Some v' \<and> eligible U E gvk v' \<and>
           mirror_key E gvk (refFor U E (gvk_Kind gvk) v') = mirror_key E gvk (refFor U E (gvk_Kind gvk) v) \<longrightarrow> nn' = nn))"

definition mirrorable_tenant :: "GroupVersionKind \<Rightarrow> (objkey \<Rightarrow> obj option) \<Rightarrow> bool" where
  "mirrorable_tenant gvk tv \<longleftrightarrow> (\<forall>nn v. tv (gvk, nn) = Some v \<longrightarrow> mirrorable gvk v)"

lemma unclaimed_own:
  "unclaimed U E gvk hv tv \<Longrightarrow> tv (gvk, nn) = Some v \<Longrightarrow> eligible U E gvk v \<Longrightarrow>
   hv (mirror_key E gvk (refFor U E (gvk_Kind gvk) v)) = Some e \<Longrightarrow> same_source_as U (refFor U E (gvk_Kind gvk) v) e"
  unfolding unclaimed_def by blast

lemma unclaimed_inj:
  assumes "unclaimed U E gvk hv tv" "tv (gvk, nn) = Some v" "eligible U E gvk v" "tv (gvk, nn') = Some v'" "eligible U E gvk v'"
    and "mirror_key E gvk (refFor U E (gvk_Kind gvk) v') = mirror_key E gvk (refFor U E (gvk_Kind gvk) v)"
  shows "nn' = nn"
  using assms unfolding unclaimed_def by blast

lemma pass_lists:
  "run_state (syncPass U E res cp) s = ((ds, None), t) \<Longrightarrow>
     \<exists>items w. cl_list (e_VirtualClient E) (listGVK (res_GVK res)) None [] (es_world s) = (Inr items, w)"
  by (cases "cl_list (e_VirtualClient E) (listGVK (res_GVK res)) None [] (es_world s)")
    (auto simp: syncPass_def run_cases split: sum.splits)

context mirror_env begin

lemma listed_mirrorable:
  assumes "cl_list (e_VirtualClient E) (listGVK gvk) None [] w0 = (Inr items, w)" "mirrorable_tenant gvk (tview w0)"
  shows "\<forall>v \<in> set items. mirrorable gvk v"
proof
  fix v assume "v \<in> set items"
  then have "tview w0 (obj_key U v) = Some v" "u_GroupVersionKind U v = gvk"
    using tenant.list_items [OF assms(1)] by (auto simp: selected_all)
  then show "mirrorable gvk v" using assms(2) by (simp add: mirrorable_tenant_def obj_key_def)
qed

lemma unclaimed_settles:
  assumes list: "cl_list (e_VirtualClient E) (listGVK (res_GVK res)) None [] (es_world s) = (Inr items, w)"
    and items: "\<forall>v \<in> set items. mirrorable (res_GVK res) v"
    and names: "gvk_wf (res_GVK res)" "SanitizeName (e_Tenant E) = e_Tenant E"
    and run: "run_state (syncPass U E res cp) s = ((ds, None), t)" "decisive (res_Direction res) cp"
    and free: "unclaimed U E (res_GVK res) (hview (es_world s)) (tview (es_world s))"
  shows "\<forall>d \<in> set ds. settles d"
proof -
  let ?g = "res_GVK res"
  obtain synced des u gc x where
    si: "run_state (sync_items U E res cp items [] [] fmempty) (s\<lparr>es_world := w\<rparr>) = ((synced, [], des), u)"
    and go: "run_state (collectOrphans U E ?g des) u = ((gc, None), x)" and ds: "ds = synced @ gc"
    using pass_parts [OF run(1) list] by metis
  have vw: "hview w = hview (es_world s)" "tview w = tview (es_world s)"
    using tenant.list_frame [OF list] tenant_list [OF list] by auto
  have ok: "\<forall>v \<in> set items. item_ok U ?g v" using listed_items(1) [OF list items] by blast
  have held: "tview (es_world s) (?g, u_GetNamespace U v, u_GetName U v) = Some v" if "v \<in> set items" for v
    using listed_items(1) [OF list items that] vw by (auto simp: item_ok_def obj_key_def)
  have own: "\<forall>v \<in> set items. eligible U E ?g v \<longrightarrow> (\<forall>e. hview w (mirror_key E ?g (ref_of ?g v)) = Some e \<longrightarrow>
      same_source_as U (ref_of ?g v) e)"
    using unclaimed_own [OF free held] vw by simp
  have "inj_on (\<lambda>v. mirror_key E ?g (ref_of ?g v)) (set (filter (eligible U E ?g) items))"
  proof (rule inj_onI)
    fix a b assume ab: "a \<in> set (filter (eligible U E ?g) items)" "b \<in> set (filter (eligible U E ?g) items)"
      "mirror_key E ?g (ref_of ?g a) = mirror_key E ?g (ref_of ?g b)"
    then have ab': "a \<in> set items" "eligible U E ?g a" "b \<in> set items" "eligible U E ?g b" by auto
    have "(u_GetNamespace U a, u_GetName U a) = (u_GetNamespace U b, u_GetName U b)"
      by (rule unclaimed_inj [OF free held [OF ab'(3)] ab'(4) held [OF ab'(1)] ab'(2) ab(3)])
    then have "tview (es_world s) (?g, u_GetNamespace U a, u_GetName U a) = tview (es_world s) (?g, u_GetNamespace U b, u_GetName U b)"
      by (simp only:)
    then show "a = b" unfolding held [OF ab'(1)] held [OF ab'(3)] by (rule option.inject [THEN iffD1])
  qed
  then have d: "distinct (map (\<lambda>v. mirror_key E ?g (ref_of ?g v)) (filter (eligible U E ?g) items))"
    using tenant.list_distinct [OF list] by (simp add: distinct_map)
  have own': "\<forall>v \<in> set items. eligible U E ?g v \<longrightarrow>
      (\<forall>e. hview (es_world (s\<lparr>es_world := w\<rparr>)) (mirror_key E ?g (ref_of ?g v)) = Some e \<longrightarrow> same_source_as U (ref_of ?g v) e)"
    using own by simp
  have "\<forall>d \<in> set synced. settles d"
    by (rule sync_items_settle [OF si run(2) names ok _ own' d]) simp
  moreover have "\<forall>d \<in> set gc. settles d"
  proof -
    obtain l y where l: "cl_list (e_HostClient E) (listGVK ?g) (Some (e_HostNamespace E)) (gc_labels E ?g) (es_world u) = (l, y)"
      by fastforce
    then obtain os es' where "run_state (gc_items U E ?g des os [] []) (u\<lparr>es_world := y\<rparr>) = ((gc, es'), x)"
      using go by (cases l) (auto simp: collectOrphans_def run_cases split: prod.splits)
    then show ?thesis by (rule gc_items_settle) simp
  qed
  ultimately show ?thesis by (auto simp: ds)
qed

end

section \<open>Properties\<close>

text \<open>Property C6 (a toHost pass makes the host the image of the tenant). Take tenant objects of a kind other than Pod whose
  host names are free or taken by their own mirrors, names that sanitising leaves alone, and no rate limit. If a pass
  reports no error, the tenant is unchanged, and the host objects labelled for this tenant and kind in the host
  namespace are, by name and compared content, exactly what the tenant's eligible objects prescribe: nothing missing,
  nothing stale, nothing extra.\<close>

theorem to_host_pass_is_the_mirror:
  assumes "mirror_env U E hview tview" "gvk_wf (res_GVK res)"
    and "SanitizeName (e_Tenant E) = e_Tenant E" "SanitizeName (e_HostNamespace E) = e_HostNamespace E"
    and "mirrorable_tenant (res_GVK res) (tview (es_world s))"
    and "unclaimed U E (res_GVK res) (hview (es_world s)) (tview (es_world s))"
    and "run_state (SyncToHost U E res) s = ((ds, None), t)"
  shows "host_image U E (res_GVK res) (hview (es_world t)) = tenant_image U E (res_GVK res) (tview (es_world s)) \<and>
     tview (es_world t) = tview (es_world s)"
proof -
  have dir: "res_Direction res = DirectionToHost" and pass: "run_state (syncPass U E res '''') s = ((ds, None), t)"
    using assms(7) by (auto simp: SyncToHost_def run_return split: if_splits)
  obtain items w where l: "cl_list (e_VirtualClient E) (listGVK (res_GVK res)) None [] (es_world s) = (Inr items, w)"
    using pass_lists [OF pass] by blast
  note m = mirror_env.listed_mirrorable [OF assms(1) l assms(5)]
  have dec: "decisive (res_Direction res) ''''" by (simp add: dir decisive_def)
  note settled = mirror_env.unclaimed_settles [OF assms(1) l m assms(2,3) pass dec assms(6)]
  show ?thesis
    using mirror_env.to_host_refines [OF assms(1) l m assms(2-4,7) settled]
      mirror_env.to_host_keeps_tenant [OF assms(1), of res s] assms(7) by simp
qed

lemma demo_views:
  "host_objs (es_world (demo_state [] ts)) k = None"
  "tenant_objs (es_world (demo_state hs [demo_config])) k = (if k = (demo_gvk, ''shop'', ''app'') then Some demo_config else None)"
  by (simp_all add: demo_state_def mem_view_def demo_config_facts)

lemma demo_unclaimed:
  "unclaimed json_api demo_engine demo_gvk (host_objs (es_world (demo_state [] [demo_config])))
     (tenant_objs (es_world (demo_state [] [demo_config])))"
  "mirrorable_tenant demo_gvk (tenant_objs (es_world (demo_state [] [demo_config])))"
  by (auto simp: unclaimed_def mirrorable_tenant_def demo_views demo_mirrorable split: if_splits)

theorem to_host_pass_is_the_mirror_witness:
  "\<exists>ds t. run_state (SyncToHost json_api demo_engine (demo_res DirectionToHost)) (demo_state [] [demo_config]) = ((ds, None), t) \<and>
     host_image json_api demo_engine demo_gvk (host_objs (es_world t)) =
     tenant_image json_api demo_engine demo_gvk (tenant_objs (es_world (demo_state [] [demo_config])))"
proof -
  obtain t where t: "run_state (SyncToHost json_api demo_engine (demo_res DirectionToHost)) (demo_state [] [demo_config]) =
      (([demo_created], None), t)"
    using demo_pass [of DirectionToHost "''''"] by (auto simp: SyncToHost_def demo_res_def)
  from to_host_pass_is_the_mirror [OF world.mirror_env_axioms _ _ _ _ _ t] t show ?thesis
    by (auto simp: demo_res_def demo_gvk_wf demo_names demo_unclaimed)
qed

text \<open>Property C7 (a decisive pass converges). Take tenant objects of a kind other than Pod whose host names are free or taken by
  their own mirrors. A pass that resolves every difference (toHost, fromHost, or bidirectional with a winning side) and
  reports no error ends in agreement: every eligible tenant object, as the pass left it, has its mirror on the host with
  equal content, every object garbage collection would look at is named like one, and the pass skipped only what already
  agreed.\<close>

theorem decisive_pass_converges:
  assumes "mirror_env U E hview tview" "gvk_wf (res_GVK res)" "SanitizeName (e_Tenant E) = e_Tenant E"
    and "mirrorable_tenant (res_GVK res) (tview (es_world s))"
    and "unclaimed U E (res_GVK res) (hview (es_world s)) (tview (es_world s))"
    and "decisive (res_Direction res) conflictPolicy"
    and "run_state (syncPass U E res conflictPolicy) s = ((ds, None), t)"
  shows "converged U E (res_GVK res) (hview (es_world t)) (tview (es_world t)) \<and>
     (\<forall>d \<in> set ds. d_Action d = ActionSkip \<longrightarrow> d_Reason d = agree_reason)"
proof -
  obtain items w where l: "cl_list (e_VirtualClient E) (listGVK (res_GVK res)) None [] (es_world s) = (Inr items, w)"
    using pass_lists [OF assms(7)] by blast
  note m = mirror_env.listed_mirrorable [OF assms(1) l assms(4)]
  note settled = mirror_env.unclaimed_settles [OF assms(1) l m assms(2,3,7,6,5)]
  show ?thesis
    using mirror_env.pass_converges [OF assms(1) l m assms(2,3,7,6) settled] settled by (simp add: settles_def)
qed

theorem decisive_pass_converges_witness:
  "\<exists>ds t. run_state (syncPass json_api demo_engine (demo_res DirectionBidirectional) ''tenant-wins'') (demo_state [] [demo_config])
       = ((ds, None), t) \<and> converged json_api demo_engine demo_gvk (host_objs (es_world t)) (tenant_objs (es_world t))"
proof -
  obtain t where t: "run_state (syncPass json_api demo_engine (demo_res DirectionBidirectional) ''tenant-wins'')
      (demo_state [] [demo_config]) = (([demo_created], None), t)"
    using demo_pass by blast
  have "decisive (res_Direction (demo_res DirectionBidirectional)) ''tenant-wins''"
    by (simp add: decisive_def demo_res_def)
  from decisive_pass_converges [OF world.mirror_env_axioms _ _ _ _ this t] t show ?thesis
    by (auto simp: demo_res_def demo_gvk_wf demo_names demo_unclaimed)
qed

text \<open>Property C8 (agreement is stable). Over two clusters that have converged, a fromHost or bidirectional pass under any
  conflict policy, with or without a rate limit and with a required runtime class, changes no object of either
  cluster and decides for every pair that both sides agree.\<close>

theorem converged_pass_is_quiet:
  assumes "engine_env U E hview tview" "converged U E (res_GVK res) (hview (es_world s)) (tview (es_world s))"
    and "res_Direction res \<in> {DirectionFromHost, DirectionBidirectional}"
    and "run_state (syncPass U E res conflictPolicy) s = ((ds, err), t)"
  shows "hview (es_world t) = hview (es_world s) \<and> tview (es_world t) = tview (es_world s) \<and>
    (\<forall>d \<in> set ds. d_Action d = ActionSkip \<and> d_Reason d = agree_reason)"
  using engine_env.converged_quiet [OF assms] .

lemma demo_converged:
  "converged json_api demo_engine demo_gvk (host_objs (es_world (demo_state [demo_mirror] [demo_config])))
     (tenant_objs (es_world (demo_state [demo_mirror] [demo_config])))"
proof -
  have h: "host_objs (es_world (demo_state [demo_mirror] [demo_config])) k = (if k = obj_key json_api demo_mirror then Some demo_mirror else None)" for k
    by (simp add: demo_state_def mem_view_def)
  have v: "tenant_objs (es_world (demo_state [demo_mirror] [demo_config])) k = (if k = (demo_gvk, ''shop'', ''app'') then Some demo_config else None)" for k
    by (simp add: demo_state_def mem_view_def demo_config_facts)
  have "mirrors json_api demo_engine shop_ref demo_config demo_mirror"
    using config.stored_mirrors(1) [of demo_mirror] by blast
  then show ?thesis
    unfolding converged_def h v by (auto simp: demo_prepared split: if_splits)
qed

theorem converged_pass_is_quiet_witness:
  "\<exists>ds err t. run_state (syncPass json_api demo_engine (demo_res DirectionBidirectional) ''host-wins'')
       (demo_state [demo_mirror] [demo_config]) = ((ds, err), t) \<and>
     host_objs (es_world t) = host_objs (es_world (demo_state [demo_mirror] [demo_config]))"
proof -
  obtain ds err t where p: "run_state (syncPass json_api demo_engine (demo_res DirectionBidirectional) ''host-wins'')
       (demo_state [demo_mirror] [demo_config]) = ((ds, err), t)"
    by (metis prod.collapse)
  have "converged json_api demo_engine (res_GVK (demo_res DirectionBidirectional))
      (host_objs (es_world (demo_state [demo_mirror] [demo_config]))) (tenant_objs (es_world (demo_state [demo_mirror] [demo_config])))"
    using demo_converged by (simp add: demo_res_def)
  from converged_pass_is_quiet [OF demo.engine_env_axioms this _ p] p show ?thesis
    by (auto simp: demo_res_def)
qed

end
