(* ===== verification/Sync_Confinement.thy ===== *)
theory Sync_Confinement
  imports Sync_Run Syncer_Mirror
begin

text \<open>
  Where a sync writes. Every host object a pass creates, updates or deletes lies in the tenant's own namespace of the
  host cluster, and every tenant object it updates keeps its metadata. \<open>confined Q\<close> bounds an engine by a relation \<open>Q\<close> that
  only these calls have to obey, so the lemmas serve for the objects of the host (locale \<open>sync_quiet\<close>) as well as for
  any other state of a world a host write may reach.
\<close>

section \<open>Calls within the namespace\<close>

definition own_namespace :: "'w Engine \<Rightarrow> string \<Rightarrow> bool" where
  "own_namespace E n \<longleftrightarrow> n \<in> {e_HostNamespace E, SanitizeName (e_HostNamespace E)}"

definition confined :: "('w \<Rightarrow> 'w \<Rightarrow> bool) \<Rightarrow> uapi \<Rightarrow> 'w Engine \<Rightarrow> bool" where
  "confined Q U E \<longleftrightarrow> reflp Q \<and> transp Q \<and>
     (\<forall>f w. e_RateLimiter E = Some f \<longrightarrow> Q w (snd (f w))) \<and> (\<forall>r d w. e_Recorder E = Some r \<longrightarrow> Q w (r d w)) \<and>
     (\<forall>g n m w. Q w (snd (cl_get (e_HostClient E) g (n, m) w))) \<and>
     (\<forall>g n ls w. Q w (snd (cl_list (e_HostClient E) g n ls w)) \<and> Q w (snd (cl_list (e_VirtualClient E) g n ls w))) \<and>
     (\<forall>o1 w. own_namespace E (u_GetNamespace U o1) \<longrightarrow> Q w (snd (cl_create (e_HostClient E) o1 w)) \<and>
        Q w (snd (cl_update (e_HostClient E) o1 w)) \<and> Q w (snd (cl_delete (e_HostClient E) o1 w))) \<and>
     (\<forall>o1 w. wf_meta o1 \<longrightarrow> Q w (snd (cl_update (e_VirtualClient E) o1 w)))"

lemma confined_frame:
  assumes "confined Q U E"
  shows "reflp (on_world Q)" "transp (on_world Q)"
    "state_io_rel (on_world Q) (rateLimited E ref target)" "state_io_rel (on_world Q) (record_decision E d)"
    "state_io_rel (on_world Q) (setConverged n a b)" "state_io_rel (on_world Q) (history_lookup n)"
    "state_io_rel (on_world Q) (world_call (cl_get (e_HostClient E) g (p, q)))"
    "own_namespace E (u_GetNamespace U o1) \<Longrightarrow> state_io_rel (on_world Q) (world_call (cl_create (e_HostClient E) o1))"
    "own_namespace E (u_GetNamespace U o1) \<Longrightarrow> state_io_rel (on_world Q) (world_call (cl_update (e_HostClient E) o1))"
    "own_namespace E (u_GetNamespace U o1) \<Longrightarrow> state_io_rel (on_world Q) (world_call (cl_delete (e_HostClient E) o1))"
    "wf_meta o1 \<Longrightarrow> state_io_rel (on_world Q) (world_call (cl_update (e_VirtualClient E) o1))"
proof -
  note d = assms [unfolded confined_def]
  show pre: "reflp (on_world Q)" "transp (on_world Q)" using d by (simp_all add: on_world_refl on_world_trans)
  show "state_io_rel (on_world Q) (rateLimited E ref target)" "state_io_rel (on_world Q) (record_decision E d)"
    using d pre by (auto simp: rateLimited_def record_decision_def intro!: frame_rules frame_world_call)
  show "state_io_rel (on_world Q) (setConverged n a b)" "state_io_rel (on_world Q) (history_lookup n)"
    using d pre by (simp_all add: frame_setConverged frame_history_lookup)
qed (use assms in \<open>auto simp: confined_def intro!: frame_world_call\<close>)

context unstructured_api begin

lemma prepared_namespace:
  assumes "wf_meta o1" "prepare_host U E gvk o1 = Some (Inr (ref, host))"
  shows "u_GetNamespace U host = SanitizeName (e_HostNamespace E)"
proof -
  have ref: "ref = refFor U E (gvk_Kind gvk) o1" using prepare_host_Inr [OF assms(2)] by simp
  obtain h where b: "BuildHostObject U ref (Some o1) = Inr h"
    and host: "host = u_SetGroupVersionKind U h gvk \<or>
      host = fst (u_SetNestedField U (u_SetGroupVersionKind U h gvk) (VStr (e_RequiredRuntimeClassName E)) [''spec'', ''runtimeClassName''])"
    using assms(2) ref by (force simp: prepare_host_def Let_def split: if_splits sum.splits prod.splits option.splits)
  have "same_identity host (u_SetGroupVersionKind U h gvk)"
    using host by (auto simp: SetNestedField_obj same_identity_put)
  note i = identity_accessors [OF this]
  have "fmlookup (u_SetGroupVersionKind U h gvk) ''metadata'' = fmlookup h ''metadata''" by (simp add: SetGroupVersionKind)
  then have "u_GetNamespace U (u_SetGroupVersionKind U h gvk) = u_GetNamespace U h"
    by (simp add: api_laws peek_str_def peek2)
  then show ?thesis
    unfolding i build_host_cases(2) [OF assms(1) b] by (simp add: host_accessors ref refFor_def)
qed

lemma pair_confined:
  assumes "confined Q U E" "own_namespace E (u_GetNamespace U h)" "wf_meta v"
  shows "state_io_rel (on_world Q) (reconcilePair U E dir cp ref v h)"
proof -
  note f = confined_frame [OF assms(1)]
  have ns: "own_namespace E (u_GetNamespace U (the (AdoptHostAllocatedFields U (Some e) (Some (u_SetResourceVersion U h r)))))" for e r
    using assms(2) pushed_identity(1) [of e h r] by (simp add: obj_key_def)
  have wf: "wf_meta (MergeHostContentIntoTenant U e v)" for e
    using assms(3) merge_keeps [of "''metadata''"] by (simp add: wf_meta_def)
  have push: "state_io_rel (on_world Q) (pushToHost U E ref target v e h b)" for target e b
    unfolding pushToHost_def Let_def by (intro frame_rules f ns)
  have pull: "state_io_rel (on_world Q) (pullToTenant U E ref target v e r b)" for target e r b
    unfolding pullToTenant_def by (intro frame_rules f wf)
  show ?thesis
    unfolding reconcilePair_def reconcile_existing_def reconcileBidirectionalConflict_def create_pair_def Let_def
    by (intro frame_rules f push pull assms(2))
qed

lemma items_confined:
  assumes "confined Q U E" "\<forall>v \<in> set items. wf_meta v"
  shows "state_io_rel (on_world Q) (sync_items U E res cp items ds es des)"
  using assms(2)
proof (induction items arbitrary: ds es des)
  case (Cons v items)
  note f = confined_frame [OF assms(1)]
  have pair: "state_io_rel (on_world Q) (reconcilePair U E dir cp' ref v host)"
    if "prepare_host U E (res_GVK res) v = Some (Inr (ref, host))" for dir cp' ref host
    using pair_confined [OF assms(1)] prepared_namespace [OF _ that] Cons.prems by (simp add: own_namespace_def)
  have IH: "state_io_rel (on_world Q) (sync_items U E res cp items ds' es' des')" for ds' es' des'
    using Cons by simp
  show ?case
    by (auto simp: Let_def intro!: frame_rules f pair IH split: option.split sum.split)
qed (simp add: frame_return confined_frame(1) [OF assms(1)])

lemma orphans_confined:
  assumes "confined Q U E" "\<forall>o1 \<in> set items. u_GetNamespace U o1 = e_HostNamespace E"
  shows "state_io_rel (on_world Q) (gc_items U E gvk des items ds es)"
  using assms(2)
proof (induction items arbitrary: ds es)
  case (Cons o1 items)
  note f = confined_frame [OF assms(1)]
  have own: "own_namespace E (u_GetNamespace U o1)" using Cons.prems by (simp add: own_namespace_def)
  have IH: "state_io_rel (on_world Q) (gc_items U E gvk des items ds' es')" for ds' es'
    using Cons by simp
  show ?case by (auto simp: Let_def intro!: frame_rules f own IH)
qed (simp add: frame_return confined_frame(1) [OF assms(1)])

end

context engine_env begin

lemma pass_confined:
  assumes Q: "confined Q U E" and wf: "\<forall>k v. tview (es_world s) k = Some v \<longrightarrow> wf_meta v"
    and run: "run_state (syncPass U E res cp) s = (r, t)"
  shows "Q (es_world s) (es_world t)"
proof -
  note f = confined_frame [OF Q]
  have pre: "reflp Q" "transp Q" using Q by (simp_all add: confined_def)
  have rec: "state_io_rel (on_world Q) (record_all E ds)" for ds
    by (induction ds) (auto intro!: frame_rules f)
  have gc: "state_io_rel (on_world Q) (collectOrphans U E gvk des)" for gvk des
  proof (rule state_io_relI)
    fix x u v assume c: "run_state (collectOrphans U E gvk des) u = (x, v)"
    obtain l w where l: "cl_list (e_HostClient E) (listGVK gvk) (Some (e_HostNamespace E)) (gc_labels E gvk) (es_world u) = (l, w)"
      by fastforce
    have lw: "Q (es_world u) w" using Q l by (metis confined_def snd_conv)
    show "on_world Q u v"
    proof (cases l)
      case (Inl err)
      then show ?thesis using c l lw by (auto simp: collectOrphans_def run_cases on_world_def)
    next
      case (Inr items)
      then have "\<forall>o1 \<in> set items. u_GetNamespace U o1 = e_HostNamespace E"
        using orphan_listed(1) l by (auto simp: selected_def)
      from orphans_confined [OF Q this] have "state_io_rel (on_world Q) (gc_items U E gvk des items [] [])" .
      moreover obtain y where "run_state (gc_items U E gvk des items [] []) (u\<lparr>es_world := w\<rparr>) = (y, v)"
        using c l Inr by (auto simp: collectOrphans_def run_cases split: prod.splits)
      ultimately have "on_world Q (u\<lparr>es_world := w\<rparr>) v" by (rule state_io_relD)
      then show ?thesis using transpD [OF pre(2) lw] by (simp add: on_world_def)
    qed
  qed
  obtain l w where l: "cl_list (e_VirtualClient E) (listGVK (res_GVK res)) None [] (es_world s) = (l, w)"
    by fastforce
  have lw: "Q (es_world s) w" using Q l by (metis confined_def snd_conv)
  show ?thesis
  proof (cases l)
    case (Inl err)
    then show ?thesis using run l lw by (auto simp: syncPass_def run_cases)
  next
    case (Inr items)
    have "\<forall>v \<in> set items. wf_meta v" using tenant.list_items l Inr wf by blast
    note it = items_confined [OF Q this]
    let ?m = "do { (decisions, errs, desired) \<leftarrow> sync_items U E res cp items [] [] fmempty;
         (gc, err) \<leftarrow> collectOrphans U E (res_GVK res) desired;
         record_all E gc;
         State_Monad.return (decisions @ gc, aggregate (errs @ (case err of None \<Rightarrow> [] | Some e \<Rightarrow> [e]))) }"
    have "state_io_rel (on_world Q) ?m" by (intro frame_rules f it gc rec)
    moreover have "run_state ?m (s\<lparr>es_world := w\<rparr>) = (r, t)"
      using run l Inr by (simp add: syncPass_def run_bind run_world_call)
    ultimately have "on_world Q (s\<lparr>es_world := w\<rparr>) t" by (rule state_io_relD)
    then show ?thesis using transpD [OF pre(2) lw] by (simp add: on_world_def)
  qed
qed

end

section \<open>A whole run\<close>

text \<open>
  The calls of a run that are not the engine's leave the tenant alone as well, and what an update of the tenant cluster
  leaves behind is the old object or one with metadata.
\<close>

locale sync_quiet = sync_host R hview tview
  for R :: "('q, 'c, 'w) Reconciler" and hview :: "'w \<Rightarrow> objkey \<Rightarrow> obj option" and tview :: "'w \<Rightarrow> objkey \<Rightarrow> obj option" +
  assumes t_secret: "tview (snd (k_Get (r_secret R) n m w)) = tview w"
    and t_dial: "tview (snd (r_NewClient R c w)) = tview w"
    and t_new_limiter: "tview (snd (r_NewLimiter R a b w)) = tview w"
    and t_now: "tview (snd (r_Now R w)) = tview w"
    and t_sd_get: "tview (snd (k_Get (r_sd R) n m w)) = tview w"
    and t_sd_create: "tview (snd (k_Create (r_sd R) x w)) = tview w"
    and t_sd_status: "tview (snd (k_StatusUpdate (r_sd R) x w)) = tview w"
    and tenant_meta: "r_NewClient R c w = (Inr vc, w') \<Longrightarrow> cl_update vc o1 w1 = (ur, w2) \<Longrightarrow> wf_meta o1 \<Longrightarrow>
      tview w2 k = Some v \<Longrightarrow> tview w1 k = Some v \<or> wf_meta v"
begin

abbreviation quiet :: "'w \<Rightarrow> 'w \<Rightarrow> bool" where
  "quiet w w' \<equiv> hview w' = hview w \<and> tview w' = tview w"

lemma quiet_pre [simp]: "reflp quiet" "transp quiet"
  by (auto simp: reflp_def transp_def)

lemma quiet_calls: "run_calls quiet R"
  by (simp add: run_calls_def secret dial new_limiter now sd_get sd_create sd_status
      t_secret t_dial t_new_limiter t_now t_sd_get t_sd_create t_sd_status)

definition well_formed :: "'w \<Rightarrow> bool" where
  "well_formed w \<longleftrightarrow> (\<forall>k v. tview w k = Some v \<longrightarrow> wf_meta v)"

lemma well_formedD: "well_formed w \<Longrightarrow> tview w k = Some v \<Longrightarrow> wf_meta v"
  unfolding well_formed_def by blast

lemma well_formed_view: "tview w' = tview w \<Longrightarrow> well_formed w' = well_formed w"
  by (simp add: well_formed_def)

lemma engine_well_formed:
  assumes "r_NewClient R c u = (Inr vc, u')" "limits R l"
  shows "confined (\<lambda>w w'. well_formed w \<longrightarrow> well_formed w') (r_U R) (sync_engine R tc policy profile vc l)"
proof -
  let ?E = "sync_engine R tc policy profile vc l"
  note env = engine [OF assms, of tc policy profile]
  note same = engine_env.host_get [OF env prod.collapse [symmetric]] engine_env.host_list [OF env prod.collapse [symmetric]]
    engine_env.host_create [OF env prod.collapse [symmetric]] engine_env.host_update [OF env prod.collapse [symmetric]]
    engine_env.host_delete [OF env prod.collapse [symmetric]]
    kube_store.list_frame [OF engine_env.axioms(3) [OF env] prod.collapse [symmetric]]
  have upd: "well_formed (snd (cl_update (e_VirtualClient ?E) o1 w))" if "wf_meta o1" "well_formed w" for o1 w
    unfolding well_formed_def
  proof (intro allI impI)
    fix k v assume "tview (snd (cl_update (e_VirtualClient ?E) o1 w)) k = Some v"
    then have "tview w k = Some v \<or> wf_meta v"
      using tenant_meta [OF assms(1) prod.collapse [symmetric] that(1), of w k v] by (simp add: sync_engine_def)
    then show "wf_meta v" using well_formedD [OF that(2)] by blast
  qed
  show ?thesis
    using upd engine_env.limiter [OF env _ prod.collapse [symmetric]] engine_env.recorder [OF env]
    by (auto simp: confined_def reflp_def transp_def well_formed_view [OF same(1)] well_formed_view [OF same(2)]
        well_formed_view [OF same(3)] well_formed_view [OF same(4)] well_formed_view [OF same(5)] well_formed_view [OF same(6)]
        intro: well_formed_view [THEN iffD2])
qed

text \<open>A bound on the confined calls bounds the run.\<close>

lemma run_confined:
  assumes Q: "run_calls Q R"
    and E: "\<And>c u vc u' l. r_NewClient R c u = (Inr vc, u') \<Longrightarrow> limits R l \<Longrightarrow>
      confined Q (r_U R) (sync_engine R tc policy profile vc l)"
    and w: "well_formed w" and run: "run_state (runSync R tc policy profile name) w = (r, w')"
  shows "Q w w' \<and> well_formed w'"
proof -
  let ?Q = "\<lambda>w w'. well_formed w \<longrightarrow> well_formed w' \<and> Q w w'"
  have "reflp Q" "transp Q" using Q by (simp_all add: run_calls_def)
  then have pre: "reflp ?Q" "transp ?Q" unfolding reflp_def transp_def by blast+
  have calls: "run_calls ?Q R"
    using Q pre by (simp add: run_calls_def t_secret [THEN well_formed_view] t_dial [THEN well_formed_view]
      t_new_limiter [THEN well_formed_view] t_now [THEN well_formed_view] t_sd_get [THEN well_formed_view]
      t_sd_create [THEN well_formed_view] t_sd_status [THEN well_formed_view])
  have "state_io_rel (on_world ?Q) (syncPass (r_U R) (sync_engine R tc policy profile vc l) res cp)"
    if c: "r_NewClient R c u = (Inr vc, v)" "limits R l" for c u vc v l res cp
  proof (rule state_io_relI)
    fix x s t assume p: "run_state (syncPass (r_U R) (sync_engine R tc policy profile vc l) res cp) s = (x, t)"
    note pass = engine_env.pass_confined [OF engine [OF c] _ _ p]
    have "well_formed (es_world t) \<and> Q (es_world s) (es_world t)" if s: "well_formed (es_world s)"
      using pass [OF E [OF c] s [unfolded well_formed_def]] pass [OF engine_well_formed [OF c] s [unfolded well_formed_def]] s
      by blast
    then show "on_world ?Q s t" unfolding on_world_def by blast
  qed
  then have "state_io_rel ?Q (runSync R tc policy profile name)"
    by (rule run_sync_frame [OF calls])
  from state_io_relD [OF this run] w show ?thesis by blast
qed

lemma run_stays_in_namespace:
  assumes "well_formed w" "run_state (runSync R tc policy profile name) w = (r, w')"
    and "n \<notin> {tc_Namespace tc, SanitizeName (tc_Namespace tc)}"
  shows "hview w' (g, n, m) = hview w (g, n, m)"
proof -
  let ?Q = "\<lambda>w w'. hview w' (g, n, m) = hview w (g, n, m)"
  have "run_calls ?Q R"
    by (simp add: run_calls_def reflp_def transp_def secret dial new_limiter now sd_get sd_create sd_status)
  moreover have "confined ?Q (r_U R) (sync_engine R tc policy profile vc l)"
    if "r_NewClient R c u = (Inr vc, u')" "limits R l" for c u vc u' l
  proof -
    let ?E = "sync_engine R tc policy profile vc l"
    note env = engine [OF that, of tc policy profile]
    note store = engine_env.axioms(2) [OF env]
    have other: "(g, n, m) \<noteq> obj_key (r_U R) o1" if "own_namespace ?E (u_GetNamespace (r_U R) o1)" for o1
      using that assms(3) by (auto simp: own_namespace_def obj_key_def sync_engine_def)
    show ?thesis
      using engine_env.limiter [OF env _ prod.collapse [symmetric]] engine_env.recorder [OF env]
      by (auto simp: confined_def reflp_def transp_def kube_store.get_frame [OF store prod.collapse [symmetric]]
          kube_store.list_frame [OF store prod.collapse [symmetric]]
          engine_env.tenant_list [OF env prod.collapse [symmetric]] engine_env.tenant_update [OF env prod.collapse [symmetric]]
          kube_store.create_other [OF store prod.collapse [symmetric] other]
          kube_store.update_other [OF store prod.collapse [symmetric] other]
          kube_store.delete_other [OF store prod.collapse [symmetric] other])
  qed
  ultimately show ?thesis using run_confined [of ?Q] assms(1,2) by blast
qed

end

interpretation ctl_confined: sync_quiet sync_reconciler "\<lambda>w. mem_view (w_un w)" "\<lambda>w. mem_view (w_ten w)"
proof (intro sync_quiet.intro sync_quiet_axioms.intro)
  show "sync_host sync_reconciler (\<lambda>w. mem_view (w_un w)) (\<lambda>w. mem_view (w_ten w))" by (rule ctl_sync.sync_host_axioms)
  show "mem_view (w_ten w1) k = Some v \<or> wf_meta v"
    if "r_NewClient sync_reconciler c w = (Inr vc, w')" "cl_update vc o1 w1 = (ur, w2)" "wf_meta o1"
      "mem_view (w_ten w2) k = Some v" for c w vc w' o1 w1 ur w2 k v
  proof -
    have vc: "vc = lift_client w_ten (\<lambda>m w. w\<lparr>w_ten := m\<rparr>) mem_client" using that(1) by (simp add: sync_reconciler_def)
    have "wf_meta (stamp i o1)" for i using that(3) by (simp add: stamp_def json.rv_content)
    then show ?thesis
      using that(2,4) unfolding vc
      by (auto simp: lift_call_def mem_client_def mem_update_def mem_view_def Let_def find_map_replace
          split: option.splits if_splits prod.splits)
  qed
qed (auto simp: sync_reconciler_def ctl_reconciler_def no_objects_def sd_client_def lift_call_snd)

section \<open>Properties\<close>

text \<open>Property C5 (a sync run stays in the tenant's namespace). A whole run of the controller's sync, whatever the policy
  names, whatever the tenant's objects are called and labelled, and also when passes fail half-way or the rate limit is
  exhausted, changes no object of any kind in any other namespace of the host cluster: what the tenant can bring about
  on the host is confined to the namespace of its TenantCluster.\<close>

theorem sync_run_stays_in_its_namespace:
  assumes "sync_quiet R hview tview" "\<forall>k v. tview w k = Some v \<longrightarrow> wf_meta v"
    and "n \<notin> {tc_Namespace tc, SanitizeName (tc_Namespace tc)}"
  shows "hview (snd (run_state (runSync R tc policy profile kubeconfigSecret) w)) (g, n, m) = hview w (g, n, m)"
  using sync_quiet.run_stays_in_namespace [OF assms(1) _ prod.collapse [symmetric] assms(3)] assms(2)
  by (simp only: sync_quiet.well_formed_def [OF assms(1)])

theorem sync_run_stays_in_its_namespace_witness:
  "\<forall>g m. mem_view (w_un (snd (run_state (runSync sync_reconciler (demo_tc ''dev'' ''team'') demo_policy demo_profile ''kc'')
      (empty_world\<lparr>w_un := \<lparr>m_objs = [demo_config], m_rv = 7\<rparr>, w_ten := \<lparr>m_objs = [demo_config], m_rv = 7\<rparr>\<rparr>)))) (g, ''shop'', m) =
    mem_view \<lparr>m_objs = [demo_config], m_rv = 7\<rparr> (g, ''shop'', m)"
proof (intro allI)
  fix g m
  let ?w = "empty_world\<lparr>w_un := \<lparr>m_objs = [demo_config], m_rv = 7\<rparr>, w_ten := \<lparr>m_objs = [demo_config], m_rv = 7\<rparr>\<rparr>"
  have wf: "\<forall>k v. mem_view (w_ten ?w) k = Some v \<longrightarrow> wf_meta v"
    by (auto simp: mem_view_def demo_config_facts)
  have n: "''shop'' \<notin> {tc_Namespace (demo_tc ''dev'' ''team''), SanitizeName (tc_Namespace (demo_tc ''dev'' ''team''))}"
    by (simp add: demo_tc_def object_meta_def demo_names)
  show "mem_view (w_un (snd (run_state (runSync sync_reconciler (demo_tc ''dev'' ''team'') demo_policy demo_profile ''kc'') ?w))) (g, ''shop'', m) =
    mem_view \<lparr>m_objs = [demo_config], m_rv = 7\<rparr> (g, ''shop'', m)"
    using sync_run_stays_in_its_namespace [OF ctl_confined.sync_quiet_axioms wf n, of demo_policy demo_profile "''kc''" g m] by simp
qed

end
