(* ===== verification/Sync_Mirror.thy ===== *)
theory Sync_Mirror
  imports Sync_Confinement
begin

text \<open>
  The mirror theorem for a whole run of the controller: a run over all resources of a policy that reports no error leaves
  every resource in agreement, whatever the other resources are. A pass touches objects of its own kind only, so the
  agreement one pass establishes survives the passes after it. The locale \<open>sync_mirror\<close> adds to \<open>sync_quiet\<close> that the
  engines of a run work on servers that store what they are sent.
\<close>

section \<open>A pass touches one kind\<close>

context unstructured_api begin

lemma prepared_gvk:
  assumes "gvk_wf gvk" "prepare_host U E gvk o1 = Some (Inr (ref, host))"
  shows "u_GroupVersionKind U host = gvk"
proof -
  have ref: "ref = refFor U E (gvk_Kind gvk) o1" using prepare_host_Inr [OF assms(2)] by simp
  obtain h where b: "BuildHostObject U ref (Some o1) = Inr h" and host: "host = u_SetGroupVersionKind U h gvk \<or>
      host = fst (u_SetNestedField U (u_SetGroupVersionKind U h gvk) (VStr (e_RequiredRuntimeClassName E)) [''spec'', ''runtimeClassName''])"
    using assms(2) ref by (force simp: prepare_host_def Let_def split: if_splits sum.splits prod.splits option.splits)
  have "same_identity host (u_SetGroupVersionKind U h gvk)"
    using host by (auto simp: SetNestedField_obj same_identity_put)
  then show ?thesis using identity_accessors GroupVersionKind_set [OF assms(1)] by metis
qed

end

text \<open>Two views that agree on the objects of one kind.\<close>

definition same_kind :: "GroupVersionKind \<Rightarrow> (objkey \<Rightarrow> obj option) \<Rightarrow> (objkey \<Rightarrow> obj option) \<Rightarrow> bool" where
  "same_kind gvk v w \<longleftrightarrow> (\<forall>nn. v (gvk, nn) = w (gvk, nn))"

lemma same_kind_refl [simp]: "same_kind gvk v v"
  by (simp add: same_kind_def)

lemma same_kind_trans: "same_kind gvk u v \<Longrightarrow> same_kind gvk v w \<Longrightarrow> same_kind gvk u w"
  by (simp add: same_kind_def)

lemma same_kind_at: "same_kind gvk v w \<Longrightarrow> fst k = gvk \<Longrightarrow> v k = w k"
  by (cases k) (simp add: same_kind_def)

lemma images_congr:
  assumes "same_kind gvk hv hv'" "same_kind gvk tv tv'"
  shows "host_image U E gvk hv = host_image U E gvk hv'" "tenant_image U E gvk tv = tenant_image U E gvk tv'"
    "unclaimed U E gvk hv tv = unclaimed U E gvk hv' tv'" "mirrorable_tenant gvk tv = mirrorable_tenant gvk tv'"
  using assms by (simp_all add: same_kind_def host_image_def tenant_image_def unclaimed_def mirror_key_def mirrorable_tenant_def)

context unstructured_api begin

lemma converged_congr:
  assumes "same_kind gvk hv hv'" "same_kind gvk tv tv'" "gvk_wf gvk" "converged U E gvk hv tv"
  shows "converged U E gvk hv' tv'"
  unfolding converged_def
proof (intro conjI allI impI; elim conjE)
  fix nn v assume v: "tv' (gvk, nn) = Some v" "eligible U E gvk v"
  then have "tv (gvk, nn) = Some v" using same_kind_at [OF assms(2), of "(gvk, nn)"] by simp
  then obtain ref h e where "prepare_host U E gvk v = Some (Inr (ref, h))" "hv (obj_key U h) = Some e" "mirrors U E ref v e"
    using assms(4) v(2) unfolding converged_def by blast
  moreover from this have "hv' (obj_key U h) = Some e"
    using same_kind_at [OF assms(1), of "obj_key U h"] prepared_gvk [OF assms(3)] by (metis fst_conv obj_key_def)
  ultimately show "\<exists>ref h e. prepare_host U E gvk v = Some (Inr (ref, h)) \<and> hv' (obj_key U h) = Some e \<and> mirrors U E ref v e"
    by blast
next
  fix o1 assume o1: "hv' (obj_key U o1) = Some o1" "selected U (listGVK gvk) (Some (e_HostNamespace E)) (gc_labels E gvk) o1"
  then have "hv (obj_key U o1) = Some o1"
    using same_kind_at [OF assms(1), of "obj_key U o1"] listed_kind [OF o1(2)] by (simp add: obj_key_def)
  then have "\<exists>nn v ref h. tv (gvk, nn) = Some v \<and> prepare_host U E gvk v = Some (Inr (ref, h)) \<and> u_GetName U h = u_GetName U o1"
    using assms(4) o1(2) unfolding converged_def by blast
  then show "\<exists>nn v ref h. tv' (gvk, nn) = Some v \<and> prepare_host U E gvk v = Some (Inr (ref, h)) \<and> u_GetName U h = u_GetName U o1"
    using same_kind_at [OF assms(2)] by fastforce
qed

end

context engine_env begin

lemma sync_items_kind:
  assumes "run_state (sync_items U E res cp items ds es des) s = (r, t)"
    and "gvk_wf (res_GVK res)" "\<forall>v \<in> set items. u_GroupVersionKind U v = res_GVK res" "gvk \<noteq> res_GVK res"
  shows "same_kind gvk (hview (es_world t)) (hview (es_world s)) \<and> same_kind gvk (tview (es_world t)) (tview (es_world s))"
  using assms(1,3)
proof (induction items arbitrary: ds es des s)
  case Nil
  then show ?case by (simp add: run_cases)
next
  case (Cons v items)
  consider (rest) ds' es' des' where "run_state (sync_items U E res cp items ds' es' des') s = (r, t)"
    | (ready) ref host where "prepare_host U E (res_GVK res) v = Some (Inr (ref, host))"
    using Cons.prems(1) by (auto split: option.splits sum.splits)
  then show ?case
  proof cases
    case rest
    then show ?thesis using Cons.IH Cons.prems(2) by auto
  next
    case ready
    obtain p u where p: "run_state (reconcilePair U E (res_Direction res) cp ref v host) s = (p, u)"
      by fastforce
    obtain ds' es' des' u' where rest: "run_state (sync_items U E res cp items ds' es' des') u' = (r, t)"
      and u': "hview (es_world u') = hview (es_world u)" "tview (es_world u') = tview (es_world u)"
      using Cons.prems(1) ready p by (auto simp: run_cases Let_def split: sum.splits prod.splits dest!: record_view)
    have "same_kind gvk (hview (es_world u)) (hview (es_world s)) \<and> same_kind gvk (tview (es_world u)) (tview (es_world s))"
      using pair_view(1) [OF p] prepared_gvk [OF assms(2) ready] Cons.prems(2) assms(4)
      by (simp add: same_kind_def obj_key_def)
    then show ?thesis using Cons.IH [OF rest] Cons.prems(2) u' same_kind_trans by (metis list.set_intros(2))
  qed
qed

lemma pass_kind:
  assumes "run_state (syncPass U E res cp) s = (r, t)" "gvk_wf (res_GVK res)" "gvk \<noteq> res_GVK res"
  shows "same_kind gvk (hview (es_world t)) (hview (es_world s)) \<and> same_kind gvk (tview (es_world t)) (tview (es_world s))"
proof -
  let ?g = "res_GVK res"
  obtain l w where l: "cl_list (e_VirtualClient E) (listGVK ?g) None [] (es_world s) = (l, w)"
    by fastforce
  note views = tenant.list_frame [OF l] tenant_list [OF l]
  obtain p u where p: "run_state (sync_items U E res cp (projr l) [] [] fmempty) (s\<lparr>es_world := w\<rparr>) = (p, u)"
    by fastforce
  obtain gc gerr v where g: "run_state (collectOrphans U E ?g (snd (snd p))) u = ((gc, gerr), v)"
    by (metis prod.collapse)
  show ?thesis
  proof (cases l)
    case (Inl e)
    then show ?thesis using assms(1) l views by (auto simp: syncPass_def run_cases)
  next
    case (Inr items)
    have "hview (es_world t) = hview (es_world v)" "tview (es_world t) = tview (es_world v)"
      using assms(1) l p g Inr by (cases p; auto simp: syncPass_def run_cases split: prod.splits dest!: record_all_view)+
    moreover have "\<forall>x \<in> set items. u_GroupVersionKind U x = ?g"
      using tenant.list_items l Inr by (simp add: selected_all)
    then have "same_kind gvk (hview (es_world u)) (hview w) \<and> same_kind gvk (tview (es_world u)) (tview w)"
      using sync_items_kind [OF p assms(2) _ assms(3)] Inr by simp
    moreover have "same_kind gvk (hview (es_world v)) (hview (es_world u))"
      unfolding same_kind_def
    proof (intro allI, rule ccontr)
      fix nn assume "hview (es_world v) (gvk, nn) \<noteq> hview (es_world u) (gvk, nn)"
      then obtain o1 where "(gvk, nn) = obj_key U o1" "selected U (listGVK ?g) (Some (e_HostNamespace E)) (gc_labels E ?g) o1"
        using collect_view(2) [OF g] by blast
      then show False using listed_kind assms(3) by (auto simp: obj_key_def)
    qed
    moreover have "tview (es_world v) = tview (es_world u)" using collect_view(1) [OF g] .
    ultimately show ?thesis using views same_kind_trans by metis
  qed
qed

end

section \<open>One resource of a run\<close>

text \<open>
  What a run owes a resource once its pass is over: agreement of the two clusters on the kind and, where the resource is
  synced to the host, a host image that is the tenant's. \<open>mirror_ready\<close> is what the pass needs to find.
\<close>

definition settled_kind ::
    "uapi \<Rightarrow> 'w Engine \<Rightarrow> Resource \<Rightarrow> (objkey \<Rightarrow> obj option) \<Rightarrow> (objkey \<Rightarrow> obj option) \<Rightarrow> bool" where
  "settled_kind U E res hv tv \<longleftrightarrow> converged U E (res_GVK res) hv tv \<and>
     (res_Direction res = DirectionToHost \<longrightarrow> host_image U E (res_GVK res) hv = tenant_image U E (res_GVK res) tv)"

definition mirror_ready ::
    "uapi \<Rightarrow> 'w Engine \<Rightarrow> SyncPolicy \<Rightarrow> (objkey \<Rightarrow> obj option) \<Rightarrow> (objkey \<Rightarrow> obj option) \<Rightarrow> Resource \<Rightarrow> bool" where
  "mirror_ready U E policy hv tv res \<longleftrightarrow>
     gvk_wf (res_GVK res) \<and> decisive (res_Direction res) (sps_ConflictPolicy (sp_Spec policy)) \<and>
     mirrorable_tenant (res_GVK res) tv \<and> unclaimed U E (res_GVK res) hv tv"

text \<open>Neither depends on the clients, the recorder and the rate limit of the engine.\<close>

lemma engine_congr:
  "settled_kind U (sync_engine R tc policy profile vc l) = settled_kind U (sync_engine R tc policy profile vc' l')"
  "mirror_ready U (sync_engine R tc policy profile vc l) = mirror_ready U (sync_engine R tc policy profile vc' l')"
proof -
  let ?E = "sync_engine R tc policy profile vc l" and ?E' = "sync_engine R tc policy profile vc' l'"
  have g: "gc_labels ?E = gc_labels ?E'" "refFor U ?E = refFor U ?E'" "eligible U ?E = eligible U ?E'"
    "mirror_key ?E = mirror_key ?E'"
    by (simp_all add: fun_eq_iff sync_engine_def gc_labels_def refFor_def eligible_def skip_def mirror_key_def)
  have f: "e_Tenant ?E = e_Tenant ?E'" "e_HostNamespace ?E = e_HostNamespace ?E'"
    "e_RequiredRuntimeClassName ?E = e_RequiredRuntimeClassName ?E'" "skip ?E = skip ?E'"
    by (simp_all add: sync_engine_def fun_eq_iff skip_def)
  have p: "prepare_host U ?E = prepare_host U ?E'"
    by (intro ext) (simp only: prepare_host_def g f)
  have m: "mirrors U ?E = mirrors U ?E'"
    by (intro ext) (simp add: mirrors_def comparable_host_def f)
  have c: "converged U ?E = converged U ?E'"
    by (intro ext) (simp only: converged_def g f p m)
  show "settled_kind U ?E = settled_kind U ?E'"
    by (intro ext) (simp only: settled_kind_def host_image_def tenant_image_def g f c)
  show "mirror_ready U ?E = mirror_ready U ?E'"
    by (intro ext) (simp only: mirror_ready_def unclaimed_def g f)
qed

context unstructured_api begin

lemma settled_congr:
  assumes "same_kind (res_GVK res) hv hv'" "same_kind (res_GVK res) tv tv'" "gvk_wf (res_GVK res)" "settled_kind U E res hv tv"
  shows "settled_kind U E res hv' tv'"
  using assms(4) by (simp add: settled_kind_def images_congr [OF assms(1,2)] converged_congr [OF assms(1-3)])

end

lemma ready_congr:
  assumes "same_kind (res_GVK res) hv hv'" "same_kind (res_GVK res) tv tv'"
  shows "mirror_ready U E policy hv tv res = mirror_ready U E policy hv' tv' res"
  by (simp add: mirror_ready_def images_congr [OF assms])

context mirror_env begin

lemma pass_settles:
  assumes "mirror_ready U E policy (hview (es_world s)) (tview (es_world s)) res"
    and "SanitizeName (e_Tenant E) = e_Tenant E" "SanitizeName (e_HostNamespace E) = e_HostNamespace E"
    and "sync_resource U E policy res = Some pass" "run_state pass s = ((ds, None), t)"
  shows "settled_kind U E res (hview (es_world t)) (tview (es_world t))"
    and "gvk \<noteq> res_GVK res \<Longrightarrow> same_kind gvk (hview (es_world t)) (hview (es_world s)) \<and>
      same_kind gvk (tview (es_world t)) (tview (es_world s))"
proof -
  let ?g = "res_GVK res"
  have ready: "gvk_wf ?g" "decisive (res_Direction res) (sps_ConflictPolicy (sp_Spec policy))"
    "mirrorable_tenant ?g (tview (es_world s))" "unclaimed U E ?g (hview (es_world s)) (tview (es_world s))"
    using assms(1) by (simp_all add: mirror_ready_def)
  obtain cp where pass: "run_state (syncPass U E res cp) s = ((ds, None), t)" and dec: "decisive (res_Direction res) cp"
    using assms(4,5) ready(2)
    by (auto simp: sync_resource_def SyncToHost_def SyncFromHost_def SyncBidirectional_def decisive_def direction_defs
        run_return split: if_splits)
  obtain items w where l: "cl_list (e_VirtualClient E) (listGVK ?g) None [] (es_world s) = (Inr items, w)"
    using pass_lists [OF pass] by blast
  note m = listed_mirrorable [OF l ready(3)]
  note settled = unclaimed_settles [OF l m ready(1) assms(2) pass dec ready(4)]
  have "host_image U E ?g (hview (es_world t)) = tenant_image U E ?g (tview (es_world t))" if d: "res_Direction res = DirectionToHost"
  proof -
    have run: "run_state (SyncToHost U E res) s = ((ds, None), t)" using assms(4,5) d by (simp add: sync_resource_def)
    show ?thesis using to_host_refines [OF l m ready(1) assms(2,3) run settled] to_host_keeps_tenant [of res s] run by simp
  qed
  then show "settled_kind U E res (hview (es_world t)) (tview (es_world t))"
    using pass_converges [OF l m ready(1) assms(2) pass dec settled] by (simp add: settled_kind_def)
  show "gvk \<noteq> ?g \<Longrightarrow> same_kind gvk (hview (es_world t)) (hview (es_world s)) \<and> same_kind gvk (tview (es_world t)) (tview (es_world s))"
    by (rule pass_kind [OF pass ready(1)])
qed

end

section \<open>The resources of a policy, one after the other\<close>

lemma failed_run_stays_failed:
  "run_state (sync_resources R E tc policy resources (Some err)) s = (r, t) \<Longrightarrow> r \<noteq> None"
proof (induction resources arbitrary: s err)
  case (Cons res resources)
  then show ?case
    by (auto simp: ctrl_run on_host_def world_call_def split: option.splits prod.splits if_splits)
qed (auto simp: ctrl_run)

locale sync_mirror = sync_quiet R hview tview
  for R :: "('q, 'c, 'w) Reconciler" and hview :: "'w \<Rightarrow> objkey \<Rightarrow> obj option" and tview :: "'w \<Rightarrow> objkey \<Rightarrow> obj option" +
  assumes stores: "r_NewClient R c w = (Inr vc, w') \<Longrightarrow> mirror_env (r_U R) (sync_engine R tc policy profile vc None) hview tview"
begin

lemma resources_settle:
  assumes env: "mirror_env (r_U R) E hview tview"
    and names: "SanitizeName (e_Tenant E) = e_Tenant E" "SanitizeName (e_HostNamespace E) = e_HostNamespace E"
    and "distinct (map res_GVK resources)"
    and "\<forall>res \<in> set resources. mirror_ready (r_U R) E policy (hview (es_world s)) (tview (es_world s)) res"
    and "run_state (sync_resources R E tc policy resources None) s = (None, t)"
  shows "(\<forall>res \<in> set resources. settled_kind (r_U R) E res (hview (es_world t)) (tview (es_world t))) \<and>
    (\<forall>gvk. gvk \<notin> res_GVK ` set resources \<longrightarrow> same_kind gvk (hview (es_world t)) (hview (es_world s)) \<and>
      same_kind gvk (tview (es_world t)) (tview (es_world s)))"
  using assms(4-)
proof (induction resources arbitrary: s)
  case Nil
  then show ?case by (simp add: ctrl_run)
next
  case (Cons res resources)
  have ready: "mirror_ready (r_U R) E policy (hview (es_world s)) (tview (es_world s)) res" using Cons.prems(2) by simp
  then obtain pass where pass: "sync_resource (r_U R) E policy res = Some pass"
    by (auto simp: mirror_ready_def decisive_def sync_resource_def direction_defs)
  obtain ds err u where p: "run_state pass s = ((ds, err), u)" by (metis prod.collapse)
  have none: "err = None"
    using Cons.prems(3) pass p failed_run_stays_failed by (cases err) (auto simp: ctrl_run, blast+)
  obtain v where v: "run_state (sync_resources R E tc policy resources None) v = (None, t)"
    and quiet: "quiet (es_world u) (es_world v)"
    using Cons.prems(3) pass p none state_io_relD [OF run_calls_frame(1) [OF quiet_calls]]
    by (auto simp: ctrl_run on_host_def world_call_def split: if_splits prod.splits)
  note here = mirror_env.pass_settles [OF env ready names pass p [unfolded none]]
  have later: "same_kind gvk (hview (es_world v)) (hview (es_world s)) \<and> same_kind gvk (tview (es_world v)) (tview (es_world s))"
    if "gvk \<noteq> res_GVK res" for gvk
    using here(2) [OF that] quiet by simp
  have "mirror_ready (r_U R) E policy (hview (es_world v)) (tview (es_world v)) r" if "r \<in> set resources" for r
  proof -
    have "res_GVK r \<noteq> res_GVK res" using Cons.prems(1) that by (simp add: image_iff) metis
    from later [OF this] have "same_kind (res_GVK r) (hview (es_world v)) (hview (es_world s))"
      "same_kind (res_GVK r) (tview (es_world v)) (tview (es_world s))" by simp_all
    then show ?thesis using Cons.prems(2) that by (simp add: ready_congr)
  qed
  then have IH: "(\<forall>r \<in> set resources. settled_kind (r_U R) E r (hview (es_world t)) (tview (es_world t))) \<and>
    (\<forall>gvk. gvk \<notin> res_GVK ` set resources \<longrightarrow> same_kind gvk (hview (es_world t)) (hview (es_world v)) \<and>
      same_kind gvk (tview (es_world t)) (tview (es_world v)))"
    using Cons.IH [OF _ _ v] Cons.prems(1) by simp
  have "same_kind (res_GVK res) (hview (es_world u)) (hview (es_world t))" "same_kind (res_GVK res) (tview (es_world u)) (tview (es_world t))"
    using IH Cons.prems(1) quiet by (auto simp: same_kind_def)
  moreover have "unstructured_api (r_U R)" "gvk_wf (res_GVK res)"
    using env ready by (auto simp: mirror_env_def engine_env_def mirror_ready_def)
  ultimately have "settled_kind (r_U R) E res (hview (es_world t)) (tview (es_world t))"
    using unstructured_api.settled_congr here(1) by blast
  then show ?case using IH later same_kind_trans by auto
qed

end

section \<open>A whole run\<close>

lemma no_fairness_limit:
  "apiFairness \<notin> {''tenant'', ''tenant-strict''} \<Longrightarrow> run_state (rateLimiterForFairness R apiFairness) w = (None, w)"
  by (simp add: rateLimiterForFairness_def ctrl_run)

context sync_mirror begin

lemma run_mirrors:
  assumes fairness: "p_APIFairness profile \<notin> {''tenant'', ''tenant-strict''}"
    and names: "SanitizeName (tc_Name tc) = tc_Name tc" "SanitizeName (tc_Namespace tc) = tc_Namespace tc"
    and kinds: "distinct (map res_GVK (syncResourcesFromPolicy R (Some policy)))"
    and ready: "\<forall>res \<in> set (syncResourcesFromPolicy R (Some policy)).
      mirror_ready (r_U R) (sync_engine R tc policy profile (r_un R) None) policy (hview w) (tview w) res"
    and run: "run_state (runSync R tc policy profile name) w = (None, w')"
  shows "\<forall>res \<in> set (syncResourcesFromPolicy R (Some policy)).
      settled_kind (r_U R) (sync_engine R tc policy profile (r_un R) None) res (hview w') (tview w')"
proof (cases "syncResourcesFromPolicy R (Some policy) = []")
  case False
  define history where "history = (if xs_RecordDecisions (sps_Explain (sp_Spec policy)) then do {
      l \<leftarrow> loadConvergenceHistory R tc;
      State_Monad.return (case l of Inl err \<Rightarrow> Inl err | Inr m \<Rightarrow> Inr (Some m))
    } else State_Monad.return (Inr None))"
  obtain vc w1 where c: "run_state (virtualClientFor R tc name) w = (vc, w1)" by fastforce
  obtain h w2 where h: "run_state history w1 = (h, w2)" by fastforce
  note limiter = no_fairness_limit [OF fairness, of R w2]
  obtain v where v: "vc = Inr v" using run c False by (cases vc) (auto simp: runSync_def ctrl_run)
  obtain hs where hs: "h = Inr hs"
    using run c v h False unfolding history_def by (cases h) (auto simp: runSync_def ctrl_run)
  let ?E = "sync_engine R tc policy profile v None"
  obtain s where s: "run_state (sync_resources R ?E tc policy (syncResourcesFromPolicy R (Some policy)) None)
      \<lparr>es_History = hs, es_world = w2\<rparr> = (None, s)" and w': "w' = es_world s"
    using run c v h hs limiter False unfolding history_def by (auto simp: runSync_def ctrl_run split: prod.splits)
  have "state_io_rel quiet history" unfolding history_def by (intro frame_rules run_calls_frame [OF quiet_calls] quiet_pre)
  then have quiet: "quiet w w2"
    using state_io_relD [OF run_calls_frame(3) [OF quiet_calls] c] state_io_relD [OF _ h] by fastforce
  obtain cfg u where "r_NewClient R cfg u = (Inr v, w1)" using client_origin [OF c [unfolded v]] by blast
  then have env: "mirror_env (r_U R) ?E hview tview" by (rule stores)
  have "\<forall>res \<in> set (syncResourcesFromPolicy R (Some policy)).
      mirror_ready (r_U R) ?E policy (hview w2) (tview w2) res"
    using ready quiet engine_congr(2) by metis
  then have "\<forall>res \<in> set (syncResourcesFromPolicy R (Some policy)). settled_kind (r_U R) ?E res (hview w') (tview w')"
    using resources_settle [OF env _ _ kinds _ s] names w' by (simp add: sync_engine_def)
  then show ?thesis using engine_congr(1) by metis
qed simp

end

section \<open>The host cluster with a tenant, again\<close>

interpretation ctl_mirror: sync_mirror sync_reconciler "\<lambda>w. mem_view (w_un w)" "\<lambda>w. mem_view (w_ten w)"
proof (intro sync_mirror.intro sync_mirror_axioms.intro)
  show "sync_quiet sync_reconciler (\<lambda>w. mem_view (w_un w)) (\<lambda>w. mem_view (w_ten w))" by (rule ctl_confined.sync_quiet_axioms)
  show "mirror_env (r_U sync_reconciler) (sync_engine sync_reconciler tc policy profile vc None) (\<lambda>w. mem_view (w_un w)) (\<lambda>w. mem_view (w_ten w))"
    if "r_NewClient sync_reconciler c w = (Inr vc, w')" for c w vc w' tc policy profile
  proof -
    have vc: "vc = lift_client w_ten (\<lambda>m w. w\<lparr>w_ten := m\<rparr>) mem_client" using that by (simp add: sync_reconciler_def)
    have env: "engine_env (r_U sync_reconciler) (sync_engine sync_reconciler tc policy profile vc None) (\<lambda>w. mem_view (w_un w)) (\<lambda>w. mem_view (w_ten w))"
      using ctl_sync.engine [OF that] by (simp add: limits_def)
    show ?thesis
      by (intro mirror_env.intro mirror_env_axioms.intro env)
        (auto simp: sync_engine_def sync_reconciler_def ctl_reconciler_def vc lift_call_def mem_client_def mem_view_kind
          split: prod.splits dest: mem_stores)
  qed
qed

definition mirror_policy :: SyncPolicy where
  "mirror_policy = \<lparr>sp_Meta = object_meta ''default'' '''' None,
     sp_Spec = \<lparr>sps_ConflictPolicy = ''host-wins'', sps_DriftDetection = \<lparr>dd_Enabled = False, dd_Interval = ''''\<rparr>,
       sps_Explain = \<lparr>xs_RecordDecisions = False, xs_Retain = 10\<rparr>,
       sps_Resources = [\<lparr>sr_APIVersion = ''v1'', sr_Kind = ''ConfigMap'', sr_Direction = ''toHost''\<rparr>]\<rparr>\<rparr>"

definition mirror_world :: ctl_world where
  "mirror_world = empty_world\<lparr>w_un := \<lparr>m_objs = [], m_rv = 5\<rparr>, w_ten := \<lparr>m_objs = [demo_config], m_rv = 7\<rparr>\<rparr>"

definition dev_engine :: "ctl_world Engine" where
  "dev_engine = sync_engine sync_reconciler (demo_tc ''dev'' ''team'') mirror_policy demo_profile
     (lift_client w_ten (\<lambda>m w. w\<lparr>w_ten := m\<rparr>) mem_client) None"

lemma mirror_resources: "syncResourcesFromPolicy sync_reconciler (Some mirror_policy) = [demo_res DirectionToHost]"
  by (simp add: syncResourcesFromPolicy_def mirror_policy_def parsed_resource_def sync_reconciler_def ctl_reconciler_def
      demo_res_def demo_gvk_def direction_defs)

lemma dev_fields:
  "e_Tenant dev_engine = ''dev''" "e_HostNamespace dev_engine = ''team''" "e_SkipNamespaces dev_engine = None"
  "e_RequiredRuntimeClassName dev_engine = ''''" "e_RateLimiter dev_engine = None" "e_Recorder dev_engine = None"
  "e_HostClient dev_engine = lift_client w_un (\<lambda>m w. w\<lparr>w_un := m\<rparr>) mem_client"
  "e_VirtualClient dev_engine = lift_client w_ten (\<lambda>m w. w\<lparr>w_ten := m\<rparr>) mem_client"
  by (simp_all add: dev_engine_def sync_engine_def demo_tc_def object_meta_def demo_profile_def mirror_policy_def sync_reconciler_def ctl_reconciler_def)

lemma dev_prepared: "prepare_host json_api dev_engine demo_gvk demo_config = Some (Inr (shop_ref, demo_mirror))"
proof -
  have e: "refFor json_api dev_engine = refFor json_api demo_engine" "skip dev_engine = skip demo_engine"
    "e_RequiredRuntimeClassName dev_engine = e_RequiredRuntimeClassName demo_engine"
    by (simp_all add: fun_eq_iff refFor_def skip_def dev_fields)
  have "prepare_host json_api dev_engine demo_gvk demo_config = prepare_host json_api demo_engine demo_gvk demo_config"
    by (simp only: prepare_host_def e)
  then show ?thesis using demo_prepared by simp
qed

lemma dev_pair:
  "\<exists>u. run_state (reconcilePair json_api dev_engine dir cp shop_ref demo_config demo_mirror) \<lparr>es_History = None, es_world = mirror_world\<rparr> =
      (Inr demo_created, u) \<and> m_objs (w_un (es_world u)) = [stamp 5 demo_mirror]"
proof -
  note k = demo_mirror_key [unfolded obj_key_def, simplified]
  have get: "cl_get (e_HostClient dev_engine) demo_gvk (''team'', HostName ''app'' ''shop'' ''dev'') mirror_world = (Inl not_found, mirror_world)"
    by (simp add: dev_fields lift_call_def mem_client_def mem_get_def mirror_world_def mem_view_def)
  have create: "cl_create (e_HostClient dev_engine) demo_mirror mirror_world =
      (Inr (stamp 5 demo_mirror), mirror_world\<lparr>w_un := \<lparr>m_objs = [stamp 5 demo_mirror], m_rv = 6\<rparr>\<rparr>)"
    by (simp add: dev_fields lift_call_def mem_client_def mem_create_def mirror_world_def mem_view_def Let_def)
  have nf: "IsNotFound not_found" by (simp add: IsNotFound_def not_found_def)
  have lim: "run_state (rateLimited dev_engine ref target) s = (None, s)" for ref target s
    by (simp add: rateLimited_def dev_fields run_return)
  show ?thesis
    unfolding reconcilePair_def create_pair_def run_cases lim Let_def
    by (simp add: k get nf create lim run_cases demo_created_def)
qed

lemma dev_collect:
  assumes "m_objs (w_un (es_world u)) = [stamp 5 demo_mirror]"
    and "bool_at des (HostName ''app'' ''shop'' ''dev'')"
  shows "run_state (collectOrphans json_api dev_engine demo_gvk des) u = (([], None), u)"
proof -
  let ?os = "remdups (filter (\<lambda>o1. mem_view (w_un (es_world u)) (obj_key json_api o1) = Some o1 \<and>
      selected json_api (listGVK demo_gvk) (Some ''team'') (gc_labels dev_engine demo_gvk) o1) [stamp 5 demo_mirror])"
  have list: "cl_list (e_HostClient dev_engine) (listGVK demo_gvk) (Some ''team'') (gc_labels dev_engine demo_gvk) (es_world u) = (Inr ?os, es_world u)"
    by (simp add: dev_fields lift_call_def mem_client_def mem_list_def assms(1) del: filter.simps)
  have "u_GetName json_api (stamp 5 demo_mirror) = HostName ''app'' ''shop'' ''dev''"
    using demo_mirror_key by (simp add: stamp_def json.rv_accessors obj_key_def)
  then have "\<forall>o1 \<in> set ?os. bool_at des (u_GetName json_api o1)" using assms(2) by simp
  then have "run_state (gc_items json_api dev_engine demo_gvk des ?os [] []) u = (([], []), u)"
    by (rule gc_items_none)
  then show ?thesis
    by (simp add: collectOrphans_def run_cases list aggregate_def dev_fields(2) del: filter.simps)
qed

lemma dev_pass:
  "\<exists>t. run_state (SyncToHost json_api dev_engine (demo_res DirectionToHost)) \<lparr>es_History = None, es_world = mirror_world\<rparr> =
     (([demo_created], None), t)"
proof -
  have name: "u_GetName json_api demo_mirror = HostName ''app'' ''shop'' ''dev''"
    using demo_mirror_key by (simp add: obj_key_def)
  have list: "cl_list (e_VirtualClient dev_engine) (listGVK demo_gvk) None [] mirror_world = (Inr [demo_config], mirror_world)"
    by (simp add: dev_fields lift_call_def mem_client_def mem_list_def mirror_world_def
        mem_view_def demo_config_facts selected_def labels_match_def listGVK_def list_kind_def)
  obtain u where u: "run_state (reconcilePair json_api dev_engine DirectionToHost '''' shop_ref demo_config demo_mirror)
      \<lparr>es_History = None, es_world = mirror_world\<rparr> = (Inr demo_created, u)" "m_objs (w_un (es_world u)) = [stamp 5 demo_mirror]"
    using dev_pair by blast
  have "run_state (collectOrphans json_api dev_engine demo_gvk (fmupd (HostName ''app'' ''shop'' ''dev'') True fmempty)) u = (([], None), u)"
    by (rule dev_collect) (simp_all add: u(2) bool_at_def)
  then show ?thesis
    by (simp add: SyncToHost_def syncPass_def run_cases demo_res_def list dev_prepared Let_def name u(1) record_decision_def
        aggregate_def dev_fields(6) direction_defs [symmetric])
qed

lemma dev_run:
  "\<exists>w'. run_state (runSync sync_reconciler (demo_tc ''dev'' ''team'') mirror_policy demo_profile ''kc'') mirror_world = (None, w')"
proof -
  have c: "run_state (virtualClientFor sync_reconciler (demo_tc ''dev'' ''team'') ''kc'') mirror_world =
      (Inr (lift_client w_ten (\<lambda>m w. w\<lparr>w_ten := m\<rparr>) mem_client), mirror_world)"
    by (simp add: virtualClientFor_def ctrl_run sync_reconciler_def ctl_reconciler_def no_objects_def demo_secret_def)
  have l: "run_state (rateLimiterForFairness sync_reconciler (p_APIFairness demo_profile)) mirror_world = (None, mirror_world)"
    by (rule no_fairness_limit) (simp add: demo_profile_def)
  have U: "r_U sync_reconciler = json_api" by (simp add: sync_reconciler_def ctl_reconciler_def)
  have d: "xs_RecordDecisions (sps_Explain (sp_Spec mirror_policy)) = False" by (simp add: mirror_policy_def)
  show ?thesis
    using dev_pass
    by (auto simp: runSync_def ctrl_run mirror_resources c l d U dev_engine_def [symmetric] sync_resource_def demo_res_def)
qed

section \<open>Properties\<close>


lemma dev_ready:
  "mirror_ready json_api dev_engine mirror_policy (mem_view (w_un mirror_world)) (mem_view (w_ten mirror_world)) (demo_res DirectionToHost)"
proof -
  have h: "mem_view (w_un mirror_world) k = None" for k
    by (simp add: mirror_world_def mem_view_def)
  have v: "mem_view (w_ten mirror_world) k = (if k = (demo_gvk, ''shop'', ''app'') then Some demo_config else None)" for k
    by (simp add: mirror_world_def mem_view_def demo_config_facts)
  show ?thesis
    by (auto simp: mirror_ready_def unclaimed_def mirrorable_tenant_def h v demo_mirrorable demo_gvk_wf demo_res_def decisive_def
        split: if_splits)
qed


end
