(* ===== verification/Tenant_Runs.thy ===== *)
theory Tenant_Runs
  imports Sync_Run Syncer_Convergence
begin

text \<open>
  Many reconciles: TenantClusters and namespaces of the host cluster as a transition system. A step is one reconcile, run
  to its end, or something the users and Kubernetes do between reconciles. The invariant ties every namespace that
  bears a tenant's labels at its control-plane name to a TenantCluster that still carries the finalizer.
\<close>

section \<open>The objects a tenant's life is about\<close>

definition tc_key :: "TenantCluster \<Rightarrow> string \<times> string" where
  "tc_key tc = meta_key (tc_Meta tc)"

definition guarded :: "TenantCluster option \<Rightarrow> bool" where
  "guarded t \<longleftrightarrow> (case t of None \<Rightarrow> False | Some tc \<Rightarrow> teardownFinalizer \<in> set (om_Finalizers (tc_Meta tc)))"

text \<open>A namespace carries the labels that name a tenant, whoever manages it.\<close>

definition claimed_by :: "Namespace \<Rightarrow> TenantCluster \<Rightarrow> bool" where
  "claimed_by ns tc \<longleftrightarrow> label_at (ns_Meta ns) labelTenant = tc_Name tc \<and>
     label_at (ns_Meta ns) labelTenantNamespace = tc_Namespace tc \<and> tc_Name tc \<noteq> ''''"

lemma owned_claimed: "ownedByTenant ns tc \<Longrightarrow> tc_Name tc \<noteq> '''' \<Longrightarrow> claimed_by ns tc"
  by (simp add: ownedByTenant_def claimed_by_def)

section \<open>Calls that stay away from them\<close>

definition quiet_call :: "('w \<Rightarrow> string \<times> string \<Rightarrow> TenantCluster option) \<Rightarrow> ('w \<Rightarrow> string \<times> string \<Rightarrow> Namespace option) \<Rightarrow>
    ('w \<Rightarrow> 'a \<times> 'w) \<Rightarrow> bool" where
  "quiet_call tcv nsv f \<longleftrightarrow> (\<forall>w. tcv (snd (f w)) = tcv w \<and> nsv (snd (f w)) = nsv w)"

definition quiet_kind :: "('w \<Rightarrow> string \<times> string \<Rightarrow> TenantCluster option) \<Rightarrow> ('w \<Rightarrow> string \<times> string \<Rightarrow> Namespace option) \<Rightarrow>
    ('a, 'w) kind_client \<Rightarrow> bool" where
  "quiet_kind tcv nsv C \<longleftrightarrow> (\<forall>n m. quiet_call tcv nsv (k_Get C n m)) \<and> (\<forall>x. quiet_call tcv nsv (k_Create C x)) \<and>
     (\<forall>x. quiet_call tcv nsv (k_Update C x)) \<and> (\<forall>x. quiet_call tcv nsv (k_StatusUpdate C x)) \<and>
     (\<forall>x. quiet_call tcv nsv (k_Delete C x)) \<and> (\<forall>n m f. quiet_call tcv nsv (k_CreateOrUpdate C n m f))"

definition quiet_client :: "('w \<Rightarrow> string \<times> string \<Rightarrow> TenantCluster option) \<Rightarrow> ('w \<Rightarrow> string \<times> string \<Rightarrow> Namespace option) \<Rightarrow>
    'w client \<Rightarrow> bool" where
  "quiet_client tcv nsv C \<longleftrightarrow> (\<forall>g k. quiet_call tcv nsv (cl_get C g k)) \<and> (\<forall>g n ls. quiet_call tcv nsv (cl_list C g n ls)) \<and>
     (\<forall>x. quiet_call tcv nsv (cl_create C x)) \<and> (\<forall>x. quiet_call tcv nsv (cl_update C x)) \<and> (\<forall>x. quiet_call tcv nsv (cl_delete C x))"

section \<open>The engine under a bound on its calls\<close>

definition calls_within :: "('w \<Rightarrow> 'w \<Rightarrow> bool) \<Rightarrow> 'w Engine \<Rightarrow> bool" where
  "calls_within Q E \<longleftrightarrow> all_but_tenant_update Q E \<and> (\<forall>o1 w. Q w (snd (cl_update (e_VirtualClient E) o1 w)))"

lemma pass_within:
  assumes "calls_within Q E" shows "state_io_rel (on_world Q) (syncPass U E res cp)"
proof -
  let ?R = "on_world Q"
  note d = assms [unfolded calls_within_def, THEN conjunct1]
  have upd: "state_io_rel ?R (world_call (cl_update (e_VirtualClient E) o1))" for o1
    using assms by (auto simp: calls_within_def intro!: frame_world_call)
  note f = abtu_frame [OF d] upd
  have push: "state_io_rel ?R (pushToHost U E ref target v e h b)" for ref target v e h b
    unfolding pushToHost_def Let_def by (intro frame_rules f)
  have pull: "state_io_rel ?R (pullToTenant U E ref target v e r b)" for ref target v e r b
    unfolding pullToTenant_def by (intro frame_rules f)
  have pair: "state_io_rel ?R (reconcilePair U E dir cp' ref v h)" for dir cp' ref v h
    unfolding reconcilePair_def reconcile_existing_def reconcileBidirectionalConflict_def create_pair_def Let_def
    by (intro frame_rules f push pull)
  have items: "state_io_rel ?R (sync_items U E res cp items ds es des)" for items ds es des
    by (induction items arbitrary: ds es des)
      (auto simp: Let_def intro!: frame_rules pair f split: option.splits sum.splits)
  have gc: "state_io_rel ?R (gc_items U E gvk des items ds es)" for gvk des items ds es
    by (induction items arbitrary: ds es) (auto simp: Let_def intro!: frame_rules f)
  have rec: "state_io_rel ?R (record_all E ds)" for ds
    by (induction ds) (auto intro!: frame_rules f)
  show ?thesis
    unfolding syncPass_def collectOrphans_def by (intro frame_rules f items gc rec)
qed

text \<open>
  What the API server promises about a TenantCluster and its namespaces during one reconcile: \<open>tcv\<close> and \<open>nsv\<close> are the
  stored objects. A status update never touches finalizers; other kinds are stored elsewhere.
\<close>

locale tenant_world =
  tcs: kind_store "r_tc R" tc_key tcv + nss: kind_store_write "r_ns R" ns_key nsv "\<lambda>ns. om_Labels (ns_Meta ns)" "\<lambda>ns. ()"
  for R :: "('q, 'c, 'w) Reconciler" and tcv :: "'w \<Rightarrow> string \<times> string \<Rightarrow> TenantCluster option"
    and nsv :: "'w \<Rightarrow> string \<times> string \<Rightarrow> Namespace option" +
  assumes finalizers: "r_ContainsFinalizer R m f \<longleftrightarrow> f \<in> set (om_Finalizers m)"
      "f \<in> set (om_Finalizers (r_AddFinalizer R m f))"
      "meta_key (r_AddFinalizer R m f) = meta_key m" "meta_key (r_RemoveFinalizer R m f) = meta_key m"
    and tc_update: "k_Update (r_tc R) x w = (r, w') \<Longrightarrow>
        guarded (tcv w' (tc_key x)) = guarded (tcv w (tc_key x)) \<or> guarded (tcv w' (tc_key x)) = guarded (Some x)"
    and tc_update_ok: "k_Update (r_tc R) x w = (Inr y, w') \<Longrightarrow>
        guarded (Some y) = guarded (Some x) \<and> guarded (tcv w' (tc_key x)) = guarded (Some x) \<and> tc_key y = tc_key x"
    and tc_status: "k_StatusUpdate (r_tc R) x w = (r, w') \<Longrightarrow> guarded (tcv w' k) = guarded (tcv w k)"
    and ns_create: "k_Create (r_ns R) ns w = (nr, w') \<Longrightarrow>
        nsv w' k = nsv w k \<or> (k = ns_key ns \<and> (\<exists>y. nsv w' k = Some y \<and> om_Labels (ns_Meta y) = om_Labels (ns_Meta ns)))"
    and ns_update: "k_Update (r_ns R) ns w = (nr, w') \<Longrightarrow>
        nsv w' k = nsv w k \<or> (k = ns_key ns \<and> (\<exists>y. nsv w' k = Some y \<and> om_Labels (ns_Meta y) = om_Labels (ns_Meta ns)))"
    and ns_delete: "k_Delete (r_ns R) ns w = (d, w') \<Longrightarrow>
        nsv w' k = nsv w k \<or> nsv w' k = None \<or>
        (\<exists>y z. nsv w k = Some y \<and> nsv w' k = Some z \<and> om_Labels (ns_Meta z) = om_Labels (ns_Meta y))"
    and tc_calls_ns: "nsv (snd (k_Get (r_tc R) p q w)) = nsv w" "nsv (snd (k_Update (r_tc R) x w)) = nsv w"
      "nsv (snd (k_StatusUpdate (r_tc R) x w)) = nsv w"
    and ns_calls_tc: "tcv (snd (k_Get (r_ns R) p q w)) = tcv w" "tcv (snd (k_Create (r_ns R) ns w)) = tcv w"
      "tcv (snd (k_Update (r_ns R) ns w)) = tcv w" "tcv (snd (k_Delete (r_ns R) ns w)) = tcv w"

text \<open>The other calls of a reconcile reach neither TenantClusters nor namespaces.\<close>

locale quiet_world = tenant_world R tcv nsv
  for R :: "('q, 'c, 'w) Reconciler" and tcv :: "'w \<Rightarrow> string \<times> string \<Rightarrow> TenantCluster option"
    and nsv :: "'w \<Rightarrow> string \<times> string \<Rightarrow> Namespace option" +
  assumes quiet_kinds: "quiet_kind tcv nsv (r_ip R)" "quiet_kind tcv nsv (r_sp R)" "quiet_kind tcv nsv (r_sd R)"
      "quiet_kind tcv nsv (r_svc R)" "quiet_kind tcv nsv (r_sts R)" "quiet_kind tcv nsv (r_secret R)"
      "quiet_kind tcv nsv (r_pvc R)" "quiet_kind tcv nsv (r_np R)" "quiet_kind tcv nsv (r_rq R)" "quiet_kind tcv nsv (r_lr R)"
    and quiet_un: "quiet_client tcv nsv (r_un R)"
    and quiet_tools: "quiet_call tcv nsv (r_execInPod R ns pod container command)" "quiet_call tcv nsv (r_Now R)"
      "quiet_call tcv nsv (r_NewLimiter R a b)" "quiet_call tcv nsv (r_NewClient R c)"
    and quiet_tenant: "r_NewClient R c w = (Inr vc, w') \<Longrightarrow> quiet_client tcv nsv vc"
    and quiet_limiter: "quiet_call tcv nsv (fst (r_NewLimiter R a b w))"
    and quiet_events: "r_Eventf R = Some ev \<Longrightarrow> tcv (ev tc et rs msg w) = tcv w \<and> nsv (ev tc et rs msg w) = nsv w"
begin

definition still :: "'w \<Rightarrow> 'w \<Rightarrow> bool" where
  "still w w' \<longleftrightarrow> tcv w' = tcv w \<and> nsv w' = nsv w"

lemma still_pre [simp]: "reflp still" "transp still"
  by (auto simp: still_def reflp_def transp_def)

lemma still_call: "quiet_call tcv nsv f \<Longrightarrow> state_io_rel still (api_call f)"
  by (rule frame_api_call) (simp add: quiet_call_def still_def)

lemma still_kind:
  assumes "quiet_kind tcv nsv C"
  shows "state_io_rel still (api_call (k_Get C n m))" "state_io_rel still (api_call (k_Create C x))"
    "state_io_rel still (api_call (k_Update C x))" "state_io_rel still (api_call (k_StatusUpdate C x))"
    "state_io_rel still (api_call (k_Delete C x))" "state_io_rel still (api_call (k_CreateOrUpdate C n m f))"
  using assms by (auto simp: quiet_kind_def intro!: still_call)

lemma still_un:
  "state_io_rel still (api_call (cl_get (r_un R) g k))" "state_io_rel still (api_call (cl_create (r_un R) x))"
  "state_io_rel still (api_call (cl_update (r_un R) x))" "state_io_rel still (api_call (cl_delete (r_un R) x))"
  by (rule still_call, use quiet_un in \<open>simp add: quiet_client_def del: split_paired_All\<close>)+

lemmas still_calls = quiet_kinds [THEN still_kind(1)] quiet_kinds [THEN still_kind(2)] quiet_kinds [THEN still_kind(3)]
  quiet_kinds [THEN still_kind(4)] quiet_kinds [THEN still_kind(5)] quiet_kinds [THEN still_kind(6)] still_un
  quiet_tools [THEN still_call]

lemmas still_rules = still_calls still_pre

lemma still_delete_if: "quiet_kind tcv nsv C \<Longrightarrow> state_io_rel still (delete_if C guard n m)"
  unfolding delete_if_def by (intro frame_rules still_kind still_pre)

lemma still_admission:
  "state_io_rel still (ensure_policy R gvk n d)" "state_io_rel still (reconcileRuntimeClassBinding R tc)"
  "state_io_rel still (deleteRuntimeClassBinding R tc)" "state_io_rel still (ensure_policies R objs)"
proof -
  show p: "state_io_rel still (ensure_policy R gvk n d)" for gvk n d
    unfolding ensure_policy_def by (intro frame_rules still_rules)
  show "state_io_rel still (ensure_policies R objs)"
    by (induction objs) (auto intro!: frame_rules p simp: still_pre)
  show "state_io_rel still (reconcileRuntimeClassBinding R tc)" "state_io_rel still (deleteRuntimeClassBinding R tc)"
    unfolding reconcileRuntimeClassBinding_def deleteRuntimeClassBinding_def Let_def by (intro frame_rules still_rules)+
qed

lemma still_control_plane:
  "state_io_rel still (cleanupLegacyControlPlane R tc)" "state_io_rel still (reconcileService R svc)"
  "state_io_rel still (reconcileExternalService R tc)" "state_io_rel still (externalEndpoint R tc)"
  "state_io_rel still (reconcileStatefulSet R tc)" "state_io_rel still (ensureKubeconfigSecret R tc n)"
  unfolding cleanupLegacyControlPlane_def reconcileService_def reconcileExternalService_def externalEndpoint_def
    reconcileStatefulSet_def ensureKubeconfigSecret_def Let_def
  by (intro frame_rules still_rules still_delete_if quiet_kinds)+

lemma still_run_calls: "run_calls still R"
  using quiet_kinds(3,6) quiet_tools by (simp add: run_calls_def quiet_kind_def quiet_call_def still_def del: split_paired_All)

lemma engine_within:
  assumes "quiet_client tcv nsv vc" "limits R l"
  shows "calls_within still (sync_engine R tc policy profile vc l)"
proof -
  have lim: "still w (snd (f w))" if "l = Some f" for f w
    using assms(2) that quiet_limiter by (auto simp: limits_def quiet_call_def still_def)
  have ev: "still w (event_Record R tc d w)" for d w
    using quiet_events by (auto simp: event_Record_def still_def Let_def split: option.split)
  show ?thesis
    using quiet_un assms(1) lim ev
    by (auto simp: calls_within_def all_but_tenant_update_def sync_engine_def quiet_client_def quiet_call_def still_def
        reflp_def transp_def)
qed

lemma still_run: "state_io_rel still (runSync R tc policy profile name)"
  by (intro run_sync_frame still_run_calls pass_within engine_within) (auto dest: quiet_tenant)

text \<open>Every namespace that names a tenant at its control-plane name is owned, and its TenantCluster is guarded.\<close>

definition no_orphan :: "'w \<Rightarrow> bool" where
  "no_orphan w \<longleftrightarrow> (\<forall>tc ns. nsv w ([], controlPlaneNamespace tc) = Some ns \<longrightarrow> claimed_by ns tc \<longrightarrow>
     ownedByTenant ns tc \<and> guarded (tcv w (tc_key tc)))"

definition live :: "string \<times> string \<Rightarrow> 'w \<Rightarrow> 'w \<Rightarrow> bool" where
  "live k w w' \<longleftrightarrow> (no_orphan w \<and> guarded (tcv w k) \<longrightarrow> no_orphan w' \<and> guarded (tcv w' k))"

lemma live_pre [simp]: "reflp (live k)" "transp (live k)"
  by (auto simp: live_def reflp_def transp_def)

lemma still_no_orphan: "still w w' \<Longrightarrow> no_orphan w' = no_orphan w"
  by (simp add: still_def no_orphan_def)

lemma still_live: "still w w' \<Longrightarrow> live k w w'"
  unfolding live_def using still_no_orphan [of w w'] by (simp add: still_def)

lemma still_is_live: "state_io_rel still m \<Longrightarrow> state_io_rel (live k) m"
  by (rule state_io_relI) (auto intro: still_live dest: state_io_relD)

lemmas live_rules = still_calls [THEN still_is_live] still_admission [THEN still_is_live]
  still_control_plane [THEN still_is_live] still_run [THEN still_is_live]

text \<open>Guards that only grow keep the invariant when the namespaces stay.\<close>

lemma no_orphan_mono: "no_orphan w \<Longrightarrow> nsv w' = nsv w \<Longrightarrow> (\<And>k. guarded (tcv w k) \<Longrightarrow> guarded (tcv w' k)) \<Longrightarrow> no_orphan w'"
  by (auto simp: no_orphan_def)

lemma live_status: "state_io_rel (live k) (api_call (k_StatusUpdate (r_tc R) x))"
proof (rule frame_api_call)
  fix w
  obtain r w' where u: "k_StatusUpdate (r_tc R) x w = (r, w')" by fastforce
  have "nsv w' = nsv w" using tc_calls_ns(3) [of x w] u by simp
  then show "live k w (snd (k_StatusUpdate (r_tc R) x w))"
    using no_orphan_mono [of w w'] tc_status [OF u] u by (simp add: live_def)
qed

lemma live_degrade: "state_io_rel (live k) (degrade R tc reason message)"
  unfolding degrade_def by (intro frame_rules live_status live_pre)

text \<open>A write to one namespace keeps the invariant when the new labels do not name a tenant, or name one that is guarded.\<close>

definition tame :: "'w \<Rightarrow> string \<Rightarrow> ObjectMeta \<Rightarrow> bool" where
  "tame w n m \<longleftrightarrow> (\<forall>tc. controlPlaneNamespace tc = n \<longrightarrow> claimed_by \<lparr>ns_Meta = m\<rparr> tc \<longrightarrow>
     ownedByTenant \<lparr>ns_Meta = m\<rparr> tc \<and> guarded (tcv w (tc_key tc)))"

lemma labels_only:
  assumes "om_Labels (ns_Meta y) = om_Labels m"
  shows "claimed_by y tc = claimed_by \<lparr>ns_Meta = m\<rparr> tc" "ownedByTenant y tc = ownedByTenant \<lparr>ns_Meta = m\<rparr> tc"
  using assms by (simp_all add: claimed_by_def ownedByTenant_def label_at_def)

lemma no_orphan_write:
  assumes "no_orphan w" "tcv w' = tcv w" "tame w n m"
    and "\<And>k. nsv w' k = nsv w k \<or> (k = ([], n) \<and> (\<exists>y. nsv w' k = Some y \<and> om_Labels (ns_Meta y) = om_Labels m))"
  shows "no_orphan w'"
  unfolding no_orphan_def
proof (intro allI impI)
  fix tc ns assume ns: "nsv w' ([], controlPlaneNamespace tc) = Some ns" "claimed_by ns tc"
  show "ownedByTenant ns tc \<and> guarded (tcv w' (tc_key tc))"
  proof (cases "nsv w' ([], controlPlaneNamespace tc) = nsv w ([], controlPlaneNamespace tc)")
    case True
    then show ?thesis using assms(1) [unfolded no_orphan_def, rule_format, of tc ns] assms(2) ns by simp
  next
    case False
    then have "controlPlaneNamespace tc = n" "om_Labels (ns_Meta ns) = om_Labels m"
      using assms(4) [of "([], controlPlaneNamespace tc)"] ns(1) by auto
    then show ?thesis using assms(2,3) ns(2) labels_only [of ns m tc] by (simp add: tame_def)
  qed
qed

text \<open>The labels after a merge: the desired value where there is one.\<close>

lemma merged_label:
  "label_at (with_labels old (stale_labels old d)) k = (case fmlookup d k of Some v \<Rightarrow> v | None \<Rightarrow> label_at old k)"
proof (cases "fmlookup d k")
  case None
  then show ?thesis by (cases "om_Labels old") (auto simp: stale_labels_def with_labels_def label_at_def str_at_def)
next
  case (Some v)
  then show ?thesis using labels_after [of d k v old] by simp
qed

lemma live_pod_security: "state_io_rel (live k) (applyNamespacePodSecurityLabels R namespace profile)"
proof (rule state_io_relI)
  fix x w w' assume run: "run_state (applyNamespacePodSecurityLabels R namespace profile) w = (x, w')"
  let ?d = "fmupd labelManagedBy ''tenantplane'' fmempty ++\<^sub>f PodSecurityLabels profile"
  obtain got v where g: "k_Get (r_ns R) [] namespace w = (got, v)" by fastforce
  have v: "still w v" using nss.get_frame [OF g] ns_calls_tc(1) [of "[]" namespace w] g by (simp add: still_def)
  show "live k w w'"
  proof (cases "w' = v")
    case True
    then show ?thesis using still_live v by simp
  next
    case False
    then obtain ns where ns: "got = Inr ns" "w' = snd (k_Update (r_ns R) (ns\<lparr>ns_Meta := with_labels (ns_Meta ns) (stale_labels (ns_Meta ns) ?d)\<rparr>) v)"
      using run g by (auto simp: applyNamespacePodSecurityLabels_def ctrl_run Let_def split: sum.splits if_splits prod.splits)
    let ?m = "with_labels (ns_Meta ns) (stale_labels (ns_Meta ns) ?d)"
    obtain r where u: "k_Update (r_ns R) (ns\<lparr>ns_Meta := ?m\<rparr>) v = (r, w')" using ns(2) by (metis prod.collapse)
    have seen: "nsv v ([], namespace) = Some ns" using nss.get_found g ns(1) nss.get_frame [OF g] by simp
    have key: "ns_key ns = ([], namespace)" using nss.view_key [OF seen] .
    have tv: "tcv w' = tcv v" using ns_calls_tc(3) u by (metis snd_conv)
    have label: "label_at ?m labelTenant = label_at (ns_Meta ns) labelTenant"
      "label_at ?m labelTenantNamespace = label_at (ns_Meta ns) labelTenantNamespace" "label_at ?m labelManagedBy = ''tenantplane''"
      unfolding merged_label pod_security_desired by (simp_all add: label_defs)
    have "no_orphan w'" if "no_orphan v"
    proof (rule no_orphan_write [OF that tv])
      show "tame v namespace ?m"
        unfolding tame_def
      proof (intro allI impI)
        fix tc assume tc: "controlPlaneNamespace tc = namespace" "claimed_by \<lparr>ns_Meta = ?m\<rparr> tc"
        then have "claimed_by ns tc" using label by (simp add: claimed_by_def)
        then have "ownedByTenant ns tc \<and> guarded (tcv v (tc_key tc))"
          using \<open>no_orphan v\<close> seen tc(1) by (auto simp: no_orphan_def)
        then show "ownedByTenant \<lparr>ns_Meta = ?m\<rparr> tc \<and> guarded (tcv v (tc_key tc))"
          using label by (simp add: ownedByTenant_def)
      qed
      show "nsv w' k = nsv v k \<or> (k = ([], namespace) \<and> (\<exists>y. nsv w' k = Some y \<and> om_Labels (ns_Meta y) = om_Labels ?m))" for k
        using ns_update [OF u, of k] key by simp
    qed
    then show ?thesis using v tv still_no_orphan [OF v] by (simp add: live_def still_def)
  qed
qed

lemma claim_key: "claimed_by ns tc \<Longrightarrow> claimed_by ns tc' \<Longrightarrow> tc_key tc' = tc_key tc"
  by (simp add: claimed_by_def tc_key_def meta_key_def)

lemma owned_key: "ownedByTenant ns tc \<Longrightarrow> claimed_by ns tc' \<Longrightarrow> ownedByTenant ns tc' \<and> tc_key tc' = tc_key tc"
  by (simp add: claimed_by_def ownedByTenant_def tc_key_def meta_key_def)

lemma live_namespace: "state_io_rel (live (tc_key tc)) (ensureControlPlaneNamespace R tc)"
proof (rule state_io_relI)
  fix x w w' assume run: "run_state (ensureControlPlaneNamespace R tc) w = (x, w')"
  let ?new = "buildControlPlaneNamespace tc" and ?n = "controlPlaneNamespace tc"
  have name: "om_Name (ns_Meta ?new) = ?n" "ns_key ?new = ([], ?n)"
    by (simp_all add: buildControlPlaneNamespace_def object_meta_def meta_key_def)
  have new: "ownedByTenant ?new tc"
    by (simp add: ownedByTenant_def buildControlPlaneNamespace_def object_meta_def label_at_def str_at_def label_defs)
  obtain got v where g: "k_Get (r_ns R) [] ?n w = (got, v)" by fastforce
  have v: "still w v" using nss.get_frame [OF g] ns_calls_tc(1) [of "[]" ?n w] g by (simp add: still_def)
  have stored: "live (tc_key tc) w w'"
    if m: "ownedByTenant \<lparr>ns_Meta = m\<rparr> tc" and tv: "tcv w' = tcv v"
      and nv: "\<And>k. nsv w' k = nsv v k \<or> (k = ([], ?n) \<and> (\<exists>y. nsv w' k = Some y \<and> om_Labels (ns_Meta y) = om_Labels m))" for m
  proof -
    have "no_orphan w'" if "no_orphan v" "guarded (tcv v (tc_key tc))"
    proof (rule no_orphan_write [OF that(1) tv _ nv])
      show "tame v ?n m"
        unfolding tame_def using owned_key [OF m] that(2) by auto
    qed
    then show ?thesis using v tv still_no_orphan [OF v] by (simp add: live_def still_def)
  qed
  show "live (tc_key tc) w w'"
  proof (cases "w' = v")
    case True
    then show ?thesis using still_live v by simp
  next
    case False
    then consider (create) r where "k_Create (r_ns R) ?new v = (r, w')"
      | (merge) ns d r where "got = Inr ns" "ownedByTenant ns tc" "om_Labels (ns_Meta ?new) = Some d"
          "k_Update (r_ns R) (ns\<lparr>ns_Meta := with_labels (ns_Meta ns) (stale_labels (ns_Meta ns) d)\<rparr>) v = (r, w')"
      using run g name(1) by (auto simp: ensureControlPlaneNamespace_def ctrl_run Let_def buildControlPlaneNamespace_def object_meta_def
          split: sum.splits if_splits prod.splits)
    then show ?thesis
    proof cases
      case create
      have "tcv w' = tcv v" using ns_calls_tc(2) create by (metis snd_conv)
      moreover have "ownedByTenant \<lparr>ns_Meta = ns_Meta ?new\<rparr> tc" using new by (simp add: ownedByTenant_def)
      ultimately show ?thesis using stored ns_create [OF create] name(2) by blast
    next
      case merge
      let ?m = "with_labels (ns_Meta ns) (stale_labels (ns_Meta ns) d)"
      have seen: "nsv v ([], ?n) = Some ns" using nss.get_found g merge(1) nss.get_frame [OF g] by simp
      have key: "ns_key ns = ([], ?n)" using nss.view_key [OF seen] .
      have "ownedByTenant \<lparr>ns_Meta = ?m\<rparr> tc"
        using merge(2,3) unfolding ownedByTenant_def Namespace.simps merged_label
        by (auto simp: buildControlPlaneNamespace_def object_meta_def label_defs)
      moreover have "tcv w' = tcv v" using ns_calls_tc(3) merge(4) by (metis snd_conv)
      ultimately show ?thesis using stored [of ?m] ns_update [OF merge(4)] key by simp
    qed
  qed
qed

text \<open>The stages of a live TenantCluster.\<close>

lemma live_optional:
  "quiet_kind tcv nsv C \<Longrightarrow> state_io_rel (live k) (apply_optional C name_of n mutate d)"
  unfolding apply_optional_def by (intro frame_rules live_pre still_kind(6) [THEN still_is_live])

lemma live_isolation: "state_io_rel (live k) (applyIsolation R tc profile)"
  unfolding applyIsolation_def Let_def
  by (intro frame_rules live_pre live_optional quiet_kinds live_pod_security)

lemma tc_key_frame [simp]:
  "tc_key (setCondition tc t st r m) = tc_key tc" "tc_key (setSupportConditions tc ip sp) = tc_key tc"
  "tc_key (setAdmissionHardeningCondition tc b) = tc_key tc" "tc_key (setControllerScopeCondition tc b) = tc_key tc"
  by (simp_all add: tc_key_def)

lemma live_ready: "state_io_rel (live k) (reconcile_ready R tc policy profile)"
  unfolding reconcile_ready_def Let_def
  by (intro frame_rules live_pre live_rules live_degrade live_status)

lemma live_control_plane: "state_io_rel (live (tc_key tc)) (reconcile_control_plane R tc policy profile)"
  unfolding reconcile_control_plane_def Let_def
  by (intro frame_rules live_pre live_namespace live_rules live_degrade live_status live_ready)

lemma live_reconcile_isolation: "state_io_rel (live (tc_key tc)) (reconcile_isolation R tc policy profile)"
proof -
  have cp: "state_io_rel (live (tc_key tc))
      (reconcile_control_plane R (setControllerScopeCondition (setAdmissionHardeningCondition tc a) b) policy profile)" for a b
    using live_control_plane [of "setControllerScopeCondition (setAdmissionHardeningCondition tc a) b"] by simp
  show ?thesis
    unfolding reconcile_isolation_def ensureRuntimeClassPolicy_def ensureControllerScopePolicies_def Let_def
    by (intro frame_rules live_pre live_isolation live_rules live_degrade cp frame_bool)
qed

lemma live_reconcile: "state_io_rel (live (tc_key tc)) (reconcile_live R tc)"
proof -
  have iso: "state_io_rel (live (tc_key tc)) (reconcile_isolation R (setSupportConditions tc ip sp) policy profile)" for ip sp policy profile
    using live_reconcile_isolation [of "setSupportConditions tc ip sp"] by simp
  show ?thesis
    unfolding reconcile_live_def Let_def
    by (intro frame_rules live_pre live_rules live_degrade iso)
qed

section \<open>Deletion\<close>

lemma no_orphan_delete:
  assumes "no_orphan w" "k_Delete (r_ns R) ns w = (d, w')"
  shows "no_orphan w'"
  unfolding no_orphan_def
proof (intro allI impI)
  fix tc y assume y: "nsv w' ([], controlPlaneNamespace tc) = Some y" "claimed_by y tc"
  have tv: "tcv w' = tcv w" using ns_calls_tc(4) [of ns w] assms(2) by simp
  obtain z where "nsv w ([], controlPlaneNamespace tc) = Some z" "om_Labels (ns_Meta y) = om_Labels (ns_Meta z)"
    using ns_delete [OF assms(2), of "([], controlPlaneNamespace tc)"] y(1) by (metis option.distinct(1) option.inject)
  then show "ownedByTenant y tc \<and> guarded (tcv w' (tc_key tc))"
    using assms(1) [unfolded no_orphan_def, rule_format, of tc z] y(2) tv by (simp add: claimed_by_def ownedByTenant_def label_at_def)
qed

text \<open>When teardown says that it is finished, no namespace claims the tenant.\<close>

lemma teardown_finished:
  assumes "run_state (teardown R tc) w = ((b, e), w')" "no_orphan w"
  shows "no_orphan w' \<and> tcv w' = tcv w \<and> (b \<longrightarrow> (\<forall>ns tc'. nsv w' ([], controlPlaneNamespace tc') = Some ns \<longrightarrow> claimed_by ns tc' \<longrightarrow> tc_key tc' \<noteq> tc_key tc))"
proof -
  let ?n = "controlPlaneNamespace tc"
  obtain d u where d: "run_state (deleteRuntimeClassBinding R tc) w = (d, u)" by fastforce
  have u: "still w u" using state_io_relD [OF still_admission(3) d] .
  obtain got v where g: "k_Get (r_ns R) [] ?n u = (got, v)" by fastforce
  have v: "still w v" using u nss.get_frame [OF g] ns_calls_tc(1) [of "[]" ?n u] g by (simp add: still_def)
  have no: "no_orphan u" "no_orphan v" using assms(2) still_no_orphan u v by simp_all
  have same: "controlPlaneNamespace tc' = ?n" if "tc_key tc' = tc_key tc" for tc'
    using that by (simp add: tc_key_def meta_key_def controlPlaneNamespace_def)
  have unclaimed: "tc_key tc' \<noteq> tc_key tc"
    if "nsv v ([], ?n) = None \<or> (\<exists>x. nsv v ([], ?n) = Some x \<and> \<not> ownedByTenant x tc)"
      "nsv v ([], controlPlaneNamespace tc') = Some ns" "claimed_by ns tc'" for ns tc'
  proof
    assume k: "tc_key tc' = tc_key tc"
    then have "ownedByTenant ns tc'" using no(2) that(2,3) by (auto simp: no_orphan_def)
    then have "ownedByTenant ns tc" using k by (simp add: ownedByTenant_def tc_key_def meta_key_def)
    then show False using that(1,2) same [OF k] by simp
  qed
  show ?thesis
  proof (cases "d = None")
    case False
    then show ?thesis using assms(1) d no u by (auto simp: teardown_def ctrl_run still_def)
  next
    case None: True
    show ?thesis
    proof (cases got)
      case (Inl err)
      then have r: "w' = v" "b \<longrightarrow> IsNotFound err" using assms(1) d None g by (auto simp: teardown_def ctrl_run split: if_splits)
      have "IsNotFound err \<Longrightarrow> nsv v ([], ?n) = None" using nss.get_missing g Inl nss.get_frame [OF g] by simp
      then show ?thesis using r no v unclaimed by (auto simp: still_def)
    next
      case (Inr x)
      have seen: "nsv v ([], ?n) = Some x" using nss.get_found g Inr nss.get_frame [OF g] by simp
      show ?thesis
      proof (cases "ownedByTenant x tc")
        case False
        then have "w' = v" using assms(1) d None g Inr by (simp add: teardown_def ctrl_run)
        then show ?thesis using False seen no v unclaimed by (auto simp: still_def)
      next
        case True
        obtain q z where z: "k_Delete (r_ns R) x v = (q, z)" by fastforce
        have "\<not> b \<and> (w' = v \<or> w' = z)"
          using assms(1) [unfolded teardown_def] True d None g Inr z by (auto simp: ctrl_run split: if_splits)
        moreover have "no_orphan z" "tcv z = tcv v" using no_orphan_delete [OF no(2) z] ns_calls_tc(4) [of x v] z by simp_all
        ultimately show ?thesis using no v by (auto simp: still_def)
      qed
    qed
  qed
qed

lemma deleted_keeps:
  assumes "run_state (reconcile_deleted R tc) w = (r, w')" "no_orphan w"
  shows "no_orphan w'"
proof (cases "r_ContainsFinalizer R (tc_Meta tc) teardownFinalizer")
  case False
  then show ?thesis using assms by (simp add: reconcile_deleted_def ctrl_run)
next
  case True
  obtain b e v where t: "run_state (teardown R tc) w = ((b, e), v)" by (metis prod.exhaust)
  note td = teardown_finished [OF t assms(2)]
  let ?x = "tc\<lparr>tc_Meta := r_RemoveFinalizer R (tc_Meta tc) teardownFinalizer\<rparr>"
  obtain q u where q: "k_Update (r_tc R) ?x v = (q, u)" by fastforce
  have key: "tc_key ?x = tc_key tc" using finalizers(4) by (simp add: tc_key_def)
  have "w' = v \<or> (b \<and> w' = u)" using assms(1) True t q
    by (cases b; cases e) (auto simp: reconcile_deleted_def ctrl_run)
  moreover have "no_orphan u" if b
    unfolding no_orphan_def
  proof (intro allI impI)
    fix tc' ns assume ns: "nsv u ([], controlPlaneNamespace tc') = Some ns" "claimed_by ns tc'"
    have nv: "nsv u = nsv v" using tc_calls_ns(2) [of ?x v] q by simp
    have "tc_key tc' \<noteq> tc_key ?x" using td that ns nv key by auto
    then have "tcv u (tc_key tc') = tcv v (tc_key tc')" using tcs.update_other [OF q] by simp
    then show "ownedByTenant ns tc' \<and> guarded (tcv u (tc_key tc'))"
      using td [THEN conjunct1, unfolded no_orphan_def, rule_format, of tc' ns] ns nv by simp
  qed
  ultimately show ?thesis using td by auto
qed

text \<open>One reconcile keeps the invariant.\<close>

lemma reconcile_keeps:
  assumes "run_state (Reconcile R n m) w = (r, w')" "no_orphan w"
  shows "no_orphan w'"
proof -
  obtain got v where g: "k_Get (r_tc R) n m w = (got, v)" by fastforce
  have v: "still w v" using tcs.get_frame [OF g] tc_calls_ns(1) [of n m w] g by (simp add: still_def)
  have no: "no_orphan v" using still_no_orphan [OF v] assms(2) by simp
  show ?thesis
  proof (cases got)
    case (Inl err)
    then show ?thesis using assms g no by (simp add: Reconcile_def ctrl_run)
  next
    case (Inr tc)
    have seen: "tcv v (tc_key tc) = Some tc"
      using tcs.get_found g Inr tcs.get_frame [OF g] tcs.view_key [of w "(n, m)" tc] by auto
    have go: "no_orphan z'" if "run_state (reconcile_live R t) z = (q, z')" "no_orphan z" "guarded (tcv z (tc_key t))" for t z q z'
      using state_io_relD [OF live_reconcile that(1)] that(2,3) by (simp add: live_def)
    show ?thesis
    proof (cases "om_DeletionTimestamp (tc_Meta tc) = None")
      case False
      obtain q z where q: "run_state (reconcile_deleted R tc) v = (q, z)" by fastforce
      then have "w' = z" using assms(1) g Inr False by (simp add: Reconcile_def ctrl_run)
      then show ?thesis using deleted_keeps [OF q no] by simp
    next
      case live: True
      show ?thesis
      proof (cases "r_ContainsFinalizer R (tc_Meta tc) teardownFinalizer")
        case True
        then have "guarded (tcv v (tc_key tc))" using seen finalizers(1) by (simp add: guarded_def)
        then show ?thesis using go [OF _ no] assms(1) g Inr live True by (simp add: Reconcile_def ctrl_run)
      next
        case False
        let ?x = "tc\<lparr>tc_Meta := r_AddFinalizer R (tc_Meta tc) teardownFinalizer\<rparr>"
        obtain q u where q: "k_Update (r_tc R) ?x v = (q, u)" by fastforce
        have x: "guarded (Some ?x)" "tc_key ?x = tc_key tc" using finalizers(2,3) by (simp_all add: guarded_def tc_key_def)
        have nv: "nsv u = nsv v" using tc_calls_ns(2) [of ?x v] q by simp
        have "guarded (tcv u k)" if "guarded (tcv v k)" for k
          using tc_update [OF q] tcs.update_other [OF q, of k] that x by (cases "k = tc_key ?x") auto
        then have nu: "no_orphan u" using no_orphan_mono [OF no nv] by blast
        show ?thesis
        proof (cases q)
          case (Inl err)
          then show ?thesis using assms(1) g Inr live False q nu by (simp add: Reconcile_def ctrl_run)
        next
          case t: (Inr t)
          have "guarded (tcv u (tc_key t))" using tc_update_ok [OF q [unfolded t]] x by simp
          then show ?thesis using go [OF _ nu] assms(1) g Inr live False q t by (simp add: Reconcile_def ctrl_run)
        qed
      qed
    qed
  qed
qed

end

section \<open>Runs of the system\<close>

text \<open>
  A reconcile of any TenantCluster, run to its end; what users do to TenantClusters (the API server keeps an object as
  long as it has a finalizer, so a finalizer is only lost to its owner); what happens to namespaces otherwise (created
  without a tenant's labels, changed without touching labels, or gone).
\<close>

inductive tenant_step ::
    "('q, 'c, 'w) Reconciler \<Rightarrow> ('w \<Rightarrow> string \<times> string \<Rightarrow> TenantCluster option) \<Rightarrow>
     ('w \<Rightarrow> string \<times> string \<Rightarrow> Namespace option) \<Rightarrow> 'w \<Rightarrow> 'w \<Rightarrow> bool"
  for R tcv nsv where
  reconcile: "run_state (Reconcile R n m) w = (r, w') \<Longrightarrow> tenant_step R tcv nsv w w'"
| users: "nsv w' = nsv w \<Longrightarrow> (\<And>k. guarded (tcv w k) \<Longrightarrow> guarded (tcv w' k)) \<Longrightarrow> tenant_step R tcv nsv w w'"
| namespaces: "tcv w' = tcv w \<Longrightarrow>
     (\<And>k ns. nsv w' k = Some ns \<Longrightarrow> (\<forall>tc. \<not> claimed_by ns tc) \<or>
        (\<exists>old. nsv w k = Some old \<and> om_Labels (ns_Meta ns) = om_Labels (ns_Meta old))) \<Longrightarrow>
     tenant_step R tcv nsv w w'"

inductive_cases tenant_stepE: "tenant_step R tcv nsv w w'"

context quiet_world
begin

lemma step_keeps: "tenant_step R tcv nsv w w' \<Longrightarrow> no_orphan w \<Longrightarrow> no_orphan w'"
proof (erule tenant_stepE)
  assume "no_orphan w" "tcv w' = tcv w"
    and ns: "\<And>k ns. nsv w' k = Some ns \<Longrightarrow> (\<forall>tc. \<not> claimed_by ns tc) \<or>
      (\<exists>old. nsv w k = Some old \<and> om_Labels (ns_Meta ns) = om_Labels (ns_Meta old))"
  show "no_orphan w'"
    unfolding no_orphan_def
  proof (intro allI impI)
    fix tc y assume y: "nsv w' ([], controlPlaneNamespace tc) = Some y" "claimed_by y tc"
    then obtain z where z: "nsv w ([], controlPlaneNamespace tc) = Some z" "om_Labels (ns_Meta y) = om_Labels (ns_Meta z)"
      using ns by blast
    then show "ownedByTenant y tc \<and> guarded (tcv w' (tc_key tc))"
      using \<open>no_orphan w\<close> [unfolded no_orphan_def, rule_format, of tc z] y(2) \<open>tcv w' = tcv w\<close>
      by (simp add: claimed_by_def ownedByTenant_def label_at_def)
  qed
qed (auto dest: reconcile_keeps intro: no_orphan_mono)

lemma run_keeps_no_orphan: "rtranclp (tenant_step R tcv nsv) w0 w \<Longrightarrow> no_orphan w0 \<Longrightarrow> no_orphan w"
  by (induction rule: rtranclp_induct) (auto dest: step_keeps)

end

text \<open>Property C1 (no control plane outlives its tenant). In every run of reconciles interleaved with what users and
  Kubernetes do, a namespace that bears a tenant's labels under the tenant's control-plane name is one the controller
  owns, and the TenantCluster it names still exists and carries the teardown finalizer: no control plane is left
  behind, and no reconcile of another tenant takes it over.\<close>

theorem no_control_plane_outlives_its_tenant:
  assumes "quiet_world R tcv nsv" "rtranclp (tenant_step R tcv nsv) w0 w"
    and "\<And>tc ns. nsv w0 ([], controlPlaneNamespace tc) = Some ns \<Longrightarrow> claimed_by ns tc \<Longrightarrow>
      ownedByTenant ns tc \<and> guarded (tcv w0 (tc_key tc))"
    and "nsv w ([], controlPlaneNamespace tc) = Some ns" "claimed_by ns tc"
  shows "ownedByTenant ns tc \<and>
    (\<exists>t. tcv w (tc_Namespace tc, tc_Name tc) = Some t \<and> ''tenantplane.io/teardown'' \<in> set (om_Finalizers (tc_Meta t)))"
proof -
  have "quiet_world.no_orphan tcv nsv w0" using assms(3) by (simp add: quiet_world.no_orphan_def [OF assms(1)])
  then have "quiet_world.no_orphan tcv nsv w" using quiet_world.run_keeps_no_orphan [OF assms(1,2)] by blast
  then have "ownedByTenant ns tc \<and> guarded (tcv w (tc_key tc))"
    using assms(4,5) by (simp add: quiet_world.no_orphan_def [OF assms(1)])
  then show ?thesis by (auto simp: guarded_def tc_key_def meta_key_def teardownFinalizer_def split: option.splits)
qed

section \<open>Deletion ends\<close>

text \<open>A host cluster on which nothing is in the way of a deletion: every call that teardown makes succeeds.\<close>

definition responsive :: "('q, 'c, 'w) Reconciler \<Rightarrow> ('w \<Rightarrow> string \<times> string \<Rightarrow> TenantCluster option) \<Rightarrow>
    ('w \<Rightarrow> string \<times> string \<Rightarrow> Namespace option) \<Rightarrow> bool" where
  "responsive R tcv nsv \<longleftrightarrow>
     (\<forall>n m w. fst (k_Get (r_tc R) n m w) = (case tcv w (n, m) of None \<Rightarrow> Inl not_found | Some t \<Rightarrow> Inr t)) \<and>
     (\<forall>n m w. fst (k_Get (r_ns R) n m w) = (case nsv w (n, m) of None \<Rightarrow> Inl not_found | Some x \<Rightarrow> Inr x)) \<and>
     (\<forall>x w. fst (cl_delete (r_un R) x w) = None \<or> (\<exists>err. fst (cl_delete (r_un R) x w) = Some err \<and> IsNotFound err)) \<and>
     (\<forall>x w. nsv w (ns_key x) \<noteq> None \<longrightarrow> fst (k_Delete (r_ns R) x w) = None) \<and> (\<forall>x w. tcv w (tc_key x) \<noteq> None \<longrightarrow> \<not> isl (fst (k_Update (r_tc R) x w)))"

context quiet_world
begin

lemma deletion_step:
  assumes resp: "responsive R tcv nsv"
    and tc: "tcv w (n, m) = Some tc" "om_DeletionTimestamp (tc_Meta tc) \<noteq> None" "guarded (Some tc)"
    and w': "w' = snd (run_state (Reconcile R n m) w)"
    and remove: "teardownFinalizer \<notin> set (om_Finalizers (r_RemoveFinalizer R (tc_Meta tc) teardownFinalizer))"
  shows "\<not> guarded (tcv w' (n, m)) \<or>
    (\<exists>ns. nsv w ([], controlPlaneNamespace tc) = Some ns \<and> ownedByTenant ns tc \<and>
      (om_DeletionTimestamp (ns_Meta ns) = None \<longrightarrow> nsv w' ([], controlPlaneNamespace tc) = None \<and> tcv w' = tcv w))"
proof -
  let ?n = "controlPlaneNamespace tc"
  obtain v where g: "k_Get (r_tc R) n m w = (Inr tc, v)"
    using resp tc(1) unfolding responsive_def by (metis option.simps(5) prod.collapse)
  have v: "still w v" using tcs.get_frame [OF g] tc_calls_ns(1) [of n m w] g by (simp add: still_def)
  obtain d u where d: "run_state (deleteRuntimeClassBinding R tc) v = (d, u)" by fastforce
  have u: "still w u" using state_io_relD [OF still_admission(3) d] v by (simp add: still_def)
  have dn: "d = None"
    using d resp unfolding responsive_def
    by (auto simp: deleteRuntimeClassBinding_def ctrl_run Let_def split: prod.splits option.splits if_splits) (metis fst_conv option.distinct(1) option.inject)+
  obtain got x where k: "k_Get (r_ns R) [] ?n u = (got, x)" by fastforce
  have got: "got = (case nsv u ([], ?n) of None \<Rightarrow> Inl not_found | Some y \<Rightarrow> Inr y)"
    using resp k unfolding responsive_def by (metis fst_conv)
  have x: "still w x" using u nss.get_frame [OF k] ns_calls_tc(1) [of "[]" ?n u] k by (simp add: still_def)
  have key: "tc_key tc = (n, m)" using tcs.view_key [OF tc(1)] .
  have fin: "r_ContainsFinalizer R (tc_Meta tc) teardownFinalizer" using tc(3) finalizers(1) by (simp add: guarded_def)
  have released: "\<not> guarded (tcv w' (n, m))" if t: "run_state (teardown R tc) v = ((True, None), x)"
  proof -
    let ?x = "tc\<lparr>tc_Meta := r_RemoveFinalizer R (tc_Meta tc) teardownFinalizer\<rparr>"
    obtain q z where q: "k_Update (r_tc R) ?x x = (q, z)" by fastforce
    have kx: "tc_key ?x = (n, m)" using finalizers(4) key by (simp add: tc_key_def)
    have "\<not> isl q" using resp q kx x tc(1) unfolding responsive_def still_def by (metis fst_conv option.distinct(1))
    then obtain y where y: "q = Inr y" by (cases q) auto
    have "guarded (tcv z (n, m)) = guarded (Some ?x)" using tc_update_ok [OF q [unfolded y]] kx by simp
    moreover have "w' = z" using w' g tc(2) fin t q by (simp add: Reconcile_def reconcile_deleted_def ctrl_run)
    ultimately show ?thesis using remove by (simp add: guarded_def)
  qed
  show ?thesis
  proof (cases "\<exists>ns. nsv w ([], ?n) = Some ns \<and> ownedByTenant ns tc")
    case False
    then have "run_state (teardown R tc) v = ((True, None), x)"
      using d dn k got u by (auto simp: teardown_def ctrl_run still_def not_found_def IsNotFound_def split: option.splits)
    then show ?thesis using released by blast
  next
    case True
    then obtain ns where ns: "nsv w ([], ?n) = Some ns" "ownedByTenant ns tc" by blast
    have gi: "got = Inr ns" using got u ns(1) by (simp add: still_def)
    have gone: "nsv w' ([], ?n) = None \<and> tcv w' = tcv w" if "om_DeletionTimestamp (ns_Meta ns) = None"
    proof -
      have key: "ns_key ns = ([], ?n)" using nss.view_key [OF ns(1)] .
      then have "nsv x (ns_key ns) \<noteq> None" using x ns(1) by (simp add: still_def)
      then obtain z where z: "k_Delete (r_ns R) ns x = (None, z)" using resp unfolding responsive_def by (metis prod.collapse)
      have "nsv z ([], ?n) = None" using nss.delete_ok [OF z] key by simp
      moreover have "tcv z = tcv w" using ns_calls_tc(4) [of ns x] z x by (simp add: still_def)
      moreover have "w' = z" using w' g tc(2) fin d dn k gi ns(2) that z
        by (simp add: Reconcile_def reconcile_deleted_def teardown_def ctrl_run ignore_not_found_def)
      ultimately show ?thesis by simp
    qed
    show ?thesis by (intro disjI2 exI [of _ ns] conjI impI) (simp_all add: ns gone)
  qed
qed

end


section \<open>A host cluster with TenantClusters\<close>

definition tc_status_update :: "TenantCluster \<Rightarrow> TenantCluster list \<Rightarrow> (goerr + TenantCluster) \<times> TenantCluster list" where
  "tc_status_update x xs =
     (case list_view tc_key xs (tc_key x) of
        None \<Rightarrow> (Inl not_found, xs)
      | Some old \<Rightarrow> (Inr (old\<lparr>tc_Status := tc_Status x\<rparr>), replace_by tc_key (old\<lparr>tc_Status := tc_Status x\<rparr>) xs))"

definition tc_client :: "(TenantCluster, ctl_world) kind_client" where
  "tc_client = lift_kind w_tc (\<lambda>m w. w\<lparr>w_tc := m\<rparr>) ((list_client tc_key)\<lparr>k_StatusUpdate := tc_status_update\<rparr>)"

definition tenant_reconciler :: "(string, unit, ctl_world) Reconciler" where
  "tenant_reconciler = sync_reconciler\<lparr>r_tc := tc_client\<rparr>"

lemma tenant_reconciler_simps [simp]:
  "r_tc tenant_reconciler = tc_client" "r_ns tenant_reconciler = ns_client"
  by (simp_all add: tenant_reconciler_def sync_reconciler_def)

lemma tc_status_view:
  assumes "tc_status_update x xs = (r, ys)"
  shows "k \<noteq> tc_key x \<Longrightarrow> list_view tc_key ys k = list_view tc_key xs k"
    "guarded (list_view tc_key ys k) = guarded (list_view tc_key xs k)"
proof -
  note u = assms
  have "ys = xs \<or> (\<exists>old. list_view tc_key xs (tc_key x) = Some old \<and> ys = replace_by tc_key (old\<lparr>tc_Status := tc_Status x\<rparr>) xs)"
    using u by (simp add: tc_status_update_def split: option.splits)
  then have "list_view tc_key ys k = list_view tc_key xs k \<or> k = tc_key x \<and>
    (\<exists>old. list_view tc_key xs k = Some old \<and> list_view tc_key ys k = Some (old\<lparr>tc_Status := tc_Status x\<rparr>))"
  proof
    assume "\<exists>old. list_view tc_key xs (tc_key x) = Some old \<and> ys = replace_by tc_key (old\<lparr>tc_Status := tc_Status x\<rparr>) xs"
    then obtain old where o1: "list_view tc_key xs (tc_key x) = Some old" "ys = replace_by tc_key (old\<lparr>tc_Status := tc_Status x\<rparr>) xs" by blast
    have k: "tc_key (old\<lparr>tc_Status := tc_Status x\<rparr>) = tc_key x" using list_view_key [OF o1(1)] by (simp add: tc_key_def)
    show ?thesis
    proof (cases "k = tc_key x")
      case True
      then show ?thesis using list_view_replaced [of tc_key xs "old\<lparr>tc_Status := tc_Status x\<rparr>" old] o1 k by simp
    next
      case False
      then show ?thesis by (simp add: o1(2) list_view_replace k)
    qed
  qed simp
  then show "k \<noteq> tc_key x \<Longrightarrow> list_view tc_key ys k = list_view tc_key xs k"
    "guarded (list_view tc_key ys k) = guarded (list_view tc_key xs k)"
    by (auto simp: guarded_def)
qed

interpretation ctl_tc: kind_store tc_client tc_key "\<lambda>w. list_view tc_key (w_tc w)"
proof -
  have "kind_store ((list_client tc_key)\<lparr>k_StatusUpdate := tc_status_update\<rparr>) tc_key (list_view tc_key)"
    using listed.kind_store_axioms [of tc_key] tc_status_view(1) by (auto simp: kind_store_def)
  then show "kind_store tc_client tc_key (\<lambda>w. list_view tc_key (w_tc w))"
    unfolding tc_client_def by (rule lift_kind_store) simp
qed

lemma quiet_lift:
  assumes "\<And>m w. tcv (setp m w) = tcv w" "\<And>m w. nsv (setp m w) = nsv w"
  shows "quiet_kind tcv nsv (lift_kind part setp C)" "quiet_client tcv nsv (lift_client part setp D)"
  using assms by (auto simp: quiet_kind_def quiet_client_def quiet_call_def lift_call_snd lift_kind_def simp del: split_paired_All)

lemma quiet_no_objects: "quiet_kind tcv nsv no_objects"
  by (simp add: quiet_kind_def quiet_call_def no_objects_def)

lemma tc_list_update:
  assumes "list_update_call tc_key x xs = (r, ys)"
  shows "guarded (list_view tc_key ys (tc_key x)) = guarded (list_view tc_key xs (tc_key x)) \<or>
      guarded (list_view tc_key ys (tc_key x)) = guarded (Some x)"
  using assms by (auto simp: list_update_call_def list_view_replaced split: option.splits)

abbreviation ctl_tcv :: "ctl_world \<Rightarrow> string \<times> string \<Rightarrow> TenantCluster option" where
  "ctl_tcv w \<equiv> list_view tc_key (w_tc w)"

abbreviation ctl_nsv :: "ctl_world \<Rightarrow> string \<times> string \<Rightarrow> Namespace option" where
  "ctl_nsv w \<equiv> list_view ns_key (w_ns w)"

lemma tenant_reconciler_more [simp]:
  "r_AddFinalizer tenant_reconciler = r_AddFinalizer ctl_reconciler"
  "r_RemoveFinalizer tenant_reconciler = r_RemoveFinalizer ctl_reconciler"
  "r_ContainsFinalizer tenant_reconciler = r_ContainsFinalizer ctl_reconciler"
  "r_un tenant_reconciler = r_un ctl_reconciler"
  by (simp_all add: tenant_reconciler_def sync_reconciler_def)

lemma list_view_replace_self:
  "list_view key (replace_by key x xs) k = (if k = key x \<and> list_view key xs k \<noteq> None then Some x else list_view key xs k)"
  by (induction xs) (auto simp: list_view_def replace_by_def)

interpretation ctl_tenants: tenant_world tenant_reconciler ctl_tcv ctl_nsv
proof (intro tenant_world.intro tenant_world_axioms.intro)
  show "kind_store (r_tc tenant_reconciler) tc_key ctl_tcv" by (simp add: ctl_tc.kind_store_axioms)
  show "kind_store_write (r_ns tenant_reconciler) ns_key ctl_nsv (\<lambda>ns. om_Labels (ns_Meta ns)) (\<lambda>ns. ())"
    by (simp add: ctl_ns_write.kind_store_write_axioms)
next
  fix m f
  show "r_ContainsFinalizer tenant_reconciler m f = (f \<in> set (om_Finalizers m))"
    "f \<in> set (om_Finalizers (r_AddFinalizer tenant_reconciler m f))"
    "meta_key (r_AddFinalizer tenant_reconciler m f) = meta_key m" "meta_key (r_RemoveFinalizer tenant_reconciler m f) = meta_key m"
    by (simp_all add: ctl_reconciler_def meta_key_def)
next
  fix x w r w' assume "k_Update (r_tc tenant_reconciler) x w = (r, w')"
  then have "list_update_call tc_key x (w_tc w) = (r, w_tc w')"
    by (auto simp: tc_client_def list_client_def lift_call_def split: prod.splits)
  then show "guarded (ctl_tcv w' (tc_key x)) = guarded (ctl_tcv w (tc_key x)) \<or> guarded (ctl_tcv w' (tc_key x)) = guarded (Some x)"
    by (rule tc_list_update)
next
  fix x w y w' assume "k_Update (r_tc tenant_reconciler) x w = (Inr y, w')"
  then have "list_update_call tc_key x (w_tc w) = (Inr y, w_tc w')"
    by (auto simp: tc_client_def list_client_def lift_call_def split: prod.splits)
  then show "guarded (Some y) = guarded (Some x) \<and> guarded (ctl_tcv w' (tc_key x)) = guarded (Some x) \<and> tc_key y = tc_key x"
    by (auto dest: list_update_ok)
next
  fix x w r w' k assume "k_StatusUpdate (r_tc tenant_reconciler) x w = (r, w')"
  then have "tc_status_update x (w_tc w) = (r, w_tc w')" by (auto simp: tc_client_def lift_call_def split: prod.splits)
  then show "guarded (ctl_tcv w' k) = guarded (ctl_tcv w k)" by (rule tc_status_view)
next
  fix ns w nr w' k
  show "ctl_nsv w' k = ctl_nsv w k \<or> k = ns_key ns \<and> (\<exists>y. ctl_nsv w' k = Some y \<and> om_Labels (ns_Meta y) = om_Labels (ns_Meta ns))"
    if "k_Create (r_ns tenant_reconciler) ns w = (nr, w')"
    using that by (auto simp: ns_client_def list_client_def lift_call_def list_view_append list_view_single split: option.splits if_splits)
  show "ctl_nsv w' k = ctl_nsv w k \<or> k = ns_key ns \<and> (\<exists>y. ctl_nsv w' k = Some y \<and> om_Labels (ns_Meta y) = om_Labels (ns_Meta ns))"
    if "k_Update (r_ns tenant_reconciler) ns w = (nr, w')"
    using that by (auto simp: ns_client_def list_client_def list_update_call_def lift_call_def list_view_replace_self split: option.splits if_splits)
next
  fix ns w d w' k assume "k_Delete (r_ns tenant_reconciler) ns w = (d, w')"
  then show "ctl_nsv w' k = ctl_nsv w k \<or> ctl_nsv w' k = None \<or>
      (\<exists>y z. ctl_nsv w k = Some y \<and> ctl_nsv w' k = Some z \<and> om_Labels (ns_Meta z) = om_Labels (ns_Meta y))"
    by (auto simp: ns_client_def list_client_def lift_call_def list_view_filter split: option.splits)
qed (simp_all add: tc_client_def ns_client_def lift_call_snd)

interpretation ctl_quiet: quiet_world tenant_reconciler ctl_tcv ctl_nsv
proof (intro quiet_world.intro quiet_world_axioms.intro ctl_tenants.tenant_world_axioms)
  show "quiet_client ctl_tcv ctl_nsv vc" if "r_NewClient tenant_reconciler c w = (Inr vc, w')" for c w vc w'
  proof -
    have "vc = lift_client w_ten (\<lambda>m w. w\<lparr>w_ten := m\<rparr>) mem_client"
      using that by (simp add: tenant_reconciler_def sync_reconciler_def)
    then show ?thesis by (simp add: quiet_lift)
  qed
  have lifted: "quiet_kind ctl_tcv ctl_nsv sd_client" "quiet_kind ctl_tcv ctl_nsv svc_client" "quiet_kind ctl_tcv ctl_nsv pvc_client"
    by (simp_all add: sd_client_def svc_client_def pvc_client_def quiet_lift)
  have secrets: "quiet_kind ctl_tcv ctl_nsv (no_objects\<lparr>k_Get := \<lambda>n m w. (Inr demo_secret, w)\<rparr>)"
    by (simp add: quiet_kind_def quiet_call_def no_objects_def)
  note kinds = lifted secrets quiet_no_objects
  show "quiet_kind ctl_tcv ctl_nsv (r_ip tenant_reconciler)" "quiet_kind ctl_tcv ctl_nsv (r_sp tenant_reconciler)"
    "quiet_kind ctl_tcv ctl_nsv (r_sd tenant_reconciler)" "quiet_kind ctl_tcv ctl_nsv (r_svc tenant_reconciler)"
    "quiet_kind ctl_tcv ctl_nsv (r_sts tenant_reconciler)" "quiet_kind ctl_tcv ctl_nsv (r_secret tenant_reconciler)"
    "quiet_kind ctl_tcv ctl_nsv (r_pvc tenant_reconciler)" "quiet_kind ctl_tcv ctl_nsv (r_np tenant_reconciler)"
    "quiet_kind ctl_tcv ctl_nsv (r_rq tenant_reconciler)" "quiet_kind ctl_tcv ctl_nsv (r_lr tenant_reconciler)"
    by (simp_all add: kinds tenant_reconciler_def sync_reconciler_def ctl_reconciler_def)
  show "quiet_client ctl_tcv ctl_nsv (r_un tenant_reconciler)" by (simp add: quiet_lift)
qed (auto simp: tenant_reconciler_def sync_reconciler_def ctl_reconciler_def quiet_call_def)

section \<open>Runs of the small cluster\<close>

abbreviation tenant_world_of :: "TenantCluster \<Rightarrow> ctl_world" where
  "tenant_world_of tc \<equiv> empty_world\<lparr>w_tc := [tc], w_ns := [owned_namespace tc]\<rparr>"

lemma tenant_world_views:
  "list_view tc_key [tc] k = (if k = tc_key tc then Some tc else None)"
  "list_view ns_key [owned_namespace tc] k = (if k = ([], controlPlaneNamespace tc) then Some (owned_namespace tc) else None)"
  by (auto simp: list_view_single owned_namespace_def buildControlPlaneNamespace_def object_meta_def meta_key_def)

lemma owned_namespace_owned: "ownedByTenant (owned_namespace tc) tc"
  by (simp add: ownedByTenant_def owned_namespace_def buildControlPlaneNamespace_def object_meta_def label_at_def str_at_def label_defs)

lemma deleted_tc_key: "tc_key deleted_tc = (''team'', ''dev'')"
  by (simp add: deleted_tc_def demo_tc_def object_meta_def tc_key_def meta_key_def)

theorem no_control_plane_outlives_its_tenant_witness:
  "\<exists>t. ctl_tcv (tenant_world_of deleted_tc) (''team'', ''dev'') = Some t \<and> ''tenantplane.io/teardown'' \<in> set (om_Finalizers (tc_Meta t))"
proof -
  have names: "tc_Name deleted_tc = ''dev''" "tc_Namespace deleted_tc = ''team''" "tc_key deleted_tc = (''team'', ''dev'')"
      "tc_Name live_tc = ''dev''" "tc_Namespace live_tc = ''team''" "tc_key live_tc = (''team'', ''dev'')"
    by (simp_all add: deleted_tc_def live_tc_def demo_tc_def object_meta_def tc_key_def meta_key_def)
  have same: "owned_namespace deleted_tc = owned_namespace live_tc" "controlPlaneNamespace deleted_tc = controlPlaneNamespace live_tc"
    by (simp_all add: owned_namespace_def buildControlPlaneNamespace_def controlPlaneNamespace_def names del: One_nat_def)
  have g: "guarded (Some live_tc)" "guarded (Some deleted_tc)" by (simp_all add: guarded_def live_tc_def deleted_tc_def)
  have step: "tenant_step tenant_reconciler ctl_tcv ctl_nsv (tenant_world_of live_tc) (tenant_world_of deleted_tc)"
  proof (rule tenant_step.users)
    show "ctl_nsv (tenant_world_of deleted_tc) = ctl_nsv (tenant_world_of live_tc)"
      by (simp add: same)
    show "guarded (ctl_tcv (tenant_world_of deleted_tc) k)" if "guarded (ctl_tcv (tenant_world_of live_tc) k)" for k
      using that by (simp add: tenant_world_views names g split: if_splits)
  qed
  have run: "rtranclp (tenant_step tenant_reconciler ctl_tcv ctl_nsv) (tenant_world_of live_tc) (tenant_world_of deleted_tc)"
    using step by (rule r_into_rtranclp)
  have claim: "claimed_by (owned_namespace deleted_tc) deleted_tc"
    by (rule owned_claimed [OF owned_namespace_owned]) (simp add: names)
  have "ownedByTenant (owned_namespace deleted_tc) deleted_tc \<and>
    (\<exists>t. ctl_tcv (tenant_world_of deleted_tc) (tc_Namespace deleted_tc, tc_Name deleted_tc) = Some t \<and>
      ''tenantplane.io/teardown'' \<in> set (om_Finalizers (tc_Meta t)))"
  proof (rule no_control_plane_outlives_its_tenant [OF ctl_quiet.quiet_world_axioms run _ _ claim])
    fix tc ns assume "ctl_nsv (tenant_world_of live_tc) ([], controlPlaneNamespace tc) = Some ns" "claimed_by ns tc"
    moreover have "claimed_by (owned_namespace live_tc) live_tc"
      by (rule owned_claimed [OF owned_namespace_owned]) (simp add: names)
    ultimately have "ns = owned_namespace live_tc" "tc_Name tc = ''dev''" "tc_Namespace tc = ''team''"
      by (auto simp: tenant_world_views claimed_by_def names split: if_splits)
    then show "ownedByTenant ns tc \<and> guarded (ctl_tcv (tenant_world_of live_tc) (tc_key tc))"
      using owned_namespace_owned [of live_tc] g(1)
      by (simp add: tenant_world_views names ownedByTenant_def) (simp add: tc_key_def meta_key_def)
  qed (simp add: tenant_world_views)
  then show ?thesis by (simp add: names)
qed

lemma tenant_reconciler_responsive: "responsive tenant_reconciler ctl_tcv ctl_nsv"
  unfolding responsive_def
proof (intro conjI allI impI)
  fix n m w x
  show "fst (k_Get (r_tc tenant_reconciler) n m w) = (case ctl_tcv w (n, m) of None \<Rightarrow> Inl not_found | Some t \<Rightarrow> Inr t)"
    by (simp add: tc_client_def list_client_def lift_call_def)
  show "fst (k_Get (r_ns tenant_reconciler) n m w) = (case ctl_nsv w (n, m) of None \<Rightarrow> Inl not_found | Some t \<Rightarrow> Inr t)"
    by (simp add: ns_client_def list_client_def lift_call_def)
next
  fix x w
  show "fst (cl_delete (r_un tenant_reconciler) x w) = None \<or>
      (\<exists>err. fst (cl_delete (r_un tenant_reconciler) x w) = Some err \<and> IsNotFound err)"
    by (simp add: lift_call_def mem_client_def mem_delete_def not_found_def IsNotFound_def split: option.split)
next
  fix x w assume "ctl_nsv w (ns_key x) \<noteq> None"
  then show "fst (k_Delete (r_ns tenant_reconciler) x w) = None"
    by (auto simp: ns_client_def list_client_def lift_call_def)
next
  fix x w assume "ctl_tcv w (tc_key x) \<noteq> None"
  then show "\<not> isl (fst (k_Update (r_tc tenant_reconciler) x w))"
    by (auto simp: tc_client_def list_client_def list_update_call_def lift_call_def)
qed


end
