(* ===== verification/Control_Plane_Ready.thy ===== *)
theory Control_Plane_Ready
  imports Sync_Confinement Tenant_Runs
begin

text \<open>
  What a reconcile establishes: a TenantCluster whose status says Ready has its control plane. The stages of
  \<open>Reconcile\<close> are followed with triples (precondition, computation, postcondition), each stage keeping what the stages
  before it have put in place. The locale \<open>ready_world\<close> joins \<open>quiet_world\<close> and \<open>sync_quiet\<close> with the stores of
  Services and StatefulSets; \<open>Ready_Status\<close> interprets it.
\<close>

section \<open>Triples\<close>

definition triple :: "('w \<Rightarrow> bool) \<Rightarrow> ('w, 'a) state \<Rightarrow> ('a \<Rightarrow> 'w \<Rightarrow> bool) \<Rightarrow> bool" where
  "triple P m Q \<longleftrightarrow> (\<forall>w r w'. P w \<longrightarrow> run_state m w = (r, w') \<longrightarrow> Q r w')"

lemma tripleI: "(\<And>w r w'. P w \<Longrightarrow> run_state m w = (r, w') \<Longrightarrow> Q r w') \<Longrightarrow> triple P m Q"
  by (simp add: triple_def)

lemma tripleD: "triple P m Q \<Longrightarrow> run_state m w = (r, w') \<Longrightarrow> P w \<Longrightarrow> Q r w'"
  by (simp add: triple_def)

lemma triple_return: "(\<And>w. P w \<Longrightarrow> Q x w) \<Longrightarrow> triple P (State_Monad.return x) Q"
  by (simp add: triple_def run_return)

lemma triple_bind: "triple P m I \<Longrightarrow> (\<And>x. triple (I x) (f x) Q) \<Longrightarrow> triple P (do { x \<leftarrow> m; f x }) Q"
  by (force simp: triple_def run_bind split: prod.splits)

lemma triple_pre: "triple P' m Q \<Longrightarrow> (\<And>w. P w \<Longrightarrow> P' w) \<Longrightarrow> triple P m Q"
  unfolding triple_def by blast

lemma triple_post: "triple P m Q' \<Longrightarrow> (\<And>r w. Q' r w \<Longrightarrow> Q r w) \<Longrightarrow> triple P m Q"
  by (simp add: triple_def)

lemma triple_frame: "state_io_rel R m \<Longrightarrow> (\<And>w r w'. P w \<Longrightarrow> R w w' \<Longrightarrow> Q r w') \<Longrightarrow> triple P m Q"
  by (auto intro!: tripleI dest: state_io_relD)

text \<open>An error ends the stage, nothing else does.\<close>

lemma triple_stage:
  assumes "triple P m (\<lambda>e w. P w \<and> (e = None \<longrightarrow> P' w))"
    and "\<And>err. triple P (fail err) Q" "triple P' k Q"
  shows "triple P (do { e \<leftarrow> m; case e of Some err \<Rightarrow> fail err | None \<Rightarrow> k }) Q"
proof (rule triple_bind [OF assms(1)])
  fix e
  show "triple (\<lambda>w. P w \<and> (e = None \<longrightarrow> P' w)) (case e of Some err \<Rightarrow> fail err | None \<Rightarrow> k) Q"
    using assms(2,3) by (cases e) (auto intro: triple_pre)
qed

lemma triple_result:
  assumes "triple (P None) m Q" "\<And>err. triple (P (Some (Inl err))) (f err) Q" "\<And>s. triple (P (Some (Inr s))) (g s) Q"
  shows "triple (P r) (case r of None \<Rightarrow> m | Some (Inl err) \<Rightarrow> f err | Some (Inr s) \<Rightarrow> g s) Q"
  using assms by (simp split: option.split sum.split)

text \<open>A stage that keeps the precondition whatever it returns, and the cases on what it returns.\<close>

lemma triple_keep: "triple P m (\<lambda>r. P) \<Longrightarrow> (\<And>x. triple P (f x) Q) \<Longrightarrow> triple P (do { x \<leftarrow> m; f x }) Q"
  by (rule triple_bind)

lemma triple_option: "triple P m Q \<Longrightarrow> (\<And>x. triple P (f x) Q) \<Longrightarrow> triple P (case r of None \<Rightarrow> m | Some x \<Rightarrow> f x) Q"
  by (simp split: option.split)

lemma triple_sum: "(\<And>e. triple P (f e) Q) \<Longrightarrow> (\<And>x. triple P (g x) Q) \<Longrightarrow> triple P (case r of Inl e \<Rightarrow> f e | Inr x \<Rightarrow> g x) Q"
  by (simp split: sum.split)

lemma triple_if: "triple P m Q \<Longrightarrow> triple P m' Q \<Longrightarrow> triple P (if b then m else m') Q"
  by simp

lemma triple_pair: "(\<And>x y. triple P (f x y) Q) \<Longrightarrow> triple P (case r of (x, y) \<Rightarrow> f x y) Q"
  by (simp split: prod.split)

lemmas triple_cases = triple_option triple_sum triple_if triple_pair

section \<open>A control plane in place\<close>

text \<open>The labels a namespace is built with are on it; what the controller writes to a Service and to a StatefulSet.\<close>

definition carries :: "ObjectMeta \<Rightarrow> ObjectMeta \<Rightarrow> bool" where
  "carries d m \<longleftrightarrow> (\<forall>l k v. om_Labels d = Some l \<longrightarrow> fmlookup l k = Some v \<longrightarrow> label_at m k = v)"

definition svc_conf :: "Service \<Rightarrow> strmap option \<times> bool \<times> ServicePort list \<times> strmap option" where
  "svc_conf s = (om_Labels (sv_Meta s), sv_Type s = ''LoadBalancer'', sv_Ports s, sv_Selector s)"

definition sts_conf :: "'q StatefulSet \<Rightarrow> strmap option \<times> 32 word \<times> 'q PodTemplate" where
  "sts_conf s = (om_Labels (ss_Meta s), ss_Replicas s, ss_Template s)"

abbreviation sts_key :: "'q StatefulSet \<Rightarrow> string \<times> string" where "sts_key s \<equiv> meta_key (ss_Meta s)"

definition namespace_placed :: "('w \<Rightarrow> string \<times> string \<Rightarrow> Namespace option) \<Rightarrow> TenantCluster \<Rightarrow> 'w \<Rightarrow> bool" where
  "namespace_placed nsv tc w \<longleftrightarrow>
     (\<exists>ns. nsv w ('''', controlPlaneNamespace tc) = Some ns \<and> carries (ns_Meta (buildControlPlaneNamespace tc)) (ns_Meta ns))"

definition headless_placed :: "('w \<Rightarrow> string \<times> string \<Rightarrow> Service option) \<Rightarrow> TenantCluster \<Rightarrow> 'w \<Rightarrow> bool" where
  "headless_placed svv tc w \<longleftrightarrow>
     (\<exists>s. svv w (controlPlaneNamespace tc, controlPlaneName tc) = Some s \<and>
        om_Labels (sv_Meta s) = om_Labels (sv_Meta (buildHeadlessService tc)) \<and>
        sv_Ports s = sv_Ports (buildHeadlessService tc) \<and> sv_Selector s = sv_Selector (buildHeadlessService tc))"

definition external_placed :: "('w \<Rightarrow> string \<times> string \<Rightarrow> Service option) \<Rightarrow> TenantCluster \<Rightarrow> 'w \<Rightarrow> bool" where
  "external_placed svv tc w \<longleftrightarrow>
     (case buildExternalService tc of
        None \<Rightarrow> svv w (controlPlaneNamespace tc, externalServiceName tc) = None
      | Some d \<Rightarrow> \<exists>s. svv w (controlPlaneNamespace tc, externalServiceName tc) = Some s \<and> svc_conf s = svc_conf d)"

definition workload_placed ::
    "(string \<Rightarrow> goerr + 'q) \<Rightarrow> ('w \<Rightarrow> string \<times> string \<Rightarrow> 'q StatefulSet option) \<Rightarrow> TenantCluster \<Rightarrow> 'w \<Rightarrow> 'q StatefulSet \<Rightarrow> bool" where
  "workload_placed parse stv tc w s \<longleftrightarrow>
     (\<exists>d. buildStatefulSet parse tc = Some (Inr d) \<and> sts_conf s = sts_conf d) \<and>
     stv w (controlPlaneNamespace tc, controlPlaneName tc) = Some s"

text \<open>Only the name, the namespace and the spec of a TenantCluster matter.\<close>

lemma placed_congr:
  fixes parse :: "string \<Rightarrow> goerr + 'q"
  assumes "tc_key a = tc_key b" "tc_Spec a = tc_Spec b"
  shows "namespace_placed nsv a = namespace_placed nsv b" "headless_placed svv a = headless_placed svv b"
    "external_placed svv a = external_placed svv b" "workload_placed parse stv a = workload_placed parse stv b"
    "controlPlaneServiceFQDN a = controlPlaneServiceFQDN b" "controlPlaneNamespace a = controlPlaneNamespace b"
proof -
  have n: "tc_Name a = tc_Name b" "tc_Namespace a = tc_Namespace b" using assms(1) by (simp_all add: tc_key_def meta_key_def)
  have ns: "controlPlaneNamespace a = controlPlaneNamespace b" "controlPlaneName a = controlPlaneName b"
    "controlPlaneLabels a = controlPlaneLabels b" "externalServiceName a = externalServiceName b"
    by (simp_all add: controlPlaneNamespace_def controlPlaneName_def controlPlaneLabels_def externalServiceName_def n)
  have f: "controlPlaneServiceFQDN a = controlPlaneServiceFQDN b" by (simp add: controlPlaneServiceFQDN_def ns)
  then show "controlPlaneServiceFQDN a = controlPlaneServiceFQDN b" "controlPlaneNamespace a = controlPlaneNamespace b" using ns by simp_all
  have b: "buildControlPlaneNamespace a = buildControlPlaneNamespace b" "buildHeadlessService a = buildHeadlessService b"
    "buildExternalService a = buildExternalService b"
    by (simp_all add: buildControlPlaneNamespace_def buildHeadlessService_def buildExternalService_def n ns assms(2))
  show "namespace_placed nsv a = namespace_placed nsv b" "headless_placed svv a = headless_placed svv b"
    "external_placed svv a = external_placed svv b"
    by (intro ext; simp only: namespace_placed_def headless_placed_def external_placed_def b ns)+
  have "stateful_set a = (stateful_set b :: 'q \<Rightarrow> _)"
    by (simp add: fun_eq_iff stateful_set_def replicas_of_def control_plane_args_def n ns f assms(2))
  then have "buildStatefulSet parse a = buildStatefulSet parse b"
    by (simp only: buildStatefulSet_def assms(2))
  then show "workload_placed parse stv a = workload_placed parse stv b"
    by (simp add: fun_eq_iff workload_placed_def ns)
qed

section \<open>The environment\<close>

text \<open>
  Services and StatefulSets of one namespace. A server keeps what it is sent of \<open>svc_conf\<close> and \<open>sts_conf\<close>, a status update
  leaves the spec alone, and the other calls of a reconcile reach neither kind; a host write of the sync engine may reach
  them in the namespace of the object it writes. The tenant's API server only holds objects with metadata.
\<close>

definition placed_in :: "('w \<Rightarrow> string \<times> string \<Rightarrow> 'a option) \<Rightarrow> ('w \<Rightarrow> string \<times> string \<Rightarrow> 'b option) \<Rightarrow> string \<Rightarrow> 'w \<Rightarrow>
    string \<Rightarrow> 'a option \<times> 'b option" where
  "placed_in svv stv n w m = (svv w (n, m), stv w (n, m))"

locale ready_world = quiet_world R tcv nsv + sync_quiet R hview tview +
  tcw: kind_store_write "r_tc R" tc_key tcv tc_Spec tc_Status +
  svs: kind_store_write "r_svc R" svc_key svv svc_conf "\<lambda>s. ()" + sts: kind_store_write "r_sts R" sts_key stv sts_conf "\<lambda>s. ()"
  for R :: "('q, 'c, 'w) Reconciler" and tcv :: "'w \<Rightarrow> string \<times> string \<Rightarrow> TenantCluster option"
    and nsv :: "'w \<Rightarrow> string \<times> string \<Rightarrow> Namespace option"
    and hview :: "'w \<Rightarrow> objkey \<Rightarrow> obj option" and tview :: "'w \<Rightarrow> objkey \<Rightarrow> obj option"
    and svv :: "'w \<Rightarrow> string \<times> string \<Rightarrow> Service option" and stv :: "'w \<Rightarrow> string \<times> string \<Rightarrow> 'q StatefulSet option" +
  assumes status_spec: "k_StatusUpdate (r_tc R) x w = (Inr y, w') \<Longrightarrow> tcv w (tc_key x) = Some t \<Longrightarrow> tc_Spec y = tc_Spec t"
    and svc_created: "k_Create (r_svc R) s w = (Inr s', w') \<Longrightarrow> svc_conf s' = svc_conf s"
    and sts_created: "k_Create (r_sts R) d w = (Inr d', w') \<Longrightarrow> sts_conf d' = sts_conf d"
    and svc_away: "stv (snd (k_Get (r_svc R) p q w)) = stv w" "stv (snd (k_Create (r_svc R) s w)) = stv w"
      "stv (snd (k_Update (r_svc R) s w)) = stv w" "stv (snd (k_Delete (r_svc R) s w)) = stv w"
    and sts_away: "svv (snd (k_Get (r_sts R) p q w)) = svv w" "svv (snd (k_Create (r_sts R) d w)) = svv w"
      "svv (snd (k_Update (r_sts R) d w)) = svv w"
    and run_away: "run_calls (\<lambda>w w'. svv w' = svv w \<and> stv w' = stv w) R"
    and calls_away: "svv (snd (k_StatusUpdate (r_tc R) x w)) = svv w" "stv (snd (k_StatusUpdate (r_tc R) x w)) = stv w"
      "svv (snd (k_Create (r_secret R) e w)) = svv w" "stv (snd (k_Create (r_secret R) e w)) = stv w"
      "svv (snd (k_Update (r_secret R) e w)) = svv w" "stv (snd (k_Update (r_secret R) e w)) = stv w"
      "svv (snd (r_execInPod R a b c cmd w)) = svv w" "stv (snd (r_execInPod R a b c cmd w)) = stv w"
    and un_reads: "placed_in svv stv n (snd (cl_get (r_un R) g k w)) = placed_in svv stv n w"
      "placed_in svv stv n (snd (cl_list (r_un R) g lns ls w)) = placed_in svv stv n w"
    and un_writes: "u_GetNamespace (r_U R) o1 \<noteq> n \<Longrightarrow> placed_in svv stv n (snd (cl_create (r_un R) o1 w)) = placed_in svv stv n w"
      "u_GetNamespace (r_U R) o1 \<noteq> n \<Longrightarrow> placed_in svv stv n (snd (cl_update (r_un R) o1 w)) = placed_in svv stv n w"
      "u_GetNamespace (r_U R) o1 \<noteq> n \<Longrightarrow> placed_in svv stv n (snd (cl_delete (r_un R) o1 w)) = placed_in svv stv n w"
    and tenant_away: "r_NewClient R cfg w = (Inr vc, w') \<Longrightarrow> placed_in svv stv n (snd (cl_list vc g lns ls u)) = placed_in svv stv n u"
      "r_NewClient R cfg w = (Inr vc, w') \<Longrightarrow> placed_in svv stv n (snd (cl_update vc o1 u)) = placed_in svv stv n u"
    and limiter_away: "placed_in svv stv n (snd (fst (r_NewLimiter R la lb w) u)) = placed_in svv stv n u"
    and tenant_objects: "tview w objk = Some v \<Longrightarrow> wf_meta v"
    and events_away: "r_Eventf R = Some ev \<Longrightarrow> placed_in svv stv n (ev tc et rs msg w) = placed_in svv stv n w"
begin

lemma sync_leaves_control_plane:
  assumes "n \<notin> {tc_Namespace tc, SanitizeName (tc_Namespace tc)}"
    and "run_state (runSync R tc policy profile name) w = (r, w')"
  shows "placed_in svv stv n w' = placed_in svv stv n w"
proof -
  let ?Q = "\<lambda>w w'. placed_in svv stv n w' = placed_in svv stv n w"
  have calls: "run_calls ?Q R"
    using run_away by (simp add: run_calls_def reflp_def transp_def placed_in_def fun_eq_iff)
  have engine: "confined ?Q (r_U R) (sync_engine R tc policy profile vc l)"
    if c: "r_NewClient R cfg u = (Inr vc, u')" "limits R l" for cfg u vc u' l
  proof -
    let ?E = "sync_engine R tc policy profile vc l"
    have away: "u_GetNamespace (r_U R) o1 \<noteq> n" if "own_namespace ?E (u_GetNamespace (r_U R) o1)" for o1
      using that assms(1) by (auto simp: own_namespace_def sync_engine_def)
    have lim: "placed_in svv stv n (snd (f u)) = placed_in svv stv n u" if "l = Some f" for f u
      using c(2) that limiter_away by (auto simp: limits_def)
    have ev: "placed_in svv stv n (event_Record R tc d u) = placed_in svv stv n u" for d u
      using events_away by (auto simp: event_Record_def Let_def split: option.split)
    show ?thesis
      using un_writes [OF away] un_reads tenant_away [OF c(1)] lim ev
      by (auto simp: confined_def reflp_def transp_def sync_engine_def)
  qed
  show ?thesis
    by (rule run_confined [OF calls _ _ assms(2), THEN conjunct1]) (rule engine, simp_all add: well_formed_def tenant_objects)
qed

text \<open>The stored TenantCluster is the one that is reconciled, up to metadata and status.\<close>

definition stored :: "TenantCluster \<Rightarrow> 'w \<Rightarrow> bool" where
  "stored tc w \<longleftrightarrow> (\<exists>t. tcv w (tc_key tc) = Some t \<and> tc_Spec t = tc_Spec tc)"

lemma still_stored: "still w w' \<Longrightarrow> stored tc w' = stored tc w"
  by (simp add: still_def stored_def)

lemma still_namespace: "still w w' \<Longrightarrow> namespace_placed nsv tc w' = namespace_placed nsv tc w"
  by (simp add: still_def namespace_placed_def)

lemma namespace_stage:
  "triple (stored tc) (ensureControlPlaneNamespace R tc) (\<lambda>r w. stored tc w \<and> (r = None \<longrightarrow> namespace_placed nsv tc w))"
proof (rule tripleI)
  fix w r w' assume w: "stored tc w" and run: "run_state (ensureControlPlaneNamespace R tc) w = (r, w')"
  let ?new = "buildControlPlaneNamespace tc" and ?n = "controlPlaneNamespace tc"
  have name: "om_Name (ns_Meta ?new) = ?n" "ns_key ?new = ([], ?n)"
    by (simp_all add: buildControlPlaneNamespace_def object_meta_def meta_key_def)
  obtain l where l: "om_Labels (ns_Meta ?new) = Some l" by (simp add: buildControlPlaneNamespace_def object_meta_def)
  obtain got v where g: "k_Get (r_ns R) [] ?n w = (got, v)" by fastforce
  have v: "nsv v = nsv w" "tcv v = tcv w" using nss.get_frame [OF g] ns_calls_tc(1) [of "[]" ?n w] g by simp_all
  have placed: "namespace_placed nsv tc w'" if "nsv w' ([], ?n) = Some y" "carries (ns_Meta ?new) (ns_Meta y)" for y
    using that by (auto simp: namespace_placed_def)
  have kept: "stored tc u" if "tcv u = tcv v" for u using w v that by (simp add: stored_def)
  show "stored tc w' \<and> (r = None \<longrightarrow> namespace_placed nsv tc w')"
  proof (cases got)
    case (Inl err)
    show ?thesis
    proof (cases "IsNotFound err")
      case False
      then show ?thesis using run g Inl name kept [of v] by (auto simp: ensureControlPlaneNamespace_def ctrl_run Let_def)
    next
      case True
      obtain q u where q: "k_Create (r_ns R) ?new v = (q, u)" by fastforce
      have r: "w' = u" "r = err_of q"
        using run g Inl True name q by (auto simp: ensureControlPlaneNamespace_def ctrl_run Let_def)
      have "namespace_placed nsv tc u" if "q = Inr y" for y
      proof -
        have "nsv v ([], ?n) = None" using nss.get_missing g Inl True v by simp
        moreover have y: "nsv u ([], ?n) = Some y" using nss.create_ok q that name(2) by fastforce
        ultimately have "om_Labels (ns_Meta y) = om_Labels (ns_Meta ?new)"
          using ns_create [OF q, of "([], ?n)"] by auto
        then have "carries (ns_Meta ?new) (ns_Meta y)" by (simp add: carries_def label_at_def str_at_def)
        then show ?thesis using y by (auto simp: namespace_placed_def)
      qed
      moreover have "tcv u = tcv v" using ns_calls_tc(2) [of ?new v] q by simp
      ultimately show ?thesis using r kept by (cases q) (auto simp: err_of_def)
    qed
  next
    case (Inr ns)
    have seen: "nsv v ([], ?n) = Some ns" using nss.get_found g Inr v by simp
    have key: "ns_key ns = ([], ?n)" using nss.view_key [OF seen] .
    let ?s = "stale_labels (ns_Meta ns) l" and ?m = "with_labels (ns_Meta ns) (stale_labels (ns_Meta ns) l)"
    show ?thesis
    proof (cases "ownedByTenant ns tc \<and> ?s \<noteq> fmempty")
      case False
      then have "w' = v" "r = None \<longrightarrow> ?s = fmempty"
        using run g Inr name l by (auto simp: ensureControlPlaneNamespace_def ctrl_run Let_def split: if_splits)
      moreover have "carries (ns_Meta ?new) (ns_Meta ns)" if "?s = fmempty"
        using stale_empty [OF that] l by (simp add: carries_def)
      ultimately show ?thesis using seen kept [of v] by (auto simp: namespace_placed_def)
    next
      case True
      obtain q u where q: "k_Update (r_ns R) (ns\<lparr>ns_Meta := ?m\<rparr>) v = (q, u)" by fastforce
      have r: "w' = u" "r = err_of q"
        using run g Inr name l True q by (auto simp: ensureControlPlaneNamespace_def ctrl_run Let_def split: if_splits)
      have "namespace_placed nsv tc u" if "q = Inr y" for y
      proof -
        have "nsv u ([], ?n) = Some y \<and> om_Labels (ns_Meta y) = om_Labels ?m"
          using nss.update_ok [OF q [unfolded that]] key by simp
        moreover from this have "label_at (ns_Meta y) k = label_at ?m k" for k by (simp add: label_at_def)
        ultimately show ?thesis
          using l unfolding namespace_placed_def carries_def by (auto simp: merged_label)
      qed
      moreover have "tcv u = tcv v" using ns_calls_tc(3) [of "ns\<lparr>ns_Meta := ?m\<rparr>" v] q by simp
      ultimately show ?thesis using r kept by (cases q) (auto simp: err_of_def)
    qed
  qed
qed

end

section \<open>The objects of the control plane, one by one\<close>

lemma built_keys:
  "svc_key (buildHeadlessService tc) = (controlPlaneNamespace tc, controlPlaneName tc)"
  "buildExternalService tc = Some d \<Longrightarrow> svc_key d = (controlPlaneNamespace tc, externalServiceName tc)"
  "buildStatefulSet parse tc = Some (Inr e) \<Longrightarrow> sts_key e = (controlPlaneNamespace tc, controlPlaneName tc)"
  "externalServiceName tc \<noteq> controlPlaneName tc"
proof -
  show "svc_key (buildHeadlessService tc) = (controlPlaneNamespace tc, controlPlaneName tc)"
    by (simp add: buildHeadlessService_def object_meta_def meta_key_def)
  show "buildExternalService tc = Some d \<Longrightarrow> svc_key d = (controlPlaneNamespace tc, externalServiceName tc)"
    by (auto simp: buildExternalService_def object_meta_def meta_key_def split: if_splits)
  show "buildStatefulSet parse tc = Some (Inr e) \<Longrightarrow> sts_key e = (controlPlaneNamespace tc, controlPlaneName tc)"
    by (auto simp: buildStatefulSet_def stateful_set_def object_meta_def meta_key_def Let_def
        split: sum.splits bind_splits prod.splits)
  show "externalServiceName tc \<noteq> controlPlaneName tc" by (simp add: externalServiceName_def)
qed

lemma meta_with_labels_key [simp]:
  "meta_key (meta_with_labels_of m d) = meta_key m" "om_Labels (meta_with_labels_of m d) = om_Labels d"
  "meta_key (m\<lparr>om_Annotations := a\<rparr>) = meta_key m"
  by (simp_all add: meta_with_labels_of_def meta_key_def)

context ready_world begin

lemma service_stage:
  assumes "run_state (reconcileService R d) w = (r, w')" "svc_key d = (n, m)"
  shows "still w w' \<and> stv w' = stv w \<and>
    (r = None \<longrightarrow> (\<exists>s. svv w' (n, m) = Some s \<and> om_Labels (sv_Meta s) = om_Labels (sv_Meta d) \<and> sv_Ports s = sv_Ports d \<and>
       sv_Selector s = sv_Selector d))"
proof -
  have k: "om_Namespace (sv_Meta d) = n" "om_Name (sv_Meta d) = m" using assms(2) by (simp_all add: meta_key_def)
  obtain got v where g: "k_Get (r_svc R) n m w = (got, v)" by fastforce
  have v: "svv v = svv w" "stv v = stv w" using svs.get_frame [OF g] svc_away(1) [of n m w] g by simp_all
  have "stv w' = stv w \<and> (r = None \<longrightarrow> (\<exists>s. svv w' (n, m) = Some s \<and> om_Labels (sv_Meta s) = om_Labels (sv_Meta d) \<and>
      sv_Ports s = sv_Ports d \<and> sv_Selector s = sv_Selector d))"
  proof (cases got)
    case (Inl err)
    obtain q u where q: "k_Create (r_svc R) d v = (q, u)" by fastforce
    have u: "stv u = stv v" using svc_away(2) [of d v] q by simp
    have "\<exists>s. svv u (n, m) = Some s \<and> svc_conf s = svc_conf d" if "q = Inr y" for y
      using svs.create_ok [OF q [unfolded that]] svc_created [OF q [unfolded that]] assms(2) by auto
    then show ?thesis
      using assms(1) g Inl k q u v by (cases q) (auto simp: reconcileService_def ctrl_run err_of_def svc_conf_def split: if_splits)
  next
    case (Inr ex)
    let ?x = "ex\<lparr>sv_Meta := meta_with_labels_of (sv_Meta ex) (sv_Meta d), sv_Ports := sv_Ports d, sv_Selector := sv_Selector d\<rparr>"
    obtain q u where q: "k_Update (r_svc R) ?x v = (q, u)" by fastforce
    have u: "stv u = stv v" using svc_away(3) [of ?x v] q by simp
    have "svc_key ex = (n, m)" using svs.view_key svs.get_found g Inr by blast
    then have "svv u (n, m) = Some y \<and> svc_conf y = svc_conf ?x" if "q = Inr y" for y
      using svs.update_ok [OF q [unfolded that]] by simp
    then show ?thesis
      using assms(1) g Inr k q u v by (cases q) (auto simp: reconcileService_def ctrl_run err_of_def svc_conf_def)
  qed
  then show ?thesis using state_io_relD [OF still_control_plane(2) assms(1)] by blast
qed

lemma external_stage:
  assumes "run_state (reconcileExternalService R tc) w = (r, w')"
  shows "still w w' \<and> stv w' = stv w \<and> (r = None \<longrightarrow> external_placed svv tc w') \<and>
    (\<forall>s. svv w (controlPlaneNamespace tc, controlPlaneName tc) = Some s \<longrightarrow>
       svv w' (controlPlaneNamespace tc, controlPlaneName tc) = Some s)"
proof -
  let ?n = "controlPlaneNamespace tc" and ?m = "externalServiceName tc" and ?h = "(controlPlaneNamespace tc, controlPlaneName tc)"
  obtain got v where g: "k_Get (r_svc R) ?n ?m w = (got, v)" by fastforce
  have v: "svv v = svv w" "stv v = stv w" using svs.get_frame [OF g] svc_away(1) [of ?n ?m w] g by simp_all
  have "stv w' = stv w \<and> (r = None \<longrightarrow> external_placed svv tc w') \<and> (\<forall>s. svv w ?h = Some s \<longrightarrow> svv w' ?h = Some s)"
  proof (cases got)
    case (Inl err)
    have missing: "IsNotFound err \<Longrightarrow> svv v (?n, ?m) = None" using svs.get_missing g Inl v by simp
    show ?thesis
    proof (cases "buildExternalService tc")
      case None
      then show ?thesis using assms g Inl v missing
        by (auto simp: reconcileExternalService_def ctrl_run external_placed_def split: if_splits)
    next
      case (Some d)
      obtain q u where q: "k_Create (r_svc R) d v = (q, u)" by fastforce
      have u: "stv u = stv v" "svv v ?h = Some s \<Longrightarrow> svv u ?h = Some s" for s
        using svc_away(2) [of d v] q svs.create_keeps [OF q] by simp_all
      have "\<exists>s. svv u (?n, ?m) = Some s \<and> svc_conf s = svc_conf d" if "q = Inr y" for y
        using svs.create_ok [OF q [unfolded that]] svc_created [OF q [unfolded that]] built_keys(2) [OF Some] by auto
      then show ?thesis
        using assms g Inl Some q u v
        by (cases q) (auto simp: reconcileExternalService_def ctrl_run err_of_def external_placed_def split: if_splits)
    qed
  next
    case (Inr ex)
    have key: "svc_key ex = (?n, ?m)" using svs.view_key svs.get_found g Inr by blast
    then have other: "?h \<noteq> svc_key ex" using built_keys(4) [of tc] by simp
    show ?thesis
    proof (cases "buildExternalService tc")
      case None
      obtain q u where q: "k_Delete (r_svc R) ex v = (q, u)" by fastforce
      have u: "stv u = stv v" "svv u ?h = svv v ?h" using svc_away(4) [of ex v] q svs.delete_other [OF q other] by simp_all
      have "svv u (?n, ?m) = None" if "q = None" using svs.delete_ok [OF q [unfolded that]] key by simp
      then show ?thesis
        using assms g Inr None q u v by (auto simp: reconcileExternalService_def ctrl_run external_placed_def)
    next
      case (Some d)
      let ?x = "ex\<lparr>sv_Meta := (meta_with_labels_of (sv_Meta ex) (sv_Meta d))\<lparr>om_Annotations := om_Annotations (sv_Meta d)\<rparr>,
                sv_Type := sv_Type d, sv_Ports := sv_Ports d, sv_Selector := sv_Selector d\<rparr>"
      obtain q u where q: "k_Update (r_svc R) ?x v = (q, u)" by fastforce
      have "?h \<noteq> svc_key ?x" using other by simp
      then have u: "stv u = stv v" "svv u ?h = svv v ?h" using svc_away(3) [of ?x v] q svs.update_other [OF q] by simp_all
      have "svv u (?n, ?m) = Some y \<and> svc_conf y = svc_conf d" if "q = Inr y" for y
        using svs.update_ok [OF q [unfolded that]] key by (simp add: svc_conf_def)
      then show ?thesis
        using assms g Inr Some q u v by (cases q) (auto simp: reconcileExternalService_def ctrl_run err_of_def external_placed_def)
    qed
  qed
  then show ?thesis using state_io_relD [OF still_control_plane(3) assms] by blast
qed

lemma workload_stage:
  assumes "run_state (reconcileStatefulSet R tc) w = (r, w')"
  shows "still w w' \<and> svv w' = svv w \<and> (\<forall>s. r = Some (Inr s) \<longrightarrow> workload_placed (r_ParseQuantity R) stv tc w' s)"
proof -
  have "svv w' = svv w \<and> (\<forall>s. r = Some (Inr s) \<longrightarrow> workload_placed (r_ParseQuantity R) stv tc w' s)"
  proof (cases "\<exists>d. buildStatefulSet (r_ParseQuantity R) tc = Some (Inr d)")
    case False
    then show ?thesis using assms by (auto simp: reconcileStatefulSet_def ctrl_run split: option.splits sum.splits)
  next
    case True
    then obtain d where d: "buildStatefulSet (r_ParseQuantity R) tc = Some (Inr d)" by blast
    let ?k = "(controlPlaneNamespace tc, controlPlaneName tc)"
    have k: "sts_key d = ?k" using built_keys(3) [OF d] .
    then have n: "om_Namespace (ss_Meta d) = fst ?k" "om_Name (ss_Meta d) = snd ?k" by (simp_all add: meta_key_def)
    obtain got v where g: "k_Get (r_sts R) (fst ?k) (snd ?k) w = (got, v)" by fastforce
    have v: "svv v = svv w" using sts_away(1) [of "fst ?k" "snd ?k" w] g by simp
    show ?thesis
    proof (cases got)
      case (Inl err)
      obtain q u where q: "k_Create (r_sts R) d v = (q, u)" by fastforce
      have u: "svv u = svv v" using sts_away(2) [of d v] q by simp
      have "workload_placed (r_ParseQuantity R) stv tc u y" if "q = Inr y" for y
        using sts.create_ok [OF q [unfolded that]] sts_created [OF q [unfolded that]] d k by (auto simp: workload_placed_def)
      then show ?thesis using assms g Inl d n q u v by (auto simp: reconcileStatefulSet_def ctrl_run split: if_splits)
    next
      case (Inr ex)
      let ?x = "ex\<lparr>ss_Meta := meta_with_labels_of (ss_Meta ex) (ss_Meta d), ss_Replicas := ss_Replicas d, ss_Template := ss_Template d\<rparr>"
      obtain q u where q: "k_Update (r_sts R) ?x v = (q, u)" by fastforce
      have u: "svv u = svv v" using sts_away(3) [of ?x v] q by simp
      have key: "sts_key ex = ?k" using sts.view_key [OF sts.get_found [OF g [unfolded Inr]]] by simp
      have "workload_placed (r_ParseQuantity R) stv tc u y" if "q = Inr y" for y
        using sts.update_ok [OF q [unfolded that]] d key by (auto simp: workload_placed_def sts_conf_def)
      then show ?thesis using assms g Inr d n q u v by (auto simp: reconcileStatefulSet_def ctrl_run)
    qed
  qed
  then show ?thesis using state_io_relD [OF still_control_plane(5) assms] by blast
qed

end

section \<open>From stage to stage\<close>

text \<open>
  \<open>plane_in_place R nsv svv stv t w\<close>: in the world \<open>w\<close> the TenantCluster \<open>t\<close> has its namespace, its two Services and a
  StatefulSet with a ready replica, and its status names the address of the API server.
\<close>

definition plane_in_place :: "('q, 'c, 'w) Reconciler \<Rightarrow> ('w \<Rightarrow> string \<times> string \<Rightarrow> Namespace option) \<Rightarrow>
    ('w \<Rightarrow> string \<times> string \<Rightarrow> Service option) \<Rightarrow> ('w \<Rightarrow> string \<times> string \<Rightarrow> 'q StatefulSet option) \<Rightarrow> TenantCluster \<Rightarrow> 'w \<Rightarrow> bool" where
  "plane_in_place R nsv svv stv t w \<longleftrightarrow>
     namespace_placed nsv t w \<and> headless_placed svv t w \<and> external_placed svv t w \<and>
     (\<exists>s. workload_placed (r_ParseQuantity R) stv t w s \<and> 1 \<le> sint (ss_ReadyReplicas s)) \<and>
     ts_Endpoint (tc_Status t) = ''https://'' @ controlPlaneServiceFQDN t @ '':'' @ fmt_d apiPort"

text \<open>\<open>Status().Update\<close> at the end of a reconcile.\<close>

definition report :: "('q, 'c, 'w) Reconciler \<Rightarrow> TenantCluster \<Rightarrow> int \<Rightarrow> ('w, outcome) state" where
  "report R x d = do { u \<leftarrow> api_call (k_StatusUpdate (r_tc R) x);
     State_Monad.return (case u of Inl err \<Rightarrow> finished (Some err) | Inr _ \<Rightarrow> requeue d) }"

context ready_world begin

definition calm :: "string \<Rightarrow> 'w \<Rightarrow> 'w \<Rightarrow> bool" where
  "calm n w w' \<longleftrightarrow> still w w' \<and> placed_in svv stv n w' = placed_in svv stv n w"

lemma calm_pre [simp]: "reflp (calm n)" "transp (calm n)"
  by (auto simp: calm_def still_def reflp_def transp_def)

lemma calm_relI:
  "state_io_rel still m \<Longrightarrow> state_io_rel (\<lambda>w w'. svv w' = svv w \<and> stv w' = stv w) m \<Longrightarrow> state_io_rel (calm n) m"
  by (rule state_io_relI) (auto simp: calm_def placed_in_def fun_eq_iff dest: state_io_relD)

definition standing :: "TenantCluster \<Rightarrow> 'q StatefulSet \<Rightarrow> 'w \<Rightarrow> bool" where
  "standing tc s w \<longleftrightarrow> stored tc w \<and> namespace_placed nsv tc w \<and> headless_placed svv tc w \<and> external_placed svv tc w \<and>
     workload_placed (r_ParseQuantity R) stv tc w s \<and> 1 \<le> sint (ss_ReadyReplicas s)"

lemma placed_in_at:
  assumes "placed_in svv stv (controlPlaneNamespace tc) w' = placed_in svv stv (controlPlaneNamespace tc) w"
  shows "headless_placed svv tc w' = headless_placed svv tc w" "external_placed svv tc w' = external_placed svv tc w"
    "workload_placed parse stv tc w' s = workload_placed parse stv tc w s"
proof -
  have "svv w' (controlPlaneNamespace tc, m) = svv w (controlPlaneNamespace tc, m)"
    "stv w' (controlPlaneNamespace tc, m) = stv w (controlPlaneNamespace tc, m)" for m
    using fun_cong [OF assms, of m] by (simp_all add: placed_in_def)
  then show "headless_placed svv tc w' = headless_placed svv tc w" "external_placed svv tc w' = external_placed svv tc w"
    "workload_placed parse stv tc w' s = workload_placed parse stv tc w s"
    by (simp_all only: headless_placed_def external_placed_def workload_placed_def)
qed

lemma calm_standing: "calm (controlPlaneNamespace tc) w w' \<Longrightarrow> standing tc s w \<Longrightarrow> standing tc s w'"
  by (simp add: standing_def calm_def still_stored [of w w'] still_namespace [of w w'] placed_in_at [of tc w' w])

lemma calm_stages:
  "state_io_rel (calm n) (ensureKubeconfigSecret R tc name)" "state_io_rel (calm n) (externalEndpoint R tc)"
proof -
  let ?Q = "\<lambda>w w'. svv w' = svv w \<and> stv w' = stv w"
  have "state_io_rel ?Q (ensureKubeconfigSecret R tc name)"
    unfolding ensureKubeconfigSecret_def Let_def
    by (intro frame_rules) (use run_away in \<open>auto simp: run_calls_def calls_away reflp_def transp_def\<close>)
  then show "state_io_rel (calm n) (ensureKubeconfigSecret R tc name)" by (rule calm_relI [OF still_control_plane(6)])
  have "state_io_rel ?Q (externalEndpoint R tc)"
    unfolding externalEndpoint_def
    by (intro frame_rules) (auto simp: svc_away svs.get_frame [OF prod.collapse [symmetric]] reflp_def transp_def)
  then show "state_io_rel (calm n) (externalEndpoint R tc)" by (rule calm_relI [OF still_control_plane(4)])
qed

lemma calm_sync:
  "n \<notin> {tc_Namespace tc, SanitizeName (tc_Namespace tc)} \<Longrightarrow> state_io_rel (calm n) (runSync R tc policy profile name)"
  by (rule state_io_relI) (simp add: calm_def state_io_relD [OF still_run] sync_leaves_control_plane)

text \<open>The claim about an outcome: without an error, a status that says Ready is true.\<close>

definition honest :: "string \<times> string \<Rightarrow> outcome \<Rightarrow> 'w \<Rightarrow> bool" where
  "honest k oc w \<longleftrightarrow> (snd oc = None \<longrightarrow>
     (\<forall>t. tcv w k = Some t \<and> ts_Phase (tc_Status t) = PhaseReady \<longrightarrow> plane_in_place R nsv svv stv t w))"

lemma phases [simp]: "PhaseDegraded \<noteq> PhaseReady" "PhaseProvisioning \<noteq> PhaseReady"
  by (simp_all add: PhaseDegraded_def PhaseProvisioning_def PhaseReady_def)

lemma report_not_ready:
  "ts_Phase (tc_Status x) \<noteq> PhaseReady \<Longrightarrow> triple P (report R x d) (honest (tc_key x))"
  by (rule tripleI)
    (auto simp: report_def ctrl_run honest_def finished_def requeue_def split: sum.splits prod.splits dest!: tcw.status_ok)

lemma report_ready:
  assumes "tc_key x = tc_key tc" "tc_Spec x = tc_Spec tc"
    and "ts_Endpoint (tc_Status x) = ''https://'' @ controlPlaneServiceFQDN tc @ '':'' @ fmt_d apiPort"
  shows "triple (standing tc s) (report R x d) (honest (tc_key tc))"
proof (rule tripleI)
  fix w oc w' assume w: "standing tc s w" and run: "run_state (report R x d) w = (oc, w')"
  obtain q where q: "k_StatusUpdate (r_tc R) x w = (q, w')" and oc: "oc = (case q of Inl err \<Rightarrow> finished (Some err) | Inr _ \<Rightarrow> requeue d)"
    using run by (auto simp: report_def ctrl_run split: prod.splits)
  show "honest (tc_key tc) oc w'"
  proof (cases q)
    case (Inl err)
    then show ?thesis by (simp add: honest_def oc finished_def)
  next
    case (Inr y)
    obtain t where t: "tcv w (tc_key x) = Some t" "tc_Spec t = tc_Spec tc" using w assms(1) by (auto simp: standing_def stored_def)
    have y: "tcv w' (tc_key tc) = Some y" "tc_Status y = tc_Status x" using tcw.status_ok [OF q [unfolded Inr]] assms(1) by simp_all
    have key: "tc_key y = tc_key tc" using tcs.view_key [OF y(1)] .
    have spec: "tc_Spec y = tc_Spec tc" using status_spec [OF q [unfolded Inr] t(1)] t(2) by simp
    note congr = placed_congr [OF key spec]
    have "nsv w' = nsv w" "svv w' = svv w" "stv w' = stv w"
      using tc_calls_ns(3) [of x w] calls_away(1,2) [of x w] q by simp_all
    then have "namespace_placed nsv tc w'" "headless_placed svv tc w'" "external_placed svv tc w'"
      "workload_placed (r_ParseQuantity R) stv tc w' s" "1 \<le> sint (ss_ReadyReplicas s)"
      using w by (simp_all only: standing_def namespace_placed_def headless_placed_def external_placed_def workload_placed_def)
    then have "plane_in_place R nsv svv stv y w'"
      unfolding plane_in_place_def congr y(2) assms(3) by blast
    then show ?thesis using y(1) by (simp add: honest_def)
  qed
qed

lemma degrade_honest: "triple P (degrade R tc reason message) (honest (tc_key tc))"
  using report_not_ready [of "setCondition (with_phase tc PhaseDegraded) ''Ready'' ConditionFalse reason message" P requeueWaiting]
  by (simp add: report_def degrade_def with_phase_def tc_key_def)

lemma ready_stage:
  assumes "controlPlaneNamespace tc \<notin> {tc_Namespace tc, SanitizeName (tc_Namespace tc)}"
  shows "triple (standing tc s) (reconcile_ready R tc policy profile) (honest (tc_key tc))"
proof -
  have step: "triple (standing tc s) m (\<lambda>r. standing tc s)" if "state_io_rel (calm (controlPlaneNamespace tc)) m" for m :: "('w, 'x) state"
    by (rule triple_frame [OF that]) (rule calm_standing)
  have sync: "triple (standing tc s) (runSync R tc' policy profile name) (\<lambda>r. standing tc s)"
    if "tc_key tc' = tc_key tc" for tc' name
  proof (rule step, rule calm_sync)
    show "controlPlaneNamespace tc \<notin> {tc_Namespace tc', SanitizeName (tc_Namespace tc')}"
      using assms that by (simp add: tc_key_def meta_key_def)
  qed
  have failed: "triple (standing tc s) (State_Monad.return (finished (Some err))) (honest (tc_key tc))" for err
    by (rule triple_return) (simp add: honest_def finished_def)
  show ?thesis
    unfolding reconcile_ready_def Let_def report_def [symmetric]
    by (rule degrade_honest failed step [OF calm_stages(1)] step [OF calm_stages(2)] sync report_ready
        | rule triple_keep triple_cases | simp add: tc_key_def)+
qed

end

context ready_world begin

text \<open>All of it: the outcome of a reconcile is absent when the Go code panics.\<close>

definition honest_at :: "string \<times> string \<Rightarrow> outcome option \<Rightarrow> 'w \<Rightarrow> bool" where
  "honest_at k r w \<longleftrightarrow> (case r of None \<Rightarrow> True | Some oc \<Rightarrow> honest k oc w)"

lemma honest_some: "triple P m (honest k) \<Longrightarrow> triple P (do { r \<leftarrow> m; State_Monad.return (Some r) }) (honest_at k)"
  by (erule triple_bind) (simp add: triple_def run_return honest_at_def)

lemma honest_none: "triple P (State_Monad.return None) (honest_at k)"
  by (simp add: triple_def run_return honest_at_def)

lemma fail_honest:
  "tc_key tc = k \<Longrightarrow> triple P (do { r \<leftarrow> degrade R tc reason (err_Error err); State_Monad.return (Some r) }) (honest_at k)"
  using honest_some [OF degrade_honest [of P tc]] by simp

definition based :: "TenantCluster \<Rightarrow> 'w \<Rightarrow> bool" where
  "based tc w \<longleftrightarrow> stored tc w \<and> namespace_placed nsv tc w"

lemma based_still: "still w w' \<Longrightarrow> based tc w \<Longrightarrow> based tc w'"
  by (simp add: based_def still_stored [of w w'] still_namespace [of w w'])

lemma waiting_honest:
  "triple P (do { u \<leftarrow> api_call (k_StatusUpdate (r_tc R) (setCondition (with_phase tc PhaseProvisioning) ty st reason message));
       State_Monad.return (Some (case u of Inl err \<Rightarrow> finished (Some err) | Inr _ \<Rightarrow> requeue d)) }) (honest_at (tc_key tc))"
proof -
  let ?x = "setCondition (with_phase tc PhaseProvisioning) ty st reason message"
  have "triple P (do { r \<leftarrow> report R ?x d; State_Monad.return (Some r) }) (honest_at (tc_key tc))"
    using report_not_ready [of ?x P d, THEN honest_some] by (simp add: with_phase_def tc_key_def)
  then show ?thesis by (simp add: triple_def report_def ctrl_run split: prod.splits)
qed

lemma control_plane_stage:
  assumes "controlPlaneNamespace tc \<notin> {tc_Namespace tc, SanitizeName (tc_Namespace tc)}"
  shows "triple (stored tc) (reconcile_control_plane R tc policy profile) (honest_at (tc_key tc))"
proof -
  let ?n = "controlPlaneNamespace tc"
  let ?head = "\<lambda>w. based tc w \<and> headless_placed svv tc w" and ?ext = "\<lambda>w. based tc w \<and> headless_placed svv tc w \<and> external_placed svv tc w"
  have s1: "triple (stored tc) (ensureControlPlaneNamespace R tc) (\<lambda>e w. stored tc w \<and> (e = None \<longrightarrow> based tc w))"
    by (rule triple_post [OF namespace_stage]) (simp add: based_def)
  have s2: "triple (based tc) (cleanupLegacyControlPlane R tc) (\<lambda>e w. based tc w \<and> (e = None \<longrightarrow> based tc w))"
    by (rule triple_frame [OF still_control_plane(1)]) (simp add: based_still)
  have s3: "triple (based tc) (reconcileService R (buildHeadlessService tc)) (\<lambda>e w. based tc w \<and> (e = None \<longrightarrow> ?head w))"
  proof (rule tripleI)
    fix w r w' assume w: "based tc w" and run: "run_state (reconcileService R (buildHeadlessService tc)) w = (r, w')"
    note f = service_stage [OF run built_keys(1)]
    then have "r = None \<longrightarrow> headless_placed svv tc w'" unfolding headless_placed_def by blast
    then show "based tc w' \<and> (r = None \<longrightarrow> ?head w')" using f w based_still by blast
  qed
  have s4: "triple ?head (reconcileExternalService R tc) (\<lambda>e w. ?head w \<and> (e = None \<longrightarrow> ?ext w))"
  proof (rule tripleI)
    fix w r w' assume w: "?head w" and run: "run_state (reconcileExternalService R tc) w = (r, w')"
    note f = external_stage [OF run]
    have "headless_placed svv tc w'" using w f unfolding headless_placed_def by blast
    then show "?head w' \<and> (r = None \<longrightarrow> ?ext w')" using f w based_still by blast
  qed
  have s5: "triple ?ext (reconcileStatefulSet R tc)
      (\<lambda>r w. ?ext w \<and> (\<forall>s. r = Some (Inr s) \<longrightarrow> workload_placed (r_ParseQuantity R) stv tc w s))"
  proof (rule tripleI)
    fix w r w' assume w: "?ext w" and run: "run_state (reconcileStatefulSet R tc) w = (r, w')"
    note f = workload_stage [OF run]
    have "headless_placed svv tc w'" "external_placed svv tc w'"
      using w f by (simp_all only: headless_placed_def external_placed_def)
    then show "?ext w' \<and> (\<forall>s. r = Some (Inr s) \<longrightarrow> workload_placed (r_ParseQuantity R) stv tc w' s)"
      using f w based_still by blast
  qed
  note fails = fail_honest [OF refl]
  show ?thesis
    unfolding reconcile_control_plane_def Let_def
  proof (rule triple_stage [OF s1 fails], rule triple_stage [OF s2 fails], rule triple_stage [OF s3 fails],
      rule triple_stage [OF s4 fails], rule triple_bind [OF s5], rule triple_result)
    let ?post = "\<lambda>r w. ?ext w \<and> (\<forall>s. r = Some (Inr s) \<longrightarrow> workload_placed (r_ParseQuantity R) stv tc w s)"
    fix s :: "'q StatefulSet"
    have "triple (?post (Some (Inr s))) (reconcile_ready R tc policy profile) (honest (tc_key tc))" if "\<not> sint (ss_ReadyReplicas s) < 1"
      by (rule triple_pre [OF ready_stage [OF assms, of s]]) (use that in \<open>auto simp: standing_def based_def\<close>)
    then show "triple (?post (Some (Inr s)))
        (if sint (ss_ReadyReplicas s) < 1 then do {
           u \<leftarrow> api_call (k_StatusUpdate (r_tc R)
                 (setCondition (with_phase tc PhaseProvisioning) ''Ready'' ConditionFalse ''WaitingForControlPlane''
                    ''control-plane pod is not ready yet''));
           State_Monad.return (Some (case u of Inl err \<Rightarrow> finished (Some err) | Inr _ \<Rightarrow> requeue requeueWaiting))
         }
         else do { r \<leftarrow> reconcile_ready R tc policy profile; State_Monad.return (Some r) }) (honest_at (tc_key tc))"
      by (cases "sint (ss_ReadyReplicas s) < 1") (simp_all add: waiting_honest honest_some)
  qed (rule honest_none fails)+
qed

end

section \<open>The whole reconcile\<close>

context ready_world begin

definition same_tc :: "'w \<Rightarrow> 'w \<Rightarrow> bool" where
  "same_tc w w' \<longleftrightarrow> tcv w' = tcv w"

lemma same_tc_pre [simp]: "reflp same_tc" "transp same_tc"
  by (simp_all add: same_tc_def reflp_def transp_def)

lemma still_same_tc: "state_io_rel still m \<Longrightarrow> state_io_rel same_tc m"
  by (rule state_io_relI) (auto simp: same_tc_def still_def dest: state_io_relD)

lemma same_tc_isolation: "state_io_rel same_tc (applyIsolation R tc profile)"
proof -
  have ns: "state_io_rel same_tc (applyNamespacePodSecurityLabels R n p)" for n p
    unfolding applyNamespacePodSecurityLabels_def Let_def
    by (intro frame_rules same_tc_pre frame_api_call) (simp_all add: same_tc_def ns_calls_tc)
  have opt: "state_io_rel same_tc (apply_optional C name_of n mutate d)"
    if "quiet_kind tcv nsv C" for C :: "('x, 'w) kind_client" and name_of n mutate and d :: "'x option"
    unfolding apply_optional_def by (intro frame_rules same_tc_pre still_kind(6) [OF that, THEN still_same_tc])
  show ?thesis
    unfolding applyIsolation_def Let_def by (intro frame_rules same_tc_pre opt quiet_kinds ns)
qed

lemma keeps_stored: "state_io_rel same_tc m \<Longrightarrow> triple (stored tc) m (\<lambda>r. stored tc)"
  by (rule triple_frame [of same_tc]) (simp_all add: same_tc_def stored_def)

lemma isolation_stage:
  assumes "controlPlaneNamespace tc \<notin> {tc_Namespace tc, SanitizeName (tc_Namespace tc)}"
  shows "triple (stored tc) (reconcile_isolation R tc policy profile) (honest_at (tc_key tc))"
proof -
  have cp: "triple (stored tc) (reconcile_control_plane R x policy profile) (honest_at (tc_key tc))"
    if x: "tc_key x = tc_key tc" "tc_Spec x = tc_Spec tc" for x
  proof -
    have "controlPlaneNamespace x = controlPlaneNamespace tc" "stored x = stored tc" "tc_Namespace x = tc_Namespace tc"
      using placed_congr(6) [OF x] x by (auto simp: fun_eq_iff stored_def tc_key_def meta_key_def)
    then show ?thesis using control_plane_stage [of x policy profile] assms x by simp
  qed
  have failed: "triple P (do { r \<leftarrow> degrade R x reason (err_Error err); State_Monad.return (Some r) }) (honest_at (tc_key tc))"
    if "tc_key x = tc_key tc" for P x reason err
    by (rule fail_honest [OF that])
  note keep = keeps_stored [OF still_same_tc]
  have scope: "triple (stored tc) (ensureControllerScopePolicies R) (\<lambda>c. stored tc)"
    "triple (stored tc) (ensureRuntimeClassPolicy R) (\<lambda>c. stored tc)"
    unfolding ensureRuntimeClassPolicy_def ensureControllerScopePolicies_def by (intro keep still_admission)+
  have binding: "triple (stored tc) (if b then reconcileRuntimeClassBinding R tc else State_Monad.return None) (\<lambda>c. stored tc)" for b
    by (intro keep frame_if still_admission frame_return still_pre)
  show ?thesis
    unfolding reconcile_isolation_def Let_def
    by (rule honest_none failed cp scope binding keeps_stored [OF same_tc_isolation] | rule triple_keep triple_cases | simp)+
qed

lemma live_stage:
  assumes "controlPlaneNamespace tc \<notin> {tc_Namespace tc, SanitizeName (tc_Namespace tc)}"
  shows "triple (stored tc) (reconcile_live R tc) (honest_at (tc_key tc))"
proof -
  have iso: "triple (stored tc) (reconcile_isolation R (setSupportConditions tc ip sp) policy profile) (honest_at (tc_key tc))"
    for ip sp policy profile
  proof -
    let ?x = "setSupportConditions tc ip sp"
    have x: "tc_key ?x = tc_key tc" "tc_Spec ?x = tc_Spec tc" by simp_all
    have "controlPlaneNamespace ?x = controlPlaneNamespace tc" "stored ?x = stored tc" "tc_Namespace ?x = tc_Namespace tc"
      using placed_congr(6) [OF x] x by (auto simp: fun_eq_iff stored_def tc_key_def meta_key_def)
    then show ?thesis using isolation_stage [of ?x policy profile] assms x by simp
  qed
  have failed: "triple P (do { r \<leftarrow> degrade R x reason message; State_Monad.return (Some r) }) (honest_at (tc_key tc))"
    if "tc_key x = tc_key tc" for P x reason message
    using honest_some [OF degrade_honest [of P x]] that by simp
  have get: "triple (stored tc) (api_call (k_Get (r_ip R) p q)) (\<lambda>r. stored tc)"
    "triple (stored tc) (api_call (k_Get (r_sp R) p q)) (\<lambda>r. stored tc)" for p q
    by (intro keeps_stored still_same_tc still_kind quiet_kinds)+
  show ?thesis
    unfolding reconcile_live_def Let_def
    by (rule failed iso get | rule triple_keep triple_cases | simp)+
qed

end

context ready_world begin

lemma reconcile_honest:
  assumes run: "run_state (Reconcile R n m) w = (r, w')"
    and tc: "tcv w (n, m) = Some tc" "om_DeletionTimestamp (tc_Meta tc) = None"
    and away: "controlPlaneNamespace tc \<notin> {tc_Namespace tc, SanitizeName (tc_Namespace tc)}"
  shows "honest_at (n, m) r w'"
proof -
  obtain got v where g: "k_Get (r_tc R) n m w = (got, v)" by fastforce
  have v: "tcv v = tcv w" using tcs.get_frame [OF g] .
  have key: "tc_key tc = (n, m)" using tcs.view_key [OF tc(1)] .
  show ?thesis
  proof (cases got)
    case (Inl err)
    have "\<not> IsNotFound err" using tcs.get_missing g Inl tc(1) by fastforce
    then show ?thesis using run g Inl by (auto simp: Reconcile_def ctrl_run honest_at_def honest_def finished_def)
  next
    case (Inr x)
    then have x: "x = tc" using tcs.get_found g tc(1) by fastforce
    show ?thesis
    proof (cases "r_ContainsFinalizer R (tc_Meta tc) teardownFinalizer")
      case True
      have "stored tc v" using tc(1) v key by (simp add: stored_def)
      moreover have "run_state (reconcile_live R tc) v = (r, w')"
        using run g Inr x tc(2) True by (simp add: Reconcile_def ctrl_run)
      ultimately show ?thesis using tripleD [OF live_stage [OF away]] key by simp
    next
      case False
      let ?y = "tc\<lparr>tc_Meta := r_AddFinalizer R (tc_Meta tc) teardownFinalizer\<rparr>"
      obtain q u where q: "k_Update (r_tc R) ?y v = (q, u)" by fastforce
      have k: "tc_key ?y = (n, m)" using finalizers(3) key by (simp add: tc_key_def)
      show ?thesis
      proof (cases q)
        case (Inl err)
        then show ?thesis using run g Inr x tc(2) False q
          by (auto simp: Reconcile_def ctrl_run honest_at_def honest_def finished_def)
      next
        case t: (Inr t)
        have t': "tcv u (n, m) = Some t" "tc_Spec t = tc_Spec tc" using tcw.update_ok [OF q [unfolded t]] k by simp_all
        have tk: "tc_key t = (n, m)" using tcs.view_key [OF t'(1)] .
        have "controlPlaneNamespace t = controlPlaneNamespace tc" "tc_Namespace t = tc_Namespace tc"
          using placed_congr(6) [of t tc] t' tk key by (simp_all add: tc_key_def meta_key_def)
        moreover have "stored t u" using t' tk by (simp add: stored_def)
        moreover have "run_state (reconcile_live R t) u = (r, w')"
          using run g Inr x tc(2) False q t by (simp add: Reconcile_def ctrl_run)
        ultimately show ?thesis using tripleD [OF live_stage [of t]] away tk by simp
      qed
    qed
  qed
qed

end

end
