(* ===== verification/Ready_Status.thy ===== *)
theory Ready_Status
  imports Control_Plane_Ready
begin

text \<open>
  A host cluster with everything a reconcile needs, as an instance of \<open>ready_world\<close>, and the property that rests on it:
  a TenantCluster that says Ready has its control plane.
\<close>

section \<open>A host cluster on which a control plane runs\<close>

text \<open>
  A Kubernetes before 1.30, which does not know the admission policies, and a tenant's server that validates what it is
  sent: objects whose \<open>metadata\<close> is no map do not exist for it.
\<close>

definition old_server :: "mem client" where
  "old_server = mem_client\<lparr>cl_get := (\<lambda>g k m. if gvk_Group g = ''admissionregistration.k8s.io''
     then (Inl (GoErr ErrNoMatch ''no matches for kind''), m) else mem_get g k m)\<rparr>"

definition valid_view :: "mem \<Rightarrow> objkey \<Rightarrow> obj option" where
  "valid_view m k = (case mem_view m k of None \<Rightarrow> None | Some v \<Rightarrow> (if wf_meta v then Some v else None))"

definition valid_server :: "mem client" where
  "valid_server =
     \<lparr>cl_get = (\<lambda>g k m. (case valid_view m (g, k) of None \<Rightarrow> Inl not_found | Some o1 \<Rightarrow> Inr o1, m)),
      cl_list = (\<lambda>g n ls m. case mem_list g n ls m of (Inl err, m') \<Rightarrow> (Inl err, m') | (Inr os, m') \<Rightarrow> (Inr (filter wf_meta os), m')),
      cl_create = (\<lambda>o1 m. if wf_meta o1 then mem_create o1 m else (Inl (errorf ''invalid''), m)),
      cl_update = (\<lambda>o1 m. if wf_meta o1 then mem_update o1 m else (Inl (errorf ''invalid''), m)),
      cl_delete = mem_delete\<rparr>"

lemma old_server_calls [simp]:
  "cl_get old_server g k m = (if gvk_Group g = ''admissionregistration.k8s.io''
     then (Inl (GoErr ErrNoMatch ''no matches for kind''), m) else cl_get mem_client g k m)"
  "cl_list old_server = cl_list mem_client" "cl_create old_server = cl_create mem_client"
  "cl_update old_server = cl_update mem_client" "cl_delete old_server = cl_delete mem_client"
  by (simp_all add: old_server_def mem_client_def)

lemmas memory_laws = memory.view_key memory.get_frame memory.get_found memory.get_missing memory.list_frame memory.list_items
  memory.list_distinct memory.create_other memory.create_keeps memory.create_ok memory.update_other memory.update_ok
  memory.delete_other memory.delete_ok memory.delete_missing

interpretation old: kube_store json_api old_server mem_view
  by unfold_locales (auto simp: IsNotFound_def split: if_splits dest: memory_laws)

lemma valid_view_Some: "valid_view m k = Some v \<longleftrightarrow> mem_view m k = Some v \<and> wf_meta v"
  by (auto simp: valid_view_def split: option.splits)

lemma valid_view_same: "mem_view m' k = mem_view m k \<Longrightarrow> valid_view m' k = valid_view m k"
  by (simp add: valid_view_def)

lemma valid_server_calls:
  "cl_get valid_server g k m = (r, m') \<Longrightarrow> m' = m \<and> r = (case valid_view m (g, k) of None \<Rightarrow> Inl not_found | Some o1 \<Rightarrow> Inr o1)"
  "cl_list valid_server g n ls m = (lr, m') \<Longrightarrow> m' = m \<and>
     lr = Inr (filter wf_meta (remdups (filter (\<lambda>o1. mem_view m (obj_key json_api o1) = Some o1 \<and> selected json_api g n ls o1) (m_objs m))))"
  "cl_create valid_server o1 m = (r, m') \<Longrightarrow> (m' = m \<and> isl r) \<or> (wf_meta o1 \<and> cl_create mem_client o1 m = (r, m'))"
  "cl_update valid_server o1 m = (r, m') \<Longrightarrow> (m' = m \<and> isl r) \<or> (wf_meta o1 \<and> cl_update mem_client o1 m = (r, m'))"
  by (auto simp: valid_server_def mem_list_def mem_client_def split: if_splits)

lemma valid_server_delete [simp]: "cl_delete valid_server = cl_delete mem_client"
  by (simp add: valid_server_def mem_client_def)

lemma stamped_result:
  "wf_meta o1 \<Longrightarrow> cl_create mem_client o1 m = (Inr o2, m') \<Longrightarrow> wf_meta o2"
  "wf_meta o1 \<Longrightarrow> cl_update mem_client o1 m = (Inr o2, m') \<Longrightarrow> wf_meta o2"
proof -
  have "wf_meta o1 \<Longrightarrow> wf_meta (stamp i o1)" for i by (simp add: stamp_def json.rv_content)
  then show "wf_meta o1 \<Longrightarrow> cl_create mem_client o1 m = (Inr o2, m') \<Longrightarrow> wf_meta o2"
    "wf_meta o1 \<Longrightarrow> cl_update mem_client o1 m = (Inr o2, m') \<Longrightarrow> wf_meta o2"
    by (auto simp: mem_client_def mem_create_def mem_update_def Let_def split: option.splits if_splits)
qed

interpretation valid: kube_store json_api valid_server valid_view
proof unfold_locales
  fix w w' :: mem and k :: objkey and g nn n ls o1 o2 os
  show "valid_view w k = Some o1 \<Longrightarrow> obj_key json_api o1 = k" by (auto simp: valid_view_Some dest: memory.view_key)
  show "cl_get valid_server g nn w = (r, w') \<Longrightarrow> valid_view w' = valid_view w" for r by (auto dest: valid_server_calls)
  show "cl_get valid_server g nn w = (Inr o1, w') \<Longrightarrow> valid_view w (g, nn) = Some o1"
    by (auto dest!: valid_server_calls split: option.splits)
  show "cl_get valid_server g nn w = (Inl err, w') \<Longrightarrow> IsNotFound err \<Longrightarrow> valid_view w (g, nn) = None" for err
    by (auto dest!: valid_server_calls split: option.splits)
  show "cl_list valid_server g n ls w = (lr, w') \<Longrightarrow> valid_view w' = valid_view w" for lr by (auto dest: valid_server_calls)
  show "cl_list valid_server g n ls w = (Inr os, w') \<Longrightarrow>
      set os = {o1. valid_view w (obj_key json_api o1) = Some o1 \<and> selected json_api g n ls o1}"
    by (auto simp: valid_view_Some dest!: valid_server_calls dest: mem_view_key)
  show "cl_list valid_server g n ls w = (Inr os, w') \<Longrightarrow> distinct os" by (auto dest!: valid_server_calls)
  show "cl_create valid_server o1 w = (r, w') \<Longrightarrow> k \<noteq> obj_key json_api o1 \<Longrightarrow> valid_view w' k = valid_view w k" for r
    by (auto dest!: valid_server_calls dest: memory.create_other valid_view_same)
  show "cl_create valid_server o1 w = (r, w') \<Longrightarrow> valid_view w k = Some o2 \<Longrightarrow> valid_view w' k = Some o2" for r
    by (auto simp: valid_view_Some dest!: valid_server_calls dest: memory.create_keeps)
  show "cl_create valid_server o1 w = (Inr o2, w') \<Longrightarrow> valid_view w' (obj_key json_api o1) = Some o2"
    by (auto simp: valid_view_Some dest!: valid_server_calls dest: memory.create_ok stamped_result)
  show "cl_update valid_server o1 w = (r, w') \<Longrightarrow> k \<noteq> obj_key json_api o1 \<Longrightarrow> valid_view w' k = valid_view w k" for r
    by (auto dest!: valid_server_calls dest: memory.update_other valid_view_same)
  show "cl_update valid_server o1 w = (Inr o2, w') \<Longrightarrow> valid_view w' (obj_key json_api o1) = Some o2"
    by (auto simp: valid_view_Some dest!: valid_server_calls dest: memory.update_ok stamped_result)
  show "cl_delete valid_server o1 w = (dr, w') \<Longrightarrow> k \<noteq> obj_key json_api o1 \<Longrightarrow> valid_view w' k = valid_view w k" for dr
    by (auto dest: memory.delete_other valid_view_same)
  show "cl_delete valid_server o1 w = (None, w') \<Longrightarrow> valid_view w' (obj_key json_api o1) = None"
    by (auto simp: valid_view_def dest: memory.delete_ok)
  show "cl_delete valid_server o1 w = (Some err, w') \<Longrightarrow> IsNotFound err \<Longrightarrow> valid_view w' (obj_key json_api o1) = None" for err
    by (auto simp: valid_view_def dest: memory.delete_missing)
qed

text \<open>The Reconciler of this cluster. Its users have one IsolationProfile and one SyncPolicy.\<close>

definition sts_client :: "(string StatefulSet, ctl_world) kind_client" where
  "sts_client = lift_kind w_sts (\<lambda>m w. w\<lparr>w_sts := m\<rparr>) (list_client sts_key)"

definition only :: "'a \<Rightarrow> ('a, 'w) kind_client" where
  "only x = no_objects\<lparr>k_Get := (\<lambda>n m w. (Inr x, w))\<rparr>"

definition accepting :: "('a, 'w) kind_client" where
  "accepting = no_objects\<lparr>k_CreateOrUpdate := (\<lambda>n m f w. (None, w))\<rparr>"

definition ready_profile :: IsolationProfile where
  "ready_profile = \<lparr>ip_Meta = object_meta ''restricted'' '''' None, ip_Spec = \<lparr>ips_Level = ''restricted'',
     ips_Controls = \<lparr>ic_PodSecurity = ''restricted'', ic_DefaultDenyNetworkPolicy = True, ic_RequireResourceRequests = False,
       ic_RuntimeClassName = '''', ic_BlockHostPathVolumes = True, ic_BlockPrivilegedContainers = True, ic_APIFairness = ''none''\<rparr>\<rparr>\<rparr>"

definition quiet_policy :: SyncPolicy where
  "quiet_policy = demo_policy\<lparr>sp_Spec := (sp_Spec demo_policy)\<lparr>sps_Resources := []\<rparr>\<rparr>"

definition ready_tc :: TenantCluster where
  "ready_tc = live_tc\<lparr>tc_Spec := (tc_Spec live_tc)\<lparr>tcs_Resources := \<lparr>rr_CPU = '''', rr_Memory = ''''\<rparr>\<rparr>\<rparr>"

definition ready_secret :: Secret where
  "ready_secret = demo_secret\<lparr>se_Data := Some (fmap_of_list [(''kubeconfig'', controlPlaneServiceFQDN ready_tc)])\<rparr>"

definition ready_reconciler :: "(string, unit, ctl_world) Reconciler" where
  "ready_reconciler = tenant_reconciler
     \<lparr>r_ip := only ready_profile, r_sp := only quiet_policy, r_sts := sts_client, r_secret := only ready_secret,
      r_np := accepting, r_rq := accepting, r_lr := accepting, r_un := lift_client w_un (\<lambda>m w. w\<lparr>w_un := m\<rparr>) old_server,
      r_NewClient := (\<lambda>c w. (Inr (lift_client w_ten (\<lambda>m w. w\<lparr>w_ten := m\<rparr>) valid_server), w))\<rparr>"

lemma ready_reconciler_simps [simp]:
  "r_tc ready_reconciler = tc_client" "r_ns ready_reconciler = ns_client" "r_svc ready_reconciler = svc_client"
  "r_sts ready_reconciler = sts_client" "r_secret ready_reconciler = only ready_secret" "r_sd ready_reconciler = sd_client"
  "r_ip ready_reconciler = only ready_profile" "r_sp ready_reconciler = only quiet_policy" "r_pvc ready_reconciler = pvc_client"
  "r_np ready_reconciler = accepting" "r_rq ready_reconciler = accepting" "r_lr ready_reconciler = accepting"
  "r_un ready_reconciler = lift_client w_un (\<lambda>m w. w\<lparr>w_un := m\<rparr>) old_server" "r_U ready_reconciler = json_api"
  "r_NewClient ready_reconciler c w = (Inr (lift_client w_ten (\<lambda>m w. w\<lparr>w_ten := m\<rparr>) valid_server), w)"
  "r_ParseQuantity ready_reconciler = text_quantity" "r_Eventf ready_reconciler = None"
  "r_Now ready_reconciler = Pair ''2026-01-01T00:00:00Z''" "r_NewLimiter ready_reconciler a b w = (Pair True, w)"
  "r_execInPod ready_reconciler ns p ct cmd w = (Inl (errorf ''no such pod''), w)"
  by (simp_all add: ready_reconciler_def tenant_reconciler_def sync_reconciler_def ctl_reconciler_def)

lemma only_calls [simp]:
  "k_Get (only x) n m w = (Inr x, w)" "snd (k_Create (only x) y w) = w" "snd (k_Update (only x) y w) = w"
  "snd (k_CreateOrUpdate (only x) n m f w) = w" "snd (k_StatusUpdate (only x) y w) = w" "snd (k_Delete (only x) y w) = w"
  by (simp_all add: only_def no_objects_def)

interpretation ready_tenants: tenant_world ready_reconciler ctl_tcv ctl_nsv
  using ctl_tenants.tenant_world_axioms
  by (simp add: tenant_world_def tenant_world_axioms_def ready_reconciler_def)

interpretation ready_quiet: quiet_world ready_reconciler ctl_tcv ctl_nsv
proof (intro quiet_world.intro quiet_world_axioms.intro ready_tenants.tenant_world_axioms)
  show "quiet_client ctl_tcv ctl_nsv vc" if "r_NewClient ready_reconciler c w = (Inr vc, w')" for c w vc w'
    using that by (auto simp: quiet_lift)
  show "quiet_client ctl_tcv ctl_nsv (r_un ready_reconciler)" by (simp add: quiet_lift)
  have "quiet_kind ctl_tcv ctl_nsv (only x)" for x :: 'x by (simp add: quiet_kind_def quiet_call_def)
  moreover have "quiet_kind ctl_tcv ctl_nsv accepting" by (simp add: quiet_kind_def quiet_call_def accepting_def no_objects_def)
  ultimately show "quiet_kind ctl_tcv ctl_nsv (r_ip ready_reconciler)" "quiet_kind ctl_tcv ctl_nsv (r_sp ready_reconciler)"
    "quiet_kind ctl_tcv ctl_nsv (r_sd ready_reconciler)" "quiet_kind ctl_tcv ctl_nsv (r_svc ready_reconciler)"
    "quiet_kind ctl_tcv ctl_nsv (r_sts ready_reconciler)" "quiet_kind ctl_tcv ctl_nsv (r_secret ready_reconciler)"
    "quiet_kind ctl_tcv ctl_nsv (r_pvc ready_reconciler)" "quiet_kind ctl_tcv ctl_nsv (r_np ready_reconciler)"
    "quiet_kind ctl_tcv ctl_nsv (r_rq ready_reconciler)" "quiet_kind ctl_tcv ctl_nsv (r_lr ready_reconciler)"
    by (simp_all add: sd_client_def svc_client_def pvc_client_def sts_client_def quiet_lift)
qed (auto simp: quiet_call_def)

interpretation ready_sync: sync_host ready_reconciler "\<lambda>w. mem_view (w_un w)" "\<lambda>w. valid_view (w_ten w)"
proof (intro sync_host.intro)
  show "engine_env (r_U ready_reconciler) (sync_engine ready_reconciler tc policy profile vc l)
      (\<lambda>w. mem_view (w_un w)) (\<lambda>w. valid_view (w_ten w))"
    if "r_NewClient ready_reconciler c w = (Inr vc, w')" "limits ready_reconciler l" for c w vc w' l tc policy profile
  proof -
    have vc: "vc = lift_client w_ten (\<lambda>m w. w\<lparr>w_ten := m\<rparr>) valid_server" using that(1) by simp
    have l: "f = Pair True" if "l = Some f" for f
      using \<open>limits ready_reconciler l\<close> that by (auto simp: limits_def)
    have U: "r_U ready_reconciler = json_api" by simp
    show ?thesis unfolding U
      by (rule lifted_engine [OF old.kube_store_axioms valid.kube_store_axioms _ vc _ l]) simp_all
  qed
qed (auto simp: sd_client_def lift_call_snd)

interpretation ready_confined: sync_quiet ready_reconciler "\<lambda>w. mem_view (w_un w)" "\<lambda>w. valid_view (w_ten w)"
proof (intro sync_quiet.intro sync_quiet_axioms.intro ready_sync.sync_host_axioms)
  show "valid_view (w_ten w1) k = Some v \<or> wf_meta v" if "valid_view (w_ten w2) k = Some v" for w1 w2 k v
    using that by (simp add: valid_view_Some)
qed (auto simp: sd_client_def lift_call_snd)

abbreviation ctl_svv :: "ctl_world \<Rightarrow> string \<times> string \<Rightarrow> Service option" where
  "ctl_svv w \<equiv> list_view svc_key (w_svc w)"

abbreviation ctl_stv :: "ctl_world \<Rightarrow> string \<times> string \<Rightarrow> string StatefulSet option" where
  "ctl_stv w \<equiv> list_view sts_key (w_sts w)"

lemma tc_status_ok: "tc_status_update x xs = (Inr y, ys) \<Longrightarrow>
    list_view tc_key ys (tc_key x) = Some y \<and> tc_Status y = tc_Status x \<and>
    (\<exists>old. list_view tc_key xs (tc_key x) = Some old \<and> y = old\<lparr>tc_Status := tc_Status x\<rparr>)"
proof -
  assume "tc_status_update x xs = (Inr y, ys)"
  then obtain old where o1: "list_view tc_key xs (tc_key x) = Some old" "y = old\<lparr>tc_Status := tc_Status x\<rparr>" "ys = replace_by tc_key y xs"
    by (auto simp: tc_status_update_def split: option.splits)
  moreover have "tc_key y = tc_key x" using list_view_key [OF o1(1)] o1(2) by (simp add: tc_key_def)
  ultimately show ?thesis using list_view_replaced [of tc_key xs y] by simp
qed

interpretation ctl_tc_write: kind_store_write tc_client tc_key ctl_tcv tc_Spec tc_Status
proof -
  have "kind_store ((list_client tc_key)\<lparr>k_StatusUpdate := tc_status_update\<rparr>) tc_key (list_view tc_key)"
    using listed.kind_store_axioms [of tc_key] tc_status_view(1) by (auto simp: kind_store_def)
  then have "kind_store_write ((list_client tc_key)\<lparr>k_StatusUpdate := tc_status_update\<rparr>) tc_key (list_view tc_key) tc_Spec tc_Status"
    by (intro kind_store_write.intro kind_store_write_axioms.intro) (auto simp: list_client_def dest: list_update_ok tc_status_ok)
  then show "kind_store_write tc_client tc_key ctl_tcv tc_Spec tc_Status"
    unfolding tc_client_def by (rule lift_kind_store_write) simp
qed

interpretation ctl_svc_write: kind_store_write svc_client svc_key ctl_svv svc_conf "\<lambda>s. ()"
  unfolding svc_client_def by (rule lift_kind_store_write [OF listed_write.kind_store_write_axioms]) simp

interpretation ctl_sts_write: kind_store_write sts_client sts_key ctl_stv sts_conf "\<lambda>s. ()"
  unfolding sts_client_def by (rule lift_kind_store_write [OF listed_write.kind_store_write_axioms]) simp

interpretation ready: ready_world ready_reconciler ctl_tcv ctl_nsv "\<lambda>w. mem_view (w_un w)" "\<lambda>w. valid_view (w_ten w)" ctl_svv ctl_stv
proof (intro ready_world.intro ready_world_axioms.intro ready_quiet.quiet_world_axioms ready_confined.sync_quiet_axioms)
  show "kind_store_write (r_tc ready_reconciler) tc_key ctl_tcv tc_Spec tc_Status"
    "kind_store_write (r_svc ready_reconciler) svc_key ctl_svv svc_conf (\<lambda>s. ())"
    "kind_store_write (r_sts ready_reconciler) sts_key ctl_stv sts_conf (\<lambda>s. ())"
    by (simp_all add: ctl_tc_write.kind_store_write_axioms ctl_svc_write.kind_store_write_axioms ctl_sts_write.kind_store_write_axioms)
next
  fix x w y w' t assume "k_StatusUpdate (r_tc ready_reconciler) x w = (Inr y, w')" "ctl_tcv w (tc_key x) = Some t"
  then show "tc_Spec y = tc_Spec t"
    by (auto simp: tc_client_def lift_call_def split: prod.splits dest!: tc_status_ok)
next
  fix s w s' w' assume "k_Create (r_svc ready_reconciler) s w = (Inr s', w')"
  then show "svc_conf s' = svc_conf s" by (auto simp: svc_client_def list_client_def lift_call_def split: option.splits)
next
  fix d w d' w' assume "k_Create (r_sts ready_reconciler) d w = (Inr d', w')"
  then show "sts_conf d' = sts_conf d" by (auto simp: sts_client_def list_client_def lift_call_def split: option.splits)
next
  show "run_calls (\<lambda>w w'. ctl_svv w' = ctl_svv w \<and> ctl_stv w' = ctl_stv w) ready_reconciler"
    by (simp add: run_calls_def sd_client_def lift_call_snd reflp_def transp_def)
next
  fix c w vc w' n g lns ls u o1 assume "r_NewClient ready_reconciler c w = (Inr vc, w')"
  then show "placed_in ctl_svv ctl_stv n (snd (cl_list vc g lns ls u)) = placed_in ctl_svv ctl_stv n u"
    "placed_in ctl_svv ctl_stv n (snd (cl_update vc o1 u)) = placed_in ctl_svv ctl_stv n u"
    by (auto simp: placed_in_def lift_call_snd fun_eq_iff)
next
  show "wf_meta v" if "valid_view (w_ten w) objk = Some v" for w objk v using that by (simp add: valid_view_Some)
qed (simp_all add: tc_client_def svc_client_def sts_client_def lift_call_snd placed_in_def fun_eq_iff)

section \<open>The property\<close>

text \<open>Property C2 (a Ready status is honest). A reconcile of a live TenantCluster that ends without an error leaves the status
  phase Ready only with the control plane in place: its namespace carries the labels it is built with, the headless
  Service and the StatefulSet in it are stored with the labels, ports, selector and pod template that are built from
  the spec, the external Service is there exactly when the exposure asks for one and with that configuration, the StatefulSet
  that is stored has a ready replica, and the endpoint in the status is the address of the API server. The sync run in
  between may write objects of the tenant's own workload namespace only; the hypothesis is that this is not the
  control-plane namespace.\<close>

theorem ready_status_is_honest:
  assumes "ready_world R tcv nsv hview tview svv stv"
    and "tcv w (n, m) = Some tc" "om_DeletionTimestamp (tc_Meta tc) = None"
    and "controlPlaneNamespace tc \<notin> {tc_Namespace tc, SanitizeName (tc_Namespace tc)}"
    and "run_state (Reconcile R n m) w = (Some (result, None), w')"
    and "tcv w' (n, m) = Some t" "ts_Phase (tc_Status t) = ''Ready''"
  shows "plane_in_place R nsv svv stv t w'"
  using ready_world.reconcile_honest [OF assms(1,5,2,3,4)] assms(6,7)
  by (simp add: ready_world.honest_at_def [OF assms(1)] ready_world.honest_def [OF assms(1)] PhaseReady_def)

text \<open>The world before the reconcile: the TenantCluster, and a StatefulSet one of whose pods is ready.\<close>

definition ready_sts :: "string StatefulSet" where
  "ready_sts = (case buildStatefulSet text_quantity ready_tc of Some (Inr d) \<Rightarrow> d\<lparr>ss_ReadyReplicas := 1\<rparr>)"

definition before_ready :: ctl_world where
  "before_ready = empty_world\<lparr>w_tc := [ready_tc], w_sts := [ready_sts]\<rparr>"

lemma ready_names:
  "tc_Name ready_tc = ''dev''" "tc_Namespace ready_tc = ''team''" "tc_key ready_tc = (''team'', ''dev'')"
  "om_DeletionTimestamp (tc_Meta ready_tc) = None" "om_Finalizers (tc_Meta ready_tc) = [teardownFinalizer]"
  by (simp_all add: ready_tc_def live_tc_def demo_tc_def object_meta_def tc_key_def meta_key_def)

lemma ready_spec:
  "cp_Expose (tcs_ControlPlane (tc_Spec ready_tc)) = \<lparr>ex_LoadBalancer = False, ex_Annotations = None\<rparr>"
  "ds_Type (cp_Datastore (tcs_ControlPlane (tc_Spec ready_tc))) = ''sqlite''"
  "st_Size (cp_Storage (tcs_ControlPlane (tc_Spec ready_tc))) = ''5Gi''" "tcs_Resources (tc_Spec ready_tc) = \<lparr>rr_CPU = '''', rr_Memory = ''''\<rparr>"
  by (simp_all add: ready_tc_def live_tc_def demo_tc_def)

lemma ready_namespace: "controlPlaneNamespace ready_tc \<noteq> ''team''" "SanitizeName ''team'' = ''team''"
proof -
  have "controlPlaneNamespace ready_tc = SanitizeName ''cp-x-dev-x-team''"
    unfolding controlPlaneNamespace_def ready_names
    by (subst HostName_short) (simp_all add: host_base_def SanitizeName_id dns_safe_def inner_dashes_def dns_char_def)
  also have "\<dots> = ''cp-x-dev-x-team''" by (simp add: SanitizeName_id dns_safe_def inner_dashes_def dns_char_def)
  finally show "controlPlaneNamespace ready_tc \<noteq> ''team''" by simp
qed (rule demo_names)

lemma contains_self: "strings_Contains s s"
  by (cases s) (simp_all add: strings_HasPrefix_def)

lemma ready_built: "\<exists>d. buildStatefulSet text_quantity ready_tc = Some (Inr d)"
  by (simp add: buildStatefulSet_def MustParse_def must_parse_cpu_memory_def parse_or_def text_quantity_def ascii_digit_def ready_spec Let_def)

lemma ready_sts_built:
  obtains d where "buildStatefulSet text_quantity ready_tc = Some (Inr d)" "ready_sts = d\<lparr>ss_ReadyReplicas := 1\<rparr>"
    "meta_key (ss_Meta d) = (controlPlaneNamespace ready_tc, controlPlaneName ready_tc)"
  using ready_built built_keys(3) [of text_quantity ready_tc] by (auto simp: ready_sts_def)

text \<open>The stages of the reconcile, one by one, for the TenantCluster whatever its status is.\<close>

definition ready_like :: "TenantCluster \<Rightarrow> bool" where
  "ready_like tc \<longleftrightarrow> tc_Meta tc = tc_Meta ready_tc \<and> tc_Spec tc = tc_Spec ready_tc"

lemma ready_likeD:
  assumes "ready_like tc"
  shows "tc_Name tc = ''dev''" "tc_Namespace tc = ''team''" "tc_key tc = (''team'', ''dev'')" "tc_Spec tc = tc_Spec ready_tc"
    "controlPlaneNamespace tc = controlPlaneNamespace ready_tc" "controlPlaneServiceFQDN tc = controlPlaneServiceFQDN ready_tc"
    "controlPlaneName tc = ''dev-control-plane''" "externalServiceName tc \<noteq> controlPlaneName tc" "buildExternalService tc = None"
    "buildStatefulSet text_quantity tc = buildStatefulSet text_quantity ready_tc" "controlPlaneNamespace tc \<noteq> ''team''"
proof -
  have m: "tc_Meta tc = tc_Meta ready_tc" and s: "tc_Spec tc = tc_Spec ready_tc" using assms by (simp_all add: ready_like_def)
  show n: "tc_Name tc = ''dev''" "tc_Namespace tc = ''team''" "tc_key tc = (''team'', ''dev'')" "tc_Spec tc = tc_Spec ready_tc"
    using m s ready_names by (simp_all add: tc_key_def)
  note c = placed_congr [of tc ready_tc, OF _ s]
  have k: "tc_key tc = tc_key ready_tc" using n ready_names by simp
  show cp: "controlPlaneNamespace tc = controlPlaneNamespace ready_tc" "controlPlaneServiceFQDN tc = controlPlaneServiceFQDN ready_tc"
    using c(5,6) [OF k] by simp_all
  then show "controlPlaneNamespace tc \<noteq> ''team''" using ready_namespace by simp
  show "externalServiceName tc \<noteq> controlPlaneName tc" by (rule built_keys)
  show "controlPlaneName tc = ''dev-control-plane''" by (simp add: controlPlaneName_def n)
  show "buildExternalService tc = None" by (simp add: buildExternalService_def s ready_spec)
  have "stateful_set tc = (stateful_set ready_tc :: string \<Rightarrow> _)"
    by (simp add: fun_eq_iff stateful_set_def replicas_of_def control_plane_args_def controlPlaneLabels_def controlPlaneName_def
        n ready_names(1-3) cp s)
  then show "buildStatefulSet text_quantity tc = buildStatefulSet text_quantity ready_tc"
    by (simp only: buildStatefulSet_def s)
qed

lemma ready_stages:
  assumes "ready_like tc" "w_sts w = [ready_sts]"
  shows "w_ns w = [] \<Longrightarrow> run_state (ensureControlPlaneNamespace ready_reconciler tc) w = (None, w\<lparr>w_ns := [buildControlPlaneNamespace tc]\<rparr>)"
    "w_svc w = [] \<Longrightarrow> w_pvc w = [] \<Longrightarrow> run_state (cleanupLegacyControlPlane ready_reconciler tc) w = (None, w)"
    "w_svc w = [] \<Longrightarrow> run_state (reconcileService ready_reconciler (buildHeadlessService tc)) w = (None, w\<lparr>w_svc := [buildHeadlessService tc]\<rparr>)"
    "w_svc w = [buildHeadlessService tc] \<Longrightarrow> run_state (reconcileExternalService ready_reconciler tc) w = (None, w)"
    "run_state (reconcileStatefulSet ready_reconciler tc) w = (Some (Inr ready_sts), w)"
    "run_state (ensureKubeconfigSecret ready_reconciler tc name) w = (Inr ready_secret, w)"
    "run_state (externalEndpoint ready_reconciler tc) w = (Inr '''', w)"
    "run_state (runSync ready_reconciler tc quiet_policy profile name) w = (None, w)"
proof -
  note D = ready_likeD [OF assms(1)]
  note nf = not_found_def IsNotFound_def
  have name: "om_Name (ns_Meta (buildControlPlaneNamespace tc)) = controlPlaneNamespace tc"
    by (simp add: buildControlPlaneNamespace_def object_meta_def)
  show "w_ns w = [] \<Longrightarrow> run_state (ensureControlPlaneNamespace ready_reconciler tc) w = (None, w\<lparr>w_ns := [buildControlPlaneNamespace tc]\<rparr>)"
    by (simp add: ensureControlPlaneNamespace_def ctrl_run Let_def ns_client_def lift_call_def list_client_def list_view_def nf err_of_def)
  obtain d where d: "buildStatefulSet text_quantity ready_tc = Some (Inr d)" "ready_sts = d\<lparr>ss_ReadyReplicas := 1\<rparr>"
    "meta_key (ss_Meta d) = (controlPlaneNamespace ready_tc, controlPlaneName ready_tc)" by (rule ready_sts_built)
  have key: "sts_key ready_sts = (controlPlaneNamespace tc, controlPlaneName tc)"
    unfolding d(2) using d(3) D ready_likeD(7) [of ready_tc] by (simp add: ready_like_def)
  then have far: "sts_key ready_sts \<noteq> (''team'', n)" for n using D by simp
  show "w_svc w = [] \<Longrightarrow> w_pvc w = [] \<Longrightarrow> run_state (cleanupLegacyControlPlane ready_reconciler tc) w = (None, w)"
    using far assms(2)
    by (simp add: cleanupLegacyControlPlane_def delete_if_def ctrl_run sts_client_def svc_client_def pvc_client_def lift_call_def
        list_client_def list_view_def nf D(2))
  have hk: "svc_key (buildHeadlessService tc) = (controlPlaneNamespace tc, controlPlaneName tc)" by (rule built_keys)
  then show "w_svc w = [] \<Longrightarrow> run_state (reconcileService ready_reconciler (buildHeadlessService tc)) w = (None, w\<lparr>w_svc := [buildHeadlessService tc]\<rparr>)"
    by (simp add: reconcileService_def ctrl_run svc_client_def lift_call_def list_client_def list_view_def nf err_of_def)
  show "w_svc w = [buildHeadlessService tc] \<Longrightarrow> run_state (reconcileExternalService ready_reconciler tc) w = (None, w)"
    using hk D(8) by (simp add: reconcileExternalService_def ctrl_run svc_client_def lift_call_def list_client_def list_view_def nf D(9))
  have n: "om_Namespace (ss_Meta d) = controlPlaneNamespace tc" "om_Name (ss_Meta d) = controlPlaneName tc"
    using key by (simp_all add: d(2) meta_key_def)
  have same: "ready_sts\<lparr>ss_Meta := meta_with_labels_of (ss_Meta ready_sts) (ss_Meta d), ss_Replicas := ss_Replicas d,
      ss_Template := ss_Template d\<rparr> = ready_sts"
    by (simp add: d(2) meta_with_labels_of_def)
  show "run_state (reconcileStatefulSet ready_reconciler tc) w = (Some (Inr ready_sts), w)"
    using key assms(2)
    by (simp add: reconcileStatefulSet_def ctrl_run D(10) d(1) n sts_client_def lift_call_def list_client_def list_view_def
        list_update_call_def replace_by_def same)
  show "run_state (ensureKubeconfigSecret ready_reconciler tc name) w = (Inr ready_secret, w)"
    by (simp add: ensureKubeconfigSecret_def ctrl_run Let_def D(6) kubeconfig_of_def ready_secret_def str_at_def contains_self)
  show "run_state (externalEndpoint ready_reconciler tc) w = (Inr '''', w)"
    by (simp add: externalEndpoint_def ctrl_run D(4) ready_spec)
  show "run_state (runSync ready_reconciler tc quiet_policy profile name) w = (None, w)"
    by (simp add: runSync_def ctrl_run syncResourcesFromPolicy_def quiet_policy_def)
qed

lemma ready_isolation:
  "w_ns w = [] \<Longrightarrow> ready_like tc \<Longrightarrow> run_state (applyIsolation ready_reconciler tc (profileFromCR ready_profile)) w = (Some None, w)"
  by (simp add: applyIsolation_def apply_optional_def ctrl_run Let_def profileFromCR_def ready_profile_def BuildNetworkPolicy_def
      BuildResourceQuota_def BuildLimitRange_def applyNamespacePodSecurityLabels_def ns_client_def lift_call_def list_client_def
      list_view_def accepting_def no_objects_def not_found_def IsNotFound_def)

lemma old_policy: "gvk_Group gvk = ''admissionregistration.k8s.io'' \<Longrightarrow>
    run_state (ensure_policy ready_reconciler gvk name d) w = ((False, None), w)"
  by (simp add: ensure_policy_def ctrl_run lift_call_def admissionHardeningUnsupported_def IsNoMatchError_def)

lemma no_policies:
  "run_state (ensureRuntimeClassPolicy ready_reconciler) w = ((False, None), w)"
  "run_state (ensureControllerScopePolicies ready_reconciler) w = ((False, None), w)"
proof -
  show "run_state (ensureRuntimeClassPolicy ready_reconciler) w = ((False, None), w)"
    by (simp add: ensureRuntimeClassPolicy_def old_policy vapGVK_def)
  have "gvk_Group (u_GroupVersionKind json_api (buildControllerWriteScopePolicy json_api)) = ''admissionregistration.k8s.io''"
    unfolding buildControllerWriteScopePolicy_def by (subst json.GroupVersionKind_set) (simp_all add: gvk_wf_def vapGVK_def)
  then show "run_state (ensureControllerScopePolicies ready_reconciler) w = ((False, None), w)"
    by (simp add: ensureControllerScopePolicies_def ctrl_run old_policy)
qed

lemma ready_like_frame [simp]:
  "ready_like (setCondition tc ty st r m) = ready_like tc" "ready_like (tc\<lparr>tc_Status := s\<rparr>) = ready_like tc"
  "tc_key (tc\<lparr>tc_Status := s\<rparr>) = tc_key tc"
  by (simp_all add: ready_like_def tc_key_def)

lemma ready_status_call:
  assumes "tc_key x = (''team'', ''dev'')" "w_tc w = [ready_tc]"
  shows "k_StatusUpdate tc_client x w = (Inr (ready_tc\<lparr>tc_Status := tc_Status x\<rparr>), w\<lparr>w_tc := [ready_tc\<lparr>tc_Status := tc_Status x\<rparr>]\<rparr>)"
  using assms ready_names(3) by (simp add: tc_client_def lift_call_def tc_status_update_def list_view_def replace_by_def)

lemma ready_end:
  assumes "ready_like tc" "w_sts w = [ready_sts]" "w_tc w = [ready_tc]"
  shows "snd (fst (run_state (reconcile_ready ready_reconciler tc quiet_policy profile) w)) = None"
    "\<exists>t. w_tc (snd (run_state (reconcile_ready ready_reconciler tc quiet_policy profile) w)) = [t] \<and> tc_key t = (''team'', ''dev'') \<and>
      ts_Phase (tc_Status t) = ''Ready''"
  using ready_likeD(3) [OF assms(1)] ready_names(3)
  by (simp_all add: reconcile_ready_def Let_def ctrl_run ready_stages(6-8) assms ready_status_call requeue_def PhaseReady_def)

lemma ready_world_run:
  assumes "ready_like tc" "w_sts w = [ready_sts]" "w_ns w = []" "w_svc w = []" "w_pvc w = []" "w_tc w = [ready_tc]"
  shows "\<exists>res w' t. run_state (reconcile_control_plane ready_reconciler tc quiet_policy profile) w = (Some (res, None), w') \<and>
    ctl_tcv w' (''team'', ''dev'') = Some t \<and> ts_Phase (tc_Status t) = ''Ready''"
proof -
  define w1 where "w1 = w\<lparr>w_ns := [buildControlPlaneNamespace tc]\<rparr>"
  define w2 where "w2 = w1\<lparr>w_svc := [buildHeadlessService tc]\<rparr>"
  have w: "w_sts w1 = [ready_sts]" "w_svc w1 = []" "w_pvc w1 = []" "w_sts w2 = [ready_sts]" "w_svc w2 = [buildHeadlessService tc]"
    "w_tc w2 = [ready_tc]" using assms by (simp_all add: w1_def w2_def)
  note st = ready_stages [OF assms(1)]
  note runs = st(1) [OF assms(2,3), folded w1_def] st(2) [OF w(1-3)] st(3) [OF w(1,2), folded w2_def] st(4) [OF w(4,5)] st(5) [OF w(4)]
  have pod: "\<not> sint (ss_ReadyReplicas ready_sts) < 1"
  proof (rule ready_sts_built)
    fix d assume d: "ready_sts = d\<lparr>ss_ReadyReplicas := 1\<rparr>"
    show ?thesis unfolding d by simp
  qed
  let ?fin = "run_state (reconcile_ready ready_reconciler tc quiet_policy profile) w2"
  obtain res w' where e: "?fin = ((res, None), w')" using ready_end(1) [OF assms(1) w(4,6)] by (metis prod.collapse)
  obtain t where "w_tc w' = [t]" "tc_key t = (''team'', ''dev'')" "ts_Phase (tc_Status t) = ''Ready''"
    using ready_end(2) [OF assms(1) w(4,6), of profile] unfolding e by auto
  moreover have "run_state (reconcile_control_plane ready_reconciler tc quiet_policy profile) w = (Some (res, None), w')"
    by (simp add: reconcile_control_plane_def Let_def ctrl_run runs pod e)
  ultimately show ?thesis by (simp add: list_view_def)
qed

lemma before_ready_run:
  "\<exists>res w' t. run_state (Reconcile ready_reconciler ''team'' ''dev'') before_ready = (Some (res, None), w') \<and>
    ctl_tcv w' (''team'', ''dev'') = Some t \<and> ts_Phase (tc_Status t) = ''Ready''"
proof -
  have w: "w_sts before_ready = [ready_sts]" "w_ns before_ready = []" "w_svc before_ready = []" "w_pvc before_ready = []"
    "w_tc before_ready = [ready_tc]" by (simp_all add: before_ready_def)
  let ?a = "setSupportConditions ready_tc (Some ready_profile) (Some quiet_policy)"
  let ?b = "setControllerScopeCondition (setAdmissionHardeningCondition ?a False) False"
  have like: "ready_like ?a" "ready_like ?b" by (simp_all add: ready_like_def)
  have "run_state (Reconcile ready_reconciler ''team'' ''dev'') before_ready =
      run_state (reconcile_live ready_reconciler ready_tc) before_ready"
    by (simp add: Reconcile_def ctrl_run tc_client_def lift_call_def list_client_def list_view_def w ready_names)
      (simp add: ready_reconciler_def ctl_reconciler_def ready_names before_ready_def)
  also have "\<dots> = run_state (reconcile_control_plane ready_reconciler ?b quiet_policy (profileFromCR ready_profile)) before_ready"
    by (simp add: reconcile_live_def reconcile_isolation_def ctrl_run Let_def ready_spec no_policies ready_isolation [OF w(2) like(1)])
  finally show ?thesis using ready_world_run [OF like(2) w, of "profileFromCR ready_profile"] by simp
qed

theorem ready_status_is_honest_witness:
  "\<exists>w' t. w' = snd (run_state (Reconcile ready_reconciler ''team'' ''dev'') before_ready) \<and>
     ctl_tcv w' (''team'', ''dev'') = Some t \<and> ts_Phase (tc_Status t) = ''Ready'' \<and>
     plane_in_place ready_reconciler ctl_nsv ctl_svv ctl_stv t w'"
proof -
  obtain res w' t where run: "run_state (Reconcile ready_reconciler ''team'' ''dev'') before_ready = (Some (res, None), w')"
    and t: "ctl_tcv w' (''team'', ''dev'') = Some t" "ts_Phase (tc_Status t) = ''Ready''" using before_ready_run by blast
  have w: "ctl_tcv before_ready (''team'', ''dev'') = Some ready_tc" by (simp add: before_ready_def list_view_def ready_names)
  have apart: "controlPlaneNamespace ready_tc \<notin> {tc_Namespace ready_tc, SanitizeName (tc_Namespace ready_tc)}"
    by (simp add: ready_names ready_namespace)
  have "plane_in_place ready_reconciler ctl_nsv ctl_svv ctl_stv t w'"
  proof (rule ready_status_is_honest [OF ready.ready_world_axioms])
    show "ctl_tcv before_ready (''team'', ''dev'') = Some ready_tc" by (rule w)
    show "om_DeletionTimestamp (tc_Meta ready_tc) = None" by (rule ready_names)
    show "controlPlaneNamespace ready_tc \<notin> {tc_Namespace ready_tc, SanitizeName (tc_Namespace ready_tc)}" by (rule apart)
    show "run_state (Reconcile ready_reconciler ''team'' ''dev'') before_ready = (Some (res, None), w')" by (rule run)
    show "ctl_tcv w' (''team'', ''dev'') = Some t" "ts_Phase (tc_Status t) = ''Ready''" by (rule t)+
  qed
  moreover have "w' = snd (run_state (Reconcile ready_reconciler ''team'' ''dev'') before_ready)" unfolding run by (rule snd_conv [symmetric])
  ultimately show ?thesis using t by blast
qed

end
