(* ===== verification/Admission_Safety.thy ===== *)
theory Admission_Safety
  imports Controller_Lifecycle Syncer_Safety
begin

text \<open>
  The admission policies of \<open>Admission\<close> on an API server: which objects are in place once the operations report success.
  The locale \<open>policy_server\<close> adds to \<open>kube_store\<close> that the server stores the labels it is sent and the spec up to
  defaulting.
\<close>

section \<open>The policies on a server\<close>

definition scope_policies :: "uapi \<Rightarrow> obj list" where
  "scope_policies U =
     [buildControllerWriteScopePolicy U, buildControllerWriteScopeBinding U,
      buildNamespaceDeleteScopePolicy U, buildNamespaceDeleteScopeBinding U]"

locale policy_server = kube_store U C view + unstructured_api U
  for U :: uapi and C :: "'w client" and view :: "'w \<Rightarrow> objkey \<Rightarrow> obj option" +
  fixes defaulted :: "gval option \<Rightarrow> gval option \<Rightarrow> bool"
  assumes create_content: "cl_create C o1 w = (Inr o2, w') \<Longrightarrow>
      defaulted (fmlookup o1 ''spec'') (fmlookup o2 ''spec'') \<and> u_GetLabels U o2 = u_GetLabels U o1"
    and update_content: "cl_update C o1 w = (Inr o2, w') \<Longrightarrow>
      defaulted (fmlookup o1 ''spec'') (fmlookup o2 ''spec'') \<and> u_GetLabels U o2 = u_GetLabels U o1"
begin

definition in_place :: "'w \<Rightarrow> obj \<Rightarrow> bool" where
  "in_place w d \<longleftrightarrow> (\<exists>o1. view w (obj_key U d) = Some o1 \<and> defaulted (fmlookup d ''spec'') (fmlookup o1 ''spec'') \<and>
     u_GetLabels U o1 = u_GetLabels U d)"

definition policy_like :: "obj \<Rightarrow> bool" where
  "policy_like d \<longleftrightarrow> u_GetName U d \<noteq> '''' \<and> u_GetNamespace U d = '''' \<and> u_GetLabels U d \<noteq> None \<and> fmlookup d ''spec'' \<noteq> None"

lemma adopt_spec_facts:
  assumes "u_GetName U ex \<noteq> ''''" "policy_like d"
  shows "obj_key U (adopt_spec U ex d) = obj_key U ex" "fmlookup (adopt_spec U ex d) ''spec'' = fmlookup d ''spec''"
    "u_GetLabels U (adopt_spec U ex d) = u_GetLabels U d"
proof -
  obtain mm where mm: "fmlookup ex ''metadata'' = Some (VMap mm)"
    using assms(1) by (auto simp: GetName peek_str_def peek2 split: option.splits gval.splits)
  obtain v where v: "fmlookup d ''spec'' = Some v" using assms(2) by (auto simp: policy_like_def)
  obtain l where l: "u_GetLabels U d = Some l" using assms(2) by (auto simp: policy_like_def)
  have wf: "wf_meta (fmupd ''spec'' v ex)" "map_at ''metadata'' (fmupd ''spec'' v ex) = mm"
    using mm by (simp_all add: wf_meta_def map_at_def)
  have a: "adopt_spec U ex d =
      fmupd ''metadata'' (VMap (fmupd ''labels'' (VMap (of_strmap l)) mm)) (fmupd ''spec'' v ex)"
    using put2_meta [OF wf(1), of "''labels''" "VMap (of_strmap l)"]
    by (simp add: adopt_spec_def v l SetLabels set_strmap_def put_or_keep_def map_at_def mm)
  have "u_GroupVersionKind U (adopt_spec U ex d) = u_GroupVersionKind U ex"
    by (rule GroupVersionKind_congr) (simp_all add: a)
  then show "obj_key U (adopt_spec U ex d) = obj_key U ex"
    using mm by (simp add: obj_key_def GetName GetNamespace peek_str_def peek2 a)
  show "fmlookup (adopt_spec U ex d) ''spec'' = fmlookup d ''spec''" by (simp add: a v)
  show "u_GetLabels U (adopt_spec U ex d) = u_GetLabels U d"
    using l by (simp add: GetLabels peek_strmap_of_strmap peek2 a)
qed

lemma ensure_policy_effect:
  assumes R: "r_un R = C" "r_U R = U" and d: "policy_like d" "obj_key U d = (g, [], n)"
    and run: "run_state (ensure_policy R g n d) w = (r, w')"
  shows "fst r \<Longrightarrow> in_place w' d" "k \<noteq> obj_key U d \<Longrightarrow> view w' k = view w k"
proof -
  obtain got v where got: "cl_get C g ([], n) w = (got, v)" by fastforce
  have v: "view v = view w" using get_frame [OF got] .
  have "(fst r \<longrightarrow> in_place w' d) \<and> (k \<noteq> obj_key U d \<longrightarrow> view w' k = view w k)"
  proof (cases got)
    case (Inl err)
    obtain c u where c: "cl_create C d v = (c, u)" by fastforce
    show ?thesis
      using run got c Inl v create_other [OF c, of k] create_ok [of d v _ u] create_content [of d v _ u]
      by (cases c) (auto simp: ensure_policy_def ctrl_run R in_place_def split: if_splits)
  next
    case (Inr ex)
    have "view w (g, [], n) = Some ex" using get_found got Inr by simp
    then have ex: "obj_key U ex = obj_key U d" using view_key d(2) by simp
    then have "u_GetName U ex \<noteq> ''''" using d(1) by (simp add: obj_key_def policy_like_def)
    note a = adopt_spec_facts [OF this d(1)]
    obtain c u where c: "cl_update C (adopt_spec U ex d) v = (c, u)" by fastforce
    show ?thesis
      using run got c Inr v update_other [OF c, of k] update_ok [of "adopt_spec U ex d" v _ u] update_content [of "adopt_spec U ex d" v _ u]
      by (cases c) (auto simp: ensure_policy_def ctrl_run R in_place_def a ex split: if_splits)
  qed
  then show "fst r \<Longrightarrow> in_place w' d" "k \<noteq> obj_key U d \<Longrightarrow> view w' k = view w k" by simp_all
qed

lemma policy_key: "policy_like d \<Longrightarrow> obj_key U d = (u_GroupVersionKind U d, [], u_GetName U d)"
  by (simp add: obj_key_def policy_like_def)

lemma in_place_frame: "in_place w d \<Longrightarrow> view w' (obj_key U d) = view w (obj_key U d) \<Longrightarrow> in_place w' d"
  by (simp add: in_place_def)

lemma ensure_policies_effect:
  assumes R: "r_un R = C" "r_U R = U"
  shows "\<forall>d \<in> set ds. policy_like d \<Longrightarrow> distinct (map (obj_key U) ds) \<Longrightarrow> run_state (ensure_policies R ds) w = (r, w') \<Longrightarrow>
    (fst r \<longrightarrow> (\<forall>d \<in> set ds. in_place w' d)) \<and> (\<forall>k. k \<notin> obj_key U ` set ds \<longrightarrow> view w' k = view w k)"
proof (induction ds arbitrary: w)
  case (Cons d ds)
  have d: "policy_like d" using Cons.prems(1) by simp
  obtain q u where q: "run_state (ensure_policy R (u_GroupVersionKind U d) (u_GetName U d) d) w = (q, u)" by fastforce
  note e = ensure_policy_effect [OF R d policy_key [OF d] q]
  show ?case
  proof (cases "fst q")
    case True
    have run: "run_state (ensure_policies R ds) u = (r, w')" using Cons.prems(3) q True by (simp add: ctrl_run R)
    have ih: "(fst r \<longrightarrow> (\<forall>d \<in> set ds. in_place w' d)) \<and> (\<forall>k. k \<notin> obj_key U ` set ds \<longrightarrow> view w' k = view u k)"
      using Cons.IH [OF _ _ run] Cons.prems(1,2) by simp
    have "view w' (obj_key U d) = view u (obj_key U d)" using ih Cons.prems(2) by (simp del: split_paired_All)
    then have "in_place w' d" using e(1) True in_place_frame by blast
    then show ?thesis using ih e(2) by simp
  next
    case False
    then show ?thesis using Cons.prems(3) q e(2) by (auto simp: ctrl_run R)
  qed
qed (auto simp: ctrl_run)

lemma policy_meta_facts:
  assumes "fmlookup m ''metadata'' = Some (policy_meta name)" "name \<noteq> ''''" "fmlookup m ''spec'' = Some v" "gvk_wf g"
  shows "policy_like (u_SetGroupVersionKind U m g)" "obj_key U (u_SetGroupVersionKind U m g) = (g, [], name)"
proof -
  let ?o = "u_SetGroupVersionKind U m g"
  have o1: "fmlookup ?o ''metadata'' = Some (policy_meta name)" "fmlookup ?o ''spec'' = Some v"
    using assms by (simp_all add: SetGroupVersionKind)
  have n: "u_GetName U ?o = name" "u_GetNamespace U ?o = ''''"
    using o1(1) by (simp_all add: GetName GetNamespace peek_str_def peek2 policy_meta_def vmap_def)
  have "of_strmap (fmupd labelManagedBy ''tenantplane'' fmempty) = fmap_of_list [(labelManagedBy, VStr ''tenantplane'')]"
    by (rule fmap_ext) (simp add: of_strmap_def)
  then have "peek ?o [''metadata'', ''labels''] = Some (VMap (of_strmap (fmupd labelManagedBy ''tenantplane'' fmempty)))"
    using o1(1) by (simp add: peek2 policy_meta_def vmap_def)
  then have "u_GetLabels U ?o \<noteq> None" by (simp add: GetLabels peek_strmap_of_strmap)
  then show "policy_like ?o" using n o1(2) assms(2) by (simp add: policy_like_def)
  show "obj_key U ?o = (g, [], name)" using n GroupVersionKind_set [OF assms(4)] by (simp add: obj_key_def)
qed

lemma scope_policies:
  "\<forall>d \<in> set (scope_policies U). policy_like d"
  "map (obj_key U) (scope_policies U) =
     [(vapGVK, [], writeScopePolicyName), (vapBindingGVK, [], writeScopeBindingName),
      (vapGVK, [], namespaceScopePolicyName), (vapBindingGVK, [], namespaceScopeBindingName)]"
proof -
  have g: "gvk_wf vapGVK" "gvk_wf vapBindingGVK" by (simp_all add: gvk_wf_def vapGVK_def vapBindingGVK_def)
  note names = writeScopePolicyName_def writeScopeBindingName_def namespaceScopePolicyName_def namespaceScopeBindingName_def
  note builds = buildControllerWriteScopePolicy_def buildControllerWriteScopeBinding_def
    buildNamespaceDeleteScopePolicy_def buildNamespaceDeleteScopeBinding_def
  show "\<forall>d \<in> set (scope_policies U). policy_like d"
    unfolding scope_policies_def builds
    by (auto intro!: policy_meta_facts(1) g simp: names)
  show "map (obj_key U) (scope_policies U) =
     [(vapGVK, [], writeScopePolicyName), (vapBindingGVK, [], writeScopeBindingName),
      (vapGVK, [], namespaceScopePolicyName), (vapBindingGVK, [], namespaceScopeBindingName)]"
    unfolding scope_policies_def builds
    by (simp add: policy_meta_facts(2) [OF _ _ _ g(1)] policy_meta_facts(2) [OF _ _ _ g(2)] names)
qed

lemma scope_policies_in_place:
  assumes R: "r_un R = C" "r_U R = U" and run: "run_state (ensureControllerScopePolicies R) w = (r, w')"
  shows "(fst r \<longrightarrow> (\<forall>d \<in> set (scope_policies U). in_place w' d)) \<and>
    (\<forall>k. k \<notin> obj_key U ` set (scope_policies U) \<longrightarrow> view w' k = view w k)"
proof (rule ensure_policies_effect [OF R scope_policies(1)])
  show "distinct (map (obj_key U) (scope_policies U))"
    unfolding scope_policies(2)
    by (simp add: vapGVK_def vapBindingGVK_def writeScopePolicyName_def writeScopeBindingName_def namespaceScopePolicyName_def
        namespaceScopeBindingName_def)
  show "run_state (ensure_policies R (scope_policies U)) w = (r, w')"
    using run by (simp add: ensureControllerScopePolicies_def scope_policies_def R)
qed

end

section \<open>The in-memory server keeps what it is sent\<close>

lemma stamp_content:
  "fmlookup (stamp n o1) ''spec'' = fmlookup o1 ''spec''" "u_GetLabels json_api (stamp n o1) = u_GetLabels json_api o1"
  by (simp_all add: stamp_def json_api_def set_str_other peek_strmap_def peek_map_def)

abbreviation un_client :: "ctl_world client" where
  "un_client \<equiv> lift_client w_un (\<lambda>m w. w\<lparr>w_un := m\<rparr>) mem_client"

interpretation ctl_policies: policy_server json_api un_client "\<lambda>w. mem_view (w_un w)" "(=)"
proof (intro policy_server.intro policy_server_axioms.intro json.unstructured_api_axioms)
  show "kube_store json_api un_client (\<lambda>w. mem_view (w_un w))"
    by (rule lift_kube_store [OF memory.kube_store_axioms]) simp
qed (auto simp: lift_call_def mem_client_def mem_create_def mem_update_def Let_def stamp_content split: prod.splits option.splits if_splits)

lemma memory_takes_policies:
  "\<forall>d \<in> set ds. ctl_policies.policy_like d \<Longrightarrow> distinct (map (obj_key json_api) ds) \<Longrightarrow>
   \<forall>d \<in> set ds. mem_view (w_un w) (obj_key json_api d) = None \<Longrightarrow>
   fst (run_state (ensure_policies ctl_reconciler ds) w) = (True, None)"
proof (induction ds arbitrary: w)
  case (Cons d ds)
  have key: "obj_key json_api d = (u_GroupVersionKind json_api d, [], u_GetName json_api d)"
    using Cons.prems(1) ctl_policies.policy_key by simp
  obtain o2 u where c: "cl_create un_client d w = (Inr o2, u)"
    using Cons.prems(3) by (auto simp: lift_call_def mem_client_def mem_create_def Let_def)
  have q: "run_state (ensure_policy ctl_reconciler (u_GroupVersionKind json_api d) (u_GetName json_api d) d) w = ((True, None), u)"
    using Cons.prems(3) c key
    by (simp add: ensure_policy_def ctrl_run lift_call_def mem_client_def mem_get_def not_found_def IsNotFound_def
        admissionHardeningUnsupported_def IsNoMatchError_def split: prod.splits)
  have "mem_view (w_un u) (obj_key json_api e) = None" if "e \<in> set ds" for e
  proof -
    have "obj_key json_api e \<noteq> obj_key json_api d" using Cons.prems(2) that by (metis distinct.simps(2) imageI list.simps(9) set_map)
    then show ?thesis using ctl_policies.create_other [OF c, of "obj_key json_api e"] Cons.prems(3) that by simp
  qed
  then show ?case using Cons.IH [of u] Cons.prems(1,2) q by (simp add: ctrl_run)
qed (simp add: ctrl_run)

text \<open>Property C23 (reported hardening is in place). When the controller's write-scope and namespace-scope policies are reported
  as enforced, all four objects are on the server with the spec and labels the program builds, whatever was there under
  their names before; and whether that succeeds or not, no other object is touched.\<close>

theorem hardening_is_in_place:
  assumes "policy_server (r_U R) (r_un R) view defaulted" "run_state (ensureControllerScopePolicies R) w = (r, w')"
  shows "(fst r \<longrightarrow> (\<forall>d \<in> {buildControllerWriteScopePolicy (r_U R), buildControllerWriteScopeBinding (r_U R),
         buildNamespaceDeleteScopePolicy (r_U R), buildNamespaceDeleteScopeBinding (r_U R)}.
       \<exists>o1. view w' (obj_key (r_U R) d) = Some o1 \<and> defaulted (fmlookup d ''spec'') (fmlookup o1 ''spec'') \<and>
         u_GetLabels (r_U R) o1 = u_GetLabels (r_U R) d)) \<and>
    (\<forall>k. k \<notin> {vapGVK, vapBindingGVK} \<times> {[]} \<times> {writeScopePolicyName, namespaceScopePolicyName} \<longrightarrow> view w' k = view w k)"
proof -
  note p = policy_server.scope_policies_in_place [OF assms(1) refl refl assms(2)]
  have "set (map (obj_key (r_U R)) (scope_policies (r_U R))) \<subseteq>
      {vapGVK, vapBindingGVK} \<times> {[]} \<times> {writeScopePolicyName, namespaceScopePolicyName}"
    unfolding policy_server.scope_policies(2) [OF assms(1)]
    by (simp add: writeScopePolicyName_def writeScopeBindingName_def namespaceScopePolicyName_def namespaceScopeBindingName_def)
  then have "view w' k = view w k" if "k \<notin> {vapGVK, vapBindingGVK} \<times> {[]} \<times> {writeScopePolicyName, namespaceScopePolicyName}" for k
    using p [THEN conjunct2, rule_format, of k] that unfolding set_map by (blast dest: subsetD)
  then show ?thesis
    using p [THEN conjunct1] by (auto simp: scope_policies_def policy_server.in_place_def [OF assms(1)] simp del: split_paired_All)
qed

theorem hardening_is_in_place_witness:
  "\<exists>o1. mem_view (w_un (snd (run_state (ensureControllerScopePolicies ctl_reconciler) empty_world)))
       (obj_key json_api (buildNamespaceDeleteScopePolicy json_api)) = Some o1 \<and>
     fmlookup o1 ''spec'' = fmlookup (buildNamespaceDeleteScopePolicy json_api) ''spec''"
proof -
  have e: "ensureControllerScopePolicies ctl_reconciler = ensure_policies ctl_reconciler (scope_policies json_api)"
    by (simp add: ensureControllerScopePolicies_def scope_policies_def)
  have "distinct (map (obj_key json_api) (scope_policies json_api))"
    unfolding ctl_policies.scope_policies(2)
    by (simp add: vapGVK_def vapBindingGVK_def writeScopePolicyName_def writeScopeBindingName_def namespaceScopePolicyName_def
        namespaceScopeBindingName_def)
  then have t: "fst (run_state (ensureControllerScopePolicies ctl_reconciler) empty_world) = (True, None)"
    unfolding e by (intro memory_takes_policies ctl_policies.scope_policies(1)) (simp_all add: mem_view_def)
  have s: "policy_server (r_U ctl_reconciler) (r_un ctl_reconciler) (\<lambda>w. mem_view (w_un w)) (=)"
    by (simp add: ctl_policies.policy_server_axioms)
  show ?thesis
    using hardening_is_in_place [OF s prod.collapse [symmetric], THEN conjunct1, of empty_world] t by auto
qed

end
