(* ===== verification/Go_Store.thy ===== *)
theory Go_Store
  imports Api_Types
begin

text \<open>
  Sharing in Go, for the deep-copy methods of \<open>src/internal/api/v1alpha1/\<close>. A slice or map field of a struct is the address
  of a cell in a store, or nil; assigning the struct copies the address. A slice cell holds the elements the slice shows.
  The locale \<open>deep_copy\<close> says what a deep copy is; the lemmas after it build deep copies of structs, slices and
  pointers from those of their parts.
\<close>

section \<open>A store\<close>

record TypeMeta =
  tm_Kind :: string
  tm_APIVersion :: string

text \<open>Structs with a slice or map in them, as Go lays them out: the field is the address of a cell, or nil.\<close>

record ExposeSpecRef =
  exr_LoadBalancer :: bool
  exr_Annotations :: "nat option"

record ControlPlaneSpecRef =
  cpr_Replicas :: int
  cpr_Datastore :: DatastoreSpec
  cpr_Storage :: StorageSpec
  cpr_Expose :: ExposeSpecRef
  cpr_ExtraTLSSANs :: "nat option"

record TenantClusterSpecRef =
  tsr_Mode :: string
  tsr_KubernetesVersion :: string
  tsr_IsolationProfileRef :: LocalObjectReference
  tsr_SyncPolicyRef :: LocalObjectReference
  tsr_ControlPlane :: ControlPlaneSpecRef
  tsr_Networking :: TenantNetworkingSpec
  tsr_Migration :: TenantMigrationSpec
  tsr_Resources :: TenantResourceRequests

record TenantClusterStatusRef =
  ttr_Phase :: string
  ttr_Endpoint :: string
  ttr_ExternalEndpoint :: string
  ttr_Conditions :: "nat option"

record SyncPolicySpecRef =
  spr_ConflictPolicy :: string
  spr_DriftDetection :: DriftDetectionSpec
  spr_Explain :: ExplainSpec
  spr_Resources :: "nat option"

record SyncDecisionStatusRef =
  sdr_Entries :: "nat option"
  sdr_LastConverged :: "nat option"

text \<open>The objects; \<open>'m\<close> is the representation of \<open>metav1.ObjectMeta\<close>, \<open>'l\<close> that of \<open>metav1.ListMeta\<close>.\<close>

record 'm TenantClusterRef =
  tcr_TypeMeta :: TypeMeta
  tcr_Meta :: 'm
  tcr_Spec :: TenantClusterSpecRef
  tcr_Status :: TenantClusterStatusRef

record 'm IsolationProfileRef =
  ipr_TypeMeta :: TypeMeta
  ipr_Meta :: 'm
  ipr_Spec :: IsolationProfileSpec

record 'm SyncPolicyRef =
  por_TypeMeta :: TypeMeta
  por_Meta :: 'm
  por_Spec :: SyncPolicySpecRef

record 'm SyncDecisionRef =
  der_TypeMeta :: TypeMeta
  der_Meta :: 'm
  der_Status :: SyncDecisionStatusRef

record 'l ListRef =
  lr_TypeMeta :: TypeMeta
  lr_ListMeta :: 'l
  lr_Items :: "nat option"

text \<open>The items of a list are a slice of the objects it lists.\<close>

type_synonym 'l TenantClusterListRef = "'l ListRef"
type_synonym 'l IsolationProfileListRef = "'l ListRef"
type_synonym 'l SyncPolicyListRef = "'l ListRef"
type_synonym 'l SyncDecisionListRef = "'l ListRef"

section \<open>Cells\<close>

datatype 'm cell =
    Strings "string list"
  | StringMap strmap
  | Conditions "Condition list"
  | Resources "SyncedResource list"
  | Entries "SyncDecisionEntry list"
  | Converged "(string, ApiConvergedVersions) fmap"
  | TenantClusters "'m TenantClusterRef list"
  | IsolationProfiles "'m IsolationProfileRef list"
  | SyncPolicies "'m SyncPolicyRef list"
  | SyncDecisions "'m SyncDecisionRef list"

type_synonym 'm store = "'m cell list"

definition cell_at :: "'m store \<Rightarrow> nat \<Rightarrow> 'm cell option" where
  "cell_at s l = (if l < length s then Some (s ! l) else None)"

fun strings_of :: "'m cell option \<Rightarrow> string list" where
  "strings_of (Some (Strings xs)) = xs" | "strings_of _ = []"

fun string_map_of :: "'m cell option \<Rightarrow> strmap" where
  "string_map_of (Some (StringMap m)) = m" | "string_map_of _ = fmempty"

fun conditions_of :: "'m cell option \<Rightarrow> Condition list" where
  "conditions_of (Some (Conditions xs)) = xs" | "conditions_of _ = []"

fun resources_of :: "'m cell option \<Rightarrow> SyncedResource list" where
  "resources_of (Some (Resources xs)) = xs" | "resources_of _ = []"

fun entries_of :: "'m cell option \<Rightarrow> SyncDecisionEntry list" where
  "entries_of (Some (Entries xs)) = xs" | "entries_of _ = []"

fun converged_of :: "'m cell option \<Rightarrow> (string, ApiConvergedVersions) fmap" where
  "converged_of (Some (Converged m)) = m" | "converged_of _ = fmempty"

fun tenant_clusters_of :: "'m cell option \<Rightarrow> 'm TenantClusterRef list" where
  "tenant_clusters_of (Some (TenantClusters xs)) = xs" | "tenant_clusters_of _ = []"

fun isolation_profiles_of :: "'m cell option \<Rightarrow> 'm IsolationProfileRef list" where
  "isolation_profiles_of (Some (IsolationProfiles xs)) = xs" | "isolation_profiles_of _ = []"

fun sync_policies_of :: "'m cell option \<Rightarrow> 'm SyncPolicyRef list" where
  "sync_policies_of (Some (SyncPolicies xs)) = xs" | "sync_policies_of _ = []"

fun sync_decisions_of :: "'m cell option \<Rightarrow> 'm SyncDecisionRef list" where
  "sync_decisions_of (Some (SyncDecisions xs)) = xs" | "sync_decisions_of _ = []"

definition alloc :: "'m cell \<Rightarrow> ('m store, nat) state" where
  "alloc c = State (\<lambda>s. (length s, s @ [c]))"

definition load :: "('m cell option \<Rightarrow> 'b) \<Rightarrow> nat \<Rightarrow> ('m store, 'b) state" where
  "load f l = State (\<lambda>s. (f (cell_at s l), s))"

lemma store_run [simp]:
  "run_state (alloc c) s = (length s, s @ [c])" "run_state (load f l) s = (f (cell_at s l), s)"
  by (simp_all add: alloc_def load_def)

section \<open>The code shared by the methods\<close>

text \<open>\<open>if in.F != nil { in, out := &in.F, &out.F; *out = make(..., len(*in)); copy(*out, *in) }\<close>, and the same with a
  map and the loop that copies its entries.\<close>

definition copy_field :: "('m cell option \<Rightarrow> 'b) \<Rightarrow> ('b \<Rightarrow> 'm cell) \<Rightarrow> nat option \<Rightarrow> ('m store, nat option) state" where
  "copy_field get_content pack p =
     (case p of
        None \<Rightarrow> State_Monad.return None
      | Some l \<Rightarrow> do { v \<leftarrow> load get_content l; a \<leftarrow> alloc (pack v); State_Monad.return (Some a) })"

fun copy_each :: "('a \<Rightarrow> ('m store, 'a) state) \<Rightarrow> 'a list \<Rightarrow> ('m store, 'a list) state" where
  "copy_each into [] = State_Monad.return []"
| "copy_each into (x # xs) = do { y \<leftarrow> into x; ys \<leftarrow> copy_each into xs; State_Monad.return (y # ys) }"

text \<open>The loop \<open>for i := range *in { (*in)[i].DeepCopyInto(&(*out)[i]) }\<close> over a slice of structs.\<close>

definition copy_items ::
    "('m cell option \<Rightarrow> 'a list) \<Rightarrow> ('a list \<Rightarrow> 'm cell) \<Rightarrow> ('a \<Rightarrow> ('m store, 'a) state) \<Rightarrow> nat option \<Rightarrow> ('m store, nat option) state" where
  "copy_items get_content pack into p =
     (case p of
        None \<Rightarrow> State_Monad.return None
      | Some l \<Rightarrow> do {
          xs \<leftarrow> load get_content l;
          ys \<leftarrow> copy_each into xs;
          a \<leftarrow> alloc (pack ys);
          State_Monad.return (Some a)
        })"

text \<open>\<open>DeepCopy\<close>: nil for nil, otherwise a new struct filled by \<open>DeepCopyInto\<close>.\<close>

definition copy_pointer :: "('a \<Rightarrow> ('m store, 'a) state) \<Rightarrow> 'a option \<Rightarrow> ('m store, 'a option) state" where
  "copy_pointer into p =
     (case p of None \<Rightarrow> State_Monad.return None | Some x \<Rightarrow> do { y \<leftarrow> into x; State_Monad.return (Some y) })"

text \<open>\<open>DeepCopyObject\<close>: an interface value, nil or a pointer that may be nil.\<close>

definition copy_object :: "('a option \<Rightarrow> ('m store, 'a option) state) \<Rightarrow> 'a option \<Rightarrow> ('m store, 'a option option) state" where
  "copy_object copy p = do {
     c \<leftarrow> copy p;
     State_Monad.return (if c \<noteq> None then Some c else None)
   }"

section \<open>What a deep copy is\<close>

definition same_cells :: "'m store \<Rightarrow> 'm store \<Rightarrow> nat set \<Rightarrow> bool" where
  "same_cells s t A \<longleftrightarrow> (\<forall>l \<in> A. l < length s \<and> l < length t \<and> t ! l = s ! l)"

lemma same_cells_append: "A \<subseteq> {..<length s} \<Longrightarrow> same_cells s (s @ e) A"
  by (auto simp: same_cells_def nth_append)

lemma same_cells_mono: "same_cells s t B \<Longrightarrow> A \<subseteq> B \<Longrightarrow> same_cells s t A"
  by (auto simp: same_cells_def)

lemma same_cell_at: "same_cells s t A \<Longrightarrow> l \<in> A \<Longrightarrow> cell_at t l = cell_at s l"
  by (auto simp: same_cells_def cell_at_def)

text \<open>
  \<open>locs\<close> are the cells a value reaches, \<open>view\<close> is the value the program sees through them. A deep copy extends the store,
  has the view of the original, and reaches new cells only.
\<close>

locale deep_copy =
  fixes into :: "'a \<Rightarrow> ('m store, 'a) state" and locs :: "'m store \<Rightarrow> 'a \<Rightarrow> nat set" and view :: "'m store \<Rightarrow> 'a \<Rightarrow> 'v"
  assumes frame: "same_cells s t (locs s x) \<Longrightarrow> view t x = view s x \<and> locs t x = locs s x"
    and copied: "run_state (into x) s = (y, t) \<Longrightarrow> locs s x \<subseteq> {..<length s} \<Longrightarrow>
      \<exists>e. t = s @ e \<and> view t y = view s x \<and> locs t y \<subseteq> {length s..<length t}"
begin

lemma later: "locs s x \<subseteq> {..<length s} \<Longrightarrow> view (s @ e) x = view s x \<and> locs (s @ e) x = locs s x"
  by (rule frame [OF same_cells_append])

end

text \<open>The cells and the view of a field, of a slice of structs and of a pointer to a struct.\<close>

definition field_locs :: "'m store \<Rightarrow> nat option \<Rightarrow> nat set" where
  "field_locs s p = set_option p"

definition field_view :: "('m cell option \<Rightarrow> 'b) \<Rightarrow> 'm store \<Rightarrow> nat option \<Rightarrow> 'b option" where
  "field_view get_content s p = map_option (\<lambda>l. get_content (cell_at s l)) p"

definition items_locs ::
    "('m cell option \<Rightarrow> 'a list) \<Rightarrow> ('m store \<Rightarrow> 'a \<Rightarrow> nat set) \<Rightarrow> 'm store \<Rightarrow> nat option \<Rightarrow> nat set" where
  "items_locs get_content locs s p =
     (case p of None \<Rightarrow> {} | Some l \<Rightarrow> insert l (\<Union>x \<in> set (get_content (cell_at s l)). locs s x))"

definition items_view ::
    "('m cell option \<Rightarrow> 'a list) \<Rightarrow> ('m store \<Rightarrow> 'a \<Rightarrow> 'v) \<Rightarrow> 'm store \<Rightarrow> nat option \<Rightarrow> 'v list option" where
  "items_view get_content view s p = map_option (\<lambda>l. map (view s) (get_content (cell_at s l))) p"

definition pointer_locs :: "('m store \<Rightarrow> 'a \<Rightarrow> nat set) \<Rightarrow> 'm store \<Rightarrow> 'a option \<Rightarrow> nat set" where
  "pointer_locs locs s p = (case p of None \<Rightarrow> {} | Some x \<Rightarrow> locs s x)"

text \<open>Whoever writes through the copy leaves the original as it was, and the other way round.\<close>

definition independent_copy ::
    "('a \<Rightarrow> ('m store, 'a) state) \<Rightarrow> ('m store \<Rightarrow> 'a \<Rightarrow> nat set) \<Rightarrow> ('m store \<Rightarrow> 'a \<Rightarrow> 'v) \<Rightarrow> bool" where
  "independent_copy into locs view \<longleftrightarrow>
     (\<forall>x s y t. run_state (into x) s = (y, t) \<longrightarrow> locs s x \<subseteq> {..<length s} \<longrightarrow>
        view t y = view s x \<and> view t x = view s x \<and>
        (\<forall>t'. length t \<le> length t' \<longrightarrow> (\<forall>l < length t. l \<notin> locs t y \<longrightarrow> t' ! l = t ! l) \<longrightarrow> view t' x = view s x) \<and>
        (\<forall>t'. length t \<le> length t' \<longrightarrow> (\<forall>l < length t. l \<notin> locs t x \<longrightarrow> t' ! l = t ! l) \<longrightarrow> view t' y = view s x))"

lemma deep_copy_independent:
  assumes "deep_copy into locs view" shows "independent_copy into locs view"
  unfolding independent_copy_def
proof (intro allI impI)
  fix x s y t assume run: "run_state (into x) s = (y, t)" and bound: "locs s x \<subseteq> {..<length s}"
  obtain e where e: "t = s @ e" "view t y = view s x" "locs t y \<subseteq> {length s..<length t}"
    using deep_copy.copied [OF assms run bound] by blast
  have x: "view t x = view s x" "locs t x = locs s x" using deep_copy.later [OF assms bound] e(1) by auto
  have "view t' x = view s x" if "length t \<le> length t'" "\<forall>l<length t. l \<notin> locs t y \<longrightarrow> t' ! l = t ! l" for t'
  proof -
    have "same_cells t t' (locs t x)"
      unfolding same_cells_def
    proof
      fix l assume "l \<in> locs t x"
      then have "l < length s" using bound x(2) by auto
      moreover then have "l \<notin> locs t y" using e(3) by force
      ultimately show "l < length t \<and> l < length t' \<and> t' ! l = t ! l" using that e(1) by simp
    qed
    then show ?thesis using deep_copy.frame [OF assms] x(1) by metis
  qed
  moreover have "view t' y = view s x" if "length t \<le> length t'" "\<forall>l<length t. l \<notin> locs t x \<longrightarrow> t' ! l = t ! l" for t'
  proof -
    have "same_cells t t' (locs t y)"
      using that bound e(3) x(2) by (force simp: same_cells_def subset_iff)
    then show ?thesis using deep_copy.frame [OF assms] e(2) by metis
  qed
  ultimately show "view t y = view s x \<and> view t x = view s x \<and>
    (\<forall>t'. length t \<le> length t' \<longrightarrow> (\<forall>l<length t. l \<notin> locs t y \<longrightarrow> t' ! l = t ! l) \<longrightarrow> view t' x = view s x) \<and>
    (\<forall>t'. length t \<le> length t' \<longrightarrow> (\<forall>l<length t. l \<notin> locs t x \<longrightarrow> t' ! l = t ! l) \<longrightarrow> view t' y = view s x)"
    using e(2) x(1) by blast
qed

section \<open>Deep copies compose\<close>

lemma deep_copy_return: "deep_copy State_Monad.return (\<lambda>s x. {}) (\<lambda>s. f)"
  by unfold_locales auto

lemma deep_copy_view: "deep_copy into locs view \<Longrightarrow> deep_copy into locs (\<lambda>s x. h (view s x))"
  by (auto simp: deep_copy_def)

lemma deep_copy_copy_field:
  assumes "\<And>v. get_content (Some (pack v)) = v"
  shows "deep_copy (copy_field get_content pack) field_locs (field_view get_content)"
proof (unfold_locales, unfold field_locs_def field_view_def)
  show "map_option (\<lambda>l. get_content (cell_at t l)) x = map_option (\<lambda>l. get_content (cell_at s l)) x \<and> set_option x = set_option x"
    if "same_cells s t (set_option x)" for s t :: "'b store" and x
    using that by (cases x) (auto dest: same_cell_at)
  show "\<exists>e. t = s @ e \<and> map_option (\<lambda>l. get_content (cell_at t l)) y = map_option (\<lambda>l. get_content (cell_at s l)) x \<and>
      set_option y \<subseteq> {length s..<length t}"
    if "run_state (copy_field get_content pack x) s = (y, t)" for x s y t
    using that assms by (cases x) (auto simp: copy_field_def cell_at_def)
qed

lemma deep_copy_pair:
  assumes a: "deep_copy i1 l1 v1" and b: "deep_copy i2 l2 v2"
    and run: "run_state (i1 x1) s = (y1, t1)" "run_state (i2 x2) t1 = (y2, t2)"
    and bound: "l1 s x1 \<subseteq> {..<length s}" "l2 s x2 \<subseteq> {..<length s}"
  shows "\<exists>e. t2 = s @ e \<and> v1 t2 y1 = v1 s x1 \<and> v2 t2 y2 = v2 s x2 \<and>
    l1 t2 y1 \<subseteq> {length s..<length t2} \<and> l2 t2 y2 \<subseteq> {length s..<length t2}"
proof -
  obtain e where e: "t1 = s @ e" "v1 t1 y1 = v1 s x1" "l1 t1 y1 \<subseteq> {length s..<length t1}"
    using deep_copy.copied [OF a run(1) bound(1)] by blast
  have x2: "v2 t1 x2 = v2 s x2" "l2 t1 x2 = l2 s x2" using deep_copy.later [OF b bound(2)] e(1) by auto
  then have "l2 t1 x2 \<subseteq> {..<length t1}" using bound(2) e(1) by auto
  from deep_copy.copied [OF b run(2) this]
  obtain f where f: "t2 = t1 @ f" "v2 t2 y2 = v2 t1 x2" "l2 t2 y2 \<subseteq> {length t1..<length t2}" by blast
  have "l1 t1 y1 \<subseteq> {..<length t1}" using e(3) by auto
  then have y1: "v1 t2 y1 = v1 t1 y1" "l1 t2 y1 = l1 t1 y1" using deep_copy.later [OF a] f(1) by auto
  have "t2 = s @ (e @ f)" using e(1) f(1) by simp
  moreover have "l1 t2 y1 \<subseteq> {length s..<length t2}" "l2 t2 y2 \<subseteq> {length s..<length t2}"
    using e(1,3) f(1,3) y1(2) by fastforce+
  ultimately show ?thesis using e(2) f(2) x2(1) y1(1) by auto
qed

lemma deep_copy_fields:
  assumes a: "deep_copy i1 l1 v1" and b: "deep_copy i2 l2 v2"
    and sel: "\<And>y x. getA (updA y x) = y" "\<And>y x. getB (updB y x) = y" "\<And>y x. getA (updB y x) = getA x"
    and into: "\<And>x. into x = do { y \<leftarrow> i1 (getA x); z \<leftarrow> i2 (getB x); State_Monad.return (updB z (updA y x)) }"
    and locs: "\<And>s x. locs s x = l1 s (getA x) \<union> l2 s (getB x)"
    and view: "\<And>s x. view s x = shape (v1 s (getA x)) (v2 s (getB x)) x" "\<And>v w y z x. shape v w (updB z (updA y x)) = shape v w x"
  shows "deep_copy into locs view"
proof
  show "view t x = view s x \<and> locs t x = locs s x" if "same_cells s t (locs s x)" for s t x
    using that deep_copy.frame [OF a, of s t "getA x"] deep_copy.frame [OF b, of s t "getB x"]
    by (simp add: locs view(1) same_cells_mono)
  show "\<exists>e. t = s @ e \<and> view t y = view s x \<and> locs t y \<subseteq> {length s..<length t}"
    if run: "run_state (into x) s = (y, t)" and bound: "locs s x \<subseteq> {..<length s}" for x s y t
  proof -
    obtain y1 t1 where 1: "run_state (i1 (getA x)) s = (y1, t1)" by fastforce
    obtain y2 t2 where 2: "run_state (i2 (getB x)) t1 = (y2, t2)" by fastforce
    have y: "y = updB y2 (updA y1 x)" "t = t2" using run 1 2 by (auto simp: into)
    from deep_copy_pair [OF a b 1 2] bound show ?thesis by (auto simp: y locs view sel)
  qed
qed

lemma deep_copy_one_field:
  assumes a: "deep_copy i1 l1 v1" and sel: "\<And>y x. getA (updA y x) = y"
    and into: "\<And>x. into x = do { y \<leftarrow> i1 (getA x); State_Monad.return (updA y x) }"
    and locs: "\<And>s x. locs s x = l1 s (getA x)"
    and view: "\<And>s x. view s x = shape (v1 s (getA x)) x" "\<And>v y x. shape v (updA y x) = shape v x"
  shows "deep_copy into locs view"
proof
  show "view t x = view s x \<and> locs t x = locs s x" if "same_cells s t (locs s x)" for s t x
    using that deep_copy.frame [OF a, of s t "getA x"] by (simp add: locs view(1))
  show "\<exists>e. t = s @ e \<and> view t y = view s x \<and> locs t y \<subseteq> {length s..<length t}"
    if run: "run_state (into x) s = (y, t)" and bound: "locs s x \<subseteq> {..<length s}" for x s y t
  proof -
    obtain y1 t1 where 1: "run_state (i1 (getA x)) s = (y1, t1)" by fastforce
    have y: "y = updA y1 x" "t = t1" using run 1 by (auto simp: into)
    from deep_copy.copied [OF a 1] bound show ?thesis by (auto simp: y locs view sel)
  qed
qed

lemma deep_copy_each:
  assumes "deep_copy into locs view"
  shows "deep_copy (copy_each into) (\<lambda>s xs. \<Union>x \<in> set xs. locs s x) (\<lambda>s xs. map (view s) xs)"
proof
  show "map (view t) xs = map (view s) xs \<and> (\<Union>x\<in>set xs. locs t x) = (\<Union>x\<in>set xs. locs s x)"
    if "same_cells s t (\<Union>x\<in>set xs. locs s x)" for s t xs
  proof -
    have "view t x = view s x \<and> locs t x = locs s x" if "x \<in> set xs" for x
      using deep_copy.frame [OF assms same_cells_mono [OF \<open>same_cells s t _\<close>]] that by blast
    then show ?thesis by simp
  qed
next
  show "\<exists>e. t = s @ e \<and> map (view t) ys = map (view s) xs \<and> (\<Union>x\<in>set ys. locs t x) \<subseteq> {length s..<length t}"
    if "run_state (copy_each into xs) s = (ys, t)" "(\<Union>x\<in>set xs. locs s x) \<subseteq> {..<length s}" for xs s ys t
    using that
  proof (induction xs arbitrary: s ys t)
    case (Cons x xs)
    obtain y t1 where 1: "run_state (into x) s = (y, t1)" by fastforce
    obtain zs t2 where 2: "run_state (copy_each into xs) t1 = (zs, t2)" by fastforce
    have ys: "ys = y # zs" "t = t2" using Cons.prems(1) 1 2 by auto
    have bx: "locs s x \<subseteq> {..<length s}" using Cons.prems(2) by simp
    obtain e where e: "t1 = s @ e" "view t1 y = view s x" "locs t1 y \<subseteq> {length s..<length t1}"
      using deep_copy.copied [OF assms 1 bx] by blast
    have old: "view t1 z = view s z \<and> locs t1 z = locs s z" if "z \<in> set xs" for z
      using deep_copy.later [OF assms, of s z e] Cons.prems(2) that e(1) by auto
    have "(\<Union>z\<in>set xs. locs t1 z) \<subseteq> {..<length t1}" using old Cons.prems(2) e(1) by fastforce
    from Cons.IH [OF 2 this] obtain f where f: "t2 = t1 @ f" "map (view t2) zs = map (view t1) xs"
      "(\<Union>z\<in>set zs. locs t2 z) \<subseteq> {length t1..<length t2}" by blast
    have "locs t1 y \<subseteq> {..<length t1}" using e(3) by auto
    then have y: "view t2 y = view t1 y" "locs t2 y = locs t1 y" using deep_copy.later [OF assms] f(1) by auto
    have "locs t2 y \<subseteq> {length s..<length t2}" using y(2) e(1,3) f(1) by fastforce
    moreover have "(\<Union>z\<in>set zs. locs t2 z) \<subseteq> {length s..<length t2}" using f(3) e(1) by fastforce
    moreover have "t2 = s @ (e @ f)" using e(1) f(1) by simp
    ultimately show ?case using f(2) e(2) y(1) old by (auto simp: ys)
  qed simp
qed

lemma deep_copy_copy_items:
  assumes d: "deep_copy into locs view" and c: "\<And>v. get_content (Some (pack v)) = v"
  shows "deep_copy (copy_items get_content pack into)
    (items_locs get_content locs) (items_view get_content view)"
proof (unfold_locales, unfold items_locs_def items_view_def, goal_cases)
  case (1 s t p)
  show ?case
  proof (cases p)
    case (Some l)
    have l: "cell_at t l = cell_at s l" using 1 Some by (auto dest: same_cell_at)
    have "same_cells s t (\<Union>x\<in>set (get_content (cell_at s l)). locs s x)" using 1 Some by (auto elim: same_cells_mono)
    from deep_copy.frame [OF deep_copy_each [OF d] this] show ?thesis using Some l by simp
  qed simp
next
  case (2 p s q t)
  show ?case
  proof (cases p)
    case None
    then show ?thesis using 2(1) by (auto simp: copy_items_def)
  next
    case (Some l)
    let ?xs = "get_content (cell_at s l)"
    obtain ys u where u: "run_state (copy_each into ?xs) s = (ys, u)" by fastforce
    have q: "q = Some (length u)" "t = u @ [pack ys]" using 2(1) u Some by (auto simp: copy_items_def)
    have "(\<Union>x\<in>set ?xs. locs s x) \<subseteq> {..<length s}" using 2(2) Some by simp
    from deep_copy.copied [OF deep_copy_each [OF d] u this] obtain e where e: "u = s @ e"
      "map (view u) ys = map (view s) ?xs" "(\<Union>y\<in>set ys. locs u y) \<subseteq> {length s..<length u}" by blast
    have "(\<Union>y\<in>set ys. locs u y) \<subseteq> {..<length u}" using e(3) by auto
    from deep_copy.later [OF deep_copy_each [OF d] this]
    have t: "map (view t) ys = map (view u) ys" "(\<Union>y\<in>set ys. locs t y) = (\<Union>y\<in>set ys. locs u y)" using q(2) by auto
    have "get_content (cell_at t (length u)) = ys" using c by (simp add: q cell_at_def)
    then show ?thesis using Some e t q by (auto simp: subset_iff)
  qed
qed

lemma deep_copy_pointer:
  assumes "deep_copy into locs view"
  shows "deep_copy (copy_pointer into) (pointer_locs locs) (\<lambda>s. map_option (view s))"
proof (unfold_locales, unfold pointer_locs_def, goal_cases)
  case (1 s t p)
  then show ?case using deep_copy.frame [OF assms] by (cases p) auto
next
  case (2 p s q t)
  show ?case
  proof (cases p)
    case None
    then show ?thesis using 2(1) by (auto simp: copy_pointer_def)
  next
    case (Some x)
    obtain y u where u: "run_state (into x) s = (y, u)" by fastforce
    have q: "q = Some y" "t = u" using 2(1) u Some by (auto simp: copy_pointer_def)
    show ?thesis using deep_copy.copied [OF assms u] 2(2) Some by (simp add: q)
  qed
qed

end
