(* ===== verification/Deep_Copy.thy ===== *)
theory Deep_Copy
  imports Go_Store
begin

text \<open>
  \<open>src/internal/api/v1alpha1/zz_generated.deepcopy.go\<close> and \<open>syncdecision_deepcopy.go\<close>, every method. \<open>out\<close> is a new struct
  that \<open>*out = *in\<close> makes equal to \<open>*in\<close>, addresses included; the method returns it. The methods of \<open>metav1.ObjectMeta\<close> and
  \<open>metav1.ListMeta\<close> are parameters; \<open>metav1.Time\<close> is an immutable value and copied as such. For each type follow the
  cells a value reaches and its value as in \<open>Api_Types\<close>.
\<close>

record ('m, 'l) meta_api =
  ma_ObjectMeta :: "'m \<Rightarrow> ('m store, 'm) state"
  ma_ListMeta :: "'l \<Rightarrow> ('m store, 'l) state"

section \<open>Structs without slices and maps\<close>

definition DeepCopyInto_Condition :: "Condition \<Rightarrow> ('m store, Condition) state" where
  "DeepCopyInto_Condition x = State_Monad.return x"

definition DeepCopy_Condition :: "Condition option \<Rightarrow> ('m store, Condition option) state" where
  "DeepCopy_Condition = copy_pointer DeepCopyInto_Condition"

definition DeepCopyInto_DatastoreSpec :: "DatastoreSpec \<Rightarrow> ('m store, DatastoreSpec) state" where
  "DeepCopyInto_DatastoreSpec x = State_Monad.return x"

definition DeepCopy_DatastoreSpec :: "DatastoreSpec option \<Rightarrow> ('m store, DatastoreSpec option) state" where
  "DeepCopy_DatastoreSpec = copy_pointer DeepCopyInto_DatastoreSpec"

definition DeepCopyInto_StorageSpec :: "StorageSpec \<Rightarrow> ('m store, StorageSpec) state" where
  "DeepCopyInto_StorageSpec x = State_Monad.return x"

definition DeepCopy_StorageSpec :: "StorageSpec option \<Rightarrow> ('m store, StorageSpec option) state" where
  "DeepCopy_StorageSpec = copy_pointer DeepCopyInto_StorageSpec"

definition DeepCopyInto_DriftDetectionSpec :: "DriftDetectionSpec \<Rightarrow> ('m store, DriftDetectionSpec) state" where
  "DeepCopyInto_DriftDetectionSpec x = State_Monad.return x"

definition DeepCopy_DriftDetectionSpec :: "DriftDetectionSpec option \<Rightarrow> ('m store, DriftDetectionSpec option) state" where
  "DeepCopy_DriftDetectionSpec = copy_pointer DeepCopyInto_DriftDetectionSpec"

definition DeepCopyInto_ExplainSpec :: "ExplainSpec \<Rightarrow> ('m store, ExplainSpec) state" where
  "DeepCopyInto_ExplainSpec x = State_Monad.return x"

definition DeepCopy_ExplainSpec :: "ExplainSpec option \<Rightarrow> ('m store, ExplainSpec option) state" where
  "DeepCopy_ExplainSpec = copy_pointer DeepCopyInto_ExplainSpec"

definition DeepCopyInto_IsolationControls :: "IsolationControls \<Rightarrow> ('m store, IsolationControls) state" where
  "DeepCopyInto_IsolationControls x = State_Monad.return x"

definition DeepCopy_IsolationControls :: "IsolationControls option \<Rightarrow> ('m store, IsolationControls option) state" where
  "DeepCopy_IsolationControls = copy_pointer DeepCopyInto_IsolationControls"

definition DeepCopyInto_IsolationProfileSpec :: "IsolationProfileSpec \<Rightarrow> ('m store, IsolationProfileSpec) state" where
  "DeepCopyInto_IsolationProfileSpec x = State_Monad.return (x\<lparr>ips_Controls := ips_Controls x\<rparr>)"

definition DeepCopy_IsolationProfileSpec :: "IsolationProfileSpec option \<Rightarrow> ('m store, IsolationProfileSpec option) state" where
  "DeepCopy_IsolationProfileSpec = copy_pointer DeepCopyInto_IsolationProfileSpec"

definition DeepCopyInto_LocalObjectReference :: "LocalObjectReference \<Rightarrow> ('m store, LocalObjectReference) state" where
  "DeepCopyInto_LocalObjectReference x = State_Monad.return x"

definition DeepCopy_LocalObjectReference :: "LocalObjectReference option \<Rightarrow> ('m store, LocalObjectReference option) state" where
  "DeepCopy_LocalObjectReference = copy_pointer DeepCopyInto_LocalObjectReference"

definition DeepCopyInto_SyncedResource :: "SyncedResource \<Rightarrow> ('m store, SyncedResource) state" where
  "DeepCopyInto_SyncedResource x = State_Monad.return x"

definition DeepCopy_SyncedResource :: "SyncedResource option \<Rightarrow> ('m store, SyncedResource option) state" where
  "DeepCopy_SyncedResource = copy_pointer DeepCopyInto_SyncedResource"

definition DeepCopyInto_TenantMigrationSpec :: "TenantMigrationSpec \<Rightarrow> ('m store, TenantMigrationSpec) state" where
  "DeepCopyInto_TenantMigrationSpec x = State_Monad.return x"

definition DeepCopy_TenantMigrationSpec :: "TenantMigrationSpec option \<Rightarrow> ('m store, TenantMigrationSpec option) state" where
  "DeepCopy_TenantMigrationSpec = copy_pointer DeepCopyInto_TenantMigrationSpec"

definition DeepCopyInto_TenantNetworkingSpec :: "TenantNetworkingSpec \<Rightarrow> ('m store, TenantNetworkingSpec) state" where
  "DeepCopyInto_TenantNetworkingSpec x = State_Monad.return x"

definition DeepCopy_TenantNetworkingSpec :: "TenantNetworkingSpec option \<Rightarrow> ('m store, TenantNetworkingSpec option) state" where
  "DeepCopy_TenantNetworkingSpec = copy_pointer DeepCopyInto_TenantNetworkingSpec"

definition DeepCopyInto_TenantResourceRequests :: "TenantResourceRequests \<Rightarrow> ('m store, TenantResourceRequests) state" where
  "DeepCopyInto_TenantResourceRequests x = State_Monad.return x"

definition DeepCopy_TenantResourceRequests :: "TenantResourceRequests option \<Rightarrow> ('m store, TenantResourceRequests option) state" where
  "DeepCopy_TenantResourceRequests = copy_pointer DeepCopyInto_TenantResourceRequests"

definition DeepCopyInto_SyncDecisionEntry :: "SyncDecisionEntry \<Rightarrow> ('m store, SyncDecisionEntry) state" where
  "DeepCopyInto_SyncDecisionEntry x = State_Monad.return (x\<lparr>sde_Time := sde_Time x\<rparr>)"

definition DeepCopy_SyncDecisionEntry :: "SyncDecisionEntry option \<Rightarrow> ('m store, SyncDecisionEntry option) state" where
  "DeepCopy_SyncDecisionEntry = copy_pointer DeepCopyInto_SyncDecisionEntry"

definition DeepCopyInto_ConvergedVersions :: "ApiConvergedVersions \<Rightarrow> ('m store, ApiConvergedVersions) state" where
  "DeepCopyInto_ConvergedVersions x = State_Monad.return x"

definition DeepCopy_ConvergedVersions :: "ApiConvergedVersions option \<Rightarrow> ('m store, ApiConvergedVersions option) state" where
  "DeepCopy_ConvergedVersions = copy_pointer DeepCopyInto_ConvergedVersions"

section \<open>Parts of objects\<close>

definition DeepCopyInto_ExposeSpec :: "ExposeSpecRef \<Rightarrow> ('m store, ExposeSpecRef) state" where
  "DeepCopyInto_ExposeSpec x = do {
     a \<leftarrow> copy_field string_map_of StringMap (exr_Annotations x);
     State_Monad.return (x\<lparr>exr_Annotations := a\<rparr>)
   }"

definition DeepCopy_ExposeSpec :: "ExposeSpecRef option \<Rightarrow> ('m store, ExposeSpecRef option) state" where
  "DeepCopy_ExposeSpec = copy_pointer DeepCopyInto_ExposeSpec"

definition DeepCopyInto_ControlPlaneSpec :: "ControlPlaneSpecRef \<Rightarrow> ('m store, ControlPlaneSpecRef) state" where
  "DeepCopyInto_ControlPlaneSpec x = do {
     e \<leftarrow> DeepCopyInto_ExposeSpec (cpr_Expose x);
     sans \<leftarrow> copy_field strings_of Strings (cpr_ExtraTLSSANs x);
     State_Monad.return (x\<lparr>cpr_Datastore := cpr_Datastore x, cpr_Storage := cpr_Storage x, cpr_Expose := e, cpr_ExtraTLSSANs := sans\<rparr>)
   }"

definition DeepCopy_ControlPlaneSpec :: "ControlPlaneSpecRef option \<Rightarrow> ('m store, ControlPlaneSpecRef option) state" where
  "DeepCopy_ControlPlaneSpec = copy_pointer DeepCopyInto_ControlPlaneSpec"

definition DeepCopyInto_SyncPolicySpec :: "SyncPolicySpecRef \<Rightarrow> ('m store, SyncPolicySpecRef) state" where
  "DeepCopyInto_SyncPolicySpec x = do {
     rs \<leftarrow> copy_field resources_of Resources (spr_Resources x);
     State_Monad.return (x\<lparr>spr_DriftDetection := spr_DriftDetection x, spr_Explain := spr_Explain x, spr_Resources := rs\<rparr>)
   }"

definition DeepCopy_SyncPolicySpec :: "SyncPolicySpecRef option \<Rightarrow> ('m store, SyncPolicySpecRef option) state" where
  "DeepCopy_SyncPolicySpec = copy_pointer DeepCopyInto_SyncPolicySpec"

definition DeepCopyInto_TenantClusterSpec :: "TenantClusterSpecRef \<Rightarrow> ('m store, TenantClusterSpecRef) state" where
  "DeepCopyInto_TenantClusterSpec x = do {
     c \<leftarrow> DeepCopyInto_ControlPlaneSpec (tsr_ControlPlane x);
     State_Monad.return (x\<lparr>tsr_IsolationProfileRef := tsr_IsolationProfileRef x, tsr_SyncPolicyRef := tsr_SyncPolicyRef x,
       tsr_ControlPlane := c, tsr_Networking := tsr_Networking x, tsr_Migration := tsr_Migration x, tsr_Resources := tsr_Resources x\<rparr>)
   }"

definition DeepCopy_TenantClusterSpec :: "TenantClusterSpecRef option \<Rightarrow> ('m store, TenantClusterSpecRef option) state" where
  "DeepCopy_TenantClusterSpec = copy_pointer DeepCopyInto_TenantClusterSpec"

definition DeepCopyInto_TenantClusterStatus :: "TenantClusterStatusRef \<Rightarrow> ('m store, TenantClusterStatusRef) state" where
  "DeepCopyInto_TenantClusterStatus x = do {
     cs \<leftarrow> copy_field conditions_of Conditions (ttr_Conditions x);
     State_Monad.return (x\<lparr>ttr_Conditions := cs\<rparr>)
   }"

definition DeepCopy_TenantClusterStatus :: "TenantClusterStatusRef option \<Rightarrow> ('m store, TenantClusterStatusRef option) state" where
  "DeepCopy_TenantClusterStatus = copy_pointer DeepCopyInto_TenantClusterStatus"

definition DeepCopyInto_SyncDecisionStatus :: "SyncDecisionStatusRef \<Rightarrow> ('m store, SyncDecisionStatusRef) state" where
  "DeepCopyInto_SyncDecisionStatus x = do {
     es \<leftarrow> copy_items entries_of Entries DeepCopyInto_SyncDecisionEntry (sdr_Entries x);
     m \<leftarrow> copy_field converged_of Converged (sdr_LastConverged x);
     State_Monad.return (x\<lparr>sdr_Entries := es, sdr_LastConverged := m\<rparr>)
   }"

definition DeepCopy_SyncDecisionStatus :: "SyncDecisionStatusRef option \<Rightarrow> ('m store, SyncDecisionStatusRef option) state" where
  "DeepCopy_SyncDecisionStatus = copy_pointer DeepCopyInto_SyncDecisionStatus"

section \<open>Objects and lists\<close>

definition DeepCopyInto_IsolationProfile ::
    "('m, 'l) meta_api \<Rightarrow> 'm IsolationProfileRef \<Rightarrow> ('m store, 'm IsolationProfileRef) state" where
  "DeepCopyInto_IsolationProfile M x = do {
     m \<leftarrow> ma_ObjectMeta M (ipr_Meta x);
     State_Monad.return (x\<lparr>ipr_TypeMeta := ipr_TypeMeta x, ipr_Meta := m, ipr_Spec := ipr_Spec x\<rparr>)
   }"

definition DeepCopy_IsolationProfile ::
    "('m, 'l) meta_api \<Rightarrow> 'm IsolationProfileRef option \<Rightarrow> ('m store, 'm IsolationProfileRef option) state" where
  "DeepCopy_IsolationProfile M = copy_pointer (DeepCopyInto_IsolationProfile M)"

definition DeepCopyObject_IsolationProfile ::
    "('m, 'l) meta_api \<Rightarrow> 'm IsolationProfileRef option \<Rightarrow> ('m store, 'm IsolationProfileRef option option) state" where
  "DeepCopyObject_IsolationProfile M = copy_object (DeepCopy_IsolationProfile M)"

definition DeepCopyInto_SyncPolicy :: "('m, 'l) meta_api \<Rightarrow> 'm SyncPolicyRef \<Rightarrow> ('m store, 'm SyncPolicyRef) state" where
  "DeepCopyInto_SyncPolicy M x = do {
     m \<leftarrow> ma_ObjectMeta M (por_Meta x);
     s \<leftarrow> DeepCopyInto_SyncPolicySpec (por_Spec x);
     State_Monad.return (x\<lparr>por_TypeMeta := por_TypeMeta x, por_Meta := m, por_Spec := s\<rparr>)
   }"

definition DeepCopy_SyncPolicy :: "('m, 'l) meta_api \<Rightarrow> 'm SyncPolicyRef option \<Rightarrow> ('m store, 'm SyncPolicyRef option) state" where
  "DeepCopy_SyncPolicy M = copy_pointer (DeepCopyInto_SyncPolicy M)"

definition DeepCopyObject_SyncPolicy ::
    "('m, 'l) meta_api \<Rightarrow> 'm SyncPolicyRef option \<Rightarrow> ('m store, 'm SyncPolicyRef option option) state" where
  "DeepCopyObject_SyncPolicy M = copy_object (DeepCopy_SyncPolicy M)"

definition DeepCopyInto_SyncDecision :: "('m, 'l) meta_api \<Rightarrow> 'm SyncDecisionRef \<Rightarrow> ('m store, 'm SyncDecisionRef) state" where
  "DeepCopyInto_SyncDecision M x = do {
     m \<leftarrow> ma_ObjectMeta M (der_Meta x);
     st \<leftarrow> DeepCopyInto_SyncDecisionStatus (der_Status x);
     State_Monad.return (x\<lparr>der_TypeMeta := der_TypeMeta x, der_Meta := m, der_Status := st\<rparr>)
   }"

definition DeepCopy_SyncDecision :: "('m, 'l) meta_api \<Rightarrow> 'm SyncDecisionRef option \<Rightarrow> ('m store, 'm SyncDecisionRef option) state" where
  "DeepCopy_SyncDecision M = copy_pointer (DeepCopyInto_SyncDecision M)"

definition DeepCopyObject_SyncDecision ::
    "('m, 'l) meta_api \<Rightarrow> 'm SyncDecisionRef option \<Rightarrow> ('m store, 'm SyncDecisionRef option option) state" where
  "DeepCopyObject_SyncDecision M = copy_object (DeepCopy_SyncDecision M)"

definition DeepCopyInto_TenantCluster :: "('m, 'l) meta_api \<Rightarrow> 'm TenantClusterRef \<Rightarrow> ('m store, 'm TenantClusterRef) state" where
  "DeepCopyInto_TenantCluster M x = do {
     m \<leftarrow> ma_ObjectMeta M (tcr_Meta x);
     st \<leftarrow> DeepCopyInto_TenantClusterStatus (tcr_Status x);
     State_Monad.return (x\<lparr>tcr_TypeMeta := tcr_TypeMeta x, tcr_Meta := m, tcr_Spec := tcr_Spec x, tcr_Status := st\<rparr>)
   }"

definition DeepCopy_TenantCluster :: "('m, 'l) meta_api \<Rightarrow> 'm TenantClusterRef option \<Rightarrow> ('m store, 'm TenantClusterRef option) state" where
  "DeepCopy_TenantCluster M = copy_pointer (DeepCopyInto_TenantCluster M)"

definition DeepCopyObject_TenantCluster ::
    "('m, 'l) meta_api \<Rightarrow> 'm TenantClusterRef option \<Rightarrow> ('m store, 'm TenantClusterRef option option) state" where
  "DeepCopyObject_TenantCluster M = copy_object (DeepCopy_TenantCluster M)"

definition DeepCopyInto_IsolationProfileList :: "('m, 'l) meta_api \<Rightarrow> 'l IsolationProfileListRef \<Rightarrow> ('m store, 'l IsolationProfileListRef) state" where
  "DeepCopyInto_IsolationProfileList M x = do {
     m \<leftarrow> ma_ListMeta M (lr_ListMeta x);
     items \<leftarrow> copy_items isolation_profiles_of IsolationProfiles (DeepCopyInto_IsolationProfile M) (lr_Items x);
     State_Monad.return (x\<lparr>lr_TypeMeta := lr_TypeMeta x, lr_ListMeta := m, lr_Items := items\<rparr>)
   }"

definition DeepCopy_IsolationProfileList :: "('m, 'l) meta_api \<Rightarrow> 'l IsolationProfileListRef option \<Rightarrow> ('m store, 'l IsolationProfileListRef option) state" where
  "DeepCopy_IsolationProfileList M = copy_pointer (DeepCopyInto_IsolationProfileList M)"

definition DeepCopyObject_IsolationProfileList ::
    "('m, 'l) meta_api \<Rightarrow> 'l IsolationProfileListRef option \<Rightarrow> ('m store, 'l IsolationProfileListRef option option) state" where
  "DeepCopyObject_IsolationProfileList M = copy_object (DeepCopy_IsolationProfileList M)"

definition DeepCopyInto_SyncPolicyList :: "('m, 'l) meta_api \<Rightarrow> 'l SyncPolicyListRef \<Rightarrow> ('m store, 'l SyncPolicyListRef) state" where
  "DeepCopyInto_SyncPolicyList M x = do {
     m \<leftarrow> ma_ListMeta M (lr_ListMeta x);
     items \<leftarrow> copy_items sync_policies_of SyncPolicies (DeepCopyInto_SyncPolicy M) (lr_Items x);
     State_Monad.return (x\<lparr>lr_TypeMeta := lr_TypeMeta x, lr_ListMeta := m, lr_Items := items\<rparr>)
   }"

definition DeepCopy_SyncPolicyList :: "('m, 'l) meta_api \<Rightarrow> 'l SyncPolicyListRef option \<Rightarrow> ('m store, 'l SyncPolicyListRef option) state" where
  "DeepCopy_SyncPolicyList M = copy_pointer (DeepCopyInto_SyncPolicyList M)"

definition DeepCopyObject_SyncPolicyList :: "('m, 'l) meta_api \<Rightarrow> 'l SyncPolicyListRef option \<Rightarrow> ('m store, 'l SyncPolicyListRef option option) state" where
  "DeepCopyObject_SyncPolicyList M = copy_object (DeepCopy_SyncPolicyList M)"

definition DeepCopyInto_SyncDecisionList :: "('m, 'l) meta_api \<Rightarrow> 'l SyncDecisionListRef \<Rightarrow> ('m store, 'l SyncDecisionListRef) state" where
  "DeepCopyInto_SyncDecisionList M x = do {
     m \<leftarrow> ma_ListMeta M (lr_ListMeta x);
     items \<leftarrow> copy_items sync_decisions_of SyncDecisions (DeepCopyInto_SyncDecision M) (lr_Items x);
     State_Monad.return (x\<lparr>lr_TypeMeta := lr_TypeMeta x, lr_ListMeta := m, lr_Items := items\<rparr>)
   }"

definition DeepCopy_SyncDecisionList :: "('m, 'l) meta_api \<Rightarrow> 'l SyncDecisionListRef option \<Rightarrow> ('m store, 'l SyncDecisionListRef option) state" where
  "DeepCopy_SyncDecisionList M = copy_pointer (DeepCopyInto_SyncDecisionList M)"

definition DeepCopyObject_SyncDecisionList :: "('m, 'l) meta_api \<Rightarrow> 'l SyncDecisionListRef option \<Rightarrow> ('m store, 'l SyncDecisionListRef option option) state" where
  "DeepCopyObject_SyncDecisionList M = copy_object (DeepCopy_SyncDecisionList M)"

definition DeepCopyInto_TenantClusterList :: "('m, 'l) meta_api \<Rightarrow> 'l TenantClusterListRef \<Rightarrow> ('m store, 'l TenantClusterListRef) state" where
  "DeepCopyInto_TenantClusterList M x = do {
     m \<leftarrow> ma_ListMeta M (lr_ListMeta x);
     items \<leftarrow> copy_items tenant_clusters_of TenantClusters (DeepCopyInto_TenantCluster M) (lr_Items x);
     State_Monad.return (x\<lparr>lr_TypeMeta := lr_TypeMeta x, lr_ListMeta := m, lr_Items := items\<rparr>)
   }"

definition DeepCopy_TenantClusterList :: "('m, 'l) meta_api \<Rightarrow> 'l TenantClusterListRef option \<Rightarrow> ('m store, 'l TenantClusterListRef option) state" where
  "DeepCopy_TenantClusterList M = copy_pointer (DeepCopyInto_TenantClusterList M)"

definition DeepCopyObject_TenantClusterList ::
    "('m, 'l) meta_api \<Rightarrow> 'l TenantClusterListRef option \<Rightarrow> ('m store, 'l TenantClusterListRef option option) state" where
  "DeepCopyObject_TenantClusterList M = copy_object (DeepCopy_TenantClusterList M)"

section \<open>What the methods copy\<close>

definition locs_ExposeSpec :: "'m store \<Rightarrow> ExposeSpecRef \<Rightarrow> nat set" where
  "locs_ExposeSpec s x = field_locs s (exr_Annotations x)"

definition view_ExposeSpec :: "'m store \<Rightarrow> ExposeSpecRef \<Rightarrow> ExposeSpec" where
  "view_ExposeSpec s x =
     \<lparr>ex_LoadBalancer = exr_LoadBalancer x, ex_Annotations = field_view string_map_of s (exr_Annotations x)\<rparr>"

definition elements :: "'a list option \<Rightarrow> 'a list" where
  "elements p = (case p of None \<Rightarrow> [] | Some xs \<Rightarrow> xs)"

definition locs_ControlPlaneSpec :: "'m store \<Rightarrow> ControlPlaneSpecRef \<Rightarrow> nat set" where
  "locs_ControlPlaneSpec s x = locs_ExposeSpec s (cpr_Expose x) \<union> field_locs s (cpr_ExtraTLSSANs x)"

definition view_ControlPlaneSpec :: "'m store \<Rightarrow> ControlPlaneSpecRef \<Rightarrow> ControlPlaneSpec" where
  "view_ControlPlaneSpec s x =
     \<lparr>cp_Replicas = cpr_Replicas x, cp_Datastore = cpr_Datastore x, cp_Storage = cpr_Storage x,
      cp_Expose = view_ExposeSpec s (cpr_Expose x), cp_ExtraTLSSANs = elements (field_view strings_of s (cpr_ExtraTLSSANs x))\<rparr>"

definition locs_SyncPolicySpec :: "'m store \<Rightarrow> SyncPolicySpecRef \<Rightarrow> nat set" where
  "locs_SyncPolicySpec s x = field_locs s (spr_Resources x)"

definition view_SyncPolicySpec :: "'m store \<Rightarrow> SyncPolicySpecRef \<Rightarrow> SyncPolicySpec" where
  "view_SyncPolicySpec s x =
     \<lparr>sps_ConflictPolicy = spr_ConflictPolicy x, sps_DriftDetection = spr_DriftDetection x, sps_Explain = spr_Explain x,
      sps_Resources = elements (field_view resources_of s (spr_Resources x))\<rparr>"

definition locs_TenantClusterSpec :: "'m store \<Rightarrow> TenantClusterSpecRef \<Rightarrow> nat set" where
  "locs_TenantClusterSpec s x = locs_ControlPlaneSpec s (tsr_ControlPlane x)"

definition view_TenantClusterSpec :: "'m store \<Rightarrow> TenantClusterSpecRef \<Rightarrow> TenantClusterSpec" where
  "view_TenantClusterSpec s x =
     \<lparr>tcs_Mode = tsr_Mode x, tcs_KubernetesVersion = tsr_KubernetesVersion x, tcs_IsolationProfileRef = tsr_IsolationProfileRef x,
      tcs_SyncPolicyRef = tsr_SyncPolicyRef x, tcs_ControlPlane = view_ControlPlaneSpec s (tsr_ControlPlane x),
      tcs_Networking = tsr_Networking x, tcs_Migration = tsr_Migration x, tcs_Resources = tsr_Resources x\<rparr>"

definition locs_TenantClusterStatus :: "'m store \<Rightarrow> TenantClusterStatusRef \<Rightarrow> nat set" where
  "locs_TenantClusterStatus s x = field_locs s (ttr_Conditions x)"

definition view_TenantClusterStatus :: "'m store \<Rightarrow> TenantClusterStatusRef \<Rightarrow> TenantClusterStatus" where
  "view_TenantClusterStatus s x =
     \<lparr>ts_Phase = ttr_Phase x, ts_Endpoint = ttr_Endpoint x, ts_ExternalEndpoint = ttr_ExternalEndpoint x,
      ts_Conditions = elements (field_view conditions_of s (ttr_Conditions x))\<rparr>"

definition locs_SyncDecisionStatus :: "'m store \<Rightarrow> SyncDecisionStatusRef \<Rightarrow> nat set" where
  "locs_SyncDecisionStatus s x =
     items_locs entries_of (\<lambda>s e. {}) s (sdr_Entries x) \<union> field_locs s (sdr_LastConverged x)"

definition view_SyncDecisionStatus :: "'m store \<Rightarrow> SyncDecisionStatusRef \<Rightarrow> SyncDecisionStatus" where
  "view_SyncDecisionStatus s x =
     \<lparr>sds_Entries = elements (items_view entries_of (\<lambda>s e. e) s (sdr_Entries x)),
      sds_LastConverged = field_view converged_of s (sdr_LastConverged x)\<rparr>"

interpretation expose: deep_copy DeepCopyInto_ExposeSpec locs_ExposeSpec view_ExposeSpec
  by (rule deep_copy_one_field [OF deep_copy_copy_field [of string_map_of StringMap], where getA = exr_Annotations
        and updA = "\<lambda>y x. x\<lparr>exr_Annotations := y\<rparr>" and shape = "\<lambda>v x. \<lparr>ex_LoadBalancer = exr_LoadBalancer x, ex_Annotations = v\<rparr>"])
    (simp_all add: DeepCopyInto_ExposeSpec_def locs_ExposeSpec_def view_ExposeSpec_def)

interpretation control_plane: deep_copy DeepCopyInto_ControlPlaneSpec locs_ControlPlaneSpec view_ControlPlaneSpec
  by (rule deep_copy_fields [OF expose.deep_copy_axioms deep_copy_copy_field [of strings_of Strings],
        where getA = cpr_Expose and updA = "\<lambda>y x. x\<lparr>cpr_Expose := y\<rparr>"
          and getB = cpr_ExtraTLSSANs and updB = "\<lambda>y x. x\<lparr>cpr_ExtraTLSSANs := y\<rparr>"
          and shape = "\<lambda>v w x. \<lparr>cp_Replicas = cpr_Replicas x, cp_Datastore = cpr_Datastore x, cp_Storage = cpr_Storage x,
            cp_Expose = v, cp_ExtraTLSSANs = elements w\<rparr>"])
    (simp_all add: DeepCopyInto_ControlPlaneSpec_def locs_ControlPlaneSpec_def view_ControlPlaneSpec_def)

interpretation policy_spec: deep_copy DeepCopyInto_SyncPolicySpec locs_SyncPolicySpec view_SyncPolicySpec
  by (rule deep_copy_one_field [OF deep_copy_copy_field [of resources_of Resources], where getA = spr_Resources
        and updA = "\<lambda>y x. x\<lparr>spr_Resources := y\<rparr>"
        and shape = "\<lambda>v x. \<lparr>sps_ConflictPolicy = spr_ConflictPolicy x, sps_DriftDetection = spr_DriftDetection x,
          sps_Explain = spr_Explain x, sps_Resources = elements v\<rparr>"])
    (simp_all add: DeepCopyInto_SyncPolicySpec_def locs_SyncPolicySpec_def view_SyncPolicySpec_def)

interpretation tenant_spec: deep_copy DeepCopyInto_TenantClusterSpec locs_TenantClusterSpec view_TenantClusterSpec
  by (rule deep_copy_one_field [OF control_plane.deep_copy_axioms, where getA = tsr_ControlPlane
        and updA = "\<lambda>y x. x\<lparr>tsr_ControlPlane := y\<rparr>"
        and shape = "\<lambda>v x. \<lparr>tcs_Mode = tsr_Mode x, tcs_KubernetesVersion = tsr_KubernetesVersion x,
          tcs_IsolationProfileRef = tsr_IsolationProfileRef x, tcs_SyncPolicyRef = tsr_SyncPolicyRef x, tcs_ControlPlane = v,
          tcs_Networking = tsr_Networking x, tcs_Migration = tsr_Migration x, tcs_Resources = tsr_Resources x\<rparr>"])
    (simp_all add: DeepCopyInto_TenantClusterSpec_def locs_TenantClusterSpec_def view_TenantClusterSpec_def)

interpretation tenant_status: deep_copy DeepCopyInto_TenantClusterStatus locs_TenantClusterStatus view_TenantClusterStatus
  by (rule deep_copy_one_field [OF deep_copy_copy_field [of conditions_of Conditions], where getA = ttr_Conditions
        and updA = "\<lambda>y x. x\<lparr>ttr_Conditions := y\<rparr>"
        and shape = "\<lambda>v x. \<lparr>ts_Phase = ttr_Phase x, ts_Endpoint = ttr_Endpoint x, ts_ExternalEndpoint = ttr_ExternalEndpoint x,
          ts_Conditions = elements v\<rparr>"])
    (simp_all add: DeepCopyInto_TenantClusterStatus_def locs_TenantClusterStatus_def view_TenantClusterStatus_def)

lemma copy_entry: "DeepCopyInto_SyncDecisionEntry = State_Monad.return"
  by (rule ext) (simp add: DeepCopyInto_SyncDecisionEntry_def)

interpretation decision_status: deep_copy DeepCopyInto_SyncDecisionStatus locs_SyncDecisionStatus view_SyncDecisionStatus
  by (rule deep_copy_fields [OF deep_copy_copy_items [OF deep_copy_return, of entries_of Entries]
        deep_copy_copy_field [of converged_of Converged], where getA = sdr_Entries and updA = "\<lambda>y x. x\<lparr>sdr_Entries := y\<rparr>"
          and getB = sdr_LastConverged and updB = "\<lambda>y x. x\<lparr>sdr_LastConverged := y\<rparr>"
          and shape = "\<lambda>v w x. \<lparr>sds_Entries = elements v, sds_LastConverged = w\<rparr>"])
    (simp_all add: DeepCopyInto_SyncDecisionStatus_def locs_SyncDecisionStatus_def view_SyncDecisionStatus_def copy_entry)

text \<open>Objects and lists, given the cells \<open>lm\<close>, \<open>ll\<close> and the views \<open>vm\<close>, \<open>vl\<close> of the two kinds of metadata.\<close>

definition locs_IsolationProfile :: "('m store \<Rightarrow> 'm \<Rightarrow> nat set) \<Rightarrow> 'm store \<Rightarrow> 'm IsolationProfileRef \<Rightarrow> nat set" where
  "locs_IsolationProfile lm s x = lm s (ipr_Meta x)"

definition view_IsolationProfile ::
    "('m store \<Rightarrow> 'm \<Rightarrow> ObjectMeta) \<Rightarrow> 'm store \<Rightarrow> 'm IsolationProfileRef \<Rightarrow> TypeMeta \<times> IsolationProfile" where
  "view_IsolationProfile vm s x = (ipr_TypeMeta x, \<lparr>ip_Meta = vm s (ipr_Meta x), ip_Spec = ipr_Spec x\<rparr>)"

definition locs_SyncPolicy :: "('m store \<Rightarrow> 'm \<Rightarrow> nat set) \<Rightarrow> 'm store \<Rightarrow> 'm SyncPolicyRef \<Rightarrow> nat set" where
  "locs_SyncPolicy lm s x = lm s (por_Meta x) \<union> locs_SyncPolicySpec s (por_Spec x)"

definition view_SyncPolicy ::
    "('m store \<Rightarrow> 'm \<Rightarrow> ObjectMeta) \<Rightarrow> 'm store \<Rightarrow> 'm SyncPolicyRef \<Rightarrow> TypeMeta \<times> SyncPolicy" where
  "view_SyncPolicy vm s x = (por_TypeMeta x, \<lparr>sp_Meta = vm s (por_Meta x), sp_Spec = view_SyncPolicySpec s (por_Spec x)\<rparr>)"

definition locs_SyncDecision :: "('m store \<Rightarrow> 'm \<Rightarrow> nat set) \<Rightarrow> 'm store \<Rightarrow> 'm SyncDecisionRef \<Rightarrow> nat set" where
  "locs_SyncDecision lm s x = lm s (der_Meta x) \<union> locs_SyncDecisionStatus s (der_Status x)"

definition view_SyncDecision ::
    "('m store \<Rightarrow> 'm \<Rightarrow> ObjectMeta) \<Rightarrow> 'm store \<Rightarrow> 'm SyncDecisionRef \<Rightarrow> TypeMeta \<times> SyncDecision" where
  "view_SyncDecision vm s x =
     (der_TypeMeta x, \<lparr>sd_Meta = vm s (der_Meta x), sd_Status = view_SyncDecisionStatus s (der_Status x)\<rparr>)"

definition locs_TenantCluster :: "('m store \<Rightarrow> 'm \<Rightarrow> nat set) \<Rightarrow> 'm store \<Rightarrow> 'm TenantClusterRef \<Rightarrow> nat set" where
  "locs_TenantCluster lm s x =
     lm s (tcr_Meta x) \<union> locs_TenantClusterSpec s (tcr_Spec x) \<union> locs_TenantClusterStatus s (tcr_Status x)"

definition view_TenantCluster ::
    "('m store \<Rightarrow> 'm \<Rightarrow> ObjectMeta) \<Rightarrow> 'm store \<Rightarrow> 'm TenantClusterRef \<Rightarrow> TypeMeta \<times> TenantCluster" where
  "view_TenantCluster vm s x =
     (tcr_TypeMeta x, \<lparr>tc_Meta = vm s (tcr_Meta x), tc_Spec = view_TenantClusterSpec s (tcr_Spec x),
        tc_Status = view_TenantClusterStatus s (tcr_Status x)\<rparr>)"

definition list_locs ::
    "('m cell option \<Rightarrow> 'a list) \<Rightarrow> ('m store \<Rightarrow> 'l \<Rightarrow> nat set) \<Rightarrow> ('m store \<Rightarrow> 'a \<Rightarrow> nat set) \<Rightarrow> 'm store \<Rightarrow> 'l ListRef \<Rightarrow> nat set" where
  "list_locs items ll locs s x = ll s (lr_ListMeta x) \<union> items_locs items locs s (lr_Items x)"

definition list_view_of ::
    "('m cell option \<Rightarrow> 'a list) \<Rightarrow> ('m store \<Rightarrow> 'l \<Rightarrow> 'x) \<Rightarrow> ('m store \<Rightarrow> 'a \<Rightarrow> 'v) \<Rightarrow> 'm store \<Rightarrow> 'l ListRef \<Rightarrow>
      TypeMeta \<times> 'x \<times> 'v list" where
  "list_view_of items vl view s x =
     (lr_TypeMeta x, vl s (lr_ListMeta x), elements (items_view items view s (lr_Items x)))"

lemma isolation_profile_deep:
  assumes "deep_copy (ma_ObjectMeta M) lm vm"
  shows "deep_copy (DeepCopyInto_IsolationProfile M) (locs_IsolationProfile lm) (view_IsolationProfile vm)"
  by (rule deep_copy_one_field [OF assms, where getA = ipr_Meta and updA = "\<lambda>y x. x\<lparr>ipr_Meta := y\<rparr>"
        and shape = "\<lambda>v x. (ipr_TypeMeta x, \<lparr>ip_Meta = v, ip_Spec = ipr_Spec x\<rparr>)"])
    (simp_all add: DeepCopyInto_IsolationProfile_def locs_IsolationProfile_def view_IsolationProfile_def)

lemma sync_policy_deep:
  assumes "deep_copy (ma_ObjectMeta M) lm vm"
  shows "deep_copy (DeepCopyInto_SyncPolicy M) (locs_SyncPolicy lm) (view_SyncPolicy vm)"
  by (rule deep_copy_fields [OF assms policy_spec.deep_copy_axioms, where getA = por_Meta and updA = "\<lambda>y x. x\<lparr>por_Meta := y\<rparr>"
        and getB = por_Spec and updB = "\<lambda>y x. x\<lparr>por_Spec := y\<rparr>"
        and shape = "\<lambda>v w x. (por_TypeMeta x, \<lparr>sp_Meta = v, sp_Spec = w\<rparr>)"])
    (simp_all add: DeepCopyInto_SyncPolicy_def locs_SyncPolicy_def view_SyncPolicy_def)

lemma sync_decision_deep:
  assumes "deep_copy (ma_ObjectMeta M) lm vm"
  shows "deep_copy (DeepCopyInto_SyncDecision M) (locs_SyncDecision lm) (view_SyncDecision vm)"
  by (rule deep_copy_fields [OF assms decision_status.deep_copy_axioms, where getA = der_Meta
        and updA = "\<lambda>y x. x\<lparr>der_Meta := y\<rparr>" and getB = der_Status and updB = "\<lambda>y x. x\<lparr>der_Status := y\<rparr>"
        and shape = "\<lambda>v w x. (der_TypeMeta x, \<lparr>sd_Meta = v, sd_Status = w\<rparr>)"])
    (simp_all add: DeepCopyInto_SyncDecision_def locs_SyncDecision_def view_SyncDecision_def)

text \<open>Of a TenantCluster only the metadata and the status are deep.\<close>

lemma tenant_cluster_half_deep:
  assumes "deep_copy (ma_ObjectMeta M) lm vm"
  shows "deep_copy (DeepCopyInto_TenantCluster M) (\<lambda>s x. lm s (tcr_Meta x) \<union> locs_TenantClusterStatus s (tcr_Status x))
    (\<lambda>s x. (vm s (tcr_Meta x), view_TenantClusterStatus s (tcr_Status x)))"
  by (rule deep_copy_fields [OF assms tenant_status.deep_copy_axioms, where getA = tcr_Meta
        and updA = "\<lambda>y x. x\<lparr>tcr_Meta := y\<rparr>" and getB = tcr_Status and updB = "\<lambda>y x. x\<lparr>tcr_Status := y\<rparr>"
        and shape = "\<lambda>v w x. (v, w)"])
    (simp_all add: DeepCopyInto_TenantCluster_def)

lemma list_deep:
  assumes "deep_copy (ma_ListMeta M) ll vl" "deep_copy into locs view" "\<And>v. items (Some (pack v)) = v"
    and "\<And>x. f x = do {
      m \<leftarrow> ma_ListMeta M (lr_ListMeta x);
      ys \<leftarrow> copy_items items pack into (lr_Items x);
      State_Monad.return (x\<lparr>lr_TypeMeta := lr_TypeMeta x, lr_ListMeta := m, lr_Items := ys\<rparr>)
    }"
  shows "deep_copy f (list_locs items ll locs) (list_view_of items vl view)"
  by (rule deep_copy_fields [OF assms(1) deep_copy_copy_items [OF assms(2,3)], where getA = lr_ListMeta
        and updA = "\<lambda>y x. x\<lparr>lr_ListMeta := y\<rparr>" and getB = lr_Items and updB = "\<lambda>y x. x\<lparr>lr_Items := y\<rparr>"
        and shape = "\<lambda>v w x. (lr_TypeMeta x, v, elements w)"])
    (simp_all add: assms(4) list_locs_def list_view_of_def)

lemmas list_copies = DeepCopyInto_IsolationProfileList_def DeepCopyInto_SyncPolicyList_def DeepCopyInto_SyncDecisionList_def

text \<open>Property C21 (deep copies are independent). The copy \<open>DeepCopy\<close> makes of an IsolationProfile, a SyncPolicy, a
  SyncDecision, the spec of a TenantCluster or a list of such objects shows the same value as the original, and whatever
  is later written through the one is not seen through the other; nil is copied to nil.\<close>

theorem deep_copies_are_independent:
  assumes meta: "deep_copy (ma_ObjectMeta M) lm vm" and listmeta: "deep_copy (ma_ListMeta M) ll vl"
  shows "independent_copy (DeepCopy_IsolationProfileList M)
       (pointer_locs (list_locs isolation_profiles_of ll (locs_IsolationProfile lm)))
       (\<lambda>s. map_option (list_view_of isolation_profiles_of vl (view_IsolationProfile vm) s)) \<and>
     independent_copy (DeepCopy_SyncPolicyList M)
       (pointer_locs (list_locs sync_policies_of ll (locs_SyncPolicy lm)))
       (\<lambda>s. map_option (list_view_of sync_policies_of vl (view_SyncPolicy vm) s)) \<and>
     independent_copy (DeepCopy_SyncDecisionList M)
       (pointer_locs (list_locs sync_decisions_of ll (locs_SyncDecision lm)))
       (\<lambda>s. map_option (list_view_of sync_decisions_of vl (view_SyncDecision vm) s)) \<and>
     independent_copy (DeepCopy_SyncPolicy M) (pointer_locs (locs_SyncPolicy lm)) (\<lambda>s. map_option (view_SyncPolicy vm s)) \<and>
     independent_copy (DeepCopy_SyncDecision M) (pointer_locs (locs_SyncDecision lm)) (\<lambda>s. map_option (view_SyncDecision vm s)) \<and>
     independent_copy DeepCopy_TenantClusterSpec (pointer_locs locs_TenantClusterSpec) (\<lambda>s. map_option (view_TenantClusterSpec s))"
  by (intro conjI) (auto intro!: deep_copy_independent deep_copy_pointer list_deep [OF listmeta] isolation_profile_deep [OF meta]
      sync_policy_deep [OF meta] sync_decision_deep [OF meta] tenant_spec.deep_copy_axioms
      simp: list_copies DeepCopy_IsolationProfileList_def DeepCopy_SyncPolicyList_def DeepCopy_SyncDecisionList_def
        DeepCopy_SyncPolicy_def DeepCopy_SyncDecision_def DeepCopy_TenantClusterSpec_def)

section \<open>TenantClusters share their spec\<close>

text \<open>Property C14 (the copy of a TenantCluster shares its spec). \<open>DeepCopy\<close> of a TenantCluster shows the same value as the
  original and has metadata and status of its own, but reaches exactly the cells of the original's spec: setting the
  annotations of the external Service or the additional names through the copy sets them in the original.\<close>

theorem tenant_cluster_copy_shares_its_spec:
  assumes meta: "deep_copy (ma_ObjectMeta M) lm vm"
    and run: "run_state (DeepCopy_TenantCluster M (Some x)) s = (Some y, t)"
    and bound: "locs_TenantCluster lm s x \<subseteq> {..<length s}"
  shows "view_TenantCluster vm t y = view_TenantCluster vm s x \<and>
    locs_TenantCluster lm t y \<inter> {..<length s} = locs_TenantClusterSpec s (tcr_Spec x) \<and>
    (\<forall>l m. exr_Annotations (cpr_Expose (tsr_ControlPlane (tcr_Spec y))) = Some l \<longrightarrow>
       ex_Annotations (cp_Expose (tcs_ControlPlane (tc_Spec (snd (view_TenantCluster vm (t[l := StringMap m]) x))))) = Some m) \<and>
    (\<forall>l xs. cpr_ExtraTLSSANs (tsr_ControlPlane (tcr_Spec y)) = Some l \<longrightarrow>
       cp_ExtraTLSSANs (tcs_ControlPlane (tc_Spec (snd (view_TenantCluster vm (t[l := Strings xs]) x)))) = xs)"
proof -
  have into: "run_state (DeepCopyInto_TenantCluster M x) s = (y, t)"
    using run by (auto simp: DeepCopy_TenantCluster_def copy_pointer_def split: prod.splits)
  then have y: "tcr_TypeMeta y = tcr_TypeMeta x" "tcr_Spec y = tcr_Spec x"
    by (auto simp: DeepCopyInto_TenantCluster_def split: prod.splits)
  have "lm s (tcr_Meta x) \<union> locs_TenantClusterStatus s (tcr_Status x) \<subseteq> {..<length s}"
    using bound by (simp add: locs_TenantCluster_def)
  from deep_copy.copied [OF tenant_cluster_half_deep [OF meta] into this] obtain e where e: "t = s @ e"
    "vm t (tcr_Meta y) = vm s (tcr_Meta x)" "view_TenantClusterStatus t (tcr_Status y) = view_TenantClusterStatus s (tcr_Status x)"
    "lm t (tcr_Meta y) \<union> locs_TenantClusterStatus t (tcr_Status y) \<subseteq> {length s..<length t}" by auto
  have b: "locs_TenantClusterSpec s (tcr_Spec x) \<subseteq> {..<length s}" using bound by (simp add: locs_TenantCluster_def)
  note spec = tenant_spec.later [OF b, of e, folded e(1)]
  have "view_TenantCluster vm t y = view_TenantCluster vm s x" using spec y e(2,3) by (simp add: view_TenantCluster_def)
  moreover have "locs_TenantCluster lm t y \<inter> {..<length s} = locs_TenantClusterSpec s (tcr_Spec x)"
    using spec y b e(4) by (fastforce simp: locs_TenantCluster_def)
  moreover have "l < length t" if "exr_Annotations (cpr_Expose (tsr_ControlPlane (tcr_Spec x))) = Some l \<or>
      cpr_ExtraTLSSANs (tsr_ControlPlane (tcr_Spec x)) = Some l" for l
    using that b e(1) by (auto simp: locs_TenantClusterSpec_def locs_ControlPlaneSpec_def locs_ExposeSpec_def field_locs_def)
  ultimately show ?thesis
    by (simp add: y view_TenantCluster_def view_TenantClusterSpec_def view_ControlPlaneSpec_def view_ExposeSpec_def
        field_view_def cell_at_def elements_def)
qed

text \<open>Metadata of which only the labels are kept, and a TenantCluster in a store.\<close>

definition label_meta :: "(nat option, unit) meta_api" where
  "label_meta = \<lparr>ma_ObjectMeta = copy_field string_map_of StringMap, ma_ListMeta = State_Monad.return\<rparr>"

definition label_view :: "'m store \<Rightarrow> nat option \<Rightarrow> ObjectMeta" where
  "label_view s p = object_meta ''dev'' ''team'' (field_view string_map_of s p)"

lemma label_meta_deep:
  "deep_copy (ma_ObjectMeta label_meta) field_locs label_view" "deep_copy (ma_ListMeta label_meta) (\<lambda>s x. {}) (\<lambda>s x. ())"
  unfolding label_view_def
  by (simp_all add: label_meta_def deep_copy_return deep_copy_view deep_copy_copy_field)

definition stored_tc :: "nat option TenantClusterRef" where
  "stored_tc = \<lparr>tcr_TypeMeta = \<lparr>tm_Kind = ''TenantCluster'', tm_APIVersion = ''tenantplane.io/v1alpha1''\<rparr>, tcr_Meta = Some 0,
     tcr_Spec = \<lparr>tsr_Mode = ''shared'', tsr_KubernetesVersion = ''v1.33'', tsr_IsolationProfileRef = \<lparr>lor_Name = ''restricted''\<rparr>,
       tsr_SyncPolicyRef = \<lparr>lor_Name = ''default''\<rparr>,
       tsr_ControlPlane = \<lparr>cpr_Replicas = 1, cpr_Datastore = \<lparr>ds_Type = ''sqlite''\<rparr>,
         cpr_Storage = \<lparr>st_ClassName = '''', st_Size = ''5Gi''\<rparr>,
         cpr_Expose = \<lparr>exr_LoadBalancer = True, exr_Annotations = Some 1\<rparr>, cpr_ExtraTLSSANs = Some 2\<rparr>,
       tsr_Networking = \<lparr>nw_PodCIDR = '''', nw_ServiceCIDR = '''', nw_EgressPolicy = ''deny-by-default''\<rparr>,
       tsr_Migration = \<lparr>mg_AllowModeChange = True\<rparr>, tsr_Resources = \<lparr>rr_CPU = '''', rr_Memory = ''''\<rparr>\<rparr>,
     tcr_Status = \<lparr>ttr_Phase = '''', ttr_Endpoint = '''', ttr_ExternalEndpoint = '''', ttr_Conditions = None\<rparr>\<rparr>"

definition cache :: "nat option store" where
  "cache = [StringMap fmempty, StringMap fmempty, Strings [''dev.example.com'']]"

theorem tenant_cluster_copy_shares_its_spec_witness:
  "ex_Annotations (cp_Expose (tcs_ControlPlane (tc_Spec (snd (view_TenantCluster label_view
     ((snd (run_state (DeepCopy_TenantCluster label_meta (Some stored_tc)) cache))
        [1 := StringMap (fmupd ''lb'' ''nlb'' fmempty)]) stored_tc))))) = Some (fmupd ''lb'' ''nlb'' fmempty)"
proof -
  have run: "run_state (DeepCopy_TenantCluster label_meta (Some stored_tc)) cache =
      (Some (stored_tc\<lparr>tcr_Meta := Some 3\<rparr>), cache @ [StringMap fmempty])"
    by (simp add: DeepCopy_TenantCluster_def copy_pointer_def DeepCopyInto_TenantCluster_def DeepCopyInto_TenantClusterStatus_def
        label_meta_def copy_field_def stored_tc_def cache_def cell_at_def)
  have bound: "locs_TenantCluster field_locs cache stored_tc \<subseteq> {..<length cache}"
    by (simp add: locs_TenantCluster_def field_locs_def stored_tc_def locs_TenantClusterSpec_def locs_ControlPlaneSpec_def
        locs_ExposeSpec_def locs_TenantClusterStatus_def cache_def)
  have "exr_Annotations (cpr_Expose (tsr_ControlPlane (tcr_Spec (stored_tc\<lparr>tcr_Meta := Some 3\<rparr>)))) = Some 1"
    by (simp add: stored_tc_def)
  then show ?thesis
    using tenant_cluster_copy_shares_its_spec [OF label_meta_deep(1) run bound, THEN conjunct2, THEN conjunct2, THEN conjunct1]
    by (simp only: run snd_conv)
qed

theorem deep_copies_are_independent_witness:
  "independent_copy (DeepCopy_SyncDecisionList label_meta)
     (pointer_locs (list_locs sync_decisions_of (\<lambda>s x. {}) (locs_SyncDecision field_locs)))
     (\<lambda>s. map_option (list_view_of sync_decisions_of (\<lambda>s x. ()) (view_SyncDecision label_view) s))"
  by (rule deep_copies_are_independent [OF label_meta_deep, THEN conjunct2, THEN conjunct2, THEN conjunct1])

end
