(* ===== verification/Cli.thy ===== *)
theory Cli
  imports Isolation Syncplan_Transform Control_Plane
begin

text \<open>
  \<open>src/cmd/tenantplane/main.go\<close>: the offline command-line tool. A command returns what it writes to standard output
  and its error. \<open>flag.FlagSet\<close> of the Go standard library is modelled as the program uses it: string flags only,
  \<open>ContinueOnError\<close>, usage discarded.
\<close>

section \<open>Package flag\<close>

text \<open>The values of the declared flags, by name; parsing returns them with the remaining arguments.\<close>

type_synonym flags = "(string, string) fmap"

definition split_value :: "string \<Rightarrow> string \<times> string option" where
  "split_value name =
     (case name of
        [] \<Rightarrow> ([], None)
      | c # cs \<Rightarrow>
          (let key = c # takeWhile (\<lambda>x. x \<noteq> CHR ''='') cs; rest = dropWhile (\<lambda>x. x \<noteq> CHR ''='') cs
           in (key, if rest = [] then None else Some (tl rest))))"

definition flag_name :: "string \<Rightarrow> string" where
  "flag_name s = (if length s \<ge> 2 \<and> s ! 1 = CHR ''-'' then drop 2 s else drop 1 s)"

definition is_flag :: "string \<Rightarrow> bool" where
  "is_flag s \<longleftrightarrow> length s \<ge> 2 \<and> hd s = CHR ''-''"

text \<open>A declared flag with its value, from its own argument or from the next one.\<close>

definition known_flag :: "flags \<Rightarrow> string \<Rightarrow> string option \<Rightarrow> goerr option" where
  "known_flag fs name value =
     (if fmlookup fs name = None then
        Some (errorf (if name = ''help'' \<or> name = ''h'' then ''flag: help requested''
                      else ''flag provided but not defined: -'' @ name))
      else None)"

fun parse_flags :: "flags \<Rightarrow> string list \<Rightarrow> goerr + flags \<times> string list" where
  "parse_flags fs [] = Inr (fs, [])"
| "parse_flags fs (s # args) =
     (if \<not> is_flag s then Inr (fs, s # args)
      else if s = ''--'' then Inr (fs, args)
      else
        let raw = flag_name s
        in if raw = '''' \<or> hd raw = CHR ''-'' \<or> hd raw = CHR ''='' then Inl (errorf (''bad flag syntax: '' @ s))
           else case split_value raw of
                  (name, Some value) \<Rightarrow>
                    (case known_flag fs name (Some value) of
                       Some err \<Rightarrow> Inl err
                     | None \<Rightarrow> parse_flags (fmupd name value fs) args)
                | (name, None) \<Rightarrow>
                    (case known_flag fs name None of
                       Some err \<Rightarrow> Inl err
                     | None \<Rightarrow>
                         (case args of
                            [] \<Rightarrow> Inl (errorf (''flag needs an argument: -'' @ name))
                          | value # args' \<Rightarrow> parse_flags (fmupd name value fs) args')))"

section \<open>Text\<close>

definition text_lines :: "string list \<Rightarrow> string" where
  "text_lines ls = concat (map (\<lambda>l. l @ [CHR 0x0A]) ls)"

definition fmt_t :: "bool \<Rightarrow> string" where
  "fmt_t b = (if b then ''true'' else ''false'')"

definition yamlString :: "string \<Rightarrow> string" where
  "yamlString value = (if value = '''' then [CHR 0x22, CHR 0x22] else value)"

definition requireDNSName :: "string \<Rightarrow> string \<Rightarrow> goerr option" where
  "requireDNSName value label =
     (if value = '''' then Some (errorf (label @ '' cannot be empty''))
      else if SanitizeName value \<noteq> value then
        Some (errorf (label @ '' '' @ fmt_q value @ '' must already be a DNS-safe name''))
      else None)"

definition requireOneOf :: "string \<Rightarrow> string \<Rightarrow> string list \<Rightarrow> goerr option" where
  "requireOneOf value label allowed =
     (if value \<in> set allowed then None
      else Some (errorf (label @ '' must be one of: '' @ strings_Join allowed '', '')))"

definition kubernetesVersionPattern :: rx where
  "kubernetesVersionPattern =
     RSeq (RLit ''v1.'') (RSeq (RAlt (map RLit [''28'', ''29'', ''30'', ''31'', ''32'', ''33'']))
       (ROpt (RSeq (RLit ''.'') RDigits)))"

definition cli_version :: string where "cli_version = ''0.2.0-dev''"

section \<open>Commands\<close>

type_synonym cli_output = "string \<times> goerr option"

definition fail_with :: "goerr \<Rightarrow> cli_output" where "fail_with err = ('''', Some err)"

definition tenantcluster_manifest :: "string \<Rightarrow> flags \<Rightarrow> string" where
  "tenantcluster_manifest name fs = text_lines
     [''apiVersion: tenantplane.io/v1alpha1'', ''kind: TenantCluster'', ''metadata:'', ''  name: '' @ name,
      ''  namespace: '' @ str_at fs ''namespace'', ''spec:'', ''  mode: '' @ str_at fs ''mode'',
      ''  kubernetesVersion: '' @ str_at fs ''kubernetes-version'', ''  isolationProfileRef:'',
      ''    name: '' @ str_at fs ''isolation-profile'', ''  syncPolicyRef:'',
      ''    name: '' @ str_at fs ''sync-policy'', ''  controlPlane:'', ''    replicas: 1'', ''    datastore:'',
      ''      type: sqlite'', ''  networking:'', ''    egressPolicy: deny-by-default'', ''  migration:'',
      ''    allowModeChange: true'']"

definition tenantcluster_flags :: flags where
  "tenantcluster_flags = fmap_of_list
     [(''namespace'', ''tenantplane-system''), (''mode'', ''shared''), (''isolation-profile'', ''restricted''),
      (''sync-policy'', ''default''), (''kubernetes-version'', ''v1.33'')]"

definition mode_error :: "string \<Rightarrow> goerr option" where
  "mode_error mode =
     (if mode = ''shared'' then None
      else if mode = ''dedicated'' \<or> mode = ''private'' then
        Some (errorf (''mode '' @ fmt_q mode @
          '' is not implemented yet (the API server would reject it); only \"shared\" is supported today''))
      else Some (errorf ''mode must be one of: shared (dedicated and private are on the roadmap)''))"

definition renderTenantCluster :: "string list \<Rightarrow> cli_output" where
  "renderTenantCluster args =
     (case parse_flags tenantcluster_flags args of
        Inl err \<Rightarrow> fail_with err
      | Inr (fs, rest) \<Rightarrow>
          (if length rest \<noteq> 1 then fail_with (errorf ''render tenantcluster requires exactly one name'')
           else let name = hd rest
                in case requireDNSName name ''tenant cluster name'' of
                     Some err \<Rightarrow> fail_with err
                   | None \<Rightarrow>
                       (case mode_error (str_at fs ''mode'') of
                          Some err \<Rightarrow> fail_with err
                        | None \<Rightarrow>
                            (if \<not> rx_full kubernetesVersionPattern (str_at fs ''kubernetes-version'') then
                               fail_with (errorf (''kubernetesVersion '' @ fmt_q (str_at fs ''kubernetes-version'') @
                                 '' is not implemented yet (the API server would reject it); only v1.28-v1.33 have a known k3s image''))
                             else (tenantcluster_manifest name fs, None)))))"

definition isolationprofile_manifest :: "string \<Rightarrow> Profile \<Rightarrow> string" where
  "isolationprofile_manifest name profile = text_lines
     [''apiVersion: tenantplane.io/v1alpha1'', ''kind: IsolationProfile'', ''metadata:'', ''  name: '' @ name,
      ''spec:'', ''  level: '' @ p_Level profile, ''  controls:'', ''    podSecurity: '' @ p_PodSecurity profile,
      ''    defaultDenyNetworkPolicy: '' @ fmt_t (p_DefaultDenyNetworkPolicy profile),
      ''    requireResourceRequests: '' @ fmt_t (p_RequireResourceRequests profile),
      ''    runtimeClassName: '' @ yamlString (p_RuntimeClassName profile),
      ''    blockHostPathVolumes: '' @ fmt_t (p_BlockHostPathVolumes profile),
      ''    blockPrivilegedContainers: '' @ fmt_t (p_BlockPrivilegedContainers profile),
      ''    apiFairness: '' @ p_APIFairness profile]"

definition renderIsolationProfile :: "string list \<Rightarrow> cli_output" where
  "renderIsolationProfile args =
     (case parse_flags (fmap_of_list [(''level'', ''restricted'')]) args of
        Inl err \<Rightarrow> fail_with err
      | Inr (fs, rest) \<Rightarrow>
          (if length rest \<noteq> 1 then fail_with (errorf ''render isolationprofile requires exactly one name'')
           else case requireDNSName (hd rest) ''isolation profile name'' of
                  Some err \<Rightarrow> fail_with err
                | None \<Rightarrow>
                    (case ProfileForLevel (str_at fs ''level'') of
                       Inl err \<Rightarrow> fail_with err
                     | Inr profile \<Rightarrow> (isolationprofile_manifest (hd rest) profile, None))))"

definition syncpolicy_manifest :: "string \<Rightarrow> string \<Rightarrow> string" where
  "syncpolicy_manifest name conflictPolicy = text_lines
     ([''apiVersion: tenantplane.io/v1alpha1'', ''kind: SyncPolicy'', ''metadata:'', ''  name: '' @ name, ''spec:'',
       ''  conflictPolicy: '' @ conflictPolicy, ''  driftDetection:'', ''    enabled: true'', ''    interval: 30s'',
       ''  explain:'', ''    recordDecisions: true'', ''    retain: 1000'', ''  resources:''] @
      concat (map (\<lambda>kind. [''    - apiVersion: v1'', ''      kind: '' @ kind, ''      direction: toHost''])
        [''Pod'', ''Service'', ''ConfigMap'', ''Secret'']))"

definition renderSyncPolicy :: "string list \<Rightarrow> cli_output" where
  "renderSyncPolicy args =
     (case parse_flags (fmap_of_list [(''conflict-policy'', ''manual'')]) args of
        Inl err \<Rightarrow> fail_with err
      | Inr (fs, rest) \<Rightarrow>
          (if length rest \<noteq> 1 then fail_with (errorf ''render syncpolicy requires exactly one name'')
           else case requireDNSName (hd rest) ''sync policy name'' of
                  Some err \<Rightarrow> fail_with err
                | None \<Rightarrow>
                    (case requireOneOf (str_at fs ''conflict-policy'') ''conflict-policy''
                            [''manual'', ''tenant-wins'', ''host-wins''] of
                       Some err \<Rightarrow> fail_with err
                     | None \<Rightarrow> (syncpolicy_manifest (hd rest) (str_at fs ''conflict-policy''), None))))"

definition explain_flags :: flags where
  "explain_flags = fmap_of_list
     [(''tenant'', ''''), (''tenant-namespace'', ''''), (''virtual-namespace'', ''default''), (''kind'', ''Pod''), (''name'', '''')]"

definition explanation :: "Plan \<Rightarrow> string" where
  "explanation plan =
     (let ref = plan_Input plan; labels = HostLabels ref; annotations = HostAnnotations ref
      in text_lines
        [''tenantResource:'', ''  tenantCluster: '' @ ref_TenantCluster ref,
         ''  virtualNamespace: '' @ ref_VirtualNamespace ref, ''  kind: '' @ ref_Kind ref, ''  name: '' @ ref_Name ref,
         ''hostResource:'', ''  namespace: '' @ ht_Namespace (plan_Host plan), ''  name: '' @ ht_Name (plan_Host plan),
         ''labels:'', ''  '' @ LabelManagedBy @ '': '' @ str_at labels LabelManagedBy,
         ''  '' @ LabelTenant @ '': '' @ str_at labels LabelTenant,
         ''  '' @ LabelVirtualNamespace @ '': '' @ str_at labels LabelVirtualNamespace,
         ''  '' @ LabelKind @ '': '' @ str_at labels LabelKind,
         ''annotations:'', ''  '' @ AnnotationVirtualNamespace @ '': '' @ str_at annotations AnnotationVirtualNamespace,
         ''  '' @ AnnotationVirtualName @ '': '' @ str_at annotations AnnotationVirtualName,
         ''reason:'', ''  '' @ plan_Reason plan])"

definition explainSync :: "string list \<Rightarrow> cli_output" where
  "explainSync args =
     (case parse_flags explain_flags args of
        Inl err \<Rightarrow> fail_with err
      | Inr (fs, rest) \<Rightarrow>
          (if str_at fs ''tenant'' = '''' \<or> str_at fs ''tenant-namespace'' = '''' \<or> str_at fs ''name'' = '''' then
             fail_with (errorf ''explain-sync requires --tenant, --tenant-namespace, and --name'')
           else case Explain \<lparr>ref_TenantCluster = str_at fs ''tenant'', ref_TenantNamespace = str_at fs ''tenant-namespace'',
                    ref_VirtualNamespace = str_at fs ''virtual-namespace'', ref_Kind = str_at fs ''kind'',
                    ref_Name = str_at fs ''name''\<rparr> of
                  Inl err \<Rightarrow> fail_with err
                | Inr plan \<Rightarrow> (explanation plan, None)))"

definition printUsage :: string where
  "printUsage = text_lines
     [''tenantplane creates inspectable virtual Kubernetes tenant clusters.'', '''', ''Usage:'',
      ''  tenantplane version'',
      ''  tenantplane render tenantcluster NAME [--namespace ns] [--mode shared]'',
      ''  tenantplane render isolationprofile NAME [--level baseline|restricted|sandboxed]'',
      ''  tenantplane render syncpolicy NAME [--conflict-policy manual|tenant-wins|host-wins]'',
      ''  tenantplane explain-sync --tenant NAME --tenant-namespace NS --name RESOURCE_NAME [--kind Pod]'']"

definition render :: "string list \<Rightarrow> cli_output" where
  "render args =
     (case args of
        [] \<Rightarrow> fail_with (errorf ''render requires one of: tenantcluster, isolationprofile, syncpolicy'')
      | target # rest \<Rightarrow>
          (if target = ''tenantcluster'' then renderTenantCluster rest
           else if target = ''isolationprofile'' then renderIsolationProfile rest
           else if target = ''syncpolicy'' then renderSyncPolicy rest
           else fail_with (errorf (''unknown render target '' @ fmt_q target))))"

definition run :: "string list \<Rightarrow> cli_output" where
  "run args =
     (case args of
        [] \<Rightarrow> (printUsage, None)
      | command # rest \<Rightarrow>
          (if command = ''version'' then (text_lines [''tenantplane '' @ cli_version], None)
           else if command = ''render'' then render rest
           else if command = ''explain-sync'' then explainSync rest
           else if command \<in> {''help'', ''-h'', ''--help''} then (printUsage, None)
           else fail_with (errorf (''unknown command '' @ fmt_q command))))"

text \<open>\<open>main\<close>: standard output, standard error and the exit code.\<close>

definition cli_main :: "string list \<Rightarrow> string \<times> string \<times> nat" where
  "cli_main args =
     (case run args of
        (stdout, Some err) \<Rightarrow> (stdout, text_lines [''tenantplane: '' @ err_Error err], 1)
      | (stdout, None) \<Rightarrow> (stdout, '''', 0))"

text \<open>A command that fails has written nothing: its output is all or nothing.\<close>

lemma cli_fails_cleanly: "cli_main args = (stdout, stderr, 1) \<Longrightarrow> stdout = ''''"
  by (auto simp: cli_main_def run_def render_def renderTenantCluster_def renderIsolationProfile_def renderSyncPolicy_def
      explainSync_def fail_with_def Let_def split: prod.splits option.splits list.splits sum.splits if_splits)

section \<open>The versions the tool accepts\<close>

lemma rx_full_seq_assoc: "rx_full (RSeq a (RSeq b c)) s \<longleftrightarrow> rx_full (RSeq (RSeq a b) c) s"
  by (auto simp: rx_full_def)

lemma rx_full_seq: "rx_full (RSeq a b) s \<longleftrightarrow> (\<exists>rest \<in> set (rx_rests a s). rx_full b rest)"
  by (auto simp: rx_full_def)

lemma cli_version_pattern: "rx_full kubernetesVersionPattern v \<longleftrightarrow> (\<exists>m. supported_version m v)"
proof -
  have p: "kubernetesVersionPattern = RSeq (RLit ''v1.'') (RSeq (RAlt (map RLit minor_versions)) k3s_tail)"
    by (simp add: kubernetesVersionPattern_def minor_versions_def k3s_tail_def)
  have "rx_full kubernetesVersionPattern v \<longleftrightarrow> rx_full (RSeq k3s_group k3s_tail) v"
    unfolding p rx_full_seq_assoc k3s_group_def ..
  also have "\<dots> \<longleftrightarrow> (\<exists>rest \<in> set (rx_rests k3s_group v). rx_full k3s_tail rest)"
    by (rule rx_full_seq)
  also have "\<dots> \<longleftrightarrow> (\<exists>m. supported_version m v)"
    unfolding rx_k3s_group supported_version_parts by auto
  finally show ?thesis .
qed

lemma cli_pattern_resolves: "rx_full kubernetesVersionPattern v \<longleftrightarrow> snd (k3sImageForVersion v)"
  unfolding cli_version_pattern using k3sImageForVersion_cases by (metis snd_conv)

text \<open>The tool and the controller agree on versions: The pattern of the command line accepts exactly the
  versions the controller resolves to an image.\<close>

theorem cli_and_controller_versions_agree:
  "rx_full kubernetesVersionPattern v \<longleftrightarrow> snd (k3sImageForVersion v)"
  by (rule cli_pattern_resolves)

section \<open>Rendering\<close>

lemma parse_flags_stop: "\<not> is_flag s \<Longrightarrow> parse_flags fs (s # args) = Inr (fs, s # args)"
  by simp

text \<open>Property C37 (flags after the name are refused). The usage text and the documentation put the name before the flags.
  In that order every render command fails: parsing stops at the name, so the flags count as more names, nothing is
  written, and the error asks for exactly one name.\<close>

theorem flags_after_name_are_refused:
  assumes "target \<in> {''tenantcluster'', ''isolationprofile'', ''syncpolicy''}" "\<not> is_flag name"
  shows "run (''render'' # target # name # flag # args) =
    ('''', Some (errorf (''render '' @ target @ '' requires exactly one name'')))"
proof -
  have "parse_flags fs (name # flag # args) = Inr (fs, name # flag # args)" for fs
    using assms(2) by simp
  then show ?thesis
    using assms(1)
    by (auto simp: run_def render_def renderTenantCluster_def renderIsolationProfile_def renderSyncPolicy_def fail_with_def)
qed

theorem flags_after_name_are_refused_witness:
  "run [''render'', ''isolationprofile'', ''restricted'', ''--level'', ''restricted''] =
    ('''', Some (errorf ''render isolationprofile requires exactly one name''))"
  using flags_after_name_are_refused [of "''isolationprofile''" "''restricted''" "''--level''" "[''restricted'']"]
  by (simp add: is_flag_def)

text \<open>What is rendered is supported: A rendered TenantCluster is the manifest of one name that sanitising
  leaves alone, with mode shared and a Kubernetes version the controller has an image for.\<close>

theorem rendered_tenantcluster_is_supported:
  assumes "run (''render'' # ''tenantcluster'' # args) = (out, None)"
  shows "\<exists>fs name. parse_flags tenantcluster_flags args = Inr (fs, [name]) \<and> out = tenantcluster_manifest name fs \<and>
     SanitizeName name = name \<and> str_at fs ''mode'' = ''shared'' \<and> snd (k3sImageForVersion (str_at fs ''kubernetes-version''))"
proof -
  obtain fs rest where p: "parse_flags tenantcluster_flags args = Inr (fs, rest)"
    using assms by (auto simp: run_def render_def renderTenantCluster_def fail_with_def split: sum.splits)
  with assms obtain name where "rest = [name]"
    by (auto simp: run_def render_def renderTenantCluster_def fail_with_def length_Suc_conv split: if_splits)
  with assms p show ?thesis
    by (auto simp: run_def render_def renderTenantCluster_def fail_with_def requireDNSName_def mode_error_def
        cli_pattern_resolves split: if_splits)
qed

theorem rendered_tenantcluster_is_supported_witness:
  "\<exists>out. run [''render'', ''tenantcluster'', ''--mode=shared'', ''dev''] = (out, None) \<and> snd (k3sImageForVersion ''v1.33'')"
proof -
  have s: "SanitizeName ''dev'' = ''dev''" by (simp add: SanitizeName_id dns_safe_def inner_dashes_def dns_char_def)
  have "supported_version ''33'' ''v1.33''" by (simp add: supported_version_def minor_versions_def)
  then have v: "rx_full kubernetesVersionPattern ''v1.33''" using cli_version_pattern by blast
  let ?fs = "fmupd ''mode'' ''shared'' tenantcluster_flags"
  have p: "parse_flags tenantcluster_flags [''--mode=shared'', ''dev''] = Inr (?fs, [''dev''])"
    by (simp add: is_flag_def flag_name_def split_value_def known_flag_def tenantcluster_flags_def)
  have "str_at ?fs ''kubernetes-version'' = ''v1.33''" "str_at ?fs ''mode'' = ''shared''"
    by (simp_all add: tenantcluster_flags_def)
  then have r: "run (''render'' # ''tenantcluster'' # [''--mode=shared'', ''dev'']) = (tenantcluster_manifest ''dev'' ?fs, None)"
    unfolding run_def render_def renderTenantCluster_def list.case using p s v
    by (simp add: requireDNSName_def mode_error_def del: parse_flags.simps)
  from rendered_tenantcluster_is_supported [OF r] p show ?thesis using r \<open>str_at ?fs ''kubernetes-version'' = _\<close>
    by (auto simp del: parse_flags.simps)
qed

end
