(* ===== verification/Manager.thy ===== *)
theory Manager
  imports Controller_Safety Cli
begin

text \<open>
  How the controller is put together and started: \<open>execInPod\<close> of \<open>internal/controller/kubeconfig.go\<close>,
  \<open>SetupWithManager\<close> of \<open>tenantcluster_controller.go\<close>, scheme registration (\<open>groupversion_info.go\<close>,
  \<open>cmd/manager/scheme.go\<close>) and \<open>cmd/manager/main.go\<close>. Schemes, managers, REST configurations and executors are
  values of controller-runtime and client-go: type variables and records of functions on them. Log lines are left out;
  the banner lines are modelled, they are what a user sees.
\<close>

section \<open>Running a command in a pod\<close>

record ExecRequest =
  er_Resource :: string
  er_Name :: string
  er_Namespace :: string
  er_SubResource :: string
  er_Container :: string
  er_Command :: "string list"
  er_Stdout :: bool
  er_Stderr :: bool

text \<open>What an executor's stream does: it writes to the two buffers and may fail.\<close>

type_synonym 'w executor = "'w \<Rightarrow> (string \<times> string \<times> goerr option) \<times> 'w"

text \<open>The verb \<open>%v\<close> on a slice of strings.\<close>

definition fmt_v :: "string list \<Rightarrow> string" where
  "fmt_v ss = ''['' @ strings_Join ss '' '' @ '']''"

definition exec_request :: "string \<Rightarrow> string \<Rightarrow> string \<Rightarrow> string list \<Rightarrow> ExecRequest" where
  "exec_request namespace pod container command =
     \<lparr>er_Resource = ''pods'', er_Name = pod, er_Namespace = namespace, er_SubResource = ''exec'',
      er_Container = container, er_Command = command, er_Stdout = True, er_Stderr = True\<rparr>"

definition execInPod ::
    "(ExecRequest \<Rightarrow> goerr + 'w executor) \<Rightarrow> string \<Rightarrow> string \<Rightarrow> string \<Rightarrow> string list \<Rightarrow> ('w, goerr + string) state" where
  "execInPod NewSPDYExecutor namespace pod container command =
     (case NewSPDYExecutor (exec_request namespace pod container command) of
        Inl err \<Rightarrow> State_Monad.return (Inl (wrap_err ''create executor'' err))
      | Inr stream \<Rightarrow> do {
          (stdout, stderr, err) \<leftarrow> api_call stream;
          State_Monad.return
            (case err of
               Some e \<Rightarrow> Inl (GoErr (err_kind e)
                 (''exec '' @ fmt_v command @ '': '' @ err_Error e @ '' (stderr: '' @ stderr @ '')''))
             | None \<Rightarrow> Inr stdout)
        })"

section \<open>Watches and indexes\<close>

text \<open>What the builder of controller-runtime is given: the reconciled kind, the owned kinds, and the watched kinds with
  the function from a changed object to the requests it causes.\<close>

record 'w Controller =
  co_For :: string
  co_Owns :: "string list"
  co_Watches :: "(string \<times> (ObjectMeta \<Rightarrow> ('w, (string \<times> string) list) state)) list"

record ('q, 'c, 'w) Manager =
  mg_Client :: "('q, 'c, 'w) Reconciler"
  mg_EventRecorderFor :: "string \<Rightarrow> TenantCluster \<Rightarrow> string \<Rightarrow> string \<Rightarrow> string \<Rightarrow> 'w \<Rightarrow> 'w"
  mg_IndexField :: "string \<Rightarrow> string \<Rightarrow> (TenantCluster \<Rightarrow> string list) \<Rightarrow> 'w \<Rightarrow> goerr option \<times> 'w"
  mg_Complete :: "'w Controller \<Rightarrow> (string \<Rightarrow> string \<Rightarrow> ('w, outcome option) state) \<Rightarrow> 'w \<Rightarrow> goerr option \<times> 'w"
  mg_AddHealthzCheck :: "string \<Rightarrow> 'w \<Rightarrow> goerr option \<times> 'w"
  mg_AddReadyzCheck :: "string \<Rightarrow> 'w \<Rightarrow> goerr option \<times> 'w"
  mg_Start :: "'w \<Rightarrow> goerr option \<times> 'w"

definition isoProfileIndexer :: "TenantCluster \<Rightarrow> string list" where
  "isoProfileIndexer tc =
     (if lor_Name (tcs_IsolationProfileRef (tc_Spec tc)) = '''' then []
      else [lor_Name (tcs_IsolationProfileRef (tc_Spec tc))])"

definition syncPolicyIndexer :: "TenantCluster \<Rightarrow> string list" where
  "syncPolicyIndexer tc =
     (if lor_Name (tcs_SyncPolicyRef (tc_Spec tc)) = '''' then [] else [lor_Name (tcs_SyncPolicyRef (tc_Spec tc))])"

definition tenant_controller :: "('q, 'c, 'w) Reconciler \<Rightarrow> 'w Controller" where
  "tenant_controller R =
     \<lparr>co_For = ''TenantCluster'', co_Owns = [''Secret''],
      co_Watches =
        [(''StatefulSet'', \<lambda>m. State_Monad.return (mapControlPlaneObject (om_Labels m))),
         (''Service'', \<lambda>m. State_Monad.return (mapControlPlaneObject (om_Labels m))),
         (''IsolationProfile'', \<lambda>m. mapForIndex R isoProfileIndexKey (om_Name m)),
         (''SyncPolicy'', \<lambda>m. mapForIndex R syncPolicyIndexKey (om_Name m))]\<rparr>"

definition SetupWithManager ::
    "('q, 'c, 'w) Reconciler \<Rightarrow> ('q, 'c, 'w) Manager \<Rightarrow> ('w, goerr option) state" where
  "SetupWithManager R mgr =
     and_then (api_call (mg_IndexField mgr ''TenantCluster'' isoProfileIndexKey isoProfileIndexer))
     (and_then (api_call (mg_IndexField mgr ''TenantCluster'' syncPolicyIndexKey syncPolicyIndexer))
       (api_call (mg_Complete mgr (tenant_controller R) (Reconcile R))))"

section \<open>Scheme registration\<close>

text \<open>The scheme builder of controller-runtime and the schemes it fills.\<close>

record ('b, 's) SchemeApi =
  sc_NewScheme :: 's
  sc_ClientGoAddToScheme :: "'s \<Rightarrow> goerr + 's"
  sc_NewBuilder :: "string \<times> string \<Rightarrow> 'b"
  sc_Register :: "'b \<Rightarrow> string list \<Rightarrow> 'b"
  sc_AddToScheme :: "'b \<Rightarrow> 's \<Rightarrow> goerr + 's"

definition GroupVersion :: "string \<times> string" where
  "GroupVersion = (''tenantplane.io'', ''v1alpha1'')"

definition SchemeBuilder :: "('b, 's) SchemeApi \<Rightarrow> 'b" where
  "SchemeBuilder S =
     foldl (sc_Register S) (sc_NewBuilder S GroupVersion)
       [[''TenantCluster'', ''TenantClusterList''], [''IsolationProfile'', ''IsolationProfileList''],
        [''SyncPolicy'', ''SyncPolicyList''], [''SyncDecision'', ''SyncDecisionList'']]"

definition AddToScheme :: "('b, 's) SchemeApi \<Rightarrow> 's \<Rightarrow> goerr + 's" where
  "AddToScheme S scheme = sc_AddToScheme S (SchemeBuilder S) scheme"

text \<open>\<open>Inl\<close> is a panic with the error.\<close>

definition runtimeScheme :: "('b, 's) SchemeApi \<Rightarrow> goerr + 's" where
  "runtimeScheme S =
     (case sc_ClientGoAddToScheme S (sc_NewScheme S) of
        Inl err \<Rightarrow> Inl err
      | Inr scheme \<Rightarrow> (case AddToScheme S scheme of Inl err \<Rightarrow> Inl err | Inr scheme \<Rightarrow> Inr scheme))"

section \<open>The manager command\<close>

record MetricsOptions =
  mo_BindAddress :: string

record 's ManagerOptions =
  op_Scheme :: 's
  op_Metrics :: MetricsOptions
  op_HealthProbeBindAddress :: string

definition metricsServerOptions :: "string \<Rightarrow> MetricsOptions" where
  "metricsServerOptions bindAddress = \<lparr>mo_BindAddress = bindAddress\<rparr>"

text \<open>
  The process and the libraries: \<open>bt_Parse\<close> parses the command line given the program's own flags with their
  defaults (the flags zap adds are its own), or the exit code
  when it ends the process; \<open>GetConfigOrDie\<close> ends it without a
  configuration.
\<close>

record ('q, 'c, 'k, 'cs, 'b, 's, 'w) Boot =
  bt_Schemes :: "('b, 's) SchemeApi"
  bt_Parse :: "flags \<Rightarrow> 'w \<Rightarrow> (nat + flags) \<times> 'w"
  bt_SetLogger :: "'w \<Rightarrow> 'w"
  bt_Print :: "string \<Rightarrow> 'w \<Rightarrow> 'w"
  bt_GetConfigOrDie :: "'w \<Rightarrow> 'k option \<times> 'w"
  bt_Host :: "'k \<Rightarrow> string"
  bt_NewManager :: "'k \<Rightarrow> 's ManagerOptions \<Rightarrow> 'w \<Rightarrow> (goerr + ('q, 'c, 'w) Manager) \<times> 'w"
  bt_NewForConfig :: "'k \<Rightarrow> goerr + 'cs"
  bt_NewSPDYExecutor :: "'k \<Rightarrow> 'cs \<Rightarrow> ExecRequest \<Rightarrow> goerr + 'w executor"

datatype exit = Returned | Exited nat | Panicked goerr

definition manager_version :: string where "manager_version = ''0.2.0-dev''"

definition banner :: "('q, 'c, 'k, 'cs, 'b, 's, 'w) Boot \<Rightarrow> string \<Rightarrow> ('w, unit) state" where
  "banner B line = api_call (\<lambda>w. ((), bt_Print B (line @ [CHR 0x0A]) w))"

definition manager_flags :: flags where
  "manager_flags = fmap_of_list [(''metrics-bind-address'', '':8080''), (''health-probe-bind-address'', '':8081'')]"

definition new_reconciler ::
    "('q, 'c, 'k, 'cs, 'b, 's, 'w) Boot \<Rightarrow> ('q, 'c, 'w) Manager \<Rightarrow> 'k \<Rightarrow> 'cs \<Rightarrow> ('q, 'c, 'w) Reconciler" where
  "new_reconciler B mgr restConfig clientSet =
     (mg_Client mgr)
       \<lparr>r_execInPod := (\<lambda>namespace pod container command.
          run_state (execInPod (bt_NewSPDYExecutor B restConfig clientSet) namespace pod container command)),
        r_Eventf := Some (mg_EventRecorderFor mgr ''tenantcluster-controller'')\<rparr>"

definition line_version :: string where "line_version = encode_rune 0x1FA90 @ '' tenantplane '' @ manager_version"
definition line_types :: string where
  "line_types = encode_rune 0x2705 @ '' Registered the tenantplane.io/v1alpha1 API types''"
definition line_connecting :: "string \<Rightarrow> string" where
  "line_connecting host = encode_rune 0x1F50C @ '' Connecting to the Kubernetes API server at '' @ host"
definition line_registered :: string where "line_registered = encode_rune 0x1F680 @ '' TenantCluster controller registered''"
definition line_health :: "string \<Rightarrow> string" where
  "line_health probeAddr = encode_rune 0x1F3E5 @ '' Health checks: healthz/readyz on '' @ probeAddr"
definition line_metrics :: "string \<Rightarrow> string" where
  "line_metrics metricsAddr = encode_rune 0x1F4CA @ '' Metrics on '' @ metricsAddr"
definition line_up :: string where
  "line_up = encode_rune 0x1F389 @ '' tenantplane is up '' @ encode_rune 0x2014 @
     '' watching for TenantCluster, IsolationProfile, and SyncPolicy objects''"

text \<open>\<open>if err := m(); err != nil { os.Exit(1) }\<close>, then the rest.\<close>

definition or_exit :: "('w, goerr option) state \<Rightarrow> ('w, exit) state \<Rightarrow> ('w, exit) state" where
  "or_exit m k = do { r \<leftarrow> m; case r of Some err \<Rightarrow> State_Monad.return (Exited 1) | None \<Rightarrow> k }"

text \<open>\<open>main\<close> from the manager on.\<close>

definition run_manager ::
    "('q, 'c, 'k, 'cs, 'b, 's, 'w) Boot \<Rightarrow> string \<Rightarrow> string \<Rightarrow> 'k \<Rightarrow> ('q, 'c, 'w) Manager \<Rightarrow> ('w, exit) state" where
  "run_manager B metricsAddr probeAddr restConfig mgr =
     (case bt_NewForConfig B restConfig of
        Inl err \<Rightarrow> State_Monad.return (Exited 1)
      | Inr clientSet \<Rightarrow>
          or_exit (SetupWithManager (new_reconciler B mgr restConfig clientSet) mgr) (do {
            banner B line_registered;
            or_exit (api_call (mg_AddHealthzCheck mgr ''healthz''))
            (or_exit (api_call (mg_AddReadyzCheck mgr ''readyz'')) (do {
              banner B (line_health probeAddr);
              banner B (line_metrics metricsAddr);
              banner B line_up;
              or_exit (api_call (mg_Start mgr)) (State_Monad.return Returned)
            }))
          }))"

definition manager_main :: "('q, 'c, 'k, 'cs, 'b, 's, 'w) Boot \<Rightarrow> ('w, exit) state" where
  "manager_main B = do {
     parsed \<leftarrow> api_call (bt_Parse B manager_flags);
     case parsed of
       Inl code \<Rightarrow> State_Monad.return (Exited code)
     | Inr fs \<Rightarrow>
         let metricsAddr = str_at fs ''metrics-bind-address''; probeAddr = str_at fs ''health-probe-bind-address''
         in do {
           api_call (\<lambda>w. ((), bt_SetLogger B w));
           banner B line_version;
           case runtimeScheme (bt_Schemes B) of
             Inl err \<Rightarrow> State_Monad.return (Panicked err)
           | Inr scheme \<Rightarrow> do {
               banner B line_types;
               config \<leftarrow> api_call (bt_GetConfigOrDie B);
               case config of
                 None \<Rightarrow> State_Monad.return (Exited 1)
               | Some restConfig \<Rightarrow> do {
                   banner B (line_connecting (bt_Host B restConfig));
                   m \<leftarrow> api_call (bt_NewManager B restConfig
                     \<lparr>op_Scheme = scheme, op_Metrics = metricsServerOptions metricsAddr, op_HealthProbeBindAddress = probeAddr\<rparr>);
                   case m of
                     Inl err \<Rightarrow> State_Monad.return (Exited 1)
                   | Inr mgr \<Rightarrow> run_manager B metricsAddr probeAddr restConfig mgr
                 }
             }
         }
   }"

section \<open>What the cache and the console promise\<close>

text \<open>
  The manager's cache: registered indexes are functions of the TenantCluster, and listing by an index that is registered
  finds exactly the TenantClusters with that value.
\<close>

locale indexed_cache =
  fixes mgr :: "('q, 'c, 'w) Manager" and R :: "('q, 'c, 'w) Reconciler"
    and registry :: "'w \<Rightarrow> string \<Rightarrow> (TenantCluster \<Rightarrow> string list) option"
    and tenants :: "'w \<Rightarrow> TenantCluster set"
  assumes index_ok: "mg_IndexField mgr ''TenantCluster'' key f w = (None, w') \<Longrightarrow> registry w' = (registry w)(key \<mapsto> f)"
    and complete_ok: "mg_Complete mgr c rec w = (None, w') \<Longrightarrow> registry w' = registry w"
    and list_ok: "r_ListTenants R key v w = (Inr tcs, w') \<Longrightarrow>
          \<exists>f. registry w key = Some f \<and> set tcs = {tc \<in> tenants w. v \<in> set (f tc)}"
begin

lemma setup_registers:
  assumes "run_state (SetupWithManager R mgr) w = (None, w')"
  shows "registry w' isoProfileIndexKey = Some isoProfileIndexer" "registry w' syncPolicyIndexKey = Some syncPolicyIndexer"
proof -
  obtain u v where s: "mg_IndexField mgr ''TenantCluster'' isoProfileIndexKey isoProfileIndexer w = (None, u)"
    "mg_IndexField mgr ''TenantCluster'' syncPolicyIndexKey syncPolicyIndexer u = (None, v)"
    "mg_Complete mgr (tenant_controller R) (Reconcile R) v = (None, w')"
    using assms by (auto simp: SetupWithManager_def ctrl_run split: prod.splits option.splits)
  have "isoProfileIndexKey \<noteq> syncPolicyIndexKey" by (simp add: isoProfileIndexKey_def syncPolicyIndexKey_def)
  then show "registry w' isoProfileIndexKey = Some isoProfileIndexer" "registry w' syncPolicyIndexKey = Some syncPolicyIndexer"
    using index_ok [OF s(1)] index_ok [OF s(2)] complete_ok [OF s(3)] by simp_all
qed

end

lemma indexer_values:
  assumes "n \<noteq> ''''"
  shows "n \<in> set (isoProfileIndexer tc) \<longleftrightarrow> lor_Name (tcs_IsolationProfileRef (tc_Spec tc)) = n"
    "n \<in> set (syncPolicyIndexer tc) \<longleftrightarrow> lor_Name (tcs_SyncPolicyRef (tc_Spec tc)) = n"
  using assms by (auto simp: isoProfileIndexer_def syncPolicyIndexer_def)

text \<open>What controller-runtime enqueues for a change of an object: the requests of every watch of its kind.\<close>

fun enqueued :: "(string \<times> (ObjectMeta \<Rightarrow> ('w, (string \<times> string) list) state)) list \<Rightarrow> string \<Rightarrow> ObjectMeta \<Rightarrow>
    ('w, (string \<times> string) list) state" where
  "enqueued [] kind m = State_Monad.return []"
| "enqueued ((k, h) # ws) kind m =
     (if k = kind then do { a \<leftarrow> h m; b \<leftarrow> enqueued ws kind m; State_Monad.return (a @ b) } else enqueued ws kind m)"

lemma enqueued_reference:
  "run_state (enqueued (co_Watches (tenant_controller R)) ''IsolationProfile'' m) w = run_state (mapForIndex R isoProfileIndexKey (om_Name m)) w"
  "run_state (enqueued (co_Watches (tenant_controller R)) ''SyncPolicy'' m) w = run_state (mapForIndex R syncPolicyIndexKey (om_Name m)) w"
  by (simp_all add: tenant_controller_def ctrl_run split_beta)

context indexed_cache begin

lemma reference_requests:
  assumes "registry w key = Some f" "r_ListTenants R key v w = (Inr tcs, w')"
  shows "\<exists>reqs. run_state (mapForIndex R key v) w = (reqs, w') \<and>
    set reqs = {(tc_Namespace tc, tc_Name tc) | tc. tc \<in> tenants w \<and> v \<in> set (f tc)}"
  using list_ok [OF assms(2)] assms by (auto simp: mapForIndex_def ctrl_run)

end

section \<open>A manager in memory\<close>

record mgr_world =
  mw_index :: "(string \<times> (TenantCluster \<Rightarrow> string list)) list"
  mw_tenants :: "TenantCluster list"
  mw_output :: "string list"

definition mw_list :: "string \<Rightarrow> string \<Rightarrow> mgr_world \<Rightarrow> (goerr + TenantCluster list) \<times> mgr_world" where
  "mw_list key v w =
     (case map_of (mw_index w) key of
        None \<Rightarrow> Inl (errorf ''index does not exist'')
      | Some f \<Rightarrow> Inr (filter (\<lambda>tc. v \<in> set (f tc)) (mw_tenants w)), w)"

definition absent_client :: "'w client" where
  "absent_client = \<lparr>cl_get = (\<lambda>g k w. (Inl not_found, w)), cl_list = (\<lambda>g n ls w. (Inr [], w)),
     cl_create = (\<lambda>x w. (Inl (errorf ''forbidden''), w)), cl_update = (\<lambda>x w. (Inl not_found, w)),
     cl_delete = (\<lambda>x w. (Some not_found, w))\<rparr>"

definition mw_reconciler :: "(string, unit, mgr_world) Reconciler" where
  "mw_reconciler =
     \<lparr>r_tc = no_objects, r_ip = no_objects, r_sp = no_objects, r_sd = no_objects, r_ns = no_objects, r_svc = no_objects,
      r_sts = no_objects, r_secret = no_objects, r_pvc = no_objects, r_np = no_objects, r_rq = no_objects,
      r_lr = no_objects, r_un = absent_client, r_U = json_api,
      r_ParseQuantity = text_quantity, r_ContainsFinalizer = (\<lambda>m f. f \<in> set (om_Finalizers m)),
      r_AddFinalizer = (\<lambda>m f. m\<lparr>om_Finalizers := om_Finalizers m @ [f]\<rparr>),
      r_RemoveFinalizer = (\<lambda>m f. m\<lparr>om_Finalizers := filter (\<lambda>x. x \<noteq> f) (om_Finalizers m)\<rparr>),
      r_SetControllerReference = (\<lambda>tc m. Inr m),
      r_execInPod = (\<lambda>n p c cmd w. (Inl (errorf ''no such pod''), w)), r_Eventf = None,
      r_NewLimiter = (\<lambda>r b w. (Pair True, w)), r_RESTConfigFromKubeConfig = (\<lambda>s. Inr ()),
      r_NewClient = (\<lambda>c w. (Inl (errorf ''connection refused''), w)),
      r_ParseGroupVersion = (\<lambda>s. Inr ('''', s)), r_Now = Pair ''2026-01-01T00:00:00Z'', r_ListTenants = mw_list\<rparr>"

text \<open>It starts with an error when \<open>broken\<close>: the port of the metrics endpoint is taken, say.\<close>

definition mw_manager :: "bool \<Rightarrow> (string, unit, mgr_world) Manager" where
  "mw_manager broken =
     \<lparr>mg_Client = mw_reconciler, mg_EventRecorderFor = (\<lambda>name tc typ reason msg w. w),
      mg_IndexField = (\<lambda>kind key f w. (None, w\<lparr>mw_index := (key, f) # mw_index w\<rparr>)),
      mg_Complete = (\<lambda>c rec w. (None, w)), mg_AddHealthzCheck = (\<lambda>name w. (None, w)),
      mg_AddReadyzCheck = (\<lambda>name w. (None, w)),
      mg_Start = (\<lambda>w. (if broken then Some (errorf ''address already in use'') else None, w))\<rparr>"

interpretation memory_manager: indexed_cache "mw_manager broken" mw_reconciler "\<lambda>w. map_of (mw_index w)" "\<lambda>w. set (mw_tenants w)"
  by unfold_locales (auto simp: mw_manager_def mw_reconciler_def mw_list_def split: option.splits)

lemma mw_setup:
  "run_state (SetupWithManager R (mw_manager broken)) w =
     (None, w\<lparr>mw_index := (syncPolicyIndexKey, syncPolicyIndexer) # (isoProfileIndexKey, isoProfileIndexer) # mw_index w\<rparr>)"
  by (simp add: SetupWithManager_def ctrl_run mw_manager_def)

section \<open>Properties of the watches\<close>

text \<open>Property C38 (a changed profile or policy reaches the tenants that use it). Once the setup has succeeded, and while
  the registered indexes stay what they are, a change of an IsolationProfile or a
  SyncPolicy enqueues exactly the TenantClusters that name it in their spec, provided the list from the cache succeeds:
  both indexes the watches use are registered, each with the field it is named after.\<close>

theorem reference_changes_reach_their_tenants:
  assumes "indexed_cache mgr R registry tenants" "run_state (SetupWithManager R mgr) w0 = (None, w1)"
    and "registry w = registry w1" "om_Name m \<noteq> ''''"
    and "(kind, key, ref) \<in> {(''IsolationProfile'', isoProfileIndexKey, \<lambda>tc. lor_Name (tcs_IsolationProfileRef (tc_Spec tc))),
           (''SyncPolicy'', syncPolicyIndexKey, \<lambda>tc. lor_Name (tcs_SyncPolicyRef (tc_Spec tc)))}"
    and "r_ListTenants R key (om_Name m) w = (Inr tcs, w')"
  shows "\<exists>reqs. run_state (enqueued (co_Watches (tenant_controller R)) kind m) w = (reqs, w') \<and>
     set reqs = {(tc_Namespace tc, tc_Name tc) | tc. tc \<in> tenants w \<and> ref tc = om_Name m}"
proof -
  note reg = indexed_cache.setup_registers [OF assms(1,2)]
  obtain f where f: "registry w key = Some f" "\<forall>tc. om_Name m \<in> set (f tc) \<longleftrightarrow> ref tc = om_Name m"
    using assms(3,5) reg by (auto simp: indexer_values [OF assms(4)])
  obtain reqs where r: "run_state (mapForIndex R key (om_Name m)) w = (reqs, w')"
    "set reqs = {(tc_Namespace tc, tc_Name tc) | tc. tc \<in> tenants w \<and> om_Name m \<in> set (f tc)}"
    using indexed_cache.reference_requests [OF assms(1) f(1) assms(6)] by blast
  have "run_state (enqueued (co_Watches (tenant_controller R)) kind m) w = (reqs, w')"
    using assms(5) r(1) enqueued_reference [of R m w] by auto
  then show ?thesis using r(2) f(2) by auto
qed

theorem reference_changes_reach_their_tenants_witness:
  "\<exists>reqs w'. run_state (enqueued (co_Watches (tenant_controller mw_reconciler)) ''SyncPolicy'' (object_meta ''default'' '''' None))
       (snd (run_state (SetupWithManager mw_reconciler (mw_manager False))
          \<lparr>mw_index = [], mw_tenants = [demo_tc ''dev'' ''team''], mw_output = []\<rparr>)) = (reqs, w') \<and>
     set reqs = {(''team'', ''dev'')}"
proof -
  let ?w0 = "\<lparr>mw_index = [], mw_tenants = [demo_tc ''dev'' ''team''], mw_output = []\<rparr>" and ?m = "object_meta ''default'' '''' None"
  let ?w1 = "?w0\<lparr>mw_index := [(syncPolicyIndexKey, syncPolicyIndexer), (isoProfileIndexKey, isoProfileIndexer)]\<rparr>"
  have s: "run_state (SetupWithManager mw_reconciler (mw_manager False)) ?w0 = (None, ?w1)"
    by (simp add: mw_setup)
  have m: "om_Name ?m = ''default''" by (simp add: object_meta_def)
  have l: "r_ListTenants mw_reconciler syncPolicyIndexKey (om_Name ?m) ?w1 = (Inr [demo_tc ''dev'' ''team''], ?w1)"
    by (simp add: mw_reconciler_def mw_list_def m) (simp add: demo_tc_def syncPolicyIndexer_def)
  have "om_Name ?m \<noteq> ''''" by (simp add: m)
  then have "\<exists>reqs. run_state (enqueued (co_Watches (tenant_controller mw_reconciler)) ''SyncPolicy'' ?m) ?w1 = (reqs, ?w1) \<and>
     set reqs = {(tc_Namespace tc, tc_Name tc) | tc. tc \<in> set (mw_tenants ?w1) \<and> lor_Name (tcs_SyncPolicyRef (tc_Spec tc)) = om_Name ?m}"
    by (intro reference_changes_reach_their_tenants [OF memory_manager.indexed_cache_axioms s refl _ _ l]) simp_all
  then show ?thesis
    unfolding s by (auto simp: m demo_tc_def object_meta_def)
qed

section \<open>The kubeconfig Secret\<close>

definition with_exec :: "('q, 'c, 'w) Reconciler \<Rightarrow> (ExecRequest \<Rightarrow> goerr + 'w executor) \<Rightarrow> ('q, 'c, 'w) Reconciler" where
  "with_exec R X = R\<lparr>r_execInPod := (\<lambda>namespace pod container command. run_state (execInPod X namespace pod container command))\<rparr>"

definition kubeconfig_request :: "TenantCluster \<Rightarrow> ExecRequest" where
  "kubeconfig_request tc =
     exec_request (controlPlaneNamespace tc) (controlPlanePodName tc) ''k3s'' [''cat'', ''/etc/rancher/k3s/k3s.yaml'']"

lemma new_reconciler_exec:
  "new_reconciler B mgr c cs =
     (with_exec (mg_Client mgr) (bt_NewSPDYExecutor B c cs))\<lparr>r_Eventf := Some (mg_EventRecorderFor mgr ''tenantcluster-controller'')\<rparr>"
  by (simp add: new_reconciler_def with_exec_def)

lemma exec_run:
  "run_state (execInPod X ns pod c cmd) w =
     (case X (exec_request ns pod c cmd) of
        Inl err \<Rightarrow> (Inl (wrap_err ''create executor'' err), w)
      | Inr stream \<Rightarrow>
          (case stream w of
             ((stdout, stderr, None), w') \<Rightarrow> (Inr stdout, w')
           | ((stdout, stderr, Some e), w') \<Rightarrow>
               (Inl (GoErr (err_kind e) (''exec '' @ fmt_v cmd @ '': '' @ err_Error e @ '' (stderr: '' @ stderr @ '')'')), w')))"
  by (auto simp: execInPod_def ctrl_run split: sum.splits prod.splits option.splits)

text \<open>A server that stores the data of the Secrets it accepts.\<close>

definition keeps_data :: "(Secret, 'w) kind_client \<Rightarrow> bool" where
  "keeps_data C \<longleftrightarrow> (\<forall>x v y v'. k_Create C x v = (Inr y, v') \<or> k_Update C x v = (Inr y, v') \<longrightarrow> se_Data y = se_Data x)"

text \<open>The Secret is written with the rewritten kubeconfig, onto the existing one or as a new one.\<close>

definition store_kubeconfig ::
    "('q, 'c, 'w) Reconciler \<Rightarrow> TenantCluster \<Rightarrow> string \<Rightarrow> goerr + Secret \<Rightarrow> string \<Rightarrow> 'w \<Rightarrow> (goerr + Secret) \<times> 'w" where
  "store_kubeconfig R tc name got raw v =
     (let data = Some (fmupd ''kubeconfig'' (rewriteKubeconfigServer raw (controlPlaneServiceFQDN tc)) fmempty)
      in case got of
           Inr existing \<Rightarrow> k_Update (r_secret R) (existing\<lparr>se_Data := data\<rparr>) v
         | Inl _ \<Rightarrow>
             (case r_SetControllerReference R tc (object_meta name (tc_Namespace tc) (Some (controlPlaneLabels tc))) of
                Inl err \<Rightarrow> (Inl err, v)
              | Inr m \<Rightarrow> k_Create (r_secret R) \<lparr>se_Meta = m, se_Data = data\<rparr> v))"

lemma ensure_run:
  assumes "k_Get (r_secret R) (tc_Namespace tc) name w = (got, u)"
    and "case got of Inr s \<Rightarrow> \<not> strings_Contains (kubeconfig_of s) (controlPlaneServiceFQDN tc) | Inl err \<Rightarrow> IsNotFound err"
  shows "run_state (ensureKubeconfigSecret (with_exec R X) tc name) w =
     (case run_state (execInPod X (controlPlaneNamespace tc) (controlPlanePodName tc) ''k3s'' [''cat'', ''/etc/rancher/k3s/k3s.yaml'']) u of
        (Inl e, v) \<Rightarrow> (Inl (wrap_err ''read kubeconfig from control-plane pod'' e), v)
      | (Inr raw, v) \<Rightarrow> store_kubeconfig R tc name got raw v)"
  using assms
  by (cases got) (auto simp: ensureKubeconfigSecret_def with_exec_def ctrl_run store_kubeconfig_def Let_def
      split: sum.split prod.split)

lemma ensure_keeps:
  assumes "k_Get (r_secret R) (tc_Namespace tc) name w = (got, u)"
    and "\<not> (case got of Inr s \<Rightarrow> \<not> strings_Contains (kubeconfig_of s) (controlPlaneServiceFQDN tc) | Inl err \<Rightarrow> IsNotFound err)"
  shows "run_state (ensureKubeconfigSecret (with_exec R X) tc name) w = (got, u)"
  using assms by (cases got) (auto simp: ensureKubeconfigSecret_def with_exec_def ctrl_run Let_def)

lemma store_data:
  assumes "keeps_data (r_secret R)"
    and "store_kubeconfig R tc name got raw v = (Inr s, v')"
  shows "kubeconfig_of s = rewriteKubeconfigServer raw (controlPlaneServiceFQDN tc)"
proof -
  have "se_Data s = Some (fmupd ''kubeconfig'' (rewriteKubeconfigServer raw (controlPlaneServiceFQDN tc)) fmempty)"
    using assms by (auto simp: store_kubeconfig_def keeps_data_def Let_def split: sum.splits)
  then show ?thesis by (simp add: kubeconfig_of_def str_at_def)
qed

text \<open>Property C39 (where a tenant's kubeconfig comes from). Let the API server store the data of the Secrets it accepts. When
  \<open>ensureKubeconfigSecret\<close> succeeds, the Secret it returns either was there and already names the tenant's address, or
  holds exactly what \<open>cat\<close> printed in the tenant's own control-plane pod, with the server lines rewritten to that
  address. When the stream fails, its error and what the command wrote to standard error are in the error reported,
  and nothing is written.\<close>

theorem kubeconfig_comes_from_the_tenants_pod:
  assumes "keeps_data (r_secret R)"
    and "k_Get (r_secret R) (tc_Namespace tc) name w = (got, u)"
    and "run_state (ensureKubeconfigSecret (with_exec R X) tc name) w = (r, w')"
  shows "(\<forall>s. r = Inr s \<longrightarrow>
       got = Inr s \<and> strings_Contains (kubeconfig_of s) (controlPlaneServiceFQDN tc) \<or>
       (\<exists>stream stdout stderr v. X (kubeconfig_request tc) = Inr stream \<and> stream u = ((stdout, stderr, None), v) \<and>
          kubeconfig_of s = rewriteKubeconfigServer stdout (controlPlaneServiceFQDN tc))) \<and>
     (\<forall>stream stdout stderr e v.
        (case got of Inr s \<Rightarrow> \<not> strings_Contains (kubeconfig_of s) (controlPlaneServiceFQDN tc) | Inl err \<Rightarrow> IsNotFound err) \<and>
        X (kubeconfig_request tc) = Inr stream \<and> stream u = ((stdout, stderr, Some e), v) \<longrightarrow>
        w' = v \<and> (\<exists>err. r = Inl err \<and> err_kind err = err_kind e \<and> err_Error err =
          ''read kubeconfig from control-plane pod: exec [cat /etc/rancher/k3s/k3s.yaml]: '' @ err_Error e @
          '' (stderr: '' @ stderr @ '')''))"
proof (cases "case got of Inr s \<Rightarrow> \<not> strings_Contains (kubeconfig_of s) (controlPlaneServiceFQDN tc) | Inl err \<Rightarrow> IsNotFound err")
  case False
  then show ?thesis
    using ensure_keeps [OF assms(2) False, of X] assms(3) by (auto split: sum.splits)
next
  case True
  show ?thesis
    using ensure_run [OF assms(2) True, of X] assms(3) store_data [OF assms(1) sym]
    by (auto simp: exec_run kubeconfig_request_def wrap_err_def fmt_v_def split: sum.splits prod.splits option.splits)
qed

text \<open>A pod that prints a kubeconfig, and a world that holds at most one Secret.\<close>

definition printing_pod :: "string \<Rightarrow> ExecRequest \<Rightarrow> goerr + mgr_world executor" where
  "printing_pod raw req = Inr (\<lambda>w. ((raw, '''', None), w))"

definition any_secret :: "(Secret, 'w) kind_client" where
  "any_secret = (no_objects :: (Secret, 'w) kind_client)\<lparr>k_Create := (\<lambda>x w. (Inr x, w))\<rparr>"

theorem kubeconfig_comes_from_the_tenants_pod_witness:
  "\<exists>s. fst (run_state (ensureKubeconfigSecret (with_exec (mw_reconciler\<lparr>r_secret := any_secret\<rparr>) (printing_pod ''server: x''))
       (demo_tc ''dev'' ''team'') ''dev-kubeconfig'') \<lparr>mw_index = [], mw_tenants = [], mw_output = []\<rparr>) = Inr s \<and>
     kubeconfig_of s = rewriteKubeconfigServer ''server: x'' (controlPlaneServiceFQDN (demo_tc ''dev'' ''team''))"
proof -
  let ?w = "\<lparr>mw_index = [], mw_tenants = [], mw_output = []\<rparr>" and ?tc = "demo_tc ''dev'' ''team''"
  let ?R = "mw_reconciler\<lparr>r_secret := any_secret\<rparr>" and ?X = "printing_pod ''server: x''"
  have k: "keeps_data (r_secret ?R)"
    by (simp add: keeps_data_def any_secret_def no_objects_def)
  have g: "k_Get (r_secret ?R) (tc_Namespace ?tc) ''dev-kubeconfig'' ?w = (Inl not_found, ?w)"
    by (simp add: any_secret_def no_objects_def)
  have "case (Inl not_found :: goerr + Secret) of Inr s \<Rightarrow> \<not> strings_Contains (kubeconfig_of s) (controlPlaneServiceFQDN ?tc)
      | Inl err \<Rightarrow> IsNotFound err"
    by (simp add: IsNotFound_def not_found_def)
  note run = ensure_run [OF g this, of ?X]
  have "\<exists>s. run_state (ensureKubeconfigSecret (with_exec ?R ?X) ?tc ''dev-kubeconfig'') ?w = (Inr s, ?w)"
    unfolding run by (simp add: exec_run printing_pod_def store_kubeconfig_def any_secret_def mw_reconciler_def)
  then obtain s where s: "run_state (ensureKubeconfigSecret (with_exec ?R ?X) ?tc ''dev-kubeconfig'') ?w = (Inr s, ?w)" ..
  show ?thesis
    using kubeconfig_comes_from_the_tenants_pod [OF k g s] s by (auto simp: printing_pod_def)
qed

section \<open>Start-up\<close>

text \<open>A manager whose calls print nothing, and a process whose only calls that print are the banner lines.\<close>

definition silent :: "('w \<Rightarrow> string list) \<Rightarrow> ('q, 'c, 'w) Manager \<Rightarrow> bool" where
  "silent out mgr \<longleftrightarrow>
     (\<forall>kind key f w. out (snd (mg_IndexField mgr kind key f w)) = out w) \<and>
     (\<forall>c rec w. out (snd (mg_Complete mgr c rec w)) = out w) \<and>
     (\<forall>n w. out (snd (mg_AddHealthzCheck mgr n w)) = out w \<and> out (snd (mg_AddReadyzCheck mgr n w)) = out w) \<and>
     (\<forall>w. out (snd (mg_Start mgr w)) = out w)"

locale console =
  fixes B :: "('q, 'c, 'k, 'cs, 'b, 's, 'w) Boot" and out :: "'w \<Rightarrow> string list"
  assumes out_print: "out (bt_Print B l w) = out w @ [l]"
    and out_parse: "bt_Parse B fs w = (p, w') \<Longrightarrow> out w' = out w"
    and out_logger: "out (bt_SetLogger B w) = out w"
    and out_config: "bt_GetConfigOrDie B w = (c, w') \<Longrightarrow> out w' = out w"
    and out_manager: "bt_NewManager B k op w = (m, w') \<Longrightarrow> out w' = out w \<and> (\<forall>mgr. m = Inr mgr \<longrightarrow> silent out mgr)"
begin

lemma banner_run: "run_state (banner B l) w = ((), bt_Print B (l @ [CHR 0x0A]) w)"
  by (simp add: banner_def ctrl_run)

lemma silent_calls:
  assumes "silent out mgr"
  shows "mg_AddHealthzCheck mgr n w = (e, w') \<Longrightarrow> out w' = out w" "mg_AddReadyzCheck mgr n w = (e, w') \<Longrightarrow> out w' = out w"
    "mg_Start mgr w = (e, w') \<Longrightarrow> out w' = out w"
  using assms unfolding silent_def by (metis snd_conv)+

lemma setup_silent: "silent out mgr \<Longrightarrow> run_state (SetupWithManager R mgr) w = (r, w') \<Longrightarrow> out w' = out w"
  by (auto simp: SetupWithManager_def ctrl_run silent_def split: prod.splits option.splits) (metis snd_conv)+

end

definition banner_lines :: "string \<Rightarrow> string \<Rightarrow> string \<Rightarrow> string list" where
  "banner_lines host probeAddr metricsAddr =
     [line_version, line_types, line_connecting host, line_registered, line_health probeAddr, line_metrics metricsAddr, line_up]"

text \<open>What was printed, how far the start had come by then, and how the process ended.\<close>

definition narrated :: "('q, 'c, 'k, 'cs, 'b, 's, 'w) Boot \<Rightarrow> string list \<Rightarrow> exit \<Rightarrow> bool" where
  "narrated B printed r \<longleftrightarrow> (\<exists>host probe metrics n.
     printed = map (\<lambda>l. l @ [CHR 0x0A]) (take n (banner_lines host probe metrics)) \<and> n \<in> {0, 1, 2, 3, 4, 7} \<and>
     (2 \<le> n \<longrightarrow> \<not> isl (runtimeScheme (bt_Schemes B))) \<and>
     (4 \<le> n \<longrightarrow> (\<exists>k op mgr cs v v' u u'. bt_NewManager B k op v = (Inr mgr, v') \<and> host = bt_Host B k \<and>
        run_state (SetupWithManager (new_reconciler B mgr k cs) mgr) u = (None, u'))) \<and>
     (r = Returned \<longrightarrow> n = 7) \<and> (\<forall>err. r = Panicked err \<longrightarrow> n = 1 \<and> runtimeScheme (bt_Schemes B) = Inl err))"

context console begin

lemma run_manager_narrated:
  assumes "run_state (run_manager B metrics probe k mgr) w = (r, w')" "silent out mgr"
    and "out w = pre @ map (\<lambda>l. l @ [CHR 0x0A]) (take 3 (banner_lines (bt_Host B k) probe metrics))"
    and "bt_NewManager B k op v = (Inr mgr, v')" "\<not> isl (runtimeScheme (bt_Schemes B))"
  shows "\<exists>printed. out w' = pre @ printed \<and> narrated B printed r"
proof -
  let ?lines = "\<lambda>n. map (\<lambda>l. l @ [CHR 0x0A]) (take n (banner_lines (bt_Host B k) probe metrics))"
  have "\<exists>n. out w' = pre @ ?lines n \<and> n \<in> {3, 4, 7} \<and> (r = Returned \<longrightarrow> n = 7) \<and> (\<forall>err. r \<noteq> Panicked err) \<and>
      (4 \<le> n \<longrightarrow> (\<exists>cs u u'. run_state (SetupWithManager (new_reconciler B mgr k cs) mgr) u = (None, u')))"
  proof (cases "bt_NewForConfig B k")
    case (Inl err)
    then show ?thesis using assms(1,3) by (intro exI [of _ 3]) (auto simp: run_manager_def ctrl_run)
  next
    case (Inr cs)
    let ?R = "new_reconciler B mgr k cs"
    obtain e u where s: "run_state (SetupWithManager ?R mgr) w = (e, u)" by fastforce
    note su = setup_silent [OF assms(2) s]
    show ?thesis
    proof (cases e)
      case (Some err)
      then show ?thesis using assms(1,3) Inr s su by (intro exI [of _ 3]) (auto simp: run_manager_def or_exit_def ctrl_run)
    next
      case None
      let ?u = "bt_Print B (line_registered @ [CHR 0x0A]) u"
      have u: "out ?u = pre @ ?lines 4"
        using su assms(3) by (simp add: out_print banner_lines_def)
      have ok: "\<exists>cs u u'. run_state (SetupWithManager (new_reconciler B mgr k cs) mgr) u = (None, u')"
        using s None by blast
      obtain h a where h: "mg_AddHealthzCheck mgr ''healthz'' ?u = (h, a)" by fastforce
      obtain g b where g: "mg_AddReadyzCheck mgr ''readyz'' a = (g, b)" by fastforce
      let ?v = "bt_Print B (line_up @ [CHR 0x0A]) (bt_Print B (line_metrics metrics @ [CHR 0x0A])
          (bt_Print B (line_health probe @ [CHR 0x0A]) b))"
      obtain t c where t: "mg_Start mgr ?v = (t, c)" by fastforce
      have outs: "out a = pre @ ?lines 4" "out b = pre @ ?lines 4" "out c = pre @ ?lines 7"
        using silent_calls(1) [OF assms(2) h] silent_calls(2) [OF assms(2) g] silent_calls(3) [OF assms(2) t] u
        by (simp_all add: out_print banner_lines_def)
      note run = assms(1) [unfolded run_manager_def, simplified Inr sum.case or_exit_def ctrl_run s None banner_run
          prod.case option.case h g t]
      show ?thesis
        using run outs ok h g t
        by (cases h; cases g; cases t)
          (auto simp: ctrl_run banner_run intro: exI [of _ 4] exI [of _ 7])
    qed
  qed
  then obtain n where n: "out w' = pre @ ?lines n" "n \<in> {3, 4, 7}" "r = Returned \<longrightarrow> n = 7" "\<forall>err. r \<noteq> Panicked err"
    "4 \<le> n \<longrightarrow> (\<exists>cs u u'. run_state (SetupWithManager (new_reconciler B mgr k cs) mgr) u = (None, u'))" by blast
  have "narrated B (?lines n) r"
    unfolding narrated_def using n assms(4,5)
    by (intro exI [of _ "bt_Host B k"] exI [of _ probe] exI [of _ metrics] exI [of _ n]) blast
  with n(1) show ?thesis by blast
qed

lemma main_narrated:
  assumes "run_state (manager_main B) w = (r, w')"
  shows "\<exists>printed. out w' = out w @ printed \<and> narrated B printed r"
proof -
  have stop: "narrated B (map (\<lambda>l. l @ [CHR 0x0A]) (take n (banner_lines host probe metrics))) r"
    if "n \<in> {0, 1, 2, 3}" "2 \<le> n \<longrightarrow> \<not> isl (runtimeScheme (bt_Schemes B))" "r \<noteq> Returned"
      "\<forall>err. r = Panicked err \<longrightarrow> n = 1 \<and> runtimeScheme (bt_Schemes B) = Inl err" for n host probe metrics
    unfolding narrated_def using that
    by (intro exI [of _ host] exI [of _ probe] exI [of _ metrics] exI [of _ n]) auto
  let ?nl = "\<lambda>l. l @ [CHR 0x0A]"
  obtain p u where p: "bt_Parse B manager_flags w = (p, u)" by fastforce
  note pu = out_parse [OF p]
  show ?thesis
  proof (cases p)
    case (Inl code)
    then show ?thesis using assms p pu stop [of 0] by (auto simp: manager_main_def ctrl_run)
  next
    case (Inr fs)
    let ?m = "str_at fs ''metrics-bind-address''" and ?h = "str_at fs ''health-probe-bind-address''"
    let ?v = "bt_Print B (?nl line_version) (bt_SetLogger B u)"
    have v: "out ?v = out w @ map ?nl (take 1 (banner_lines host ?h ?m))" for host
      by (simp add: out_print out_logger pu banner_lines_def)
    show ?thesis
    proof (cases "runtimeScheme (bt_Schemes B)")
      case (Inl err)
      then have "r = Panicked err" and "w' = ?v"
        using assms p Inr by (auto simp: manager_main_def ctrl_run banner_run Let_def)
      moreover have "narrated B (map ?nl (take 1 (banner_lines '''' ?h ?m))) r" using calculation(1) Inl by (intro stop) auto
      ultimately show ?thesis using v [of "''''"] by blast
    next
      case scheme: (Inr scheme)
      let ?x = "bt_Print B (?nl line_types) ?v"
      obtain c y where c: "bt_GetConfigOrDie B ?x = (c, y)" by fastforce
      have y: "out y = out w @ map ?nl (take 2 (banner_lines host ?h ?m))" for host
        using out_config [OF c] v by (simp add: out_print banner_lines_def)
      show ?thesis
      proof (cases c)
        case None
        then have "r = Exited 1" and "w' = y"
          using assms p Inr scheme c by (auto simp: manager_main_def ctrl_run banner_run Let_def)
        moreover have "narrated B (map ?nl (take 2 (banner_lines '''' ?h ?m))) r" using calculation(1) scheme by (intro stop) auto
        ultimately show ?thesis using y [of "''''"] by blast
      next
        case (Some k)
        let ?z = "bt_Print B (?nl (line_connecting (bt_Host B k))) y"
        let ?op = "\<lparr>op_Scheme = scheme, op_Metrics = metricsServerOptions ?m, op_HealthProbeBindAddress = ?h\<rparr>"
        obtain m q where m: "bt_NewManager B k ?op ?z = (m, q)" by fastforce
        have q: "out q = out w @ map ?nl (take 3 (banner_lines (bt_Host B k) ?h ?m))"
          using out_manager [OF m] y by (simp add: out_print banner_lines_def)
        have run: "(case m of Inl err \<Rightarrow> (Exited 1, q) | Inr mgr \<Rightarrow> run_state (run_manager B ?m ?h k mgr) q) = (r, w')"
          using assms p Inr scheme c Some m
          by (auto simp: manager_main_def ctrl_run banner_run Let_def split: sum.splits)
        show ?thesis
        proof (cases m)
          case (Inl err)
          then show ?thesis using run q stop [of 3] scheme by auto
        next
          case (Inr mgr)
          then show ?thesis
            using run_manager_narrated [of ?m ?h k mgr q r w' "out w", OF _ _ q] run m out_manager [OF m] scheme by auto
        qed
      qed
    qed
  qed
qed

end

section \<open>Schemes as lists of known kinds\<close>

text \<open>
  What a scheme builder promises: registered objects are known under its group and version once it was added to a
  scheme.
\<close>

locale scheme_laws =
  fixes S :: "('b, 's) SchemeApi" and group_of :: "'b \<Rightarrow> string \<times> string"
    and kinds :: "'b \<Rightarrow> string set" and known :: "'s \<Rightarrow> ((string \<times> string) \<times> string) set"
  assumes new_builder: "group_of (sc_NewBuilder S g) = g" "kinds (sc_NewBuilder S g) = {}"
    and register: "group_of (sc_Register S b ks) = group_of b" "kinds (sc_Register S b ks) = kinds b \<union> set ks"
    and add_known: "sc_AddToScheme S b s = Inr s' \<Longrightarrow> known s' = known s \<union> Pair (group_of b) ` kinds b"
begin

lemma api_types_known:
  assumes "runtimeScheme S = Inr s"
    and "k \<in> {''TenantCluster'', ''TenantClusterList'', ''IsolationProfile'', ''IsolationProfileList'', ''SyncPolicy'',
           ''SyncPolicyList'', ''SyncDecision'', ''SyncDecisionList''}"
  shows "(GroupVersion, k) \<in> known s"
proof -
  obtain s0 where "sc_AddToScheme S (SchemeBuilder S) s0 = Inr s"
    using assms(1) by (auto simp: runtimeScheme_def AddToScheme_def split: sum.splits)
  from add_known [OF this] show ?thesis
    using assms(2) by (auto simp: SchemeBuilder_def new_builder register)
qed

end

definition list_schemes :: "((string \<times> string) \<times> string list, ((string \<times> string) \<times> string) list) SchemeApi" where
  "list_schemes =
     \<lparr>sc_NewScheme = [], sc_ClientGoAddToScheme = (\<lambda>s. Inr (s @ [(('''', ''v1''), ''Secret'')])),
      sc_NewBuilder = (\<lambda>g. (g, [])), sc_Register = (\<lambda>(g, ks) new. (g, ks @ new)),
      sc_AddToScheme = (\<lambda>(g, ks) s. Inr (s @ map (Pair g) ks))\<rparr>"

interpretation listed_schemes: scheme_laws list_schemes fst "\<lambda>b. set (snd b)" set
  by unfold_locales (auto simp: list_schemes_def split_beta)

definition memory_boot :: "bool \<Rightarrow>
    (string, unit, unit, unit, (string \<times> string) \<times> string list, ((string \<times> string) \<times> string) list, mgr_world) Boot" where
  "memory_boot broken =
     \<lparr>bt_Schemes = list_schemes, bt_Parse = (\<lambda>fs w. (Inr fs, w)), bt_SetLogger = (\<lambda>w. w),
      bt_Print = (\<lambda>l w. w\<lparr>mw_output := mw_output w @ [l]\<rparr>), bt_GetConfigOrDie = Pair (Some ()),
      bt_Host = (\<lambda>k. ''https://10.0.0.1''), bt_NewManager = (\<lambda>k op w. (Inr (mw_manager broken), w)),
      bt_NewForConfig = Inr, bt_NewSPDYExecutor = (\<lambda>k cs. printing_pod '''')\<rparr>"

interpretation memory_console: console "memory_boot broken" mw_output
  by unfold_locales (auto simp: memory_boot_def silent_def mw_manager_def)

section \<open>Properties of the start\<close>



text \<open>What the tool renders, the controller knows: every manifest \<open>tenantplane render\<close> writes names an
  apiVersion and a kind that the manager's scheme knows after a successful registration, and so does the kind the
  controller stores its sync decisions in.\<close>

lemma rendered_kinds_are_registered:
  assumes "scheme_laws S group_of kinds known" "runtimeScheme S = Inr s"
  shows "(\<exists>k rest. tenantcluster_manifest name fs =
        text_lines ((''apiVersion: '' @ fst GroupVersion @ ''/'' @ snd GroupVersion) # (''kind: '' @ k) # rest) \<and> (GroupVersion, k) \<in> known s) \<and>
     (\<exists>k rest. isolationprofile_manifest name profile =
        text_lines ((''apiVersion: '' @ fst GroupVersion @ ''/'' @ snd GroupVersion) # (''kind: '' @ k) # rest) \<and> (GroupVersion, k) \<in> known s) \<and>
     (\<exists>k rest. syncpolicy_manifest name conflictPolicy =
        text_lines ((''apiVersion: '' @ fst GroupVersion @ ''/'' @ snd GroupVersion) # (''kind: '' @ k) # rest) \<and> (GroupVersion, k) \<in> known s) \<and>
     (GroupVersion, ''SyncDecision'') \<in> known s"
proof -
  note known = scheme_laws.api_types_known [OF assms]
  have k: "(GroupVersion, ''TenantCluster'') \<in> known s" "(GroupVersion, ''IsolationProfile'') \<in> known s"
    "(GroupVersion, ''SyncPolicy'') \<in> known s" "(GroupVersion, ''SyncDecision'') \<in> known s"
    by (simp_all add: known)
  show ?thesis
    unfolding tenantcluster_manifest_def isolationprofile_manifest_def syncpolicy_manifest_def
    using k
    by (intro conjI exI [of _ "''TenantCluster''"] exI [of _ "''IsolationProfile''"] exI [of _ "''SyncPolicy''"])
      (auto simp: GroupVersion_def)
qed

lemma rendered_kinds_are_registered_witness:
  "\<exists>s k rest. runtimeScheme list_schemes = Inr s \<and> (GroupVersion, k) \<in> set s \<and>
     syncpolicy_manifest ''default'' ''manual'' = text_lines (''apiVersion: tenantplane.io/v1alpha1'' # (''kind: '' @ k) # rest)"
proof -
  obtain s where s: "runtimeScheme list_schemes = Inr s"
    by (simp add: runtimeScheme_def AddToScheme_def list_schemes_def SchemeBuilder_def)
  have "\<exists>k rest. syncpolicy_manifest ''default'' ''manual'' =
      text_lines ((''apiVersion: '' @ fst GroupVersion @ ''/'' @ snd GroupVersion) # (''kind: '' @ k) # rest) \<and> (GroupVersion, k) \<in> set s"
    using rendered_kinds_are_registered [OF listed_schemes.scheme_laws_axioms s, where name = "''default''" and conflictPolicy = "''manual''"]
    by blast
  moreover have "''apiVersion: '' @ fst GroupVersion @ ''/'' @ snd GroupVersion = ''apiVersion: tenantplane.io/v1alpha1''"
    by (simp add: GroupVersion_def)
  ultimately show ?thesis using s by metis
qed

end
