(* ===== verification/Spec2Isabelle.thy ===== *)
theory Spec2Isabelle
  imports Sync_Mirror Ready_Status Admission_Safety Deep_Copy Manager
begin

text \<open>
  \<^bold>\<open>tenantplane\<close>: a verification development of the Go sources under \<open>src/\<close>.

  tenantplane runs virtual Kubernetes clusters (tenants) on a host cluster. A controller reconciles each
  TenantCluster into a k3s control plane in a namespace of its own plus the isolation objects of its profile; a sync
  engine mirrors the tenant's objects into the tenant's workload namespace on the host and back; a command-line tool
  renders manifests and explains where an object would go.

  \<^bold>\<open>How Go is modelled.\<close> A Go string is a list of bytes (\<open>string\<close>); a map is a finite map, an optional one where nil is
  told apart; a struct is a record with the Go fields; an error is a value of \<open>goerr\<close>, a fallible call returns a sum or
  an option; a panic is the outer \<open>None\<close> of a result. Calls to an API server thread a world \<open>'w\<close> of which nothing is
  assumed: every client is a record of functions on it, and what a server promises is a locale. Mutation through a
  pointer is a returned record. \<open>int32\<close> and the FNV hash are machine words; other integers are only compared.

  \<^bold>\<open>Theories, in the order of the code.\<close>
  \<^item> \<open>Prelude\<close>: rule collections, lemmas on lists, finite maps and the state monad. \<open>Unicode_Tables\<close>, \<open>Go_Strings\<close>: the parts
    of the packages unicode, utf8, strings, strconv and fmt the program uses. \<open>Go_Duration\<close>: \<open>time.ParseDuration\<close>.
  \<^item> \<open>Syncplan_Plan\<close>: \<open>internal/syncplan/plan.go\<close>, names of host objects. Lemmas: length and shape of names, on which
    inputs the mapping is injective and that it is not so on all short inputs, fixed points of sanitising.
  \<^item> \<open>Unstructured\<close>: the interface \<open>uapi\<close> of apimachinery's unstructured objects with its laws (locale
    \<open>unstructured_api\<close>) and its interpretation on JSON values. \<open>Syncplan_Transform\<close>: \<open>internal/syncplan/transform.go\<close>, with
    what the transform strips and preserves, the reverse lookup, content equality and the adoption of allocated fields.
  \<^item> \<open>Kube_Client\<close>: a client of an API server, its laws (locale \<open>kube_store\<close>), a server in memory, and two clusters in one
    world. \<open>Syncer_Engine\<close>: \<open>internal/syncer/engine.go\<close>, every method, with the lemmas on single operations;
    \<open>Syncer_Safety\<close>: what a pass may touch and what it collects (locale \<open>engine_env\<close>); \<open>Syncer_Convergence\<close>: conflicts,
    agreement after a pull, recognition of mirrors, recorded decisions; \<open>Syncer_Mirror\<close>: what a pass establishes (locales
    \<open>mirror_env\<close>, \<open>mirror_item\<close>): the host's image of a tenant, convergence of a pass, stability of agreement.
  \<^item> \<open>Api_Types\<close>: \<open>internal/api/v1alpha1/types.go\<close>. \<open>Isolation\<close>: \<open>internal/isolation/\<close> and \<open>profileFromCR\<close>.
  \<^item> \<open>Control_Plane\<close>: \<open>internal/controller/controlplane.go\<close>, the builders of \<open>namespace.go\<close> and \<open>kubeconfig.go\<close>; a locale
    \<open>quantity_api\<close> says that the quantities written in the program parse. \<open>Tenant_Status\<close>: \<open>status.go\<close>, \<open>support.go\<close>.
  \<^item> \<open>Controller_Env\<close>: the client and the third-party functions of \<open>TenantClusterReconciler\<close>. \<open>Admission\<close>: \<open>admission.go\<close>,
    \<open>rbac_scope.go\<close>. \<open>Tenant_Namespace\<close>: \<open>namespace.go\<close>, \<open>isolation_apply.go\<close>. \<open>Sync_Control\<close>: \<open>sync.go\<close>,
    \<open>sync_decisions.go\<close>, \<open>decision_recorder.go\<close>. \<open>Reconcile\<close>: \<open>tenantcluster_controller.go\<close>.
  \<^item> \<open>Controller_Safety\<close>: the laws of a store of typed objects (locale \<open>kind_store\<close>, extended to \<open>kind_store_write\<close>), their
    interpretation on a small host cluster, and which namespaces survive. \<open>Controller_Lifecycle\<close>: finalizer and
    namespace, isolation labels, the decision store, watches, legacy cleanup, and the outcomes of \<open>Reconcile\<close>.
  \<^item> \<open>Admission_Safety\<close>: the admission policies on a server (locale \<open>policy_server\<close>): what is in place after a success.
  \<^item> \<open>Sync_Run\<close>: a whole \<open>runSync\<close>, from the tenant's kubeconfig to the persisted decisions, with the engine inside (locale
    \<open>sync_host\<close>). \<open>Sync_Confinement\<close>: a run writes to the tenant's namespace only (locale \<open>sync_quiet\<close>).
    \<open>Sync_Mirror\<close>: a run leaves every kind of the policy mirrored (locale \<open>sync_mirror\<close>).
  \<^item> \<open>Tenant_Runs\<close>: reconciles of all TenantClusters interleaved with users and Kubernetes as a step relation (locales
    \<open>tenant_world\<close>, \<open>quiet_world\<close>), the invariant that ties control planes to TenantClusters, and that deletion ends.
    \<open>Control_Plane_Ready\<close>: one reconcile from stage to stage, as triples (locale \<open>ready_world\<close>, which joins \<open>quiet_world\<close> and
    \<open>sync_quiet\<close>): what each stage puts in place and the later ones leave there. \<open>Ready_Status\<close>: a host cluster with all
    of this, and that a status that says Ready is true.
  \<^item> \<open>Go_Store\<close>: structs whose slices and maps are cells of a store, and what a deep copy is (locale \<open>deep_copy\<close>);
    \<open>Deep_Copy\<close>: \<open>zz_generated.deepcopy.go\<close> and \<open>syncdecision_deepcopy.go\<close>, every method. The other theories work on the
    values of \<open>Api_Types\<close>, the views of these structs.
  \<^item> \<open>Cli\<close>: \<open>cmd/tenantplane/main.go\<close> with package flag as the program uses it.
  \<^item> \<open>Manager\<close>: how the controller is put together and started: \<open>execInPod\<close>, \<open>SetupWithManager\<close>, \<open>groupversion_info.go\<close>,
    \<open>cmd/manager/\<close>. The manager's cache (locale \<open>indexed_cache\<close>), its console (\<open>console\<close>) and schemes (\<open>scheme_laws\<close>) have
    their laws; the lemmas say which TenantClusters a changed reference enqueues, where a kubeconfig comes from, how far
    a start came when it ends, and that the tool and the controller name the same kinds.

  \<^bold>\<open>How the parts interact.\<close> \<open>Reconcile\<close> runs \<open>applyIsolation\<close>, the admission policies, the control-plane objects and
  \<open>runSync\<close> in the order of the code; \<open>runSync\<close> loads the convergence history, gives the engine both clients and the
  rate limiter, runs one pass per resource and records decisions and history. The engine names host objects with
  \<open>HostName\<close>, builds them with \<open>BuildHostObject\<close> and decides on \<open>ReverseLookup\<close> and \<open>ContentEqual\<close>.

  \<^bold>\<open>Bounds.\<close> There is no fuel: every loop of the program runs over a list or a finite map and is structural recursion, and
  the decoders of the standard library terminate by the length of the rest of the input.

  \<^bold>\<open>Not modelled.\<close> Log lines; the flags the logger adds to the manager's command line (its parser is a parameter); the
  fields of Kubernetes types the program neither reads nor writes. The fraction of a duration is computed exactly instead
  of in double precision, which changes at most the last nanosecond digits and none of the properties.

  \<^bold>\<open>Limits of the properties.\<close> That a pass mirrors a tenant exactly excludes Pods, whose allocated fields differ by
  design, and the laws of the servers speak of one reconcile at a time: other writers act between reconciles, as in
  \<open>Tenant_Runs\<close>, not between two calls of one.
\<close>

end
